(* ===== verification/Prelude.thy ===== *)
theory Prelude
  imports Main "HOL-Library.State_Monad"
begin

text \<open>
  Shared vocabulary of the development: the state monad the C functions are written in, a
  weakest-precondition reading of it with rules for the classical reasoner, and the generic
  lemmas that more than one component uses.
\<close>

section \<open>Fact collections\<close>

named_theorems wp_intro \<open>weakest-precondition rules for the verification condition generator\<close>
named_theorems model_defs \<open>definitions of small C helpers that proofs unfold\<close>

section \<open>The state monad\<close>

abbreviation return :: "'a \<Rightarrow> ('s, 'a) state" where
  "return \<equiv> State_Monad.return"

abbreviation modify :: "('s \<Rightarrow> 's) \<Rightarrow> ('s, unit) state" where
  "modify \<equiv> State_Monad.update"

definition gets :: "('s \<Rightarrow> 'a) \<Rightarrow> ('s, 'a) state" where
  "gets f = State (\<lambda>s. (f s, s))"

lemma run_state_gets [simp]: "run_state (gets f) s = (f s, s)"
  by (simp add: gets_def)

lemma run_state_modify [simp]: "run_state (modify f) s = ((), f s)"
  by (simp add: State_Monad.update_def)

text \<open>A C statement \<open>if(b) m;\<close> without an else branch.\<close>

definition whenM :: "bool \<Rightarrow> ('s, unit) state \<Rightarrow> ('s, unit) state" where
  "whenM b m = (if b then m else return ())"

section \<open>Weakest preconditions\<close>

definition wp :: "('s, 'a) state \<Rightarrow> ('a \<Rightarrow> 's \<Rightarrow> bool) \<Rightarrow> 's \<Rightarrow> bool" where
  "wp m Q s = (case run_state m s of (a, t) \<Rightarrow> Q a t)"

lemma wp_return [simp]: "wp (return a) Q s = Q a s"
  by (simp add: wp_def)

lemma wp_return_eta [simp]: "wp (return a) Q = Q a"
  by (simp add: fun_eq_iff)

lemma wp_bind [simp]: "wp (State_Monad.bind m f) Q s = wp m (\<lambda>a. wp (f a) Q) s"
  by (simp add: wp_def split: prod.splits)

lemma wp_gets [simp]: "wp (gets f) Q s = Q (f s) s"
  by (simp add: wp_def)

lemma wp_modify [simp]: "wp (modify f) Q s = Q () (f s)"
  by (simp add: wp_def)

lemma wp_bind_eta [simp]: "wp (State_Monad.bind m f) Q = wp m (\<lambda>a. wp (f a) Q)"
  by (simp add: fun_eq_iff)

lemma wp_gets_eta [simp]: "wp (gets f) Q = (\<lambda>s. Q (f s) s)"
  by (simp add: fun_eq_iff)

lemma wp_modify_eta [simp]: "wp (modify f) Q = (\<lambda>s. Q () (f s))"
  by (simp add: fun_eq_iff)

text \<open>The simplifier works on the statement at the head and the state, not on what follows.\<close>

lemma wp_head_cong [cong]: "m = m' \<Longrightarrow> s = s' \<Longrightarrow> wp m Q s = wp m' Q s'"
  by simp

lemma bind_head_cong [cong]: "m = m' \<Longrightarrow> State_Monad.bind m f = State_Monad.bind m' f"
  by simp

lemma wp_if [wp_intro]:
  "(b \<Longrightarrow> wp m Q s) \<Longrightarrow> (\<not> b \<Longrightarrow> wp n Q s) \<Longrightarrow> wp (if b then m else n) Q s"
  by simp

lemma wp_whenM [wp_intro]:
  "(b \<Longrightarrow> wp m Q s) \<Longrightarrow> (\<not> b \<Longrightarrow> Q () s) \<Longrightarrow> wp (whenM b m) Q s"
  by (simp add: whenM_def)

lemma wp_case_prod [wp_intro]:
  "(\<And>a b. p = (a, b) \<Longrightarrow> wp (f a b) Q s) \<Longrightarrow> wp (case p of (a, b) \<Rightarrow> f a b) Q s"
  by (cases p) simp

lemma wp_case_option [wp_intro]:
  "(x = None \<Longrightarrow> wp m Q s) \<Longrightarrow> (\<And>y. x = Some y \<Longrightarrow> wp (f y) Q s) \<Longrightarrow>
   wp (case x of None \<Rightarrow> m | Some y \<Rightarrow> f y) Q s"
  by (cases x) simp_all

lemma wp_let [simp]: "wp (Let x f) Q s = wp (f x) Q s"
  by (simp add: Let_def)

lemma wp_mono: "wp m P s \<Longrightarrow> (\<And>a t. P a t \<Longrightarrow> Q a t) \<Longrightarrow> wp m Q s"
  by (auto simp: wp_def split: prod.splits)

lemma wp_conj: "wp m P s \<Longrightarrow> wp m Q s \<Longrightarrow> wp m (\<lambda>a t. P a t \<and> Q a t) s"
  by (auto simp: wp_def split: prod.splits)

lemma wp_runD: "wp m Q s \<Longrightarrow> run_state m s = (a, t) \<Longrightarrow> Q a t"
  by (simp add: wp_def)

lemma wp_runI: "(\<And>a t. run_state m s = (a, t) \<Longrightarrow> Q a t) \<Longrightarrow> wp m Q s"
  by (auto simp: wp_def split: prod.splits)

lemma wp_True [simp]: "wp m (\<lambda>_ _. True) s"
  by (auto simp: wp_def split: prod.splits)

lemma run_whenM [simp]:
  "run_state (whenM b m) s = (if b then run_state m s else ((), s))"
  by (simp add: whenM_def)

section \<open>Loops over lists\<close>

text \<open>The C idiom \<open>for(i = 0; i < n; i++) body(xs[i])\<close>.\<close>

fun forM :: "'a list \<Rightarrow> ('a \<Rightarrow> ('s, unit) state) \<Rightarrow> ('s, unit) state" where
  "forM [] f = return ()"
| "forM (x # xs) f = do { f x; forM xs f }"

lemma wp_forM:
  assumes start: "I [] s"
    and step: "\<And>xs x ys t. all = xs @ x # ys \<Longrightarrow> I xs t \<Longrightarrow> wp (f x) (\<lambda>_ u. I (xs @ [x]) u) t"
    and fin: "\<And>t. I all t \<Longrightarrow> Q () t"
  shows "wp (forM all f) Q s"
proof -
  have "all = xs @ ys \<Longrightarrow> I xs t \<Longrightarrow> wp (forM ys f) (\<lambda>_ u. I all u) t" for xs ys t
  proof (induction ys arbitrary: xs t)
    case Nil
    then show ?case by simp
  next
    case (Cons y ys)
    from Cons.prems have "wp (f y) (\<lambda>_ u. I (xs @ [y]) u) t" by (rule step)
    then have "wp (f y) (\<lambda>_. wp (forM ys f) (\<lambda>_ u. I all u)) t"
      by (rule wp_mono) (use Cons.IH [of "xs @ [y]"] Cons.prems(1) in simp)
    then show ?case by simp
  qed
  from this [of "[]" all s] start have "wp (forM all f) (\<lambda>_ u. I all u) s" by simp
  then show ?thesis by (rule wp_mono) (simp add: fin)
qed

lemma wp_forM_inv:
  assumes "I s" and "\<And>x t. x \<in> set xs \<Longrightarrow> I t \<Longrightarrow> wp (f x) (\<lambda>_. I) t"
    and "\<And>t. I t \<Longrightarrow> Q () t"
  shows "wp (forM xs f) Q s"
proof (rule wp_forM [where I = "\<lambda>_. I"])
  fix ys x zs t
  assume "xs = ys @ x # zs" and "I t"
  then show "wp (f x) (\<lambda>_. I) t" using assms(2) by simp
qed (use assms in simp_all)

section \<open>Generic lemmas\<close>

lemma length_eq_0_strlen [simp]: "(0 < length s) = (s \<noteq> [])"
  by simp

lemma take_le_idem: "length s \<le> n \<Longrightarrow> take n s = s"
  by simp

lemma foldr_snoc: "foldr f (xs @ [x]) a = foldr f xs (f x a)"
  by simp

end
