(* ===== verification/World.thy ===== *)
theory World
  imports Prelude "HOL-Library.Sublist"
begin

text \<open>
  The outside of the program.  Every call of a function that is not under src/ (libgpiod,
  libcurl, miniupnpc, the resolver, the operating system and the parts of the C library that
  talk to it) is an element of the datatype \<open>call\<close>.  A parameter \<open>e :: env\<close> answers
  each call: its reply is an arbitrary function of the call and of all calls made before it, so
  a theorem about every \<open>e\<close> holds for every behaviour of the libraries, including every
  failure.  The calls and replies are recorded in the field \<open>trace\<close> of the world, latest
  first; the calls made by the logging functions go to a trace of their own, \<open>ltrace\<close>.
  The flag \<open>ub\<close> records that the code has done something that C leaves undefined (a null
  dereference, a buffer overrun, an uninitialised read, a bad format string), and \<open>hang\<close>
  that a loop has used up the fuel \<open>fuel e\<close>; \<open>lub\<close> is the flag for undefined
  behaviour inside the functions that make time stamps.
\<close>

section \<open>Calls\<close>

text \<open>
  An argument of a printf-style function; \<open>FErr\<close>, \<open>FCurlErr\<close> and \<open>FGaiErr\<close> are the texts that
  \<open>strerror\<close>, \<open>curl_easy_strerror\<close> and \<open>gai_strerror\<close> give for a number.
\<close>

datatype farg = FStr string | FInt int | FErr int | FCurlErr int | FGaiErr int

text \<open>libgpiod 2: directions, biases and values are the constants of its header.\<close>

datatype line_direction = DIRECTION_INPUT | DIRECTION_OUTPUT

datatype line_bias = BIAS_DISABLED | BIAS_PULL_DOWN | BIAS_PULL_UP

datatype line_value = LINE_VALUE_ERROR | LINE_VALUE_INACTIVE | LINE_VALUE_ACTIVE

datatype gpiod_call =
    ChipOpen string
  | ChipGetInfo int
  | ChipInfoGetNumLines int
  | ChipInfoFree int
  | ChipClose int
  | LineSettingsNew
  | SettingsSetDirection int line_direction
  | SettingsSetBias int line_bias
  | SettingsSetOutputValue int line_value
  | LineSettingsFree int
  | LineConfigNew
  | LineConfigAddLineSettings int nat int
  | LineConfigFree int
  | RequestConfigNew
  | RequestConfigSetConsumer int string
  | RequestConfigFree int
  | ChipRequestLines int int int
  | RequestGetValue int nat
  | RequestSetValue int nat line_value
  | RequestRelease int

datatype curl_opt = OptStr string string | OptLong string int | OptPtr string int

datatype curl_call =
    CurlGlobalInit
  | CurlGlobalCleanup
  | CurlEasyInit
  | CurlEasySetopt int curl_opt
  | CurlEasyPerform int
  | CurlEasyGetResponseCode int
  | CurlEasyEscape int string
  | CurlFree int
  | CurlEasyCleanup int

datatype mem_call = Malloc int | Calloc int | Realloc int int | Free int

datatype file_call =
    Fopen string string
  | Fclose int
  | Fflush int
  | Fsync int
  | Fseek int int string
  | Ftell int
  | Fread int int
  | Fwrite int string
  | Fprintf int string "farg list"
  | Setbuf int
  | FlockUn int
  | Stat string
  | Mkdir string int
  | Unlink string
  | Rename string string
  | Readlink string int

datatype os_call =
    Getenv string
  | Setenv string string
  | ReadFlag
  | Sleep int
  | Nanosleep int int
  | ClockGettime
  | Sigaction string
  | Sigset string
  | Sigprocmask string
  | Sigtimedwait int
  | PthreadCreate
  | PthreadJoin int
  | Daemon
  | SetbufStdout
  | Syslog string "farg list"

datatype proc_call =
    Fork
  | Execvp string "string list"
  | Exit int
  | Waitpid int
  | Kill int string
  | Pipe
  | Dup2 int int
  | OpenNull string
  | Close int
  | SelectRead int
  | SelectWrite int
  | ReadFd int int
  | WriteFd int string
  | SetNonblock int
  | Setsid
  | IgnoreSignal string
  | Umask
  | Chdir string

datatype net_call =
    UpnpDiscover
  | UpnpGetValidIGD int
  | UpnpGetExternalIPAddress
  | UpnpFreeDevlist int
  | UpnpFreeUrls
  | UpnpAddPortMapping string string string string string
  | UpnpGetGenericPortMappingEntry string
  | UpnpDeletePortMapping string string
  | Getaddrinfo string
  | Freeaddrinfo
  | ResNinit
  | ResNquery string "int list" int
  | NsInitparse
  | NsGetRcode
  | NsMsgCount
  | NsParserr
  | NsRrType
  | NsRrRdata
  | InetNtop

datatype call =
    Gpiod gpiod_call
  | Curl curl_call
  | Mem mem_call
  | File file_call
  | Os os_call
  | Proc proc_call
  | Net net_call

text \<open>The calls of the logging functions, on the channel of their own.\<close>

datatype lcall =
    LTime
  | LLocaltime int
  | LVprintf string "farg list"
  | LFprintf int string "farg list"
  | LVfprintf int string "farg list"
  | LFflush int

section \<open>Replies, environments and worlds\<close>

text \<open>
  A reply carries the returned number or handle (0 is the null pointer), the value of
  \<open>errno\<close> after the call, and whatever the call stores through pointers.  In the reply to a
  call of a logging function the error number 0 means that the call has left \<open>errno\<close> alone: no
  library function sets it to zero.
\<close>

record reply =
  rv :: int
  rerr :: int
  rints :: "int list"
  rstr :: string
  rstrs :: "string list"

type_synonym event = "call \<times> reply"

type_synonym levent = "lcall \<times> reply"

record env =
  answer :: "event list \<Rightarrow> call \<Rightarrow> reply"
  lanswer :: "levent list \<Rightarrow> lcall \<Rightarrow> reply"
  junk :: int
  fuel :: nat

record world =
  trace :: "event list"
  ltrace :: "levent list"
  errno :: int
  ub :: bool
  hang :: bool
  lub :: bool

text \<open>Updates of different fields commute; they are kept in the order of the fields.\<close>

lemma world_update_order [simp]:
  "s\<lparr>ltrace := lt, trace := tr\<rparr> = s\<lparr>trace := tr, ltrace := lt\<rparr>"
  "s\<lparr>errno := er, trace := tr\<rparr> = s\<lparr>trace := tr, errno := er\<rparr>"
  "s\<lparr>errno := er, ltrace := lt\<rparr> = s\<lparr>ltrace := lt, errno := er\<rparr>"
  "s\<lparr>ub := u, trace := tr\<rparr> = s\<lparr>trace := tr, ub := u\<rparr>"
  "s\<lparr>ub := u, ltrace := lt\<rparr> = s\<lparr>ltrace := lt, ub := u\<rparr>"
  "s\<lparr>ub := u, errno := er\<rparr> = s\<lparr>errno := er, ub := u\<rparr>"
  "s\<lparr>hang := h, trace := tr\<rparr> = s\<lparr>trace := tr, hang := h\<rparr>"
  "s\<lparr>hang := h, ltrace := lt\<rparr> = s\<lparr>ltrace := lt, hang := h\<rparr>"
  "s\<lparr>hang := h, errno := er\<rparr> = s\<lparr>errno := er, hang := h\<rparr>"
  "s\<lparr>hang := h, ub := u\<rparr> = s\<lparr>ub := u, hang := h\<rparr>"
  "s\<lparr>lub := lu, trace := tr\<rparr> = s\<lparr>trace := tr, lub := lu\<rparr>"
  "s\<lparr>lub := lu, ltrace := lt\<rparr> = s\<lparr>ltrace := lt, lub := lu\<rparr>"
  "s\<lparr>lub := lu, errno := er\<rparr> = s\<lparr>errno := er, lub := lu\<rparr>"
  "s\<lparr>lub := lu, ub := u\<rparr> = s\<lparr>ub := u, lub := lu\<rparr>"
  "s\<lparr>lub := lu, hang := h\<rparr> = s\<lparr>hang := h, lub := lu\<rparr>"
  by simp_all

definition sys :: "env \<Rightarrow> call \<Rightarrow> ('z world_scheme, reply) state" where
  "sys e c = State (\<lambda>s. let r = answer e (trace s) c
     in (r, s\<lparr>trace := (c, r) # trace s, errno := rerr r\<rparr>))"

definition lsys :: "env \<Rightarrow> lcall \<Rightarrow> ('z world_scheme, reply) state" where
  "lsys e c = State (\<lambda>s. let r = lanswer e (ltrace s) c
     in (r, s\<lparr>ltrace := (c, r) # ltrace s, errno := (if rerr r = 0 then errno s else rerr r)\<rparr>))"

text \<open>A call whose reply the code ignores, and one of which it uses only the number.\<close>

definition sysu :: "env \<Rightarrow> call \<Rightarrow> ('z world_scheme, unit) state" where
  "sysu e c = do { _ \<leftarrow> sys e c; return () }"

definition sysv :: "env \<Rightarrow> call \<Rightarrow> ('z world_scheme, int) state" where
  "sysv e c = do { r \<leftarrow> sys e c; return (rv r) }"

text \<open>The first and second number that a call stores through a pointer.\<close>

definition rout :: "reply \<Rightarrow> int" where
  "rout r = (case rints r of [] \<Rightarrow> 0 | x # _ \<Rightarrow> x)"

definition rout2 :: "reply \<Rightarrow> int" where
  "rout2 r = (case rints r of _ # y # _ \<Rightarrow> y | _ \<Rightarrow> 0)"

text \<open>Undefined behaviour: the flag is set when the check fails.\<close>

definition require :: "bool \<Rightarrow> ('z world_scheme, unit) state" where
  "require b = (if b then return () else modify (\<lambda>s. s\<lparr>ub := True\<rparr>))"

definition lrequire :: "bool \<Rightarrow> ('z world_scheme, unit) state" where
  "lrequire b = (if b then return () else modify (\<lambda>s. s\<lparr>lub := True\<rparr>))"

text \<open>
  A loop with a state: \<open>while(cond) body\<close>.  It takes at most \<open>n\<close> rounds; when the
  fuel is used up before the condition fails, \<open>hang\<close> is set.
\<close>

fun while_fuel :: "nat \<Rightarrow> ('a \<Rightarrow> ('z world_scheme, bool) state) \<Rightarrow>
    ('a \<Rightarrow> ('z world_scheme, 'a) state) \<Rightarrow> 'a \<Rightarrow> ('z world_scheme, 'a) state" where
  "while_fuel 0 c b x = do { modify (\<lambda>s. s\<lparr>hang := True\<rparr>); return x }"
| "while_fuel (Suc n) c b x =
     do { g \<leftarrow> c x; if g then do { y \<leftarrow> b x; while_fuel n c b y } else return x }"

section \<open>Rules for the primitives\<close>

lemma run_sys: "run_state (sys e c) s =
    (answer e (trace s) c, s\<lparr>trace := (c, answer e (trace s) c) # trace s,
      errno := rerr (answer e (trace s) c)\<rparr>)"
  by (simp add: sys_def Let_def)

lemma run_lsys: "run_state (lsys e c) s =
    (lanswer e (ltrace s) c, s\<lparr>ltrace := (c, lanswer e (ltrace s) c) # ltrace s,
      errno := (if rerr (lanswer e (ltrace s) c) = 0 then errno s else rerr (lanswer e (ltrace s) c))\<rparr>)"
  by (simp add: lsys_def Let_def)

text \<open>
  The rules forget how the reply was computed: what is proved with them holds for every
  reply.  \<open>wp_sys_eq\<close> keeps the equation, for properties that rest on a law of the library.
\<close>

lemma wp_sys_eq:
  "(\<And>r. r = answer e (trace s) c \<Longrightarrow>
      Q r (s\<lparr>trace := (c, r) # trace s, errno := rerr r\<rparr>)) \<Longrightarrow> wp (sys e c) Q s"
  by (simp add: wp_def run_sys)

lemma wp_sys [wp_intro]:
  "(\<And>r. Q r (s\<lparr>trace := (c, r) # trace s, errno := rerr r\<rparr>)) \<Longrightarrow> wp (sys e c) Q s"
  by (simp add: wp_def run_sys)

lemma wp_lsys [wp_intro]:
  "(\<And>r er. Q r (s\<lparr>ltrace := (c, r) # ltrace s, errno := er\<rparr>)) \<Longrightarrow> wp (lsys e c) Q s"
  by (simp add: wp_def run_lsys)

lemma wp_sysu [wp_intro]:
  "(\<And>r. Q () (s\<lparr>trace := (c, r) # trace s, errno := rerr r\<rparr>)) \<Longrightarrow> wp (sysu e c) Q s"
  by (simp add: sysu_def wp_def run_sys)

lemma wp_sysv [wp_intro]:
  "(\<And>r. Q (rv r) (s\<lparr>trace := (c, r) # trace s, errno := rerr r\<rparr>)) \<Longrightarrow> wp (sysv e c) Q s"
  by (simp add: sysv_def wp_def run_sys)

lemma wp_sysu_eq:
  "(\<And>r. r = answer e (trace s) c \<Longrightarrow>
      Q () (s\<lparr>trace := (c, r) # trace s, errno := rerr r\<rparr>)) \<Longrightarrow> wp (sysu e c) Q s"
  by (simp add: sysu_def wp_def run_sys)

lemma wp_sysv_eq:
  "(\<And>r. r = answer e (trace s) c \<Longrightarrow>
      Q (rv r) (s\<lparr>trace := (c, r) # trace s, errno := rerr r\<rparr>)) \<Longrightarrow> wp (sysv e c) Q s"
  by (simp add: sysv_def wp_def run_sys)

lemma run_sysu: "run_state (sysu e c) s = ((), snd (run_state (sys e c) s))"
  by (simp add: sysu_def run_sys)

lemma run_sysv: "run_state (sysv e c) s = (let (r, t) = run_state (sys e c) s in (rv r, t))"
  by (simp add: sysv_def run_sys)

lemmas run_prims = run_sys run_lsys run_sysu run_sysv

lemma wp_require [wp_intro]:
  "(b \<Longrightarrow> Q () s) \<Longrightarrow> (\<not> b \<Longrightarrow> Q () (s\<lparr>ub := True\<rparr>)) \<Longrightarrow> wp (require b) Q s"
  by (simp add: require_def)

lemma run_require:
  "run_state (require b) s = ((), if b then s else s\<lparr>ub := True\<rparr>)"
  by (simp add: require_def)

lemma wp_lrequire [wp_intro]:
  "(b \<Longrightarrow> Q () s) \<Longrightarrow> (\<not> b \<Longrightarrow> Q () (s\<lparr>lub := True\<rparr>)) \<Longrightarrow> wp (lrequire b) Q s"
  by (simp add: lrequire_def)

section \<open>Loops\<close>

text \<open>An invariant that the condition and the body keep holds after the loop, even a loop
  whose fuel is used up.\<close>

lemma wp_while:
  assumes start: "I x s"
    and step: "\<And>y t. I y t \<Longrightarrow>
      wp (c y) (\<lambda>g u. if g then wp (b y) I u else Q y u) t"
    and stop: "\<And>y t. I y t \<Longrightarrow> Q y (t\<lparr>hang := True\<rparr>)"
  shows "wp (while_fuel n c b x) Q s"
  using start
proof (induction n arbitrary: x s)
  case 0
  then show ?case by (simp add: stop)
next
  case (Suc n)
  have "wp (c x) (\<lambda>g. wp (if g then do { y \<leftarrow> b x; while_fuel n c b y } else return x) Q) s"
  proof (rule wp_mono [OF step [OF Suc.prems]])
    fix g u
    assume g: "if g then wp (b x) I u else Q x u"
    show "wp (if g then do { y \<leftarrow> b x; while_fuel n c b y } else return x) Q u"
    proof (cases g)
      case True
      with g have "wp (b x) I u" by simp
      then have "wp (b x) (\<lambda>y. wp (while_fuel n c b y) Q) u"
        by (rule wp_mono) (rule Suc.IH)
      with True show ?thesis by simp
    next
      case False
      with g show ?thesis by simp
    qed
  qed
  then show ?case by simp
qed

text \<open>With a measure that each round decreases and more fuel than the measure, the loop stops.\<close>

lemma wp_while_total:
  assumes start: "I x s" "m x s < n"
    and step: "\<And>y t. I y t \<Longrightarrow>
      wp (c y) (\<lambda>g u. if g then wp (b y) (\<lambda>z v. I z v \<and> m z v < m y t) u else Q y u) t"
  shows "wp (while_fuel n c b x) Q s"
  using start
proof (induction n arbitrary: x s)
  case 0
  then show ?case by simp
next
  case (Suc n)
  have "wp (c x) (\<lambda>g. wp (if g then do { y \<leftarrow> b x; while_fuel n c b y } else return x) Q) s"
  proof (rule wp_mono [OF step [OF Suc.prems(1)]])
    fix g u
    assume g: "if g then wp (b x) (\<lambda>z v. I z v \<and> m z v < m x s) u else Q x u"
    show "wp (if g then do { y \<leftarrow> b x; while_fuel n c b y } else return x) Q u"
    proof (cases g)
      case True
      with g have "wp (b x) (\<lambda>z v. I z v \<and> m z v < m x s) u" by simp
      then have "wp (b x) (\<lambda>y. wp (while_fuel n c b y) Q) u"
        by (rule wp_mono) (use Suc in auto)
      with True show ?thesis by simp
    next
      case False
      with g show ?thesis by simp
    qed
  qed
  then show ?case by simp
qed

section \<open>Calls are never taken back\<close>

text \<open>A function only adds calls to the trace.\<close>

named_theorems appends_intro \<open>rules for functions that only add to the trace\<close>

definition appends :: "('z world_scheme, 'a) state \<Rightarrow> bool" where
  "appends m \<longleftrightarrow> (\<forall>s. suffix (trace s) (trace (snd (run_state m s))))"

lemma appendsD: "appends m \<Longrightarrow> run_state m s = (a, t) \<Longrightarrow> suffix (trace s) (trace t)"
  unfolding appends_def by (metis snd_conv)

lemma wp_appends: "appends m \<Longrightarrow> wp m (\<lambda>_ t. suffix (trace s) (trace t)) s"
  by (rule wp_runI) (rule appendsD)

lemma appends_return [appends_intro]: "appends (return a)"
  by (simp add: appends_def)

lemma appends_gets [appends_intro]: "appends (gets f)"
  by (simp add: appends_def)

lemma appends_modify [appends_intro]: "(\<And>s. trace (f s) = trace s) \<Longrightarrow> appends (modify f)"
  by (simp add: appends_def)

lemma appends_bind [appends_intro]:
  "appends m \<Longrightarrow> (\<And>a. appends (f a)) \<Longrightarrow> appends (State_Monad.bind m f)"
  unfolding appends_def
  by (auto split: prod.splits) (metis snd_conv suffix_order.trans)

lemma appends_if [appends_intro]: "appends m \<Longrightarrow> appends n \<Longrightarrow> appends (if b then m else n)"
  by simp

lemma appends_whenM [appends_intro]: "appends m \<Longrightarrow> appends (whenM b m)"
  by (simp add: whenM_def appends_return)

lemma appends_case_prod [appends_intro]:
  "(\<And>a b. appends (f a b)) \<Longrightarrow> appends (case p of (a, b) \<Rightarrow> f a b)"
  by (cases p) simp

lemma appends_case_option [appends_intro]:
  "appends m \<Longrightarrow> (\<And>y. appends (f y)) \<Longrightarrow> appends (case x of None \<Rightarrow> m | Some y \<Rightarrow> f y)"
  by (cases x) simp_all

lemma appends_let [appends_intro]: "appends (f x) \<Longrightarrow> appends (Let x f)"
  by simp

lemma appends_sys [appends_intro]: "appends (sys e c)"
  by (simp add: appends_def run_sys suffix_ConsI)

lemma appends_sysu [appends_intro]: "appends (sysu e c)"
  by (simp add: appends_def run_sysu run_sys suffix_ConsI)

lemma appends_sysv [appends_intro]: "appends (sysv e c)"
  by (simp add: appends_def run_sysv run_sys suffix_ConsI)

lemma appends_lsys [appends_intro]: "appends (lsys e c)"
  by (simp add: appends_def run_lsys)

lemma appends_require [appends_intro]: "appends (require b)"
  by (simp add: appends_def run_require)

lemma appends_lrequire [appends_intro]: "appends (lrequire b)"
  by (simp add: appends_def lrequire_def)

lemma appends_forM [appends_intro]: "(\<And>x. appends (f x)) \<Longrightarrow> appends (forM xs f)"
  by (induction xs) (auto intro: appends_intro)

lemma appends_while [appends_intro]:
  "(\<And>y. appends (c y)) \<Longrightarrow> (\<And>y. appends (b y)) \<Longrightarrow> appends (while_fuel n c b x)"
  by (induction n arbitrary: x) (auto intro!: appends_intro)

section \<open>Handles: acquired, used, released\<close>

text \<open>The handle that a successful allocating call returns; 0 is the failure.\<close>

definition acq_if :: "reply \<Rightarrow> int option" where
  "acq_if r = (if rv r = 0 then None else Some (rv r))"

text \<open>
  A library hands out handles of several kinds.  For one kind, \<open>acq\<close> tells which handle
  an event acquires, \<open>rel\<close> which it releases and \<open>use\<close> which it uses.
  \<open>balance\<close> counts the acquisitions of a handle minus its releases; \<open>legal\<close> says that
  no event of the trace used or released a handle that was not held at that moment: no double
  release and no use after release.
\<close>

type_synonym sel = "event \<Rightarrow> int option"

fun balance :: "sel \<Rightarrow> sel \<Rightarrow> event list \<Rightarrow> int \<Rightarrow> int" where
  "balance acq rel [] h = 0"
| "balance acq rel (ev # tr) h =
     balance acq rel tr h + of_bool (acq ev = Some h) - of_bool (rel ev = Some h)"

fun legal :: "sel \<Rightarrow> sel \<Rightarrow> sel \<Rightarrow> event list \<Rightarrow> bool" where
  "legal acq rel use [] = True"
| "legal acq rel use (ev # tr) = (legal acq rel use tr \<and>
     (case rel ev of None \<Rightarrow> True | Some h \<Rightarrow> 0 < balance acq rel tr h) \<and>
     (case use ev of None \<Rightarrow> True | Some h \<Rightarrow> 0 < balance acq rel tr h))"

locale handle_protocol =
  fixes acq :: sel and rel :: sel and use :: sel
  assumes acq_not_null: "acq ev = Some h \<Longrightarrow> h \<noteq> 0"
    and acq_not_rel: "acq ev \<noteq> None \<Longrightarrow> rel ev = None"
    and acq_not_use: "acq ev \<noteq> None \<Longrightarrow> use ev = None"
begin

lemma legal_suffix: "legal acq rel use (xs @ ys) \<Longrightarrow> legal acq rel use ys"
  by (induction xs) auto

lemma balance_acquired:
  "0 < balance acq rel tr h \<Longrightarrow> \<exists>ev \<in> set tr. acq ev = Some h"
proof (induction tr)
  case Nil
  then show ?case by simp
next
  case (Cons ev tr)
  then show ?case by (cases "acq ev = Some h"; cases "rel ev = Some h") auto
qed

lemma balance_nonneg: "legal acq rel use tr \<Longrightarrow> 0 \<le> balance acq rel tr h"
proof (induction tr)
  case Nil
  then show ?case by simp
next
  case (Cons ev tr)
  then show ?case
    by (cases "rel ev = Some h") (auto split: option.splits)
qed

text \<open>In a legal trace, a used handle is not null and was acquired earlier.\<close>

lemma used_was_acquired:
  assumes "legal acq rel use (xs @ ev # ys)" and "use ev = Some h"
  shows "h \<noteq> 0 \<and> (\<exists>ev' \<in> set ys. acq ev' = Some h)"
proof -
  from assms(1) have "legal acq rel use (ev # ys)" by (rule legal_suffix)
  with assms(2) have "0 < balance acq rel ys h" by simp
  then obtain ev' where "ev' \<in> set ys" "acq ev' = Some h"
    using balance_acquired by blast
  then show ?thesis using acq_not_null by blast
qed

text \<open>A handle is never released twice without being acquired again in between.\<close>

lemma no_double_release:
  assumes "legal acq rel use (xs @ ev # ys @ ev' # zs)"
    and "rel ev = Some h" and "rel ev' = Some h" and "\<forall>x \<in> set ys. acq x \<noteq> Some h"
  shows "1 < balance acq rel zs h"
proof -
  have down: "balance acq rel (ys @ us) h \<le> balance acq rel us h" for us
    using assms(4) by (induction ys) auto
  from assms(1) have "legal acq rel use (ev # ys @ ev' # zs)" by (rule legal_suffix)
  with assms(2) have "0 < balance acq rel (ys @ ev' # zs) h" by simp
  also have "\<dots> \<le> balance acq rel (ev' # zs) h" by (rule down)
  also have "\<dots> \<le> balance acq rel zs h - 1"
    using assms(3) acq_not_rel [of ev'] by auto
  finally show ?thesis by simp
qed

end

text \<open>Every call made between two traces is of a certain kind.\<close>

definition adds :: "(call \<Rightarrow> bool) \<Rightarrow> event list \<Rightarrow> event list \<Rightarrow> bool" where
  "adds P old new \<longleftrightarrow> (\<exists>evs. new = evs @ old \<and> (\<forall>ev \<in> set evs. P (fst ev)))"

lemma adds_refl [simp]: "adds P tr tr"
  by (simp add: adds_def)

lemma adds_Cons [simp]: "adds P tr tr' \<Longrightarrow> P c \<Longrightarrow> adds P tr ((c, r) # tr')"
  by (fastforce simp: adds_def intro: exI [of _ "(c, r) # _"])

lemma adds_trans: "adds P a b \<Longrightarrow> adds P b c \<Longrightarrow> adds P a c"
  by (auto simp: adds_def)

lemma adds_mono: "adds P a b \<Longrightarrow> (\<And>c. P c \<Longrightarrow> R c) \<Longrightarrow> adds R a b"
  by (auto simp: adds_def)

lemma adds_suffix: "adds P a b \<Longrightarrow> suffix a b"
  by (auto simp: adds_def suffix_def)

lemma balance_adds:
  assumes "adds P old new" and none: "\<And>c r. P c \<Longrightarrow> acq (c, r) = None \<and> rel (c, r) = None"
  shows "balance acq rel new h = balance acq rel old h"
proof -
  from assms(1) obtain evs where new: "new = evs @ old" and "\<forall>ev \<in> set evs. P (fst ev)"
    by (auto simp: adds_def)
  from this(2) show ?thesis
    unfolding new by (induction evs) (auto simp: none split: prod.splits)
qed

lemma legal_adds:
  assumes "adds P old new"
    and none: "\<And>c r. P c \<Longrightarrow> acq (c, r) = None \<and> rel (c, r) = None \<and> use (c, r) = None"
  shows "legal acq rel use new = legal acq rel use old"
proof -
  from assms(1) obtain evs where new: "new = evs @ old" and "\<forall>ev \<in> set evs. P (fst ev)"
    by (auto simp: adds_def)
  from this(2) show ?thesis
    unfolding new by (induction evs) (auto simp: none split: prod.splits)
qed

declare balance.simps(2) [simp del] legal.simps(2) [simp del]

section \<open>Constants of the C library\<close>

definition EPERM :: int where [simp]: "EPERM = 1"

definition EINTR :: int where [simp]: "EINTR = 4"

definition EIO :: int where [simp]: "EIO = 5"

definition EBADF :: int where [simp]: "EBADF = 9"

definition ECHILD :: int where [simp]: "ECHILD = 10"

definition EAGAIN :: int where [simp]: "EAGAIN = 11"

definition ENOMEM :: int where [simp]: "ENOMEM = 12"

definition EEXIST :: int where [simp]: "EEXIST = 17"

definition ENODEV :: int where [simp]: "ENODEV = 19"

definition ENOTDIR :: int where [simp]: "ENOTDIR = 20"

definition EINVAL :: int where [simp]: "EINVAL = 22"

definition ENAMETOOLONG :: int where [simp]: "ENAMETOOLONG = 36"

definition EBADRQC :: int where [simp]: "EBADRQC = 56"

definition ECOMM :: int where [simp]: "ECOMM = 70"

definition EPROTO :: int where [simp]: "EPROTO = 71"

definition ETIMEDOUT :: int where [simp]: "ETIMEDOUT = 110"

definition ECONNREFUSED :: int where [simp]: "ECONNREFUSED = 111"

definition PATH_MAX :: int where [simp]: "PATH_MAX = 4096"

text \<open>A reply with a number only, and one that reports a failure.\<close>

definition ok_reply :: "int \<Rightarrow> reply" where
  "ok_reply n = \<lparr>rv = n, rerr = 0, rints = [], rstr = [], rstrs = []\<rparr>"

definition err_reply :: "int \<Rightarrow> int \<Rightarrow> reply" where
  "err_reply n er = \<lparr>rv = n, rerr = er, rints = [], rstr = [], rstrs = []\<rparr>"

text \<open>An environment that answers calls by \<open>f\<close>, for witnesses.\<close>

definition env_of :: "(event list \<Rightarrow> call \<Rightarrow> reply) \<Rightarrow> env" where
  "env_of f = \<lparr>answer = f, lanswer = (\<lambda>_ _. ok_reply 0), junk = 0, fuel = 100\<rparr>"

definition str_reply :: "int \<Rightarrow> string \<Rightarrow> reply" where
  "str_reply n x = \<lparr>rv = n, rerr = 0, rints = [], rstr = x, rstrs = []\<rparr>"

text \<open>What evaluates a run of the model in such an environment.\<close>

lemmas run_defs = run_prims run_require lrequire_def Let_def env_of_def ok_reply_def str_reply_def
  err_reply_def

end
