(* ===== verification/CString.thy ===== *)
theory CString
  imports World "HOL-Library.Sublist"
begin

text \<open>
  What the sources use of the C library's string functions.  A C string is the list of its
  characters without the terminating null, a pointer into it is an offset.  Formatting and
  scanning cover the conversions that the sources use; a conversion outside that set, a missing
  argument or an argument of the wrong type is undefined behaviour, \<open>None\<close>.
\<close>

section \<open>Characters and numbers\<close>

definition is_space :: "char \<Rightarrow> bool" where
  "is_space c = (c \<in> {CHR '' '', CHR 0x09, CHR 0x0A, CHR 0x0B, CHR 0x0C, CHR 0x0D})"

definition is_digit :: "char \<Rightarrow> bool" where
  "is_digit c = (c \<in> set ''0123456789'')"

fun digit_char :: "nat \<Rightarrow> char" where
  "digit_char n = char_of (48 + n mod 10)"

fun dec_nat :: "nat \<Rightarrow> string" where
  "dec_nat n = (if n < 10 then [digit_char n] else dec_nat (n div 10) @ [digit_char (n mod 10)])"

declare dec_nat.simps [simp del]

definition dec_int :: "int \<Rightarrow> string" where
  "dec_int i = (if i < 0 then CHR ''-'' # dec_nat (nat (- i)) else dec_nat (nat i))"

definition two_digits :: "int \<Rightarrow> string" where
  "two_digits i = (if 0 \<le> i \<and> i < 10 then CHR ''0'' # dec_int i else dec_int i)"

section \<open>Lengths\<close>

abbreviation strlen :: "string \<Rightarrow> int" where
  "strlen s \<equiv> int (length s)"

text \<open>What a buffer of \<open>n\<close> characters keeps of a text.\<close>

definition buffer_take :: "int \<Rightarrow> string \<Rightarrow> string" where
  "buffer_take n s = (if strlen s \<le> n then s else take (nat n) s)"

lemma buffer_take_eq: "buffer_take n s = take (nat n) s"
  by (simp add: buffer_take_def nat_le_iff)

lemma strlen_buffer_take: "0 \<le> n \<Longrightarrow> strlen (buffer_take n s) \<le> n"
  by (simp add: buffer_take_def)

lemma buffer_take_id [simp]: "strlen s \<le> n \<Longrightarrow> buffer_take n s = s"
  by (simp add: buffer_take_def)

text \<open>The C string at the beginning of a block of bytes.\<close>

definition c_text :: "string \<Rightarrow> string" where
  "c_text bytes = takeWhile (\<lambda>c. c \<noteq> CHR 0x00) bytes"

lemma c_text_append: "CHR 0x00 \<notin> set a \<Longrightarrow> c_text (a @ b) = a @ c_text b"
  by (induction a) (auto simp: c_text_def)

section \<open>printf\<close>

text \<open>
  The conversions that the sources write.  \<open>None\<close> is a format that does not fit its arguments; the other
  conversions of C, which only a text that is used as a format can contain, count as such.
\<close>

fun c_format :: "string \<Rightarrow> farg list \<Rightarrow> string option" where
  "c_format [] args = Some []"
| "c_format (c # cs) args =
     (if c \<noteq> CHR ''%'' then map_option ((#) c) (c_format cs args)
      else case cs of
        [] \<Rightarrow> None
      | d # ds \<Rightarrow>
          if d = CHR ''%'' then map_option ((#) (CHR ''%'')) (c_format ds args)
          else if d = CHR ''s'' then
            (case args of FStr x # as \<Rightarrow> map_option ((@) x) (c_format ds as) | _ \<Rightarrow> None)
          else if d = CHR ''d'' \<or> d = CHR ''i'' then
            (case args of FInt x # as \<Rightarrow> map_option ((@) (dec_int x)) (c_format ds as)
             | _ \<Rightarrow> None)
          else None)"

text \<open>\<open>snprintf\<close> into a buffer of \<open>n\<close> bytes keeps the first \<open>n - 1\<close> characters.\<close>

definition c_snprintf :: "int \<Rightarrow> string \<Rightarrow> farg list \<Rightarrow> string option" where
  "c_snprintf n fmt args = map_option (buffer_take (n - 1)) (c_format fmt args)"

lemma c_format_plain: "CHR ''%'' \<notin> set fmt \<Longrightarrow> c_format fmt args = Some fmt"
  by (induction fmt) auto

lemma c_format_plain_append:
  "CHR ''%'' \<notin> set a \<Longrightarrow> c_format (a @ fmt) args = map_option ((@) a) (c_format fmt args)"
proof (induction a)
  case Nil
  have "((@) []) = (\<lambda>x. x)" by auto
  then show ?case by (simp add: option.map_ident)
next
  case (Cons c a)
  have "((@) (c # a)) = (\<lambda>x. c # a @ x)" by auto
  moreover from Cons.prems have "c \<noteq> CHR ''%''" by auto
  ultimately show ?case using Cons by (simp add: option.map_comp comp_def)
qed

lemma c_format_one_string:
  assumes "CHR ''%'' \<notin> set a" and "CHR ''%'' \<notin> set b"
  shows "c_format (a @ ''%s'' @ b) [FStr x] = Some (a @ x @ b)"
  using assms by (simp add: c_format_plain_append c_format_plain)

section \<open>Searching\<close>

text \<open>\<open>strstr(s, sub)\<close> as the offset of the first occurrence.\<close>

fun c_strstr :: "string \<Rightarrow> string \<Rightarrow> nat option" where
  "c_strstr s sub =
     (if prefix sub s then Some 0
      else case s of [] \<Rightarrow> None | _ # t \<Rightarrow> map_option Suc (c_strstr t sub))"

declare c_strstr.simps [simp del]

lemma c_strstr_Some:
  "c_strstr s sub = Some k \<Longrightarrow>
   k \<le> length s \<and> prefix sub (drop k s) \<and> (\<forall>j < k. \<not> prefix sub (drop j s))"
proof (induction s arbitrary: k)
  case Nil
  then show ?case by (simp add: c_strstr.simps split: if_splits)
next
  case (Cons c s)
  show ?case
  proof (cases "prefix sub (c # s)")
    case True
    with Cons.prems show ?thesis by (simp add: c_strstr.simps)
  next
    case False
    with Cons.prems obtain j where j: "c_strstr s sub = Some j" "k = Suc j"
      by (subst (asm) c_strstr.simps) auto
    from Cons.IH [OF j(1)] j(2) False show ?thesis
      by (auto simp: less_Suc_eq_0_disj)
  qed
qed

lemma c_strstr_None: "c_strstr s sub = None \<Longrightarrow> \<not> prefix sub (drop j s)"
proof (induction s arbitrary: j)
  case Nil
  then show ?case by (simp add: c_strstr.simps split: if_splits)
next
  case (Cons c s)
  from Cons.prems have n: "\<not> prefix sub (c # s)" "c_strstr s sub = None"
    by (subst (asm) c_strstr.simps, simp split: if_splits)+
  with Cons.IH show ?case by (cases j) auto
qed

lemma prefix_drop_length: "prefix sub (drop k s) \<Longrightarrow> sub \<noteq> [] \<Longrightarrow> k + length sub \<le> length s"
  using prefix_length_le [of sub "drop k s"] by (cases sub) auto

text \<open>\<open>strchr(s, c) != NULL\<close> and \<open>strncmp(s, pre, strlen(pre)) == 0\<close>.\<close>

definition c_strchr :: "string \<Rightarrow> char \<Rightarrow> bool" where
  "c_strchr s c = (c \<in> set s)"

definition c_starts_with :: "string \<Rightarrow> string \<Rightarrow> bool" where
  "c_starts_with s pre = prefix pre s"

section \<open>strftime\<close>

record tm =
  tm_year :: int
  tm_mon :: int
  tm_mday :: int
  tm_hour :: int
  tm_min :: int
  tm_sec :: int

text \<open>\<open>tm_year\<close> is the calendar year and \<open>tm_mon\<close> starts at 1.\<close>

definition strftime_conv :: "char \<Rightarrow> tm \<Rightarrow> string" where
  "strftime_conv c t =
     (if c = CHR ''Y'' then dec_int (tm_year t)
      else if c = CHR ''m'' then two_digits (tm_mon t)
      else if c = CHR ''d'' then two_digits (tm_mday t)
      else if c = CHR ''H'' then two_digits (tm_hour t)
      else if c = CHR ''M'' then two_digits (tm_min t)
      else if c = CHR ''S'' then two_digits (tm_sec t)
      else [CHR ''%'', c])"

fun strftime_text :: "string \<Rightarrow> tm \<Rightarrow> string" where
  "strftime_text [] t = []"
| "strftime_text [c] t = [c]"
| "strftime_text (c # d # cs) t =
     (if c = CHR ''%'' then strftime_conv d t @ strftime_text cs t
      else c # strftime_text (d # cs) t)"

text \<open>The result 0 (\<open>None\<close>) when the text and its terminator do not fit in \<open>n\<close> bytes.\<close>

definition c_strftime :: "nat \<Rightarrow> string \<Rightarrow> tm \<Rightarrow> string option" where
  "c_strftime n fmt t =
     (let x = strftime_text fmt t in if length x < n \<and> x \<noteq> [] then Some x else None)"

definition valid_tm :: "tm \<Rightarrow> bool" where
  "valid_tm t \<longleftrightarrow> 1000 \<le> tm_year t \<and> tm_year t \<le> 9999 \<and> 1 \<le> tm_mon t \<and> tm_mon t \<le> 12 \<and>
     1 \<le> tm_mday t \<and> tm_mday t \<le> 31 \<and> 0 \<le> tm_hour t \<and> tm_hour t \<le> 23 \<and>
     0 \<le> tm_min t \<and> tm_min t \<le> 59 \<and> 0 \<le> tm_sec t \<and> tm_sec t \<le> 60"

lemma length_dec_nat_1: "n < 10 \<Longrightarrow> length (dec_nat n) = 1"
  by (simp add: dec_nat.simps)

lemma length_dec_nat_2: "10 \<le> n \<Longrightarrow> n < 100 \<Longrightarrow> length (dec_nat n) = 2"
  by (subst dec_nat.simps) (simp add: length_dec_nat_1)

lemma length_dec_nat_4:
  assumes "1000 \<le> n" and "n < 10000"
  shows "length (dec_nat n) = 4"
proof -
  have "length (dec_nat (n div 10)) = 3"
    using assms by (subst dec_nat.simps) (simp add: length_dec_nat_2 div_mult2_eq [symmetric])
  with assms show ?thesis by (subst dec_nat.simps) simp
qed

lemma length_two_digits: "0 \<le> i \<Longrightarrow> i < 100 \<Longrightarrow> length (two_digits i) = 2"
  by (auto simp: two_digits_def dec_int_def length_dec_nat_1 length_dec_nat_2)

lemma length_year: "1000 \<le> i \<Longrightarrow> i \<le> 9999 \<Longrightarrow> length (dec_int i) = 4"
  by (auto simp: dec_int_def intro: length_dec_nat_4)

lemma mod_10_cases: "(m::nat) mod 10 = 0 \<or> m mod 10 = 1 \<or> m mod 10 = 2 \<or> m mod 10 = 3 \<or>
    m mod 10 = 4 \<or> m mod 10 = 5 \<or> m mod 10 = 6 \<or> m mod 10 = 7 \<or> m mod 10 = 8 \<or> m mod 10 = 9"
  by presburger

lemma digit_char_value: "is_digit (digit_char n) \<and> of_char (digit_char n) - (48::nat) = n mod 10"
  using mod_10_cases [of n] by (elim disjE) (simp_all add: is_digit_def char_of_def odd_Suc_minus_one bit_Suc_0_iff)

lemma set_dec_nat: "c \<in> set (dec_nat n) \<Longrightarrow> is_digit c"
proof (induction n rule: dec_nat.induct)
  case (1 n)
  have d: "is_digit (digit_char m)" for m using digit_char_value by blast
  show ?case
  proof (cases "n < 10")
    case True
    with "1.prems" d show ?thesis by (subst (asm) dec_nat.simps) (simp del: digit_char.simps)
  next
    case False
    with "1.prems" have "c \<in> set (dec_nat (n div 10)) \<or> c = digit_char (n mod 10)"
      by (subst (asm) dec_nat.simps) (auto simp del: digit_char.simps)
    with "1.IH" False d show ?thesis by (auto simp del: digit_char.simps)
  qed
qed

lemma set_dec_int: "c \<in> set (dec_int i) \<Longrightarrow> is_digit c \<or> c = CHR ''-''"
  by (auto simp: dec_int_def dest: set_dec_nat split: if_splits)

lemma is_digit_0: "is_digit (CHR ''0'')"
  by (simp add: is_digit_def)

lemma set_two_digits: "c \<in> set (two_digits i) \<Longrightarrow> is_digit c \<or> c = CHR ''-''"
  using set_dec_int [of c i] is_digit_0 by (auto simp: two_digits_def split: if_splits)

section \<open>fscanf\<close>

text \<open>
  An input stream: the characters not read yet, the end-of-file indicator, and whether the end
  of the readable data is a read error (as for a directory) and not the end of the file.
\<close>

record stream =
  inp :: string
  at_eof :: bool
  unreadable :: bool

definition hit_end :: "stream \<Rightarrow> stream" where
  "hit_end st = (if unreadable st then st else st\<lparr>at_eof := True\<rparr>)"

text \<open>A white-space directive.\<close>

definition skip_ws :: "stream \<Rightarrow> stream" where
  "skip_ws st = (let rest = dropWhile is_space (inp st); st' = st\<lparr>inp := rest\<rparr>
     in if rest = [] then hit_end st' else st')"

datatype match_result = Matched stream | Mismatch stream | InputFailure stream

text \<open>Ordinary characters: those matched before a mismatch stay consumed.\<close>

fun match_lit :: "string \<Rightarrow> stream \<Rightarrow> match_result" where
  "match_lit [] st = Matched st"
| "match_lit (c # cs) st = (case inp st of
     [] \<Rightarrow> InputFailure (hit_end st)
   | d # ds \<Rightarrow> if c = d then match_lit cs (st\<lparr>inp := ds\<rparr>) else Mismatch st)"

text \<open>\<open>%ns\<close>: at most \<open>n\<close> characters that are no white space, after skipping white space.\<close>

definition read_word :: "nat \<Rightarrow> stream \<Rightarrow> string option \<times> stream" where
  "read_word n st = (let st1 = skip_ws st;
       w = take n (takeWhile (\<lambda>c. \<not> is_space c) (inp st1));
       st2 = st1\<lparr>inp := drop (length w) (inp st1)\<rparr>
     in if w = [] then (None, st1)
        else (Some w, if length w < n \<and> inp st2 = [] then hit_end st2 else st2))"

text \<open>
  \<open>fscanf(f, " KEY %ns\n", buf)\<close>: the number of conversions, or -1 (EOF) for an input failure
  before the first one; and the new contents of the buffer, if it is written.
\<close>

definition scan_var :: "string \<Rightarrow> nat \<Rightarrow> stream \<Rightarrow> int \<times> string option \<times> stream" where
  "scan_var key n st = (case match_lit key (skip_ws st) of
     InputFailure st' \<Rightarrow> (-1, None, st')
   | Mismatch st' \<Rightarrow> (0, None, st')
   | Matched st' \<Rightarrow> (case read_word n st' of
        (None, st'') \<Rightarrow> (-1, None, st'')
      | (Some w, st'') \<Rightarrow> (1, Some w, skip_ws st'')))"

lemma unreadable_hit_end [simp]: "unreadable (hit_end st) = unreadable st"
  by (simp add: hit_end_def)

lemma inp_hit_end [simp]: "inp (hit_end st) = inp st"
  by (simp add: hit_end_def)

lemma unreadable_skip_ws [simp]: "unreadable (skip_ws st) = unreadable st"
  by (simp add: skip_ws_def Let_def)

lemma inp_skip_ws [simp]: "inp (skip_ws st) = dropWhile is_space (inp st)"
  by (simp add: skip_ws_def Let_def)

fun match_stream :: "match_result \<Rightarrow> stream" where
  "match_stream (Matched st) = st"
| "match_stream (Mismatch st) = st"
| "match_stream (InputFailure st) = st"

lemma match_lit_frame:
  "unreadable (match_stream (match_lit key st)) = unreadable st \<and>
   length (inp (match_stream (match_lit key st))) \<le> length (inp st)"
proof (induction key arbitrary: st)
  case Nil
  then show ?case by simp
next
  case (Cons c cs)
  show ?case
  proof (cases "inp st")
    case Nil
    then show ?thesis by simp
  next
    case (Cons d ds)
    with Cons.IH [of "st\<lparr>inp := ds\<rparr>"] show ?thesis by simp
  qed
qed

lemma match_lit_Matched: "match_lit key st = Matched st' \<Longrightarrow>
    inp st = key @ inp st' \<and> unreadable st' = unreadable st"
proof (induction key arbitrary: st)
  case Nil
  then show ?case by simp
next
  case (Cons c cs)
  show ?case
  proof (cases "inp st")
    case Nil
    with Cons.prems show ?thesis by simp
  next
    case inp: (Cons d ds)
    with Cons.prems have m: "match_lit cs (st\<lparr>inp := ds\<rparr>) = Matched st'" "c = d"
      by (auto split: if_splits)
    from Cons.IH [OF m(1)] m(2) inp show ?thesis by simp
  qed
qed

lemma match_lit_InputFailure:
  "match_lit key st = InputFailure st' \<Longrightarrow> at_eof st' \<or> unreadable st"
proof (induction key arbitrary: st)
  case Nil
  then show ?case by simp
next
  case (Cons c cs)
  show ?case
  proof (cases "inp st")
    case Nil
    with Cons.prems show ?thesis by (auto simp: hit_end_def)
  next
    case inp: (Cons d ds)
    with Cons.prems have "match_lit cs (st\<lparr>inp := ds\<rparr>) = InputFailure st'"
      by (auto split: if_splits)
    from Cons.IH [OF this] show ?thesis by simp
  qed
qed

lemma match_lit_here: "match_lit key (st\<lparr>inp := key @ rest\<rparr>) = Matched (st\<lparr>inp := rest\<rparr>)"
proof (induction key arbitrary: st)
  case Nil
  then show ?case by simp
next
  case (Cons c cs)
  from Cons.IH [of "st\<lparr>inp := c # cs @ rest\<rparr>"] show ?case by simp
qed

lemma match_lit_first_differs:
  "inp st = d # ds \<Longrightarrow> key = c # cs \<Longrightarrow> c \<noteq> d \<Longrightarrow> match_lit key st = Mismatch st"
  by simp

lemma read_word_Some:
  assumes "read_word n st = (Some w, st')"
  shows "w \<noteq> [] \<and> length w \<le> n \<and> length (inp st') < length (inp st) \<and>
    unreadable st' = unreadable st \<and> (\<forall>c \<in> set w. \<not> is_space c)"
proof -
  let ?i = "dropWhile is_space (inp st)"
  let ?w = "take n (takeWhile (\<lambda>c. \<not> is_space c) ?i)"
  from assms have w: "w = ?w" "w \<noteq> []" and st': "inp st' = drop (length w) ?i"
    "unreadable st' = unreadable st"
    by (auto simp: read_word_def Let_def split: if_splits)
  have "length w \<le> length (takeWhile (\<lambda>c. \<not> is_space c) ?i)" unfolding w(1) by simp
  then have "length w \<le> length ?i" using length_takeWhile_le order_trans by blast
  moreover have "length ?i \<le> length (inp st)" by (simp add: length_dropWhile_le)
  moreover have "0 < length w" using w(2) by simp
  moreover have "length (inp st') = length ?i - length w" using st' by simp
  ultimately have "length (inp st') < length (inp st)" by linarith
  moreover have "\<forall>c \<in> set w. \<not> is_space c"
    unfolding w(1) by (auto dest!: in_set_takeD dest: set_takeWhileD)
  moreover have "length w \<le> n" unfolding w(1) by simp
  ultimately show ?thesis using w(2) st'(2) by blast
qed

lemma read_word_None:
  assumes "read_word n st = (None, st')" and "0 < n"
  shows "at_eof st' \<or> unreadable st"
proof -
  let ?i = "dropWhile is_space (inp st)"
  from assms have st': "st' = skip_ws st" and "takeWhile (\<lambda>c. \<not> is_space c) ?i = []"
    by (auto simp: read_word_def Let_def split: if_splits)
  then have "?i = []"
    using hd_dropWhile [of is_space "inp st"] by (cases ?i) (auto split: if_splits)
  then show ?thesis using st' by (auto simp: skip_ws_def hit_end_def)
qed

section \<open>sscanf\<close>

fun read_digits :: "nat \<Rightarrow> string \<Rightarrow> nat" where
  "read_digits acc [] = acc"
| "read_digits acc (c # cs) =
     (if is_digit c then read_digits (10 * acc + (of_char c - 48)) cs else acc)"

text \<open>\<open>%d\<close>: white space, an optional sign, at least one digit.\<close>

definition scan_int :: "string \<Rightarrow> int option" where
  "scan_int s = (case dropWhile is_space s of
     [] \<Rightarrow> None
   | c # cs \<Rightarrow>
       if c = CHR ''-'' then
         (if cs \<noteq> [] \<and> is_digit (hd cs) then Some (- int (read_digits 0 cs)) else None)
       else if c = CHR ''+'' then
         (if cs \<noteq> [] \<and> is_digit (hd cs) then Some (int (read_digits 0 cs)) else None)
       else if is_digit c then Some (int (read_digits 0 (c # cs))) else None)"

lemma read_digits_append:
  "\<forall>c \<in> set a. is_digit c \<Longrightarrow> read_digits acc (a @ b) = read_digits (read_digits acc a) b"
  by (induction a arbitrary: acc) auto

lemma digits_dec_nat: "\<forall>c \<in> set (dec_nat n). is_digit c"
  using set_dec_nat by blast

lemma read_digits_dec_nat: "read_digits 0 (dec_nat n) = n"
proof (induction n rule: dec_nat.induct)
  case (1 n)
  show ?case
  proof (cases "n < 10")
    case True
    then show ?thesis
      using digit_char_value [of n] by (subst dec_nat.simps) (simp del: digit_char.simps)
  next
    case False
    have "read_digits (n div 10) [digit_char (n mod 10)] = n"
      using digit_char_value [of "n mod 10"] by (simp del: digit_char.simps)
    with 1 False show ?thesis
      by (subst dec_nat.simps)
        (simp add: read_digits_append digits_dec_nat del: digit_char.simps)
  qed
qed

lemma dec_nat_not_Nil: "dec_nat n \<noteq> []"
  by (subst dec_nat.simps) simp

lemma read_digits_stop:
  "b = [] \<or> \<not> is_digit (hd b) \<Longrightarrow> read_digits acc b = acc"
  by (cases b) auto

lemma digit_not_space: "is_digit c \<Longrightarrow> \<not> is_space c \<and> c \<noteq> CHR ''-'' \<and> c \<noteq> CHR ''+''"
  by (auto simp: is_digit_def is_space_def)

text \<open>\<open>%d\<close> reads back what \<open>%d\<close> printed.\<close>

lemma scan_int_dec_int:
  assumes "b = [] \<or> \<not> is_digit (hd b)"
  shows "scan_int (dec_int i @ b) = Some i"
proof -
  have val: "read_digits 0 (dec_nat n @ b) = n" for n
    using assms by (simp add: read_digits_append digits_dec_nat read_digits_dec_nat
      read_digits_stop)
  obtain c cs where d: "dec_nat (nat \<bar>i\<bar>) = c # cs"
    using dec_nat_not_Nil by (cases "dec_nat (nat \<bar>i\<bar>)") auto
  have c: "is_digit c" using digits_dec_nat [of "nat \<bar>i\<bar>"] d by simp
  note c' = digit_not_space [OF c]
  show ?thesis
  proof (cases "i < 0")
    case True
    then have "dec_int i = CHR ''-'' # c # cs" using d by (simp add: dec_int_def)
    moreover have "read_digits 0 (c # cs @ b) = nat (- i)"
      using val [of "nat \<bar>i\<bar>"] d True by simp
    ultimately show ?thesis
      using True c by (simp add: scan_int_def is_space_def del: read_digits.simps)
  next
    case False
    then have "dec_int i = c # cs" using d by (simp add: dec_int_def)
    moreover have "read_digits 0 (c # cs @ b) = nat i"
      using val [of "nat \<bar>i\<bar>"] d False by simp
    ultimately show ?thesis
      using False c c' by (simp add: scan_int_def del: read_digits.simps)
  qed
qed

end
