(* ===== verification/Log.thy ===== *)
theory Log
  imports CString
begin

text \<open>
  The message functions of log_msgs.c: time stamps and \<open>msg_printf\<close>, which
  \<open>log_printf\<close> and \<open>event_printf\<close> call with the handle of one of the two log files.
  Every other component logs through them, so their effect is summed up in one rule: a message
  changes the logging channel and \<open>errno\<close> and nothing else.
\<close>

section \<open>State\<close>

record log_st = world +
  console_messages :: int
  log_file_handle :: int
  event_file_handle :: int

definition MAX_TIMESTAMP_LEN :: nat where
  "MAX_TIMESTAMP_LEN = 19"

text \<open>The worlds that witnesses start from: no log file is open yet.\<close>

definition log_start :: log_st where
  "log_start = \<lparr>trace = [], ltrace = [], errno = 0, ub = False, hang = False, lub = False,
     console_messages = 1, log_file_handle = 0, event_file_handle = 0\<rparr>"

lemma log_start_fields [simp]: "trace log_start = []" "ub log_start = False" "hang log_start = False"
    "log_file_handle log_start = 0" "event_file_handle log_start = 0"
  by (simp_all add: log_start_def)

section \<open>Time stamps\<close>

definition tm_of :: "reply \<Rightarrow> tm" where
  "tm_of r = (case rints r of
     y # mo # d # h # mi # s # _ \<Rightarrow>
       \<lparr>tm_year = y, tm_mon = mo, tm_mday = d, tm_hour = h, tm_min = mi, tm_sec = s\<rparr>
   | _ \<Rightarrow> \<lparr>tm_year = 1970, tm_mon = 1, tm_mday = 1, tm_hour = 0, tm_min = 0, tm_sec = 0\<rparr>)"

text \<open>The text left in a buffer of \<open>n\<close> bytes; a failure leaves the empty string.\<close>

definition get_localtime_str :: "env \<Rightarrow> nat \<Rightarrow> string \<Rightarrow> ('z log_st_scheme, string) state" where
  "get_localtime_str e n fmt = do {
     r \<leftarrow> lsys e LTime;
     if rv r \<noteq> -1 then do {
       t \<leftarrow> lsys e (LLocaltime (rv r));
       lrequire (rv t \<noteq> 0);
       return (case c_strftime n fmt (tm_of t) of None \<Rightarrow> [] | Some x \<Rightarrow> x)
     } else return []
   }"

definition get_localtime_stamp :: "env \<Rightarrow> nat \<Rightarrow> ('z log_st_scheme, string) state" where
  "get_localtime_stamp e n = get_localtime_str e n ''%Y-%m-%d %H:%M:%S''"

section \<open>Messages\<close>

definition msg_printf :: "env \<Rightarrow> int \<Rightarrow> string \<Rightarrow> farg list \<Rightarrow> ('z log_st_scheme, int) state" where
  "msg_printf e out_file_handle fmt args = do {
     console \<leftarrow> gets console_messages;
     if console \<noteq> 0 \<or> out_file_handle \<noteq> 0 then do {
       printf_ret \<leftarrow> (if console \<noteq> 0 then do { r \<leftarrow> lsys e (LVprintf fmt args); return (rv r) }
                     else return 0);
       fprintf_ret \<leftarrow> (if out_file_handle \<noteq> 0 then do {
           cur_time_str \<leftarrow> get_localtime_stamp e (MAX_TIMESTAMP_LEN + 1);
           _ \<leftarrow> lsys e (LFprintf out_file_handle ''[%s] '' [FStr cur_time_str]);
           r \<leftarrow> lsys e (LVfprintf out_file_handle fmt args);
           _ \<leftarrow> lsys e (LFflush out_file_handle);
           return (rv r)
         } else return 0);
       return (if printf_ret \<noteq> 0 then printf_ret else fprintf_ret)
     } else return 0
   }"

definition log_printf :: "env \<Rightarrow> string \<Rightarrow> farg list \<Rightarrow> ('z log_st_scheme, unit) state" where
  "log_printf e fmt args = do {
     h \<leftarrow> gets log_file_handle;
     _ \<leftarrow> msg_printf e h fmt args;
     return ()
   }"

definition event_printf :: "env \<Rightarrow> string \<Rightarrow> farg list \<Rightarrow> ('z log_st_scheme, unit) state" where
  "event_printf e fmt args = do {
     h \<leftarrow> gets event_file_handle;
     _ \<leftarrow> msg_printf e h fmt args;
     return ()
   }"

section \<open>What a message changes\<close>

text \<open>\<open>t\<close> differs from \<open>s\<close> in the logging channel and \<open>errno\<close> only.\<close>

definition logged :: "'z log_st_scheme \<Rightarrow> 'z log_st_scheme \<Rightarrow> bool" where
  "logged s t \<longleftrightarrow> (\<exists>lt er u. t = s\<lparr>ltrace := lt, errno := er, lub := u\<rparr>)"

lemma logged_refl: "logged s s"
  unfolding logged_def
  by (rule exI [of _ "ltrace s"], rule exI [of _ "errno s"], rule exI [of _ "lub s"]) simp

lemma logged_trans:
  assumes "logged s t" and "logged t u"
  shows "logged s u"
proof -
  from assms obtain lt er b where "u = s\<lparr>ltrace := lt, errno := er, lub := b\<rparr>"
    unfolding logged_def by auto
  then show ?thesis unfolding logged_def by blast
qed

lemma logged_lsys: "logged s (snd (run_state (lsys e c) s))"
  unfolding logged_def run_lsys
  by (rule exI [of _ "(c, lanswer e (ltrace s) c) # ltrace s"],
      rule exI [of _ "if rerr (lanswer e (ltrace s) c) = 0 then errno s else rerr (lanswer e (ltrace s) c)"],
      rule exI [of _ "lub s"]) simp

lemma logged_lub: "logged s (s\<lparr>lub := True\<rparr>)"
  unfolding logged_def
  by (rule exI [of _ "ltrace s"], rule exI [of _ "errno s"], rule exI [of _ True]) simp

text \<open>A chain of logging steps that starts at \<open>s\<close>; the premise carries the first state.\<close>

lemma wp_lsys_logged:
  assumes "logged s s'" and "\<And>r t. logged s t \<Longrightarrow> Q r t"
  shows "wp (lsys e c) Q s'"
proof (rule wp_runI)
  fix r t
  assume "run_state (lsys e c) s' = (r, t)"
  then have "logged s' t" using logged_lsys [of s' e c] by simp
  with assms show "Q r t" using logged_trans by blast
qed

lemma wp_lrequire_logged:
  assumes "logged s s'" and "\<And>t. logged s t \<Longrightarrow> Q () t"
  shows "wp (lrequire b) Q s'"
  by (auto intro!: wp_intro assms intro: logged_trans [OF assms(1)] logged_lub)

lemma wp_localtime_str_logged:
  assumes "logged s s'" and "\<And>x t. logged s t \<Longrightarrow> length x < n \<or> x = [] \<Longrightarrow> Q x t"
  shows "wp (get_localtime_str e n fmt) Q s'"
  unfolding get_localtime_str_def
  by (simp, rule wp_lsys_logged [OF assms(1)], rule wp_if; simp add: assms)
    (auto intro!: wp_lsys_logged [of s] wp_lrequire_logged [of s] assms
      simp: c_strftime_def Let_def)

lemma wp_msg_printf_logged:
  assumes "logged s s'" and "\<And>r t. logged s t \<Longrightarrow> Q r t"
  shows "wp (msg_printf e h fmt args) Q s'"
  unfolding msg_printf_def get_localtime_stamp_def
  using assms(1)
  by (auto intro!: wp_lsys_logged [of s] wp_localtime_str_logged [of s] wp_if assms(2))

text \<open>The rules every component uses.\<close>

lemma wp_log_printf [wp_intro]:
  assumes "\<And>lt er u. Q () (s\<lparr>ltrace := lt, errno := er, lub := u\<rparr>)"
  shows "wp (log_printf e fmt args) Q s"
  unfolding log_printf_def
  by (simp, rule wp_msg_printf_logged [OF logged_refl]) (auto simp: logged_def assms)

lemma wp_event_printf [wp_intro]:
  assumes "\<And>lt er u. Q () (s\<lparr>ltrace := lt, errno := er, lub := u\<rparr>)"
  shows "wp (event_printf e fmt args) Q s"
  unfolding event_printf_def
  by (simp, rule wp_msg_printf_logged [OF logged_refl]) (auto simp: logged_def assms)

lemma wp_localtime_str [wp_intro]:
  assumes "\<And>x lt er u. length x < n \<or> x = [] \<Longrightarrow>
    Q x (s\<lparr>ltrace := lt, errno := er, lub := u\<rparr>)"
  shows "wp (get_localtime_str e n fmt) Q s"
  by (rule wp_localtime_str_logged [OF logged_refl]) (auto simp: logged_def assms)

lemma wp_localtime_stamp [wp_intro]:
  assumes "\<And>x lt er u. length x < n \<or> x = [] \<Longrightarrow>
    Q x (s\<lparr>ltrace := lt, errno := er, lub := u\<rparr>)"
  shows "wp (get_localtime_stamp e n) Q s"
  unfolding get_localtime_stamp_def by (rule wp_localtime_str) (rule assms)

lemma appends_localtime_str [appends_intro]: "appends (get_localtime_str e n fmt)"
  unfolding get_localtime_str_def by (intro appends_intro)

lemma appends_localtime_stamp [appends_intro]: "appends (get_localtime_stamp e n)"
  unfolding get_localtime_stamp_def by (intro appends_intro)

lemma appends_msg_printf [appends_intro]: "appends (msg_printf e h fmt args)"
  unfolding msg_printf_def by (intro appends_intro)

lemma appends_log_printf [appends_intro]: "appends (log_printf e fmt args)"
  unfolding log_printf_def by (intro appends_intro)

lemma appends_event_printf [appends_intro]: "appends (event_printf e fmt args)"
  unfolding event_printf_def by (intro appends_intro)

section \<open>Where messages go\<close>

text \<open>
  What \<open>msg_printf\<close> promises: a message reaches a stream exactly when the stream is enabled,
  and it is flushed right after it was written.
\<close>

definition writes_to :: "int \<Rightarrow> levent \<Rightarrow> bool" where
  "writes_to h ev = (case fst ev of LFprintf g _ _ \<Rightarrow> g = h | LVfprintf g _ _ \<Rightarrow> g = h
     | LFflush g \<Rightarrow> g = h | _ \<Rightarrow> False)"

lemma msg_printf_silent:
  "console_messages s = 0 \<Longrightarrow> run_state (msg_printf e 0 fmt args) s = (0, s)"
  by (simp add: msg_printf_def)

text \<open>The latest call of a message that goes to a file is the flush of that file, right after the
  text of the message.\<close>

lemma msg_printf_flushes:
  assumes "h \<noteq> 0"
  shows "wp (msg_printf e h fmt args)
    (\<lambda>_ t. \<exists>r1 r2 tr. ltrace t = (LFflush h, r1) # (LVfprintf h fmt args, r2) # tr) s"
  unfolding msg_printf_def
  by (auto intro!: wp_intro simp: assms)

end
