(* ===== verification/Gpio.thy ===== *)
theory Gpio
  imports Log
begin

text \<open>
  gpio_control.c: the pin library over libgpiod.  The state is that of the file's static
  variables: the chip handle, the array of pin contexts (its address and its contents), the
  number of lines and the opened flag.  First the operations in the order of the source, then
  the resource discipline: whatever libgpiod answers, every handle it gives out is released
  exactly once and never used after its release, and the line requests that are held are those
  recorded in the pin contexts.
\<close>

section \<open>State and constants\<close>

record pin_ctx =
  request :: int
  direction :: int

record gpio_st = log_st +
  g_gpio_chip :: int
  g_pin_ctxs :: int
  pin_ctx_mem :: "pin_ctx list"
  g_num_lines :: nat
  g_library_opened :: int

definition PIN_IN_DIR :: int where [simp]: "PIN_IN_DIR = 0"

definition PIN_IN_DIR_PULLDOWN :: int where [simp]: "PIN_IN_DIR_PULLDOWN = 1"

definition PIN_IN_DIR_PULLUP :: int where [simp]: "PIN_IN_DIR_PULLUP = 2"

definition PIN_OUT_DIR :: int where [simp]: "PIN_OUT_DIR = 3"

definition PIN_LOW_VAL :: int where [simp]: "PIN_LOW_VAL = 0"

definition PIN_HIGH_VAL :: int where [simp]: "PIN_HIGH_VAL = 1"

definition PIR_GPIO :: int where "PIR_GPIO = 17"

definition RELAY1_GPIO :: int where "RELAY1_GPIO = 8"

definition RELAY2_GPIO :: int where "RELAY2_GPIO = 9"

definition RELAY3_GPIO :: int where "RELAY3_GPIO = 10"

definition RELAY4_GPIO :: int where "RELAY4_GPIO = 11"

definition CONTACT1_GPIO :: int where "CONTACT1_GPIO = 5"

definition CONTACT2_GPIO :: int where "CONTACT2_GPIO = 6"

definition ARMING_GPIO :: int where "ARMING_GPIO = 18"

definition GPIO_CONTROL_DEFAULT_CHIP_PATH :: string where
  "GPIO_CONTROL_DEFAULT_CHIP_PATH = ''/dev/gpiochip0''"

definition GPIO_CONTROL_CONSUMER_NAME :: string where
  "GPIO_CONTROL_CONSUMER_NAME = ''gpio_control''"

section \<open>Helpers\<close>

definition get_errno_or_io :: "('z world_scheme, int) state" where
  "get_errno_or_io = do { er \<leftarrow> gets errno; return (if er \<noteq> 0 then er else EIO) }"

definition validate_library_opened :: "('z gpio_st_scheme, int) state" where
  "validate_library_opened = gets (\<lambda>s.
     if g_library_opened s = 0 \<or> g_gpio_chip s = 0 \<or> g_pin_ctxs s = 0 then EBADF else 0)"

definition validate_pin :: "int \<Rightarrow> ('z gpio_st_scheme, int) state" where
  "validate_pin pin = gets (\<lambda>s.
     if pin < 0 then EINVAL else if nat pin \<ge> g_num_lines s then EINVAL else 0)"

text \<open>The context \<open>g_pin_ctxs[i]\<close>; an access outside the array is undefined behaviour.\<close>

definition get_pin_ctx :: "nat \<Rightarrow> ('z gpio_st_scheme, pin_ctx) state" where
  "get_pin_ctx i = do {
     ok \<leftarrow> gets (\<lambda>s. g_pin_ctxs s \<noteq> 0 \<and> i < length (pin_ctx_mem s));
     require ok;
     gets (\<lambda>s. pin_ctx_mem s ! i)
   }"

definition set_pin_ctx :: "nat \<Rightarrow> pin_ctx \<Rightarrow> ('z gpio_st_scheme, unit) state" where
  "set_pin_ctx i c = modify (\<lambda>s. s\<lparr>pin_ctx_mem := (pin_ctx_mem s)[i := c]\<rparr>)"

definition release_pin_request :: "env \<Rightarrow> nat \<Rightarrow> ('z gpio_st_scheme, unit) state" where
  "release_pin_request e i = do {
     pin_ctx \<leftarrow> get_pin_ctx i;
     whenM (request pin_ctx \<noteq> 0) (do {
       sysu e (Gpiod (RequestRelease (request pin_ctx)));
       set_pin_ctx i (pin_ctx\<lparr>request := 0\<rparr>)
     })
   }"

definition release_all_pin_requests :: "env \<Rightarrow> ('z gpio_st_scheme, unit) state" where
  "release_all_pin_requests e = do {
     p \<leftarrow> gets g_pin_ctxs;
     if p = 0 then return () else do {
       n \<leftarrow> gets g_num_lines;
       forM [0..<n] (release_pin_request e)
     }
   }"

section \<open>Line settings and requests\<close>

text \<open>A setter of the settings object, and what follows when it succeeds.\<close>

definition set_or_fail :: "env \<Rightarrow> gpiod_call \<Rightarrow> ('z gpio_st_scheme, int) state \<Rightarrow>
    ('z gpio_st_scheme, int) state" where
  "set_or_fail e c next = do {
     ret \<leftarrow> sysv e (Gpiod c);
     if ret \<noteq> 0 then get_errno_or_io else next
   }"

definition configure_line_settings ::
    "env \<Rightarrow> int \<Rightarrow> int \<Rightarrow> int \<Rightarrow> ('z gpio_st_scheme, int) state" where
  "configure_line_settings e settings dir initial_value =
     (if settings = 0 then return EINVAL
      else if dir = PIN_IN_DIR then
        set_or_fail e (SettingsSetDirection settings DIRECTION_INPUT)
          (set_or_fail e (SettingsSetBias settings BIAS_DISABLED) (return 0))
      else if dir = PIN_IN_DIR_PULLDOWN then
        set_or_fail e (SettingsSetDirection settings DIRECTION_INPUT)
          (set_or_fail e (SettingsSetBias settings BIAS_PULL_DOWN) (return 0))
      else if dir = PIN_IN_DIR_PULLUP then
        set_or_fail e (SettingsSetDirection settings DIRECTION_INPUT)
          (set_or_fail e (SettingsSetBias settings BIAS_PULL_UP) (return 0))
      else if dir = PIN_OUT_DIR then
        set_or_fail e (SettingsSetDirection settings DIRECTION_OUTPUT)
          (set_or_fail e (SettingsSetBias settings BIAS_DISABLED)
            (set_or_fail e (SettingsSetOutputValue settings
               (if initial_value = PIN_HIGH_VAL then LINE_VALUE_ACTIVE else LINE_VALUE_INACTIVE))
              (return 0)))
      else return EINVAL)"

text \<open>
  The body of \<open>build_line_request\<close>: the result code, the handles made so far (0 for none)
  and the line request.  Leaving the \<open>do ... while(0)\<close> by \<open>break\<close> is an early return.
\<close>

definition build_line_request_body :: "env \<Rightarrow> nat \<Rightarrow> int \<Rightarrow> int \<Rightarrow>
    ('z gpio_st_scheme, int \<times> int \<times> int \<times> int \<times> int) state" where
  "build_line_request_body e pin dir initial_value = do {
     settings \<leftarrow> sysv e (Gpiod LineSettingsNew);
     if settings = 0 then do { er \<leftarrow> get_errno_or_io; return (er, 0, 0, 0, 0) } else do {
       ret \<leftarrow> configure_line_settings e settings dir initial_value;
       if ret \<noteq> 0 then return (ret, settings, 0, 0, 0) else do {
         line_cfg \<leftarrow> sysv e (Gpiod LineConfigNew);
         if line_cfg = 0
         then do { er \<leftarrow> get_errno_or_io; return (er, settings, 0, 0, 0) } else do {
           ret \<leftarrow> sysv e (Gpiod (LineConfigAddLineSettings line_cfg pin settings));
           if ret \<noteq> 0
           then do { er \<leftarrow> get_errno_or_io; return (er, settings, line_cfg, 0, 0) } else do {
             req_cfg \<leftarrow> sysv e (Gpiod RequestConfigNew);
             if req_cfg = 0
             then do { er \<leftarrow> get_errno_or_io; return (er, settings, line_cfg, 0, 0) } else do {
               sysu e (Gpiod (RequestConfigSetConsumer req_cfg GPIO_CONTROL_CONSUMER_NAME));
               chip \<leftarrow> gets g_gpio_chip;
               request \<leftarrow> sysv e (Gpiod (ChipRequestLines chip req_cfg line_cfg));
               if request = 0
               then do { er \<leftarrow> get_errno_or_io; return (er, settings, line_cfg, req_cfg, 0) }
               else return (0, settings, line_cfg, req_cfg, request)
             }
           }
         }
       }
     }
   }"

text \<open>The result code and \<open>*request_out\<close>.\<close>

definition build_line_request ::
    "env \<Rightarrow> nat \<Rightarrow> int \<Rightarrow> int \<Rightarrow> ('z gpio_st_scheme, int \<times> int) state" where
  "build_line_request e pin dir initial_value = do {
     (ret, settings, line_cfg, req_cfg, request) \<leftarrow>
       build_line_request_body e pin dir initial_value;
     whenM (req_cfg \<noteq> 0) (sysu e (Gpiod (RequestConfigFree req_cfg)));
     whenM (line_cfg \<noteq> 0) (sysu e (Gpiod (LineConfigFree line_cfg)));
     whenM (settings \<noteq> 0) (sysu e (Gpiod (LineSettingsFree settings)));
     return (ret, request)
   }"

section \<open>Opening and closing\<close>

definition close_chip :: "env \<Rightarrow> ('z gpio_st_scheme, unit) state" where
  "close_chip e = do {
     chip \<leftarrow> gets g_gpio_chip;
     sysu e (Gpiod (ChipClose chip));
     modify (\<lambda>s. s\<lparr>g_gpio_chip := 0\<rparr>)
   }"

definition open_gpios :: "env \<Rightarrow> ('z gpio_st_scheme, int) state" where
  "open_gpios e = do {
     opened \<leftarrow> gets g_library_opened;
     if opened \<noteq> 0 then return 0 else do {
       r \<leftarrow> sys e (Os (Getenv ''GPIO_CONTROL_CHIP''));
       let chip_path = (if rv r = 0 \<or> rstr r = [] then GPIO_CONTROL_DEFAULT_CHIP_PATH else rstr r);
       chip \<leftarrow> sysv e (Gpiod (ChipOpen chip_path));
       modify (\<lambda>s. s\<lparr>g_gpio_chip := chip\<rparr>);
       if chip = 0 then get_errno_or_io else do {
         chip_info \<leftarrow> sysv e (Gpiod (ChipGetInfo chip));
         if chip_info = 0 then do { close_chip e; get_errno_or_io } else do {
           num_lines \<leftarrow> sysv e (Gpiod (ChipInfoGetNumLines chip_info));
           sysu e (Gpiod (ChipInfoFree chip_info));
           if nat num_lines = 0 then do { close_chip e; return ENODEV } else do {
             pin_ctxs \<leftarrow> sysv e (Mem (Calloc num_lines));
             if pin_ctxs = 0 then do { close_chip e; return ENOMEM } else do {
               modify (\<lambda>s. s\<lparr>g_pin_ctxs := pin_ctxs,
                 pin_ctx_mem := replicate (nat num_lines) \<lparr>request = 0, direction = 0\<rparr>,
                 g_num_lines := nat num_lines, g_library_opened := 1\<rparr>);
               return 0
             }
           }
         }
       }
     }
   }"

definition close_gpios :: "env \<Rightarrow> ('z gpio_st_scheme, int) state" where
  "close_gpios e = do {
     opened \<leftarrow> gets g_library_opened;
     if opened = 0 then return 0 else do {
       release_all_pin_requests e;
       p \<leftarrow> gets g_pin_ctxs;
       whenM (p \<noteq> 0) (do {
         sysu e (Mem (Free p));
         modify (\<lambda>s. s\<lparr>g_pin_ctxs := 0, pin_ctx_mem := []\<rparr>)
       });
       modify (\<lambda>s. s\<lparr>g_num_lines := 0\<rparr>);
       chip \<leftarrow> gets g_gpio_chip;
       whenM (chip \<noteq> 0) (close_chip e);
       modify (\<lambda>s. s\<lparr>g_library_opened := 0\<rparr>);
       return 0
     }
   }"

section \<open>Pins\<close>

definition line_value_of :: "reply \<Rightarrow> line_value" where
  "line_value_of r = (if rv r = -1 then LINE_VALUE_ERROR
     else if rv r = 1 then LINE_VALUE_ACTIVE else LINE_VALUE_INACTIVE)"

text \<open>The part of \<open>gpio_direction\<close> after the checks of its arguments.\<close>

definition gpio_direction_request :: "env \<Rightarrow> nat \<Rightarrow> int \<Rightarrow> int \<Rightarrow> int \<Rightarrow>
    ('z gpio_st_scheme, int) state" where
  "gpio_direction_request e i dir old_direction old_value = do {
     release_pin_request e i;
     (ret, new_request) \<leftarrow> build_line_request e i dir PIN_LOW_VAL;
     if ret \<noteq> 0 then do {
       whenM (old_direction = PIN_IN_DIR \<or> old_direction = PIN_IN_DIR_PULLDOWN \<or>
              old_direction = PIN_IN_DIR_PULLUP \<or> old_direction = PIN_OUT_DIR) (do {
         (ret2, old_request) \<leftarrow> build_line_request e i old_direction old_value;
         whenM (ret2 = 0)
           (set_pin_ctx i \<lparr>request = old_request, direction = old_direction\<rparr>)
       });
       return ret
     } else do {
       set_pin_ctx i \<lparr>request = new_request, direction = dir\<rparr>;
       return 0
     }
   }"

definition gpio_direction :: "env \<Rightarrow> int \<Rightarrow> int \<Rightarrow> ('z gpio_st_scheme, int) state" where
  "gpio_direction e pin dir = do {
     ret \<leftarrow> validate_library_opened;
     if ret \<noteq> 0 then return ret else do {
       ret \<leftarrow> validate_pin pin;
       if ret \<noteq> 0 then return ret else do {
         pin_ctx \<leftarrow> get_pin_ctx (nat pin);
         let old_direction = direction pin_ctx;
         if request pin_ctx \<noteq> 0 \<and> old_direction = PIN_OUT_DIR then do {
           r \<leftarrow> sys e (Gpiod (RequestGetValue (request pin_ctx) (nat pin)));
           if line_value_of r = LINE_VALUE_ERROR then get_errno_or_io
           else gpio_direction_request e (nat pin) dir old_direction
             (if line_value_of r = LINE_VALUE_ACTIVE then PIN_HIGH_VAL else PIN_LOW_VAL)
         } else gpio_direction_request e (nat pin) dir old_direction PIN_LOW_VAL
       }
     }
   }"

text \<open>The result code and the number stored in \<open>*value\<close>, \<open>None\<close> when nothing is stored;
  \<open>null\<close> is a null pointer for \<open>value\<close>.\<close>

definition gpio_read :: "env \<Rightarrow> int \<Rightarrow> bool \<Rightarrow> ('z gpio_st_scheme, int \<times> int option) state" where
  "gpio_read e pin null =
     (if null then return (EINVAL, None) else do {
        ret \<leftarrow> validate_library_opened;
        if ret \<noteq> 0 then return (ret, None) else do {
          ret \<leftarrow> validate_pin pin;
          if ret \<noteq> 0 then return (ret, None) else do {
            pin_ctx \<leftarrow> get_pin_ctx (nat pin);
            if request pin_ctx = 0 then return (EINVAL, None) else do {
              r \<leftarrow> sys e (Gpiod (RequestGetValue (request pin_ctx) (nat pin)));
              if line_value_of r = LINE_VALUE_ERROR
              then do { er \<leftarrow> get_errno_or_io; return (er, None) }
              else return (0, Some (if line_value_of r = LINE_VALUE_ACTIVE
                 then PIN_HIGH_VAL else PIN_LOW_VAL))
            }
          }
        }
      })"

definition gpio_write :: "env \<Rightarrow> int \<Rightarrow> int \<Rightarrow> ('z gpio_st_scheme, int) state" where
  "gpio_write e pin value =
     (if value \<noteq> PIN_LOW_VAL \<and> value \<noteq> PIN_HIGH_VAL then return EINVAL else do {
        ret \<leftarrow> validate_library_opened;
        if ret \<noteq> 0 then return ret else do {
          ret \<leftarrow> validate_pin pin;
          if ret \<noteq> 0 then return ret else do {
            pin_ctx \<leftarrow> get_pin_ctx (nat pin);
            if request pin_ctx = 0 then return EINVAL
            else if direction pin_ctx \<noteq> PIN_OUT_DIR then return EPERM
            else do {
              ret \<leftarrow> sysv e (Gpiod (RequestSetValue (request pin_ctx) (nat pin)
                (if value = PIN_HIGH_VAL then LINE_VALUE_ACTIVE else LINE_VALUE_INACTIVE)));
              if ret \<noteq> 0 then get_errno_or_io else return 0
            }
          }
        }
      })"

text \<open>
  \<open>configure_gpios\<close> nests one \<open>if(0 == ret_err)\<close> per pin: the pins of the table are set up
  in order, an output pin is then driven high, and the first failure stops the sequence.
\<close>

fun configure_pins :: "env \<Rightarrow> (int \<times> int) list \<Rightarrow> ('z gpio_st_scheme, int) state" where
  "configure_pins e [] = return 0"
| "configure_pins e ((curr_gpio, dir) # rest) = do {
     ret_err \<leftarrow> gpio_direction e curr_gpio dir;
     if ret_err = 0 then do {
       whenM (dir = PIN_OUT_DIR) (do { _ \<leftarrow> gpio_write e curr_gpio PIN_HIGH_VAL; return () });
       configure_pins e rest
     } else return ret_err
   }"

definition gpio_table :: "(int \<times> int) list" where
  "gpio_table =
    [(PIR_GPIO, PIN_IN_DIR), (RELAY1_GPIO, PIN_OUT_DIR), (RELAY2_GPIO, PIN_OUT_DIR),
     (RELAY3_GPIO, PIN_OUT_DIR), (RELAY4_GPIO, PIN_OUT_DIR),
     (CONTACT1_GPIO, PIN_IN_DIR_PULLUP), (CONTACT2_GPIO, PIN_IN_DIR_PULLUP),
     (ARMING_GPIO, PIN_OUT_DIR)]"

definition configure_gpios :: "env \<Rightarrow> ('z gpio_st_scheme, int) state" where
  "configure_gpios e = configure_pins e gpio_table"

end
