(* ===== verification/Gpio_Inv.thy ===== *)
theory Gpio_Inv
  imports Gpio
begin

text \<open>
  The resource discipline of gpio_control.c.  libgpiod hands out six kinds of handles and the
  allocator one more; each kind is a \<open>handle_protocol\<close>.  The invariant \<open>gpio_inv\<close> says
  that the trace is legal for every kind, that temporary objects (settings, configurations, chip
  information) are all freed, and that what is still held is exactly what the static variables
  refer to.  Every operation keeps it, for every behaviour of libgpiod.
\<close>

section \<open>The kinds of handles\<close>

definition req_acq :: sel where
  "req_acq ev = (case ev of (Gpiod (ChipRequestLines _ _ _), r) \<Rightarrow> acq_if r | _ \<Rightarrow> None)"

definition req_rel :: sel where
  "req_rel ev = (case ev of (Gpiod (RequestRelease h), _) \<Rightarrow> Some h | _ \<Rightarrow> None)"

definition req_use :: sel where
  "req_use ev = (case ev of (Gpiod (RequestGetValue h _), _) \<Rightarrow> Some h
     | (Gpiod (RequestSetValue h _ _), _) \<Rightarrow> Some h | _ \<Rightarrow> None)"

definition set_acq :: sel where
  "set_acq ev = (case ev of (Gpiod LineSettingsNew, r) \<Rightarrow> acq_if r | _ \<Rightarrow> None)"

definition set_rel :: sel where
  "set_rel ev = (case ev of (Gpiod (LineSettingsFree h), _) \<Rightarrow> Some h | _ \<Rightarrow> None)"

definition set_use :: sel where
  "set_use ev = (case ev of (Gpiod (SettingsSetDirection h _), _) \<Rightarrow> Some h
     | (Gpiod (SettingsSetBias h _), _) \<Rightarrow> Some h
     | (Gpiod (SettingsSetOutputValue h _), _) \<Rightarrow> Some h
     | (Gpiod (LineConfigAddLineSettings _ _ h), _) \<Rightarrow> Some h | _ \<Rightarrow> None)"

definition lcf_acq :: sel where
  "lcf_acq ev = (case ev of (Gpiod LineConfigNew, r) \<Rightarrow> acq_if r | _ \<Rightarrow> None)"

definition lcf_rel :: sel where
  "lcf_rel ev = (case ev of (Gpiod (LineConfigFree h), _) \<Rightarrow> Some h | _ \<Rightarrow> None)"

definition lcf_use :: sel where
  "lcf_use ev = (case ev of (Gpiod (LineConfigAddLineSettings h _ _), _) \<Rightarrow> Some h
     | (Gpiod (ChipRequestLines _ _ h), _) \<Rightarrow> Some h | _ \<Rightarrow> None)"

definition rcf_acq :: sel where
  "rcf_acq ev = (case ev of (Gpiod RequestConfigNew, r) \<Rightarrow> acq_if r | _ \<Rightarrow> None)"

definition rcf_rel :: sel where
  "rcf_rel ev = (case ev of (Gpiod (RequestConfigFree h), _) \<Rightarrow> Some h | _ \<Rightarrow> None)"

definition rcf_use :: sel where
  "rcf_use ev = (case ev of (Gpiod (RequestConfigSetConsumer h _), _) \<Rightarrow> Some h
     | (Gpiod (ChipRequestLines _ h _), _) \<Rightarrow> Some h | _ \<Rightarrow> None)"

definition chip_acq :: sel where
  "chip_acq ev = (case ev of (Gpiod (ChipOpen _), r) \<Rightarrow> acq_if r | _ \<Rightarrow> None)"

definition chip_rel :: sel where
  "chip_rel ev = (case ev of (Gpiod (ChipClose h), _) \<Rightarrow> Some h | _ \<Rightarrow> None)"

definition chip_use :: sel where
  "chip_use ev = (case ev of (Gpiod (ChipGetInfo h), _) \<Rightarrow> Some h
     | (Gpiod (ChipRequestLines h _ _), _) \<Rightarrow> Some h | _ \<Rightarrow> None)"

definition info_acq :: sel where
  "info_acq ev = (case ev of (Gpiod (ChipGetInfo _), r) \<Rightarrow> acq_if r | _ \<Rightarrow> None)"

definition info_rel :: sel where
  "info_rel ev = (case ev of (Gpiod (ChipInfoFree h), _) \<Rightarrow> Some h | _ \<Rightarrow> None)"

definition info_use :: sel where
  "info_use ev = (case ev of (Gpiod (ChipInfoGetNumLines h), _) \<Rightarrow> Some h | _ \<Rightarrow> None)"

lemmas gpiod_sel_defs = req_acq_def req_rel_def req_use_def set_acq_def set_rel_def set_use_def
  lcf_acq_def lcf_rel_def lcf_use_def rcf_acq_def rcf_rel_def rcf_use_def chip_acq_def
  chip_rel_def chip_use_def info_acq_def info_rel_def info_use_def acq_if_def

interpretation req: handle_protocol req_acq req_rel req_use
  by unfold_locales
    (auto simp: gpiod_sel_defs split: prod.splits call.splits gpiod_call.splits if_splits)

interpretation sett: handle_protocol set_acq set_rel set_use
  by unfold_locales
    (auto simp: gpiod_sel_defs split: prod.splits call.splits gpiod_call.splits if_splits)

interpretation lcf: handle_protocol lcf_acq lcf_rel lcf_use
  by unfold_locales
    (auto simp: gpiod_sel_defs split: prod.splits call.splits gpiod_call.splits if_splits)

interpretation rcf: handle_protocol rcf_acq rcf_rel rcf_use
  by unfold_locales
    (auto simp: gpiod_sel_defs split: prod.splits call.splits gpiod_call.splits if_splits)

interpretation chip: handle_protocol chip_acq chip_rel chip_use
  by unfold_locales
    (auto simp: gpiod_sel_defs split: prod.splits call.splits gpiod_call.splits if_splits)

interpretation info: handle_protocol info_acq info_rel info_use
  by unfold_locales
    (auto simp: gpiod_sel_defs split: prod.splits call.splits gpiod_call.splits if_splits)

section \<open>The trace as a whole\<close>

definition gpiod_legal :: "event list \<Rightarrow> bool" where
  "gpiod_legal tr \<longleftrightarrow> legal req_acq req_rel req_use tr \<and> legal set_acq set_rel set_use tr \<and>
     legal lcf_acq lcf_rel lcf_use tr \<and> legal rcf_acq rcf_rel rcf_use tr \<and>
     legal chip_acq chip_rel chip_use tr \<and> legal info_acq info_rel info_use tr"

text \<open>Line requests that are held, and open chips.\<close>

abbreviation req_bal :: "event list \<Rightarrow> int \<Rightarrow> int" where
  "req_bal \<equiv> balance req_acq req_rel"

abbreviation chip_bal :: "event list \<Rightarrow> int \<Rightarrow> int" where
  "chip_bal \<equiv> balance chip_acq chip_rel"

text \<open>The four kinds of temporary objects: how many of each are not freed.\<close>

definition tmp_bal :: "event list \<Rightarrow> int \<Rightarrow> int \<times> int \<times> int \<times> int" where
  "tmp_bal tr h = (balance set_acq set_rel tr h, balance lcf_acq lcf_rel tr h,
     balance rcf_acq rcf_rel tr h, balance info_acq info_rel tr h)"

definition held :: "'z gpio_st_scheme \<Rightarrow> int \<Rightarrow> int" where
  "held s h = (if h = 0 then 0 else int (count_list (map request (pin_ctx_mem s)) h))"

definition gpio_inv :: "'z gpio_st_scheme \<Rightarrow> bool" where
  "gpio_inv s \<longleftrightarrow>
     gpiod_legal (trace s) \<and> tmp_bal (trace s) = (\<lambda>_. (0, 0, 0, 0)) \<and>
     req_bal (trace s) = held s \<and>
     chip_bal (trace s) = (\<lambda>h. of_bool (h \<noteq> 0 \<and> h = g_gpio_chip s)) \<and>
     length (pin_ctx_mem s) = g_num_lines s \<and>
     (if g_library_opened s = 0
      then g_gpio_chip s = 0 \<and> g_pin_ctxs s = 0 \<and> pin_ctx_mem s = []
      else g_gpio_chip s \<noteq> 0 \<and> g_pin_ctxs s \<noteq> 0 \<and> pin_ctx_mem s \<noteq> [] \<and>
        (\<forall>c \<in> set (pin_ctx_mem s). direction c \<in> {0, 1, 2, 3}))"

text \<open>What temporaries and requests look like in the middle of an operation.\<close>

definition trace_ok :: "'z gpio_st_scheme \<Rightarrow> event list \<Rightarrow> bool" where
  "trace_ok s tr \<longleftrightarrow> gpiod_legal tr \<and> tmp_bal tr = tmp_bal (trace s) \<and>
     chip_bal tr = chip_bal (trace s)"

section \<open>Building a line request\<close>

lemma wp_errno_or_io [wp_intro]:
  "(\<And>er. er \<noteq> 0 \<Longrightarrow> Q er s) \<Longrightarrow> wp get_errno_or_io Q s"
  by (simp add: get_errno_or_io_def)

lemmas gpiod_bal = balance.simps legal.simps gpiod_legal_def tmp_bal_def gpiod_sel_defs fun_eq_iff

lemma wp_set_or_fail:
  assumes "\<And>r er. er \<noteq> 0 \<Longrightarrow> Q er (s\<lparr>trace := (Gpiod c, r) # trace s, errno := rerr r\<rparr>)"
    and "\<And>r. wp next Q (s\<lparr>trace := (Gpiod c, r) # trace s, errno := rerr r\<rparr>)"
  shows "wp (set_or_fail e c next) Q s"
  unfolding set_or_fail_def by (auto intro!: wp_intro assms)

lemma wp_configure_line_settings:
  assumes "gpiod_legal (trace s)" and "0 < balance set_acq set_rel (trace s) settings"
    and post: "\<And>ret tr er. gpiod_legal tr \<Longrightarrow> tmp_bal tr = tmp_bal (trace s) \<Longrightarrow>
      req_bal tr = req_bal (trace s) \<Longrightarrow> chip_bal tr = chip_bal (trace s) \<Longrightarrow>
      (ret = 0 \<Longrightarrow> dir \<in> {0, 1, 2, 3}) \<Longrightarrow> Q ret (s\<lparr>trace := tr, errno := er\<rparr>)"
  shows "wp (configure_line_settings e settings dir iv) Q s"
proof -
  have same: "Q EINVAL s"
    using post [of "trace s" EINVAL "errno s"] assms(1) by simp
  show ?thesis
    unfolding configure_line_settings_def
    using assms(1,2) same
    by (auto intro!: wp_if wp_set_or_fail post simp: gpiod_bal)
qed

lemma wp_build_line_request:
  assumes "gpiod_legal (trace s)" and "0 < chip_bal (trace s) (g_gpio_chip s)"
    and post: "\<And>ret rq tr er. gpiod_legal tr \<Longrightarrow> tmp_bal tr = tmp_bal (trace s) \<Longrightarrow>
      chip_bal tr = chip_bal (trace s) \<Longrightarrow> (ret = 0) = (rq \<noteq> 0) \<Longrightarrow>
      (ret = 0 \<Longrightarrow> dir \<in> {0, 1, 2, 3}) \<Longrightarrow>
      req_bal tr = (\<lambda>h. req_bal (trace s) h + of_bool (rq \<noteq> 0 \<and> h = rq)) \<Longrightarrow>
      Q (ret, rq) (s\<lparr>trace := tr, errno := er\<rparr>)"
  shows "wp (build_line_request e pin dir iv) Q s"
  unfolding build_line_request_def build_line_request_body_def
  using assms(1,2)
  by (auto intro!: wp_intro wp_configure_line_settings post simp: gpiod_bal
    sett.balance_nonneg lcf.balance_nonneg rcf.balance_nonneg)

section \<open>One pin\<close>

lemma count_list_update:
  "i < length xs \<Longrightarrow> int (count_list (xs[i := y]) h) =
     int (count_list xs h) - of_bool (xs ! i = h) + of_bool (y = h)"
proof (induction xs arbitrary: i)
  case Nil
  then show ?case by simp
next
  case (Cons x xs)
  then show ?case by (cases i) auto
qed

text \<open>A pin context is replaced: the requests that are held change by the old and the new one.\<close>

lemma held_update:
  "i < length (pin_ctx_mem s) \<Longrightarrow>
   held (s\<lparr>pin_ctx_mem := (pin_ctx_mem s)[i := c]\<rparr>) h = held s h
     - of_bool (h \<noteq> 0 \<and> request (pin_ctx_mem s ! i) = h) + of_bool (h \<noteq> 0 \<and> request c = h)"
  by (simp add: held_def map_update count_list_update)

lemma held_frame [simp]:
  "held (s\<lparr>trace := tr\<rparr>) = held s" "held (s\<lparr>errno := er\<rparr>) = held s"
  by (simp_all add: held_def fun_eq_iff)

lemma wp_get_pin_ctx:
  "g_pin_ctxs s \<noteq> 0 \<Longrightarrow> i < length (pin_ctx_mem s) \<Longrightarrow> Q (pin_ctx_mem s ! i) s \<Longrightarrow>
   wp (get_pin_ctx i) Q s"
  by (simp add: get_pin_ctx_def require_def)

lemma wp_set_pin_ctx [simp]:
  "wp (set_pin_ctx i c) Q s = Q () (s\<lparr>pin_ctx_mem := (pin_ctx_mem s)[i := c]\<rparr>)"
  by (simp add: set_pin_ctx_def)

text \<open>The library is open and \<open>i\<close> is one of its lines.\<close>

definition open_line :: "'z gpio_st_scheme \<Rightarrow> nat \<Rightarrow> bool" where
  "open_line s i \<longleftrightarrow> gpio_inv s \<and> g_library_opened s \<noteq> 0 \<and> i < length (pin_ctx_mem s)"

text \<open>Replacing the context of line \<open>i\<close> together with the calls that justify it.\<close>

lemma open_line_update:
  assumes "open_line s i" and "gpiod_legal tr" and "tmp_bal tr = tmp_bal (trace s)"
    and "chip_bal tr = chip_bal (trace s)" and "direction c \<in> {0, 1, 2, 3}"
    and "\<And>h. req_bal tr h = req_bal (trace s) h
      - of_bool (h \<noteq> 0 \<and> request (pin_ctx_mem s ! i) = h) + of_bool (h \<noteq> 0 \<and> request c = h)"
  shows "open_line (s\<lparr>trace := tr, errno := er, pin_ctx_mem := (pin_ctx_mem s)[i := c]\<rparr>) i"
proof -
  from assms(1) have i: "i < length (pin_ctx_mem s)" by (simp add: open_line_def)
  have d: "direction x \<in> {0, 1, 2, 3}" if "x \<in> set ((pin_ctx_mem s)[i := c])" for x
  proof -
    from that have "x \<in> insert c (set (pin_ctx_mem s))" using set_update_subset_insert by fast
    then show ?thesis using assms(1,5) by (auto simp: open_line_def gpio_inv_def)
  qed
  have "req_bal tr = held (s\<lparr>pin_ctx_mem := (pin_ctx_mem s)[i := c]\<rparr>)"
    using assms(1) i by (auto simp: assms(6) held_update open_line_def gpio_inv_def)
  then have "req_bal tr =
      held (s\<lparr>trace := tr, errno := er, pin_ctx_mem := (pin_ctx_mem s)[i := c]\<rparr>)"
    by (simp add: held_def fun_eq_iff)
  then show ?thesis
    using assms(1-4) d unfolding open_line_def gpio_inv_def by auto
qed

lemma open_lineD:
  assumes "open_line s i"
  shows "i < length (pin_ctx_mem s)" and "g_pin_ctxs s \<noteq> 0" and "gpiod_legal (trace s)"
    and "req_bal (trace s) = held s" and "direction (pin_ctx_mem s ! i) \<in> {0, 1, 2, 3}"
    and "g_gpio_chip s \<noteq> 0" and "0 < chip_bal (trace s) (g_gpio_chip s)"
    and "tmp_bal (trace s) = (\<lambda>_. (0, 0, 0, 0))"
proof -
  from assms have inv: "gpio_inv s" and i: "i < length (pin_ctx_mem s)" and
    o: "g_library_opened s \<noteq> 0" by (simp_all add: open_line_def)
  from inv o have "\<forall>c \<in> set (pin_ctx_mem s). direction c \<in> {0, 1, 2, 3}"
    by (simp add: gpio_inv_def)
  with i show "direction (pin_ctx_mem s ! i) \<in> {0, 1, 2, 3}" using nth_mem by blast
  from inv o i show "i < length (pin_ctx_mem s)" and "g_pin_ctxs s \<noteq> 0"
    and "gpiod_legal (trace s)" and "req_bal (trace s) = held s" and "g_gpio_chip s \<noteq> 0"
    and "0 < chip_bal (trace s) (g_gpio_chip s)" and "tmp_bal (trace s) = (\<lambda>_. (0, 0, 0, 0))"
    by (simp_all add: gpio_inv_def)
qed

lemma wp_release_pin_request:
  assumes ol: "open_line s i"
    and post: "\<And>tr er. open_line (s\<lparr>trace := tr, errno := er, pin_ctx_mem :=
        (pin_ctx_mem s)[i := (pin_ctx_mem s ! i)\<lparr>request := 0\<rparr>]\<rparr>) i \<Longrightarrow>
      Q () (s\<lparr>trace := tr, errno := er,
        pin_ctx_mem := (pin_ctx_mem s)[i := (pin_ctx_mem s ! i)\<lparr>request := 0\<rparr>]\<rparr>)"
  shows "wp (release_pin_request e i) Q s"
proof -
  let ?c = "pin_ctx_mem s ! i"
  note i = open_lineD [OF ol]
  have released: "Q () (s\<lparr>trace := (Gpiod (RequestRelease (request ?c)), r) # trace s,
      errno := er, pin_ctx_mem := (pin_ctx_mem s)[i := ?c\<lparr>request := 0\<rparr>]\<rparr>)"
    if "request ?c \<noteq> 0" for r er
  proof (rule post, rule open_line_update [OF ol])
    have "0 < count_list (map request (pin_ctx_mem s)) (request ?c)"
      using i(1) by (auto simp: count_list_0_iff zero_less_iff_neq_zero)
    then have "0 < req_bal (trace s) (request ?c)"
      using i(4) that by (simp add: held_def)
    then show "gpiod_legal ((Gpiod (RequestRelease (request ?c)), r) # trace s)"
      using i(3) by (simp add: gpiod_bal)
  qed (use that i(5) in \<open>auto simp: tmp_bal_def balance.simps gpiod_sel_defs\<close>)
  have same: "Q () s" if "request ?c = 0"
  proof -
    from that have "?c\<lparr>request := 0\<rparr> = ?c" by simp
    then have "(pin_ctx_mem s)[i := ?c\<lparr>request := 0\<rparr>] = pin_ctx_mem s"
      by (simp add: list_update_id)
    with post [where tr = "trace s" and er = "errno s"] ol show ?thesis by simp
  qed
  show ?thesis
    unfolding release_pin_request_def
    by (auto intro!: wp_get_pin_ctx wp_intro simp: i released same)
qed

text \<open>
  The result of a change of direction: on success the line is requested with the new direction;
  on failure the direction in force is the old one, and the line may have lost its request.
\<close>

definition line_set :: "'z gpio_st_scheme \<Rightarrow> nat \<Rightarrow> int \<Rightarrow> int \<Rightarrow> 'z gpio_st_scheme \<Rightarrow> bool" where
  "line_set s i dir ret t \<longleftrightarrow>
     t\<lparr>trace := trace s, errno := errno s, pin_ctx_mem := pin_ctx_mem s\<rparr> = s \<and>
     pin_ctx_mem t = (pin_ctx_mem s)[i := pin_ctx_mem t ! i] \<and>
     (if ret = 0 then direction (pin_ctx_mem t ! i) = dir \<and> request (pin_ctx_mem t ! i) \<noteq> 0
      else direction (pin_ctx_mem t ! i) = direction (pin_ctx_mem s ! i))"

lemma open_line_calls:
  assumes "open_line s i" and "gpiod_legal tr" and "tmp_bal tr = tmp_bal (trace s)"
    and "chip_bal tr = chip_bal (trace s)" and "req_bal tr = req_bal (trace s)"
  shows "open_line (s\<lparr>trace := tr, errno := er\<rparr>) i"
proof -
  have "held (s\<lparr>trace := tr, errno := er\<rparr>) = held s" by simp
  with assms show ?thesis unfolding open_line_def gpio_inv_def by auto
qed

text \<open>A request for line \<open>i\<close>, whose context holds none: it fails, or it can be stored.\<close>

lemma wp_build_for_line:
  assumes ol: "open_line s i" and free: "request (pin_ctx_mem s ! i) = 0"
    and fail: "\<And>(ret::int) tr er. ret \<noteq> 0 \<Longrightarrow> open_line (s\<lparr>trace := tr, errno := er\<rparr>) i \<Longrightarrow>
      Q (ret, 0) (s\<lparr>trace := tr, errno := er\<rparr>)"
    and stored: "\<And>rq tr er. rq \<noteq> 0 \<Longrightarrow> dir \<in> {0, 1, 2, 3} \<Longrightarrow>
      open_line (s\<lparr>trace := tr, errno := er,
        pin_ctx_mem := (pin_ctx_mem s)[i := \<lparr>request = rq, direction = dir\<rparr>]\<rparr>) i \<Longrightarrow>
      Q (0, rq) (s\<lparr>trace := tr, errno := er\<rparr>)"
  shows "wp (build_line_request e pin dir iv) Q s"
proof (rule wp_build_line_request)
  fix ret rq :: int and tr er
  assume tr: "gpiod_legal tr" "tmp_bal tr = tmp_bal (trace s)" "chip_bal tr = chip_bal (trace s)"
    and ret: "(ret = 0) = (rq \<noteq> 0)" "ret = 0 \<Longrightarrow> dir \<in> {0, 1, 2, 3}"
    and rb: "req_bal tr = (\<lambda>h. req_bal (trace s) h + of_bool (rq \<noteq> 0 \<and> h = rq))"
  show "Q (ret, rq) (s\<lparr>trace := tr, errno := er\<rparr>)"
  proof (cases "rq = 0")
    case True
    with ret(1) rb show ?thesis
      using fail [of ret] open_line_calls [OF ol tr] by (simp add: fun_eq_iff)
  next
    case False
    with ret have d: "dir \<in> {0, 1, 2, 3}" and "ret = 0" by simp_all
    have "open_line (s\<lparr>trace := tr, errno := er,
        pin_ctx_mem := (pin_ctx_mem s)[i := \<lparr>request = rq, direction = dir\<rparr>]\<rparr>) i"
      by (rule open_line_update [OF ol tr]) (use d free False rb in auto)
    with stored [OF False d] \<open>ret = 0\<close> show ?thesis by simp
  qed
qed (use open_lineD [OF ol] in simp_all)

lemma wp_gpio_direction_request:
  assumes ol: "open_line s i"
    and post: "\<And>ret t. open_line t i \<Longrightarrow> line_set s i dir ret t \<Longrightarrow>
      (ret = 0 \<Longrightarrow> dir \<in> {0, 1, 2, 3}) \<Longrightarrow> Q ret t"
  shows "wp (gpio_direction_request e i dir (direction (pin_ctx_mem s ! i)) old_value) Q s"
  unfolding gpio_direction_request_def
  by (auto intro!: wp_release_pin_request [OF ol] wp_build_for_line [where i = i] wp_intro
    post simp: line_set_def open_lineD(1) [OF ol])

section \<open>The operations\<close>

text \<open>Under the invariant, the two checks pass exactly for a line of the open library.\<close>

lemma wp_validate:
  assumes inv: "gpio_inv s"
    and r: "\<And>x. f x = return (g x)"
    and closed: "g_library_opened s = 0 \<Longrightarrow> Q (g EBADF) s"
    and no_line: "g_library_opened s \<noteq> 0 \<Longrightarrow> \<not> (0 \<le> pin \<and> pin < int (g_num_lines s)) \<Longrightarrow>
      Q (g EINVAL) s"
    and line: "0 \<le> pin \<Longrightarrow> pin < int (g_num_lines s) \<Longrightarrow> open_line s (nat pin) \<Longrightarrow> wp m Q s"
  shows "wp (do { ret \<leftarrow> validate_library_opened; if ret \<noteq> 0 then f ret else do {
      ret \<leftarrow> validate_pin pin; if ret \<noteq> 0 then f ret else m } }) Q s"
proof (cases "g_library_opened s = 0")
  case True
  then show ?thesis using closed by (simp add: validate_library_opened_def r)
next
  case False
  with inv have ok: "g_gpio_chip s \<noteq> 0" "g_pin_ctxs s \<noteq> 0" "length (pin_ctx_mem s) = g_num_lines s"
    by (auto simp: gpio_inv_def)
  show ?thesis
  proof (cases "0 \<le> pin \<and> pin < int (g_num_lines s)")
    case True
    then have "open_line s (nat pin)"
      using inv False ok(3) by (simp add: open_line_def nat_less_iff)
    with True have "wp m Q s" by (simp add: line)
    moreover from True have "\<not> g_num_lines s \<le> nat pin" by linarith
    ultimately show ?thesis using True False ok
      by (simp add: validate_library_opened_def validate_pin_def)
  next
    case no: False
    with no_line [OF False] False ok r show ?thesis
      by (auto simp: validate_library_opened_def validate_pin_def)
  qed
qed

lemma open_line_held:
  assumes "open_line s i" and "request (pin_ctx_mem s ! i) \<noteq> 0"
  shows "0 < req_bal (trace s) (request (pin_ctx_mem s ! i))"
proof -
  from open_lineD(1) [OF assms(1)] have "request (pin_ctx_mem s ! i) \<in> set (map request (pin_ctx_mem s))"
    by simp
  then have "0 < count_list (map request (pin_ctx_mem s)) (request (pin_ctx_mem s ! i))"
    by (metis count_list_0_iff gr0I)
  with assms open_lineD(4) [OF assms(1)] show ?thesis by (simp add: held_def)
qed

text \<open>A call on the request of a line that has one.\<close>

lemma open_line_use:
  assumes ol: "open_line s i" and "request (pin_ctx_mem s ! i) \<noteq> 0"
    and "c = RequestGetValue (request (pin_ctx_mem s ! i)) n \<or>
         c = RequestSetValue (request (pin_ctx_mem s ! i)) m v"
  shows "open_line (s\<lparr>trace := (Gpiod c, r) # trace s, errno := er\<rparr>) i"
  by (rule open_line_calls [OF ol])
    (use assms open_line_held [OF assms(1,2)] open_lineD(3) [OF ol] in \<open>auto simp: gpiod_bal\<close>)

lemmas open_line_get = open_line_use [OF _ _ disjI1 [OF refl]]

lemmas open_line_put = open_line_use [OF _ _ disjI2 [OF refl]]

lemma open_line_inv: "open_line s i \<Longrightarrow> gpio_inv s"
  by (simp add: open_line_def)

text \<open>What \<open>gpio_direction\<close> may change: calls, the error number, the context of the pin.\<close>

definition direction_post :: "'z gpio_st_scheme \<Rightarrow> int \<Rightarrow> int \<Rightarrow> int \<Rightarrow> 'z gpio_st_scheme \<Rightarrow> bool" where
  "direction_post s pin dir ret t \<longleftrightarrow> gpio_inv t \<and>
     (if 0 \<le> pin \<and> pin < int (g_num_lines s) \<and> g_library_opened s \<noteq> 0
      then line_set s (nat pin) dir ret t \<and> (ret = 0 \<longrightarrow> dir \<in> {0, 1, 2, 3})
      else ret \<noteq> 0 \<and> t = s)"

lemma line_set_calls:
  assumes "line_set (s\<lparr>trace := tr, errno := er\<rparr>) i dir ret t"
  shows "line_set s i dir ret t"
proof -
  from assms have "t\<lparr>trace := tr, errno := er, pin_ctx_mem := pin_ctx_mem s\<rparr> =
      s\<lparr>trace := tr, errno := er\<rparr>" by (simp add: line_set_def)
  then have "(t\<lparr>trace := tr, errno := er, pin_ctx_mem := pin_ctx_mem s\<rparr>)
        \<lparr>trace := trace s, errno := errno s, pin_ctx_mem := pin_ctx_mem s\<rparr> =
      (s\<lparr>trace := tr, errno := er\<rparr>)
        \<lparr>trace := trace s, errno := errno s, pin_ctx_mem := pin_ctx_mem s\<rparr>" by (rule arg_cong)
  then have "t\<lparr>trace := trace s, errno := errno s, pin_ctx_mem := pin_ctx_mem s\<rparr> = s" by simp
  with assms show ?thesis by (simp add: line_set_def)
qed

lemma wp_gpio_direction:
  assumes inv: "gpio_inv s" and post: "\<And>ret t. direction_post s pin dir ret t \<Longrightarrow> Q ret t"
  shows "wp (gpio_direction e pin dir) Q s"
  unfolding gpio_direction_def
proof (rule wp_validate [OF inv, where g = "\<lambda>x. x"])
  let ?c = "pin_ctx_mem s ! nat pin"
  assume pin: "0 \<le> pin" "pin < int (g_num_lines s)" and ol: "open_line s (nat pin)"
  note d = open_lineD [OF ol]
  have o: "g_library_opened s \<noteq> 0" using ol by (simp add: open_line_def)
  have called: "wp (gpio_direction_request e (nat pin) dir (direction ?c) v) Q
      (s\<lparr>trace := tr, errno := er\<rparr>)"
    if ol': "open_line (s\<lparr>trace := tr, errno := er\<rparr>) (nat pin)" for v tr er
  proof -
    have "wp (gpio_direction_request e (nat pin) dir
        (direction (pin_ctx_mem (s\<lparr>trace := tr, errno := er\<rparr>) ! nat pin)) v) Q
        (s\<lparr>trace := tr, errno := er\<rparr>)"
      by (rule wp_gpio_direction_request [OF ol'], rule post)
        (use pin o in \<open>auto simp: direction_post_def dest: line_set_calls open_line_inv\<close>)
    then show ?thesis by simp
  qed
  have same: "wp (gpio_direction_request e (nat pin) dir (direction ?c) v) Q s" for v
    using called [where tr = "trace s" and er = "errno s"] ol by simp
  show "wp (do {
      pin_ctx \<leftarrow> get_pin_ctx (nat pin);
      let old_direction = direction pin_ctx;
      if request pin_ctx \<noteq> 0 \<and> old_direction = PIN_OUT_DIR then do {
        r \<leftarrow> sys e (Gpiod (RequestGetValue (request pin_ctx) (nat pin)));
        if line_value_of r = LINE_VALUE_ERROR then get_errno_or_io
        else gpio_direction_request e (nat pin) dir old_direction
          (if line_value_of r = LINE_VALUE_ACTIVE then PIN_HIGH_VAL else PIN_LOW_VAL)
      } else gpio_direction_request e (nat pin) dir old_direction PIN_LOW_VAL }) Q s"
    using d(1,2) same
    by (auto intro!: wp_get_pin_ctx wp_intro called open_line_get [OF ol] post simp: Let_def
      direction_post_def pin o line_set_def open_line_inv [OF open_line_get [OF ol]])
qed (use inv in \<open>auto intro!: post simp: direction_post_def\<close>)

text \<open>Only calls were made and the error number changed.\<close>

definition only_calls :: "'z gpio_st_scheme \<Rightarrow> 'z gpio_st_scheme \<Rightarrow> bool" where
  "only_calls s t \<longleftrightarrow> t\<lparr>trace := trace s, errno := errno s\<rparr> = s"

lemma only_calls_refl [simp]: "only_calls s s"
  by (simp add: only_calls_def)

lemma only_calls_call [simp]: "only_calls s (s\<lparr>trace := tr, errno := er\<rparr>)"
  by (simp add: only_calls_def)

lemma wp_gpio_read:
  assumes inv: "gpio_inv s"
    and post: "\<And>ret v t. gpio_inv t \<Longrightarrow> only_calls s t \<Longrightarrow>
      (if ret = 0 then v = Some 0 \<or> v = Some 1 else v = None) \<Longrightarrow> Q (ret, v) t"
  shows "wp (gpio_read e pin null) Q s"
proof -
  have "wp (gpio_read e pin False) Q s"
    unfolding gpio_read_def if_False
  proof (rule wp_validate [OF inv, where g = "\<lambda>x. (x, None)"])
    assume ol: "open_line s (nat pin)"
    note d = open_lineD [OF ol]
    show "wp (do {
        pin_ctx \<leftarrow> get_pin_ctx (nat pin);
        if request pin_ctx = 0 then return (EINVAL, None) else do {
          r \<leftarrow> sys e (Gpiod (RequestGetValue (request pin_ctx) (nat pin)));
          if line_value_of r = LINE_VALUE_ERROR
          then do { er \<leftarrow> get_errno_or_io; return (er, None) }
          else return (0, Some (if line_value_of r = LINE_VALUE_ACTIVE
             then PIN_HIGH_VAL else PIN_LOW_VAL)) } }) Q s"
      by (auto intro!: wp_get_pin_ctx wp_intro post open_line_inv [OF open_line_get [OF ol]]
        simp: d(1,2) inv)
  qed (use inv in \<open>auto intro!: post\<close>)
  then show ?thesis by (cases null) (auto simp: gpio_read_def inv intro!: post)
qed

text \<open>A successful write has just set the value of the line's request.\<close>

definition wrote :: "int \<Rightarrow> int \<Rightarrow> 'z gpio_st_scheme \<Rightarrow> bool" where
  "wrote pin v t \<longleftrightarrow> (\<exists>r tr. rv r = 0 \<and> trace t =
     (Gpiod (RequestSetValue (request (pin_ctx_mem t ! nat pin)) (nat pin)
       (if v = 1 then LINE_VALUE_ACTIVE else LINE_VALUE_INACTIVE)), r) # tr)"

lemma wp_gpio_write:
  assumes inv: "gpio_inv s"
    and post: "\<And>ret t. gpio_inv t \<Longrightarrow> only_calls s t \<Longrightarrow>
      (ret = 0 \<Longrightarrow> wrote pin v t \<and> open_line t (nat pin) \<and> 0 \<le> pin \<and> (v = 0 \<or> v = 1) \<and>
        direction (pin_ctx_mem t ! nat pin) = PIN_OUT_DIR \<and> request (pin_ctx_mem t ! nat pin) \<noteq> 0) \<Longrightarrow>
      Q ret t"
  shows "wp (gpio_write e pin v) Q s"
proof (cases "v = PIN_LOW_VAL \<or> v = PIN_HIGH_VAL")
  case False
  then show ?thesis by (auto simp: gpio_write_def inv intro!: post)
next
  case True
  have "wp (do { ret \<leftarrow> validate_library_opened; if ret \<noteq> 0 then return ret else do {
        ret \<leftarrow> validate_pin pin; if ret \<noteq> 0 then return ret else do {
          pin_ctx \<leftarrow> get_pin_ctx (nat pin);
          if request pin_ctx = 0 then return EINVAL
          else if direction pin_ctx \<noteq> PIN_OUT_DIR then return EPERM
          else do {
            ret \<leftarrow> sysv e (Gpiod (RequestSetValue (request pin_ctx) (nat pin)
              (if v = PIN_HIGH_VAL then LINE_VALUE_ACTIVE else LINE_VALUE_INACTIVE)));
            if ret \<noteq> 0 then get_errno_or_io else return 0 } } } }) Q s"
  proof (rule wp_validate [OF inv, where g = "\<lambda>x. x"])
    assume pin: "0 \<le> pin" and ol: "open_line s (nat pin)"
    note d = open_lineD [OF ol]
    show "wp (do {
          pin_ctx \<leftarrow> get_pin_ctx (nat pin);
          if request pin_ctx = 0 then return EINVAL
          else if direction pin_ctx \<noteq> PIN_OUT_DIR then return EPERM
          else do {
            ret \<leftarrow> sysv e (Gpiod (RequestSetValue (request pin_ctx) (nat pin)
              (if v = PIN_HIGH_VAL then LINE_VALUE_ACTIVE else LINE_VALUE_INACTIVE)));
            if ret \<noteq> 0 then get_errno_or_io else return 0 } }) Q s"
      using True
      by (auto intro!: wp_get_pin_ctx wp_intro post open_line_put [OF ol]
        open_line_inv [OF open_line_put [OF ol]] simp: d(1,2) inv pin wrote_def)
  qed (use inv in \<open>auto intro!: post\<close>)
  with True show ?thesis by (auto simp: gpio_write_def)
qed

section \<open>Opening and closing\<close>

lemma count_list_replicate: "count_list (replicate n x) h = (if x = h then n else 0)"
  by (induction n) auto

lemma wp_open_gpios:
  assumes inv: "gpio_inv s"
    and post: "\<And>ret t. gpio_inv t \<Longrightarrow> (ret = 0) = (g_library_opened t \<noteq> 0) \<Longrightarrow>
      (g_library_opened s \<noteq> 0 \<Longrightarrow> t = s) \<Longrightarrow>
      (g_library_opened s = 0 \<Longrightarrow> \<forall>c \<in> set (pin_ctx_mem t). c = \<lparr>request = 0, direction = 0\<rparr>) \<Longrightarrow>
      ub t = ub s \<Longrightarrow> Q ret t"
  shows "wp (open_gpios e) Q s"
proof (cases "g_library_opened s = 0")
  case False
  then show ?thesis using inv by (auto simp: open_gpios_def intro!: post)
next
  case True
  with inv have b: "gpiod_legal (trace s)" "tmp_bal (trace s) = (\<lambda>_. (0, 0, 0, 0))"
    "req_bal (trace s) = (\<lambda>_. 0)" "chip_bal (trace s) = (\<lambda>_. 0)" "pin_ctx_mem s = []"
    "g_num_lines s = 0" "g_pin_ctxs s = 0" "g_gpio_chip s = 0"
    by (auto simp: gpio_inv_def held_def fun_eq_iff)
  show ?thesis
    unfolding open_gpios_def close_chip_def
    using True b
    by (auto intro!: wp_intro post simp: gpio_inv_def gpiod_bal held_def count_list_replicate
      split: if_splits)
qed

text \<open>The contexts of the lines in \<open>is\<close> hold no request.\<close>

definition lines_free :: "'z gpio_st_scheme \<Rightarrow> nat list \<Rightarrow> bool" where
  "lines_free s is \<longleftrightarrow> (\<forall>j \<in> set is. request (pin_ctx_mem s ! j) = 0)"

lemma wp_release_all:
  assumes inv: "gpio_inv s" and o: "g_library_opened s \<noteq> 0"
    and post: "\<And>t. gpio_inv t \<Longrightarrow> g_library_opened t \<noteq> 0 \<Longrightarrow> held t = (\<lambda>_. 0) \<Longrightarrow>
      ub t = ub s \<Longrightarrow> Q () t"
  shows "wp (release_all_pin_requests e) Q s"
proof -
  from inv o have p: "g_pin_ctxs s \<noteq> 0" by (simp add: gpio_inv_def)
  have "wp (forM [0..<g_num_lines s] (release_pin_request e)) Q s"
  proof (rule wp_forM [where I = "\<lambda>is t. gpio_inv t \<and> g_library_opened t \<noteq> 0 \<and>
      g_num_lines t = g_num_lines s \<and> ub t = ub s \<and> lines_free t is"])
    show "gpio_inv s \<and> g_library_opened s \<noteq> 0 \<and> g_num_lines s = g_num_lines s \<and> ub s = ub s \<and>
      lines_free s []"
      using inv o by (simp add: lines_free_def)
  next
    fix xs x ys and t :: "'a gpio_st_scheme"
    assume all: "[0..<g_num_lines s] = xs @ x # ys" and
      t: "gpio_inv t \<and> g_library_opened t \<noteq> 0 \<and> g_num_lines t = g_num_lines s \<and>
      ub t = ub s \<and> lines_free t xs"
    have "x \<in> set [0..<g_num_lines s]" unfolding all by simp
    with t have ol: "open_line t x" by (auto simp: open_line_def gpio_inv_def)
    have "x \<notin> set xs" using distinct_upt [of 0 "g_num_lines s"] unfolding all by simp
    with t open_lineD(1) [OF ol] show "wp (release_pin_request e x) (\<lambda>_ t. gpio_inv t \<and>
        g_library_opened t \<noteq> 0 \<and> g_num_lines t = g_num_lines s \<and> ub t = ub s \<and>
        lines_free t (xs @ [x])) t"
      by (auto intro!: wp_release_pin_request [OF ol] simp: lines_free_def open_line_inv
        nth_list_update)
  next
    fix t :: "'a gpio_st_scheme"
    assume t: "gpio_inv t \<and> g_library_opened t \<noteq> 0 \<and> g_num_lines t = g_num_lines s \<and>
      ub t = ub s \<and> lines_free t [0..<g_num_lines s]"
    then have "length (pin_ctx_mem t) = g_num_lines s" by (simp add: gpio_inv_def)
    with t have "\<forall>c \<in> set (pin_ctx_mem t). request c = 0"
      by (auto simp: lines_free_def in_set_conv_nth)
    then have "held t = (\<lambda>_. 0)" by (auto simp: held_def fun_eq_iff count_list_0_iff)
    with t show "Q () t" by (simp add: post)
  qed
  then show ?thesis using p by (simp add: release_all_pin_requests_def)
qed

lemma wp_close_gpios:
  assumes inv: "gpio_inv s"
    and post: "\<And>t. gpio_inv t \<Longrightarrow> g_library_opened t = 0 \<Longrightarrow>
      (g_library_opened s = 0 \<Longrightarrow> t = s) \<Longrightarrow> ub t = ub s \<Longrightarrow> Q 0 t"
  shows "wp (close_gpios e) Q s"
proof (cases "g_library_opened s = 0")
  case True
  then show ?thesis using inv by (simp add: close_gpios_def post)
next
  case o: False
  show ?thesis
    unfolding close_gpios_def close_chip_def
    by (auto intro!: wp_release_all [OF inv o] wp_intro post
      simp: o gpio_inv_def gpiod_bal held_def)
qed

end
