(* ===== verification/Gpio_Props.thy ===== *)
theory Gpio_Props
  imports Gpio_Inv
begin

text \<open>
  What the pin library promises its clients: configuring the table of pins, the states that any
  sequence of its operations reaches, and the properties of the operations.
\<close>

section \<open>Configuring a table of pins\<close>

lemma appends_gpio_write [appends_intro]: "appends (gpio_write e pin v)"
  unfolding gpio_write_def validate_library_opened_def validate_pin_def get_pin_ctx_def
    get_errno_or_io_def
  by (intro appends_intro)

lemma appends_build_line_request [appends_intro]: "appends (build_line_request e pin d iv)"
  unfolding build_line_request_def build_line_request_body_def configure_line_settings_def
    set_or_fail_def get_errno_or_io_def
  by (intro appends_intro)

lemma appends_gpio_direction [appends_intro]: "appends (gpio_direction e pin d)"
  unfolding gpio_direction_def gpio_direction_request_def validate_library_opened_def
    validate_pin_def get_pin_ctx_def set_pin_ctx_def release_pin_request_def
    get_errno_or_io_def
  by (intro appends_intro) simp_all

lemma appends_configure_pins [appends_intro]: "appends (configure_pins e pins)"
proof (induction pins)
  case Nil
  then show ?case by (simp add: appends_return)
next
  case (Cons p pins)
  then show ?case by (cases p) (simp, intro appends_intro)
qed

text \<open>Line \<open>pin\<close> is requested in direction \<open>dir\<close>.\<close>

definition pin_ready :: "'z gpio_st_scheme \<Rightarrow> int \<Rightarrow> int \<Rightarrow> bool" where
  "pin_ready s pin dir \<longleftrightarrow> 0 \<le> pin \<and> pin < int (g_num_lines s) \<and>
     direction (pin_ctx_mem s ! nat pin) = dir \<and> request (pin_ctx_mem s ! nat pin) \<noteq> 0"

text \<open>The value \<open>v\<close> was sent to line \<open>pin\<close> through the request the library holds for it.\<close>

definition pin_driven :: "'z gpio_st_scheme \<Rightarrow> int \<Rightarrow> line_value \<Rightarrow> bool" where
  "pin_driven s pin v \<longleftrightarrow> Gpiod (RequestSetValue (request (pin_ctx_mem s ! nat pin))
     (nat pin) v) \<in> fst ` set (trace s)"

lemma wp_gpio_write_ready:
  assumes inv: "gpio_inv s" and o: "g_library_opened s \<noteq> 0" and p: "pin_ready s pin PIN_OUT_DIR"
    and post: "\<And>ret t. gpio_inv t \<Longrightarrow> only_calls s t \<Longrightarrow> pin_driven t pin LINE_VALUE_ACTIVE \<Longrightarrow> Q ret t"
  shows "wp (gpio_write e pin PIN_HIGH_VAL) Q s"
proof -
  have "wp (gpio_write e pin PIN_HIGH_VAL) (\<lambda>_ t. pin_driven t pin LINE_VALUE_ACTIVE) s"
    using inv o p
    by (auto intro!: wp_intro wp_get_pin_ctx simp: gpio_write_def validate_library_opened_def
      validate_pin_def pin_ready_def pin_driven_def gpio_inv_def nat_less_iff)
  moreover have "wp (gpio_write e pin PIN_HIGH_VAL) (\<lambda>_ t. gpio_inv t \<and> only_calls s t) s"
    by (rule wp_gpio_write [OF inv]) simp
  ultimately have "wp (gpio_write e pin PIN_HIGH_VAL)
      (\<lambda>_ t. pin_driven t pin LINE_VALUE_ACTIVE \<and> gpio_inv t \<and> only_calls s t) s"
    by (rule wp_conj)
  then show ?thesis by (rule wp_mono) (simp add: post)
qed

lemma only_calls_fields:
  assumes "only_calls s t"
  shows "ub t = ub s" and "pin_ctx_mem t = pin_ctx_mem s" and "g_num_lines t = g_num_lines s"
    and "g_library_opened t = g_library_opened s"
proof -
  from assms have e: "t\<lparr>trace := trace s, errno := errno s\<rparr> = s" by (simp add: only_calls_def)
  from arg_cong [OF e, of ub] show "ub t = ub s" by simp
  from arg_cong [OF e, of pin_ctx_mem] show "pin_ctx_mem t = pin_ctx_mem s" by simp
  from arg_cong [OF e, of g_num_lines] show "g_num_lines t = g_num_lines s" by simp
  from arg_cong [OF e, of g_library_opened] show "g_library_opened t = g_library_opened s" by simp
qed

lemma line_set_fields:
  assumes "line_set s i dir ret t"
  shows "ub t = ub s" and "g_num_lines t = g_num_lines s" and "g_library_opened t = g_library_opened s"
    and "j \<noteq> i \<Longrightarrow> pin_ctx_mem t ! j = pin_ctx_mem s ! j"
proof -
  from assms have e: "t\<lparr>trace := trace s, errno := errno s, pin_ctx_mem := pin_ctx_mem s\<rparr> = s"
    and m: "pin_ctx_mem t = (pin_ctx_mem s)[i := pin_ctx_mem t ! i]"
    by (simp_all add: line_set_def)
  from arg_cong [OF e, of ub] show "ub t = ub s" by simp
  from arg_cong [OF e, of g_num_lines] show "g_num_lines t = g_num_lines s" by simp
  from arg_cong [OF e, of g_library_opened] show "g_library_opened t = g_library_opened s" by simp
  show "pin_ctx_mem t ! j = pin_ctx_mem s ! j" if "j \<noteq> i"
    using that by (subst m) simp
qed

text \<open>
  The pins are configured one after the other; the first failure ends the sequence.  Configuring
  a pin leaves the contexts of the others alone, so that a success means every pin is ready.
\<close>

definition pins_set_up :: "'z gpio_st_scheme \<Rightarrow> (int \<times> int) list \<Rightarrow> bool" where
  "pins_set_up t pins \<longleftrightarrow> (\<forall>(p, d) \<in> set pins. pin_ready t p d \<and>
     (d = PIN_OUT_DIR \<longrightarrow> pin_driven t p LINE_VALUE_ACTIVE))"

definition others_kept :: "'z gpio_st_scheme \<Rightarrow> (int \<times> int) list \<Rightarrow> 'z gpio_st_scheme \<Rightarrow> bool" where
  "others_kept s pins t \<longleftrightarrow> g_num_lines t = g_num_lines s \<and>
     g_library_opened t = g_library_opened s \<and> ub t = ub s \<and>
     (\<forall>j. j \<notin> (\<lambda>x. nat (fst x)) ` set pins \<longrightarrow> pin_ctx_mem t ! j = pin_ctx_mem s ! j)"

lemma pin_ready_kept:
  assumes "pin_ready s p d" and "pin_ctx_mem t ! nat p = pin_ctx_mem s ! nat p"
    and "g_num_lines t = g_num_lines s"
  shows "pin_ready t p d"
  using assms by (simp add: pin_ready_def)

lemma pin_driven_kept:
  assumes "pin_driven s p v" and "pin_ctx_mem t ! nat p = pin_ctx_mem s ! nat p"
    and "suffix (trace s) (trace t)"
  shows "pin_driven t p v"
  using assms set_mono_suffix [OF assms(3)] by (auto simp: pin_driven_def)

text \<open>One pin of the table, an output driven high.\<close>

lemma wp_configure_pin:
  assumes inv: "gpio_inv s"
    and fail: "\<And>ret t. ret \<noteq> 0 \<Longrightarrow> gpio_inv t \<Longrightarrow> others_kept s [(p, d)] t \<Longrightarrow> Q ret t"
    and ok: "\<And>t. gpio_inv t \<Longrightarrow> others_kept s [(p, d)] t \<Longrightarrow> g_library_opened t \<noteq> 0 \<Longrightarrow>
      pins_set_up t [(p, d)] \<Longrightarrow> wp m Q t"
  shows "wp (do { ret_err \<leftarrow> gpio_direction e p d; if ret_err = 0 then do {
      whenM (d = PIN_OUT_DIR) (do { _ \<leftarrow> gpio_write e p PIN_HIGH_VAL; return () }); m }
      else return ret_err }) Q s"
proof (simp, rule wp_gpio_direction [OF inv])
  fix ret :: int and t :: "'a gpio_st_scheme"
  assume dp: "direction_post s p d ret t"
  then have t: "gpio_inv t" by (simp add: direction_post_def)
  have k: "others_kept s [(p, d)] t"
    using dp line_set_fields by (fastforce simp: direction_post_def others_kept_def
      split: if_splits)
  show "wp (if ret = 0 then do {
      whenM (d = PIN_OUT_DIR) (do { _ \<leftarrow> gpio_write e p PIN_HIGH_VAL; return () }); m }
      else return ret) Q t"
  proof (cases "ret = 0")
    case False
    then show ?thesis using fail t k by simp
  next
    case True
    with dp have l: "line_set s (nat p) d 0 t" "0 \<le> p" "p < int (g_num_lines s)"
      "g_library_opened s \<noteq> 0" by (auto simp: direction_post_def split: if_splits)
    with line_set_fields(2,3) [OF l(1)] have rdy: "pin_ready t p d" and o: "g_library_opened t \<noteq> 0"
      by (simp_all add: pin_ready_def line_set_def)
    show ?thesis
    proof (cases "d = PIN_OUT_DIR")
      case False
      then show ?thesis using True ok t k o rdy by (simp add: whenM_def pins_set_up_def)
    next
      case out: True
      have "wp (gpio_write e p PIN_HIGH_VAL) (\<lambda>_. wp m Q) t"
      proof (rule wp_gpio_write_ready [OF t o])
        fix u :: "'a gpio_st_scheme"
        assume u: "gpio_inv u" "only_calls t u" "pin_driven u p LINE_VALUE_ACTIVE"
        note f = only_calls_fields [OF u(2)]
        have "pin_ready u p d" by (rule pin_ready_kept [OF rdy]) (simp_all add: f)
        then show "wp m Q u"
          by (intro ok) (use u f k o out in \<open>simp_all add: others_kept_def pins_set_up_def\<close>)
      qed (use rdy out in simp)
      with True out show ?thesis by (simp add: whenM_def)
    qed
  qed
qed

lemma others_kept_trans:
  "others_kept s [x] t \<Longrightarrow> others_kept t xs u \<Longrightarrow> others_kept s (x # xs) u"
  by (auto simp: others_kept_def)

lemma wp_configure_pins:
  assumes "gpio_inv s" and "distinct (map fst pins)" and "\<forall>x \<in> set pins. 0 \<le> fst x"
    and "\<And>ret t. gpio_inv t \<Longrightarrow> others_kept s pins t \<Longrightarrow> (ret = 0 \<Longrightarrow> pins_set_up t pins) \<Longrightarrow> Q ret t"
  shows "wp (configure_pins e pins) Q s"
  using assms
proof (induction pins arbitrary: s Q)
  case Nil
  then show ?case by (simp add: others_kept_def pins_set_up_def)
next
  case (Cons x pins)
  obtain p d where x: "x = (p, d)" by (cases x)
  have "wp (do { ret_err \<leftarrow> gpio_direction e p d; if ret_err = 0 then do {
      whenM (d = PIN_OUT_DIR) (do { _ \<leftarrow> gpio_write e p PIN_HIGH_VAL; return () });
      configure_pins e pins } else return ret_err }) Q s"
  proof (rule wp_configure_pin [OF Cons.prems(1)])
    fix ret :: int and t :: "'a gpio_st_scheme"
    assume "ret \<noteq> 0" "gpio_inv t" "others_kept s [(p, d)] t"
    then show "Q ret t"
      by (intro Cons.prems(4)) (auto simp: others_kept_def x)
  next
    fix t :: "'a gpio_st_scheme"
    assume t: "gpio_inv t" "others_kept s [(p, d)] t" "pins_set_up t [(p, d)]"
    have "wp (configure_pins e pins) (\<lambda>ret u. gpio_inv u \<and> others_kept t pins u \<and>
        (ret = 0 \<longrightarrow> pins_set_up u pins)) t"
      by (rule Cons.IH) (use Cons.prems(2,3) t(1) in simp_all)
    then have "wp (configure_pins e pins) (\<lambda>ret u. (gpio_inv u \<and> others_kept t pins u \<and>
        (ret = 0 \<longrightarrow> pins_set_up u pins)) \<and> suffix (trace t) (trace u)) t"
      by (rule wp_conj [OF _ wp_appends [OF appends_configure_pins]])
    then show "wp (configure_pins e pins) Q t"
    proof (rule wp_mono)
      fix ret :: int and u :: "'a gpio_st_scheme"
      assume u: "(gpio_inv u \<and> others_kept t pins u \<and> (ret = 0 \<longrightarrow> pins_set_up u pins)) \<and>
        suffix (trace t) (trace u)"
      have "p \<noteq> fst y \<and> 0 \<le> fst y" if "y \<in> set pins" for y
        using Cons.prems(2,3) that by (auto simp: x)
      then have "nat p \<notin> (\<lambda>y. nat (fst y)) ` set pins"
        using Cons.prems(3) by (auto simp: x)
          (metis Cons.prems(2,3) eq_nat_nat_iff fst_conv list.set_intros(1) x)
      with u have same: "pin_ctx_mem u ! nat p = pin_ctx_mem t ! nat p" "g_num_lines u = g_num_lines t"
        by (auto simp: others_kept_def)
      from t(3) have "pin_ready u p d" "d = PIN_OUT_DIR \<Longrightarrow> pin_driven u p LINE_VALUE_ACTIVE"
        using pin_ready_kept [OF _ same] pin_driven_kept [OF _ same(1)] u
        by (simp_all add: pins_set_up_def)
      with u show "Q ret u"
        by (intro Cons.prems(4))
          (auto simp: x pins_set_up_def intro: others_kept_trans [OF t(2)])
    qed
  qed
  then show ?case by (simp add: x)
qed

lemma gpio_table_pins: "distinct (map fst gpio_table)" "\<forall>x \<in> set gpio_table. 0 \<le> fst x"
  by (simp_all add: gpio_table_def PIR_GPIO_def RELAY1_GPIO_def RELAY2_GPIO_def RELAY3_GPIO_def
    RELAY4_GPIO_def CONTACT1_GPIO_def CONTACT2_GPIO_def ARMING_GPIO_def)

lemma wp_configure_gpios:
  assumes "gpio_inv s"
    and "\<And>ret t. gpio_inv t \<Longrightarrow> others_kept s gpio_table t \<Longrightarrow>
      (ret = 0 \<Longrightarrow> pins_set_up t gpio_table) \<Longrightarrow> Q ret t"
  shows "wp (configure_gpios e) Q s"
  unfolding configure_gpios_def by (rule wp_configure_pins) (use assms gpio_table_pins in auto)

section \<open>Every sequence of operations\<close>

text \<open>
  A client's use of the library: its own operations in any order, and between them any call
  that is not one of libgpiod (the rest of the program).
\<close>

datatype gpio_op =
    OpOpen
  | OpClose
  | OpDirection int int
  | OpRead int bool
  | OpWrite int int
  | OpConfigure
  | OpOther call reply

definition other_call :: "call \<Rightarrow> bool" where
  "other_call c = (case c of Gpiod _ \<Rightarrow> False | _ \<Rightarrow> True)"

fun gpio_exec :: "env \<Rightarrow> gpio_op \<Rightarrow> 'z gpio_st_scheme \<Rightarrow> 'z gpio_st_scheme" where
  "gpio_exec e OpOpen s = snd (run_state (open_gpios e) s)"
| "gpio_exec e OpClose s = snd (run_state (close_gpios e) s)"
| "gpio_exec e (OpDirection p d) s = snd (run_state (gpio_direction e p d) s)"
| "gpio_exec e (OpRead p null) s = snd (run_state (gpio_read e p null) s)"
| "gpio_exec e (OpWrite p v) s = snd (run_state (gpio_write e p v) s)"
| "gpio_exec e OpConfigure s = snd (run_state (configure_gpios e) s)"
| "gpio_exec e (OpOther c r) s =
     (if other_call c then s\<lparr>trace := (c, r) # trace s, errno := rerr r\<rparr> else s)"

definition gpio_initial :: "'z gpio_st_scheme \<Rightarrow> bool" where
  "gpio_initial s \<longleftrightarrow> trace s = [] \<and> \<not> ub s \<and> g_gpio_chip s = 0 \<and> g_pin_ctxs s = 0 \<and>
     pin_ctx_mem s = [] \<and> g_num_lines s = 0 \<and> g_library_opened s = 0"

inductive gpio_reach :: "env \<Rightarrow> 'z gpio_st_scheme \<Rightarrow> bool" for e where
  start: "gpio_initial s \<Longrightarrow> gpio_reach e s"
| step: "gpio_reach e s \<Longrightarrow> gpio_reach e (gpio_exec e op s)"

lemma wp_snd: "wp m (\<lambda>_. P) s \<Longrightarrow> P (snd (run_state m s))"
  by (simp add: wp_def split: prod.splits)

lemma other_call_bal:
  assumes "other_call c"
  shows "gpiod_legal ((c, r) # tr) = gpiod_legal tr" and "tmp_bal ((c, r) # tr) = tmp_bal tr"
    and "req_bal ((c, r) # tr) = req_bal tr" and "chip_bal ((c, r) # tr) = chip_bal tr"
  using assms by (cases c; simp add: other_call_def gpiod_bal)+

lemma other_call_inv:
  "gpio_inv s \<Longrightarrow> other_call c \<Longrightarrow> gpio_inv (s\<lparr>trace := (c, r) # trace s, errno := er\<rparr>)"
  unfolding gpio_inv_def by (auto simp: other_call_bal split: if_splits)

lemma gpio_exec_inv:
  assumes inv: "gpio_inv s"
  shows "gpio_inv (gpio_exec e op s) \<and> ub (gpio_exec e op s) = ub s"
proof (cases op)
  case OpOpen
  then show ?thesis by (auto intro!: wp_snd [where P = "\<lambda>t. gpio_inv t \<and> ub t = ub s"] wp_open_gpios [OF inv])
next
  case OpClose
  then show ?thesis by (auto intro!: wp_snd [where P = "\<lambda>t. gpio_inv t \<and> ub t = ub s"] wp_close_gpios [OF inv])
next
  case (OpDirection p d)
  then show ?thesis
    by (auto intro!: wp_snd [where P = "\<lambda>t. gpio_inv t \<and> ub t = ub s"] wp_gpio_direction [OF inv]
      simp: direction_post_def line_set_fields(1) split: if_splits)
next
  case (OpRead p null)
  then show ?thesis by (auto intro!: wp_snd [where P = "\<lambda>t. gpio_inv t \<and> ub t = ub s"] wp_gpio_read [OF inv]
      simp: only_calls_fields(1))
next
  case (OpWrite p v)
  then show ?thesis by (auto intro!: wp_snd [where P = "\<lambda>t. gpio_inv t \<and> ub t = ub s"] wp_gpio_write [OF inv]
      simp: only_calls_fields(1))
next
  case OpConfigure
  then show ?thesis by (auto intro!: wp_snd [where P = "\<lambda>t. gpio_inv t \<and> ub t = ub s"] wp_configure_gpios [OF inv]
      simp: others_kept_def)
next
  case (OpOther c r)
  with inv show ?thesis by (simp add: other_call_inv)
qed

lemma gpio_reach_inv: "gpio_reach e s \<Longrightarrow> gpio_inv s \<and> \<not> ub s"
proof (induction rule: gpio_reach.induct)
  case (start s)
  then show ?case by (simp add: gpio_initial_def gpio_inv_def gpiod_bal held_def)
next
  case (step s op)
  from step.IH gpio_exec_inv [of s e op] show ?case by simp
qed

section \<open>A working chip\<close>

text \<open>
  An environment in which every call of libgpiod succeeds on a chip of 32 lines and a line reads
  back the value last sent to it, for the witnesses.
\<close>

fun last_sent :: "event list \<Rightarrow> nat \<Rightarrow> int" where
  "last_sent [] n = 0"
| "last_sent ((c, r) # tr) n = (case c of
     Gpiod (RequestSetValue _ m v) \<Rightarrow>
       if m = n then (if v = LINE_VALUE_ACTIVE then 1 else 0) else last_sent tr n
   | _ \<Rightarrow> last_sent tr n)"

definition chip_answer :: "event list \<Rightarrow> call \<Rightarrow> reply" where
  "chip_answer tr c = (case c of
     Gpiod (ChipInfoGetNumLines _) \<Rightarrow> ok_reply 32
   | Gpiod (RequestGetValue _ n) \<Rightarrow> ok_reply (last_sent tr n)
   | Gpiod (SettingsSetDirection _ _) \<Rightarrow> ok_reply 0
   | Gpiod (SettingsSetBias _ _) \<Rightarrow> ok_reply 0
   | Gpiod (SettingsSetOutputValue _ _) \<Rightarrow> ok_reply 0
   | Gpiod (LineConfigAddLineSettings _ _ _) \<Rightarrow> ok_reply 0
   | Gpiod (RequestSetValue _ _ _) \<Rightarrow> ok_reply 0
   | Gpiod _ \<Rightarrow> ok_reply (int (length tr) + 1)
   | Mem (Calloc _) \<Rightarrow> ok_reply (int (length tr) + 1)
   | _ \<Rightarrow> ok_reply 0)"

definition chip_env :: env where
  "chip_env = \<lparr>answer = chip_answer, lanswer = (\<lambda>_ _. ok_reply 0), junk = 0, fuel = 0\<rparr>"

definition gpio_start :: gpio_st where
  "gpio_start = \<lparr>trace = [], ltrace = [], errno = 0, ub = False, hang = False, lub = False,
     console_messages = 0, log_file_handle = 0, event_file_handle = 0,
     g_gpio_chip = 0, g_pin_ctxs = 0, pin_ctx_mem = [], g_num_lines = 0, g_library_opened = 0\<rparr>"

fun gpio_run :: "env \<Rightarrow> gpio_op list \<Rightarrow> gpio_st \<Rightarrow> gpio_st" where
  "gpio_run e [] s = s"
| "gpio_run e (op # ops) s = gpio_run e ops (gpio_exec e op s)"

lemma gpio_run_reach: "gpio_reach e s \<Longrightarrow> gpio_reach e (gpio_run e ops s)"
  by (induction ops arbitrary: s) (auto intro: gpio_reach.step)

lemma gpio_start_reach: "gpio_reach e (gpio_run e ops gpio_start)"
  by (rule gpio_run_reach, rule gpio_reach.start) (simp add: gpio_initial_def gpio_start_def)

section \<open>Properties\<close>

text \<open>
  C2: whatever libgpiod answers, after any sequence of the library's operations every request,
  settings object, configuration and chip was released at most once and never used after its
  release; no temporary object is left; the line requests that are held are those recorded in
  the pin contexts, each as often as it is recorded, and the open chip is the recorded one; and
  no operation did anything undefined.
\<close>
theorem gpio_discipline:
  assumes "gpio_reach e s"
  shows "gpiod_legal (trace s) \<and> (\<forall>h. tmp_bal (trace s) h = (0, 0, 0, 0)) \<and>
    (\<forall>h. h \<noteq> 0 \<longrightarrow> req_bal (trace s) h = int (count_list (map request (pin_ctx_mem s)) h)) \<and>
    (\<forall>h. chip_bal (trace s) h = of_bool (h \<noteq> 0 \<and> h = g_gpio_chip s)) \<and> \<not> ub s"
  using gpio_reach_inv [OF assms] by (auto simp: gpio_inv_def held_def)

lemma gpio_discipline_witness:
  "gpiod_legal (trace (gpio_run chip_env [OpOpen, OpConfigure] gpio_start)) \<and>
   map (direction \<circ> (!) (pin_ctx_mem (gpio_run chip_env [OpOpen, OpConfigure] gpio_start)))
     [5, 8, 17, 18] = [2, 3, 0, 3]"
proof (intro conjI)
  show "gpiod_legal (trace (gpio_run chip_env [OpOpen, OpConfigure] gpio_start))"
    using gpio_discipline [OF gpio_start_reach] by blast
qed code_simp+

text \<open>
  C22: closing the library always reports success and leaves nothing behind: every line request
  and the chip have been released, and a second close does nothing.
\<close>
theorem gpio_close_releases_all:
  assumes "gpio_reach e s" and "run_state (close_gpios e) s = (ret, t)"
  shows "ret = 0 \<and> gpiod_legal (trace t) \<and> (\<forall>h. req_bal (trace t) h = 0 \<and>
    chip_bal (trace t) h = 0 \<and> tmp_bal (trace t) h = (0, 0, 0, 0)) \<and> pin_ctx_mem t = [] \<and>
    run_state (close_gpios e) t = (0, t)"
proof -
  have inv: "gpio_inv s" using gpio_reach_inv [OF assms(1)] by simp
  have "wp (close_gpios e) (\<lambda>ret t. ret = 0 \<and> gpio_inv t \<and> g_library_opened t = 0) s"
    by (rule wp_close_gpios [OF inv]) simp
  from wp_runD [OF this assms(2)] have "ret = 0" "gpio_inv t" "g_library_opened t = 0" by auto
  then show ?thesis by (auto simp: gpio_inv_def held_def close_gpios_def)
qed

lemma gpio_close_releases_all_witness:
  "g_library_opened (gpio_run chip_env [OpOpen, OpConfigure] gpio_start) = 1 \<and>
   (\<forall>h. req_bal (trace (gpio_run chip_env [OpOpen, OpConfigure, OpClose] gpio_start)) h = 0)"
proof
  show "g_library_opened (gpio_run chip_env [OpOpen, OpConfigure] gpio_start) = 1" by code_simp
  show "\<forall>h. req_bal (trace (gpio_run chip_env [OpOpen, OpConfigure, OpClose] gpio_start)) h = 0"
    using gpio_close_releases_all [OF gpio_start_reach [of chip_env "[OpOpen, OpConfigure]"]
      surjective_pairing] by simp
qed

text \<open>
  C19: setting the direction of a pin.  Success means an open library, a line of the chip and one
  of the four directions, and that the line is held in that direction; a failure leaves the
  recorded direction; in either case no other pin changes.
\<close>
theorem gpio_direction_effect:
  assumes "gpio_reach e s" and "run_state (gpio_direction e pin dir) s = (ret, t)"
  shows "(ret = 0 \<longrightarrow> g_library_opened s \<noteq> 0 \<and> dir \<in> {0, 1, 2, 3} \<and> pin_ready t pin dir) \<and>
    (ret \<noteq> 0 \<longrightarrow> map direction (pin_ctx_mem t) = map direction (pin_ctx_mem s)) \<and>
    (\<forall>j. j \<noteq> nat pin \<longrightarrow> pin_ctx_mem t ! j = pin_ctx_mem s ! j)"
proof -
  have inv: "gpio_inv s" using gpio_reach_inv [OF assms(1)] by simp
  have "wp (gpio_direction e pin dir) (direction_post s pin dir) s"
    by (rule wp_gpio_direction [OF inv])
  then have d: "direction_post s pin dir ret t" using assms(2) by (rule wp_runD)
  show ?thesis
  proof (cases "0 \<le> pin \<and> pin < int (g_num_lines s) \<and> g_library_opened s \<noteq> 0")
    case False
    with d show ?thesis by (auto simp: direction_post_def)
  next
    case True
    with d have l: "line_set s (nat pin) dir ret t" and r: "ret = 0 \<Longrightarrow> dir \<in> {0, 1, 2, 3}"
      by (auto simp: direction_post_def)
    have i: "nat pin < length (pin_ctx_mem s)" using inv True by (auto simp: gpio_inv_def)
    have m: "pin_ctx_mem t = (pin_ctx_mem s)[nat pin := pin_ctx_mem t ! nat pin]"
      using l by (simp add: line_set_def)
    have "map direction (pin_ctx_mem t) = map direction (pin_ctx_mem s)" if "ret \<noteq> 0"
    proof -
      have "direction (pin_ctx_mem t ! nat pin) = map direction (pin_ctx_mem s) ! nat pin"
        using l that i by (simp add: line_set_def)
      then show ?thesis by (metis m map_update list_update_id)
    qed
    moreover have "pin_ready t pin dir" if "ret = 0"
      using l that True by (simp add: line_set_def pin_ready_def line_set_fields(2) [OF l])
    ultimately show ?thesis using True r line_set_fields(4) [OF l] by blast
  qed
qed

lemma gpio_direction_effect_witness:
  "fst (run_state (gpio_direction chip_env 7 2) (gpio_run chip_env [OpOpen] gpio_start)) = 0 \<and>
   pin_ready (snd (run_state (gpio_direction chip_env 7 2)
     (gpio_run chip_env [OpOpen] gpio_start))) 7 2"
proof -
  have "fst (run_state (gpio_direction chip_env 7 2) (gpio_run chip_env [OpOpen] gpio_start)) = 0"
    by code_simp
  then show ?thesis
    using gpio_direction_effect [OF gpio_start_reach [of chip_env "[OpOpen]"]
      surjective_pairing, of 7 2] by simp
qed

text \<open>What libgpiod documents: right after a value was set, getting the value of the line gives
  it back.\<close>

definition reads_back :: "env \<Rightarrow> bool" where
  "reads_back e \<longleftrightarrow> (\<forall>tr h n v r. rv r = 0 \<and> v \<noteq> LINE_VALUE_ERROR \<longrightarrow>
     line_value_of (answer e ((Gpiod (RequestSetValue h n v), r) # tr)
       (Gpiod (RequestGetValue h n))) = v)"

lemma chip_reads_back: "reads_back chip_env"
proof -
  have "line_value_of (answer chip_env ((Gpiod (RequestSetValue h n v), r) # tr)
      (Gpiod (RequestGetValue h n))) = v" if "v \<noteq> LINE_VALUE_ERROR" for tr h n v r
    using that by (cases v) (simp_all add: chip_env_def chip_answer_def line_value_of_def ok_reply_def)
  then show ?thesis by (simp add: reads_back_def)
qed

text \<open>
  C21: a value written to an output pin is the value read back.  The hypothesis is what libgpiod
  documents: directly after a successful set, getting the same line's value gives what was set.
\<close>
theorem gpio_write_read:
  assumes "reads_back e" and "gpio_reach e s" and "run_state (gpio_write e pin v) s = (0, t)"
  shows "fst (run_state (gpio_read e pin False) t) = (0, Some v)"
proof -
  have inv: "gpio_inv s" using gpio_reach_inv [OF assms(2)] by simp
  have "wp (gpio_write e pin v) (\<lambda>ret t. ret = 0 \<longrightarrow> wrote pin v t \<and> open_line t (nat pin) \<and>
      0 \<le> pin \<and> (v = 0 \<or> v = 1) \<and> request (pin_ctx_mem t ! nat pin) \<noteq> 0) s"
    by (rule wp_gpio_write [OF inv]) simp
  from wp_runD [OF this assms(3)] have w: "wrote pin v t" "open_line t (nat pin)" "0 \<le> pin"
    "v = 0 \<or> v = 1" "request (pin_ctx_mem t ! nat pin) \<noteq> 0" by auto
  from w(1) obtain r tr where tr: "rv r = 0" "trace t =
    (Gpiod (RequestSetValue (request (pin_ctx_mem t ! nat pin)) (nat pin)
      (if v = 1 then LINE_VALUE_ACTIVE else LINE_VALUE_INACTIVE)), r) # tr"
    by (auto simp: wrote_def)
  with assms(1) have a: "line_value_of (answer e (trace t)
      (Gpiod (RequestGetValue (request (pin_ctx_mem t ! nat pin)) (nat pin)))) =
      (if v = 1 then LINE_VALUE_ACTIVE else LINE_VALUE_INACTIVE)"
    by (simp add: reads_back_def)
  have "gpio_inv t" "g_library_opened t \<noteq> 0" "nat pin < length (pin_ctx_mem t)"
    using w(2) by (auto simp: open_line_def)
  then have "g_library_opened t \<noteq> 0" "g_gpio_chip t \<noteq> 0" "g_pin_ctxs t \<noteq> 0"
    "\<not> g_num_lines t \<le> nat pin" "nat pin < length (pin_ctx_mem t)"
    by (auto simp: gpio_inv_def)
  with w a show ?thesis
    by (auto simp: gpio_read_def validate_library_opened_def validate_pin_def get_pin_ctx_def
      run_require run_sys)
qed


lemma gpio_write_read_witness:
  "fst (run_state (gpio_write chip_env 18 0) (gpio_run chip_env [OpOpen, OpConfigure] gpio_start)) = 0 \<and>
   fst (run_state (gpio_read chip_env 18 False) (snd (run_state (gpio_write chip_env 18 0)
     (gpio_run chip_env [OpOpen, OpConfigure] gpio_start)))) = (0, Some 0)"
proof -
  have "fst (run_state (gpio_write chip_env 18 0)
      (gpio_run chip_env [OpOpen, OpConfigure] gpio_start)) = 0" by code_simp
  then show ?thesis
    using gpio_write_read [OF chip_reads_back gpio_start_reach [of chip_env "[OpOpen, OpConfigure]"],
      of 18 0] by (metis prod.collapse)
qed

text \<open>
  C18: configuring the pins of the alarm.  When it reports success, each of the eight pins of the
  table is held in its direction, and each relay and the arming line has been driven high.
\<close>
theorem configure_gpios_sets_up:
  assumes "gpio_reach e s" and "run_state (configure_gpios e) s = (0, t)"
    and "(p, d) \<in> {(17, 0), (8, 3), (9, 3), (10, 3), (11, 3), (5, 2), (6, 2), (18, 3)}"
  shows "pin_ready t p d \<and> (d = 3 \<longrightarrow> pin_driven t p LINE_VALUE_ACTIVE)"
proof -
  have inv: "gpio_inv s" using gpio_reach_inv [OF assms(1)] by simp
  have "wp (configure_gpios e) (\<lambda>ret t. ret = 0 \<longrightarrow> pins_set_up t gpio_table) s"
    by (rule wp_configure_gpios [OF inv]) simp
  from wp_runD [OF this assms(2)] have "pins_set_up t gpio_table" by simp
  moreover have "(p, d) \<in> set gpio_table"
    using assms(3) by (auto simp: gpio_table_def PIR_GPIO_def RELAY1_GPIO_def RELAY2_GPIO_def
      RELAY3_GPIO_def RELAY4_GPIO_def CONTACT1_GPIO_def CONTACT2_GPIO_def ARMING_GPIO_def)
  ultimately show ?thesis by (auto simp: pins_set_up_def)
qed

lemma configure_gpios_sets_up_witness:
  "fst (run_state (configure_gpios chip_env) (gpio_run chip_env [OpOpen] gpio_start)) = 0 \<and>
   pin_driven (snd (run_state (configure_gpios chip_env) (gpio_run chip_env [OpOpen] gpio_start)))
     18 LINE_VALUE_ACTIVE"
proof -
  have "fst (run_state (configure_gpios chip_env) (gpio_run chip_env [OpOpen] gpio_start)) = 0"
    by code_simp
  moreover from this have "run_state (configure_gpios chip_env) (gpio_run chip_env [OpOpen] gpio_start)
      = (0, snd (run_state (configure_gpios chip_env) (gpio_run chip_env [OpOpen] gpio_start)))"
    by (metis prod.collapse)
  ultimately show ?thesis
    using configure_gpios_sets_up [OF gpio_start_reach [of chip_env "[OpOpen]"], of _ 18 3] by simp
qed

end
