(* ===== verification/Resources.thy ===== *)
theory Resources
  imports Log
begin

text \<open>
  The resources of the C library that several components use: memory of the allocator, streams
  and file descriptors.  Each is a \<open>handle_protocol\<close>; a component proves that its operations
  keep the trace legal and release what they acquired.
\<close>

section \<open>Memory\<close>

text \<open>
  \<open>free(NULL)\<close> does nothing.  \<open>realloc\<close> acquires the new block; that it gives back the old
  one when it succeeds is recorded as a release of its own, see \<open>c_realloc\<close>.
\<close>

definition mem_acq :: sel where
  "mem_acq ev = (case ev of (Mem (Malloc _), r) \<Rightarrow> acq_if r | (Mem (Calloc _), r) \<Rightarrow> acq_if r
     | (Mem (Realloc _ _), r) \<Rightarrow> acq_if r | _ \<Rightarrow> None)"

definition mem_rel :: sel where
  "mem_rel ev = (case ev of (Mem (Free h), _) \<Rightarrow> if h = 0 then None else Some h | _ \<Rightarrow> None)"

definition mem_use :: sel where
  "mem_use ev = None"

interpretation mem: handle_protocol mem_acq mem_rel mem_use
  by unfold_locales
    (auto simp: mem_acq_def mem_rel_def mem_use_def acq_if_def
      split: prod.splits call.splits mem_call.splits if_splits)

abbreviation mem_bal :: "event list \<Rightarrow> int \<Rightarrow> int" where
  "mem_bal \<equiv> balance mem_acq mem_rel"

definition mem_legal :: "event list \<Rightarrow> bool" where
  "mem_legal tr = legal mem_acq mem_rel mem_use tr"

definition c_realloc :: "env \<Rightarrow> int \<Rightarrow> int \<Rightarrow> ('z world_scheme, int) state" where
  "c_realloc e p n = do {
     new \<leftarrow> sysv e (Mem (Realloc p n));
     whenM (new \<noteq> 0 \<and> p \<noteq> 0) (sysu e (Mem (Free p)));
     return new
   }"

lemma appends_c_realloc [appends_intro]: "appends (c_realloc e p n)"
  unfolding c_realloc_def by (intro appends_intro)

section \<open>Streams\<close>

definition file_acq :: sel where
  "file_acq ev = (case ev of (File (Fopen _ _), r) \<Rightarrow> acq_if r | _ \<Rightarrow> None)"

definition file_rel :: sel where
  "file_rel ev = (case ev of (File (Fclose h), _) \<Rightarrow> Some h | _ \<Rightarrow> None)"

definition file_use :: sel where
  "file_use ev = (case ev of
     (File (Fflush h), _) \<Rightarrow> Some h
   | (File (Fsync h), _) \<Rightarrow> Some h
   | (File (Fseek h _ _), _) \<Rightarrow> Some h
   | (File (Ftell h), _) \<Rightarrow> Some h
   | (File (Fread h _), _) \<Rightarrow> Some h
   | (File (Fwrite h _), _) \<Rightarrow> Some h
   | (File (Fprintf h _ _), _) \<Rightarrow> Some h
   | (File (Setbuf h), _) \<Rightarrow> Some h
   | (File (FlockUn h), _) \<Rightarrow> Some h
   | _ \<Rightarrow> None)"

interpretation fil: handle_protocol file_acq file_rel file_use
  by unfold_locales
    (auto simp: file_acq_def file_rel_def file_use_def acq_if_def
      split: prod.splits call.splits file_call.splits if_splits)

abbreviation file_bal :: "event list \<Rightarrow> int \<Rightarrow> int" where
  "file_bal \<equiv> balance file_acq file_rel"

definition file_legal :: "event list \<Rightarrow> bool" where
  "file_legal tr = legal file_acq file_rel file_use tr"

lemmas mem_sel_defs = balance.simps legal.simps mem_acq_def mem_rel_def mem_use_def mem_legal_def

lemmas file_sel_defs = balance.simps legal.simps file_acq_def file_rel_def file_use_def file_legal_def

text \<open>The balances after one more call of each kind.\<close>

lemma bal_simps [simp]:
  "mem_bal ((Mem (Malloc n), r) # tr) h = mem_bal tr h + of_bool (rv r \<noteq> 0 \<and> h = rv r)"
  "mem_bal ((Mem (Calloc n), r) # tr) h = mem_bal tr h + of_bool (rv r \<noteq> 0 \<and> h = rv r)"
  "mem_bal ((Mem (Realloc g n), r) # tr) h = mem_bal tr h + of_bool (rv r \<noteq> 0 \<and> h = rv r)"
  "mem_bal ((Mem (Free g), r) # tr) h = mem_bal tr h - of_bool (g \<noteq> 0 \<and> h = g)"
  "mem_bal ((Os oc, r) # tr) h = mem_bal tr h"
  "mem_bal ((Proc pc, r) # tr) h = mem_bal tr h"
  "mem_bal ((File fc, r) # tr) h = mem_bal tr h"
  "mem_bal ((Curl cc, r) # tr) h = mem_bal tr h"
  "mem_bal ((Net nc, r) # tr) h = mem_bal tr h"
  "mem_bal ((Gpiod gc, r) # tr) h = mem_bal tr h"
  "file_bal ((File (Fopen p m), r) # tr) h = file_bal tr h + of_bool (rv r \<noteq> 0 \<and> h = rv r)"
  "file_bal ((File (Fclose g), r) # tr) h = file_bal tr h - of_bool (h = g)"
  "file_bal ((Os oc, r) # tr) h = file_bal tr h"
  "file_bal ((Proc pc, r) # tr) h = file_bal tr h"
  "file_bal ((Mem mc, r) # tr) h = file_bal tr h"
  "file_bal ((Curl cc, r) # tr) h = file_bal tr h"
  "file_bal ((Net nc, r) # tr) h = file_bal tr h"
  "file_bal ((Gpiod gc, r) # tr) h = file_bal tr h"
  by (auto simp: mem_sel_defs file_sel_defs acq_if_def)

lemma file_bal_other [simp]:
  "(\<And>p m. fc \<noteq> Fopen p m) \<Longrightarrow> (\<And>g. fc \<noteq> Fclose g) \<Longrightarrow> file_bal ((File fc, r) # tr) h = file_bal tr h"
  by (cases fc) (auto simp: file_sel_defs)

lemma legal_simps [simp]:
  "mem_legal []"
  "mem_legal ((Mem (Malloc n), r) # tr) = mem_legal tr"
  "mem_legal ((Mem (Calloc n), r) # tr) = mem_legal tr"
  "mem_legal ((Mem (Realloc g n), r) # tr) = mem_legal tr"
  "mem_legal ((Mem (Free g), r) # tr) = (mem_legal tr \<and> (g \<noteq> 0 \<longrightarrow> 0 < mem_bal tr g))"
  "mem_legal ((Os oc, r) # tr) = mem_legal tr"
  "mem_legal ((Proc pc, r) # tr) = mem_legal tr"
  "mem_legal ((File fc, r) # tr) = mem_legal tr"
  "mem_legal ((Curl cc, r) # tr) = mem_legal tr"
  "mem_legal ((Net nc, r) # tr) = mem_legal tr"
  "mem_legal ((Gpiod gc, r) # tr) = mem_legal tr"
  "file_legal []"
  "file_legal ((File (Fopen p m), r) # tr) = file_legal tr"
  "file_legal ((File (Fclose g), r) # tr) = (file_legal tr \<and> 0 < file_bal tr g)"
  "file_legal ((Os oc, r) # tr) = file_legal tr"
  "file_legal ((Proc pc, r) # tr) = file_legal tr"
  "file_legal ((Mem mc, r) # tr) = file_legal tr"
  "file_legal ((Curl cc, r) # tr) = file_legal tr"
  "file_legal ((Net nc, r) # tr) = file_legal tr"
  "file_legal ((Gpiod gc, r) # tr) = file_legal tr"
  by (auto simp: mem_sel_defs file_sel_defs acq_if_def)

lemma file_use_simps [simp]:
  "file_legal ((File (Fflush g), r) # tr) = (file_legal tr \<and> 0 < file_bal tr g)"
  "file_legal ((File (Fsync g), r) # tr) = (file_legal tr \<and> 0 < file_bal tr g)"
  "file_legal ((File (Fseek g i w), r) # tr) = (file_legal tr \<and> 0 < file_bal tr g)"
  "file_legal ((File (Ftell g), r) # tr) = (file_legal tr \<and> 0 < file_bal tr g)"
  "file_legal ((File (Fread g n), r) # tr) = (file_legal tr \<and> 0 < file_bal tr g)"
  "file_legal ((File (Fwrite g x), r) # tr) = (file_legal tr \<and> 0 < file_bal tr g)"
  "file_legal ((File (Fprintf g f a), r) # tr) = (file_legal tr \<and> 0 < file_bal tr g)"
  "file_legal ((File (Setbuf g), r) # tr) = (file_legal tr \<and> 0 < file_bal tr g)"
  "file_legal ((File (FlockUn g), r) # tr) = (file_legal tr \<and> 0 < file_bal tr g)"
  "file_legal ((File (Stat p), r) # tr) = file_legal tr"
  "file_legal ((File (Mkdir p m), r) # tr) = file_legal tr"
  "file_legal ((File (Unlink p), r) # tr) = file_legal tr"
  "file_legal ((File (Rename p q), r) # tr) = file_legal tr"
  "file_legal ((File (Readlink p n), r) # tr) = file_legal tr"
  by (auto simp: file_sel_defs)

lemma file_bal_nonneg: "file_legal tr \<Longrightarrow> 0 \<le> file_bal tr h"
  unfolding file_legal_def by (rule fil.balance_nonneg)

lemma mem_bal_nonneg: "mem_legal tr \<Longrightarrow> 0 \<le> mem_bal tr h"
  unfolding mem_legal_def by (rule mem.balance_nonneg)

section \<open>Kinds of calls\<close>

definition is_Mem :: "call \<Rightarrow> bool" where
  "is_Mem c = (case c of Mem _ \<Rightarrow> True | _ \<Rightarrow> False)"

definition is_File :: "call \<Rightarrow> bool" where
  "is_File c = (case c of File _ \<Rightarrow> True | _ \<Rightarrow> False)"

lemma is_Mem_simps [simp]: "is_Mem (Mem m)" "\<not> is_Mem (File f)" "\<not> is_Mem (Curl cc)"
    "\<not> is_Mem (Gpiod g)" "\<not> is_Mem (Os oc)" "\<not> is_Mem (Proc p)" "\<not> is_Mem (Net n)"
  by (simp_all add: is_Mem_def)

lemma is_File_simps [simp]: "is_File (File f)" "\<not> is_File (Mem m)" "\<not> is_File (Curl cc)"
    "\<not> is_File (Gpiod g)" "\<not> is_File (Os oc)" "\<not> is_File (Proc p)" "\<not> is_File (Net n)"
  by (simp_all add: is_File_def)

text \<open>Calls of another kind do not matter for a resource.\<close>

lemma file_bal_adds:
  assumes "adds P a b" and "\<And>c. P c \<Longrightarrow> \<not> is_File c"
  shows "file_bal b h = file_bal a h" and "file_legal b = file_legal a"
proof -
  have "file_acq (c, r) = None \<and> file_rel (c, r) = None \<and> file_use (c, r) = None" if "P c" for c r
    using assms(2) [OF that] by (cases c) (auto simp: file_sel_defs)
  then show "file_bal b h = file_bal a h" "file_legal b = file_legal a"
    using balance_adds [OF assms(1)] legal_adds [OF assms(1)] unfolding file_legal_def by blast+
qed

lemma mem_bal_adds:
  assumes "adds P a b" and "\<And>c. P c \<Longrightarrow> \<not> is_Mem c"
  shows "mem_bal b h = mem_bal a h" and "mem_legal b = mem_legal a"
proof -
  have "mem_acq (c, r) = None \<and> mem_rel (c, r) = None \<and> mem_use (c, r) = None" if "P c" for c r
    using assms(2) [OF that] by (cases c) (auto simp: mem_sel_defs)
  then show "mem_bal b h = mem_bal a h" "mem_legal b = mem_legal a"
    using balance_adds [OF assms(1)] legal_adds [OF assms(1)] unfolding mem_legal_def by blast+
qed

end
