(* ===== verification/ProcPath.thy ===== *)
theory ProcPath
  imports Resources "HOL-Library.Word"
begin

text \<open>
  proc_helper.c, first part: the path of the executable, absolute paths, and the replacement of
  a substring at the beginnings of the words of a string, for one string and for an array of
  strings.  Pointers into a string are offsets, or the rest of the string that they point to.
\<close>

section \<open>The path of the executable\<close>

definition is_slash :: "char \<Rightarrow> bool" where
  "is_slash c = (c = CHR ''/'')"

definition strip_slashes :: "string \<Rightarrow> string" where
  "strip_slashes s = rev (dropWhile is_slash (rev s))"

text \<open>\<open>dirname\<close> of POSIX.\<close>

definition c_dirname :: "string \<Rightarrow> string" where
  "c_dirname s =
     (if s = [] then ''.'' else let a = strip_slashes s in
      if a = [] then ''/'' else let b = rev (dropWhile (\<lambda>c. \<not> is_slash c) (rev a)) in
      if b = [] then ''.'' else let c = strip_slashes b in
      if c = [] then ''/'' else c)"

text \<open>The result code and the contents of the buffer, \<open>None\<close> when nothing is stored in it.
  \<open>readlink\<close> stores at most \<open>PATH_MAX\<close> characters.\<close>

definition get_current_exec_path :: "env \<Rightarrow> int \<Rightarrow> ('z log_st_scheme, int \<times> string option) state" where
  "get_current_exec_path e path_buff_len =
     (if path_buff_len > 0 then do {
        r \<leftarrow> sys e (File (Readlink ''/proc/self/exe'' PATH_MAX));
        if rv r \<noteq> -1 then do {
          let exec_dir = c_dirname (buffer_take PATH_MAX (rstr r));
          if path_buff_len > strlen exec_dir + 1
          then return (0, Some (exec_dir @ ''/''))
          else return (EINVAL, Some [])
        } else do { er \<leftarrow> gets errno; return (er, Some []) }
      } else return (EINVAL, None))"

text \<open>
  The variable \<open>ret_error\<close> is not set for an absolute path; returning it is undefined
  behaviour, and its value is \<open>junk e\<close>.  \<open>None\<close> for the original path is the null pointer.
\<close>

definition get_absolute_path ::
    "env \<Rightarrow> string option \<Rightarrow> ('z log_st_scheme, int \<times> string option) state" where
  "get_absolute_path e orig = (case orig of
     None \<Rightarrow> return (EINVAL, None)
   | Some orig_file_path \<Rightarrow>
       if strlen orig_file_path > PATH_MAX then return (EINVAL, None)
       else if orig_file_path = [] \<or> hd orig_file_path \<noteq> CHR ''/'' then do {
         (ret_error, full_abs_path) \<leftarrow> get_current_exec_path e PATH_MAX;
         if ret_error = 0 then do {
           let dir = (case full_abs_path of None \<Rightarrow> [] | Some d \<Rightarrow> d);
           if strlen dir + strlen orig_file_path \<le> PATH_MAX
           then return (0, Some (dir @ orig_file_path))
           else return (0, Some orig_file_path)
         } else do { er \<leftarrow> gets errno; return (er, Some orig_file_path) }
       } else do {
         require False;
         return (junk e, Some orig_file_path)
       })"

lemma length_strip_slashes: "length (strip_slashes s) \<le> length s"
  by (simp add: strip_slashes_def length_dropWhile_le [of is_slash "rev s", simplified])

lemma length_drop_component: "length (rev (dropWhile p (rev s))) \<le> length s"
  by (simp add: length_dropWhile_le [of p "rev s", simplified])

lemma length_c_dirname: "length (c_dirname s) \<le> max 1 (length s)"
proof -
  let ?b = "rev (dropWhile (\<lambda>c. \<not> is_slash c) (rev (strip_slashes s)))"
  have "length (strip_slashes ?b) \<le> length ?b" by (rule length_strip_slashes)
  also have "\<dots> \<le> length (strip_slashes s)" by (rule length_drop_component)
  also have "\<dots> \<le> length s" by (rule length_strip_slashes)
  finally have "length (strip_slashes ?b) \<le> length s" .
  then show ?thesis by (simp add: c_dirname_def Let_def le_max_iff_disj)
qed

lemma wp_get_current_exec_path [wp_intro]:
  assumes none: "n \<le> 0 \<Longrightarrow> Q (22, None) s"
    and some: "\<And>ret d r. 0 < n \<Longrightarrow> strlen d < n \<Longrightarrow>
      (ret = 0 \<Longrightarrow> rv r \<noteq> -1 \<Longrightarrow> d = c_dirname (buffer_take 4096 (rstr r)) @ ''/'') \<Longrightarrow>
      (ret \<noteq> 0 \<Longrightarrow> d = []) \<Longrightarrow> (rv r = -1 \<Longrightarrow> ret = rerr r) \<Longrightarrow>
      Q (ret, Some d) (s\<lparr>trace :=
        (File (Readlink ''/proc/self/exe'' 4096), r) # trace s, errno := rerr r\<rparr>)"
  shows "wp (get_current_exec_path e n) Q s"
proof (cases "n \<le> 0")
  case True
  with none show ?thesis by (simp add: get_current_exec_path_def)
next
  case False
  then show ?thesis
    unfolding get_current_exec_path_def
    by (auto intro!: wp_intro some simp: Let_def)
qed

section \<open>Replacing at the beginnings of words\<close>

text \<open>
  \<open>initial_strstr\<close> from offset \<open>k\<close> on: the first occurrence of \<open>sub_str\<close> at the start of
  the string or after a space.  The guard \<open>k \<le> length str\<close> is always true: only an empty
  \<open>sub_str\<close> could step beyond the end, and it is found at offset 0.
\<close>

function initial_strstr_from :: "string \<Rightarrow> string \<Rightarrow> nat \<Rightarrow> nat option" where
  "initial_strstr_from str sub_str k =
     (if k > length str then None else case c_strstr (drop k str) sub_str of
        None \<Rightarrow> None
      | Some j \<Rightarrow>
          if k + j \<noteq> 0 then
            (if str ! (k + j - 1) \<noteq> CHR '' '' then initial_strstr_from str sub_str (k + j + 1)
             else Some (k + j))
          else Some (k + j))"
  by pat_completeness auto

termination by (relation "measure (\<lambda>(str, sub_str, k). Suc (length str) - k)") auto

definition initial_strstr :: "string \<Rightarrow> string \<Rightarrow> nat option" where
  "initial_strstr str sub_str = initial_strstr_from str sub_str 0"

text \<open>The loops over the occurrences; \<open>None\<close> when the loop does not end.\<close>

partial_function (option) count_from :: "nat \<Rightarrow> string \<Rightarrow> string \<Rightarrow> nat option" where
  "count_from n_strs cur_str sub_str = (case initial_strstr cur_str sub_str of
     None \<Rightarrow> Some n_strs
   | Some k \<Rightarrow> count_from (n_strs + 1) (drop (k + length sub_str) cur_str) sub_str)"

definition count_initial_substrings :: "string \<Rightarrow> string \<Rightarrow> nat option" where
  "count_initial_substrings str sub_str = count_from 0 str sub_str"

partial_function (option) replace_from :: "string \<Rightarrow> string \<Rightarrow> string \<Rightarrow> string \<Rightarrow> string option" where
  "replace_from dest prev_src_str old_sub_str new_sub_str =
     (case initial_strstr prev_src_str old_sub_str of
        None \<Rightarrow> Some (dest @ prev_src_str)
      | Some k \<Rightarrow> replace_from (dest @ take k prev_src_str @ new_sub_str)
          (drop (k + length old_sub_str) prev_src_str) old_sub_str new_sub_str)"

definition replace_initial_substrings :: "string \<Rightarrow> string \<Rightarrow> string \<Rightarrow> string option" where
  "replace_initial_substrings src_str old_sub_str new_sub_str =
     replace_from [] src_str old_sub_str new_sub_str"

declare count_from.simps [code] replace_from.simps [code]

section \<open>What the search finds\<close>

text \<open>An occurrence at the beginning of a word.\<close>

definition initial_at :: "string \<Rightarrow> string \<Rightarrow> nat \<Rightarrow> bool" where
  "initial_at str sub_str i \<longleftrightarrow>
     prefix sub_str (drop i str) \<and> (i = 0 \<or> str ! (i - 1) = CHR '' '')"

lemma initial_strstr_from_Some:
  "initial_strstr_from str sub_str k = Some i \<Longrightarrow>
   k \<le> i \<and> i \<le> length str \<and> initial_at str sub_str i \<and>
   (\<forall>j. k \<le> j \<and> j < i \<longrightarrow> \<not> initial_at str sub_str j)"
proof (induction str sub_str k rule: initial_strstr_from.induct)
  case (1 str sub_str k)
  from "1.prems" have k: "k \<le> length str"
    by (subst (asm) initial_strstr_from.simps) (auto split: if_splits)
  with "1.prems" obtain j where j: "c_strstr (drop k str) sub_str = Some j"
    by (subst (asm) initial_strstr_from.simps) (auto split: option.splits if_splits)
  note first = c_strstr_Some [OF j]
  have none: "\<not> initial_at str sub_str i'" if "k \<le> i'" "i' < k + j" for i'
  proof -
    from that have "i' - k < j" "drop (i' - k) (drop k str) = drop i' str" by simp_all
    with first show ?thesis by (auto simp: initial_at_def)
  qed
  have at: "prefix sub_str (drop (k + j) str)" using first by (simp add: add.commute)
  show ?case
  proof (cases "k + j \<noteq> 0 \<and> str ! (k + j - 1) \<noteq> CHR '' ''")
    case True
    then have "initial_strstr_from str sub_str (k + j + 1) = Some i"
      using "1.prems" k j by (subst (asm) initial_strstr_from.simps) simp
    with "1.IH" k j True have IH: "k + j + 1 \<le> i \<and> i \<le> length str \<and> initial_at str sub_str i \<and>
        (\<forall>j'. k + j + 1 \<le> j' \<and> j' < i \<longrightarrow> \<not> initial_at str sub_str j')" by simp
    have "\<not> initial_at str sub_str (k + j)" using True by (simp add: initial_at_def)
    then have "\<not> initial_at str sub_str j'" if "k \<le> j'" "j' < i" for j'
      using IH none that by (metis add.commute not_less_eq_eq plus_1_eq_Suc linorder_neqE_nat
        order_le_less_trans Suc_leI not_less)
    with IH show ?thesis by auto
  next
    case False
    then have "i = k + j"
      using "1.prems" k j by (subst (asm) initial_strstr_from.simps) (auto split: if_splits)
    with False at none first k show ?thesis by (auto simp: initial_at_def)
  qed
qed

lemma initial_at_bound: "initial_at str sub_str i \<Longrightarrow> sub_str \<noteq> [] \<Longrightarrow> i + length sub_str \<le> length str"
  unfolding initial_at_def using prefix_drop_length by blast

lemma initial_strstr_from_None:
  "initial_strstr_from str sub_str k = None \<Longrightarrow> sub_str \<noteq> [] \<Longrightarrow> k \<le> i \<Longrightarrow>
   \<not> initial_at str sub_str i"
proof (induction str sub_str k rule: initial_strstr_from.induct)
  case (1 str sub_str k)
  consider "k > length str" | "c_strstr (drop k str) sub_str = None"
    | j where "k \<le> length str" "c_strstr (drop k str) sub_str = Some j"
    by (metis not_less option.exhaust)
  then show ?case
  proof cases
    case 1
    with "1.prems"(2,3) show ?thesis using initial_at_bound by fastforce
  next
    case 2
    from "1.prems"(3) have "drop (i - k) (drop k str) = drop i str" by simp
    with c_strstr_None [OF 2, of "i - k"] show ?thesis by (simp add: initial_at_def)
  next
    case (3 j)
    with "1.prems"(1) have c: "k + j \<noteq> 0" "str ! (k + j - 1) \<noteq> CHR '' ''"
      "initial_strstr_from str sub_str (k + j + 1) = None"
      by (subst (asm) initial_strstr_from.simps; simp split: if_splits)+
    show ?thesis
    proof (cases "k + j + 1 \<le> i")
      case True
      with "1.IH" 3 c "1.prems"(2) show ?thesis by auto
    next
      case less: False
      show ?thesis
      proof (cases "i = k + j")
        case True
        with c show ?thesis by (simp add: initial_at_def)
      next
        case False
        with less "1.prems"(3) have "i - k < j" "drop (i - k) (drop k str) = drop i str" by simp_all
        with c_strstr_Some [OF 3(2)] show ?thesis by (auto simp: initial_at_def)
      qed
    qed
  qed
qed

lemma initial_strstr_Some:
  assumes "initial_strstr src old = Some k"
  shows "initial_at src old k" and "k \<le> length src" and "\<forall>j < k. \<not> initial_at src old j"
  using initial_strstr_from_Some [OF assms [unfolded initial_strstr_def]] by auto

lemma initial_strstr_shorter:
  assumes "initial_strstr src old = Some k" and "old \<noteq> []"
  shows "k + length old \<le> length src" and "length (drop (k + length old) src) < length src"
proof -
  show l: "k + length old \<le> length src"
    using initial_at_bound [OF initial_strstr_Some(1) [OF assms(1)] assms(2)] .
  have "0 < length old" using assms(2) by simp
  with l show "length (drop (k + length old) src) < length src"
    unfolding length_drop by linarith
qed

text \<open>
  Replacing as a specification: cut the string at the first initial occurrence, replace it, and
  go on with the rest.  The search starts afresh after each replacement, so that the rest counts
  as the beginning of a word.
\<close>

function replace_spec :: "string \<Rightarrow> string \<Rightarrow> string \<Rightarrow> string" where
  "replace_spec src old new = (case initial_strstr src old of
     None \<Rightarrow> src
   | Some k \<Rightarrow> if old = [] then src
       else take k src @ new @ replace_spec (drop (k + length old) src) old new)"
  by pat_completeness auto

termination
proof (relation "measure (\<lambda>(src, old, new). length src)")
  fix src old new :: string and k
  assume "initial_strstr src old = Some k" "old \<noteq> []"
  then show "((drop (k + length old) src, old, new), src, old, new) \<in>
      measure (\<lambda>(src, old, new). length src)"
    using initial_strstr_shorter(2) by simp
qed simp

declare replace_spec.simps [simp del] initial_strstr_from.simps [simp del]

function count_spec :: "string \<Rightarrow> string \<Rightarrow> nat" where
  "count_spec src old = (case initial_strstr src old of
     None \<Rightarrow> 0
   | Some k \<Rightarrow> if old = [] then 0 else Suc (count_spec (drop (k + length old) src) old))"
  by pat_completeness auto

termination
proof (relation "measure (\<lambda>(src, old). length src)")
  fix src old :: string and k
  assume "initial_strstr src old = Some k" "old \<noteq> []"
  then show "((drop (k + length old) src, old), src, old) \<in> measure (\<lambda>(src, old). length src)"
    using initial_strstr_shorter(2) by simp
qed simp

declare count_spec.simps [simp del]

lemma count_from_eq: "old \<noteq> [] \<Longrightarrow> count_from n src old = Some (n + count_spec src old)"
proof (induction src old arbitrary: n rule: count_spec.induct)
  case (1 src old)
  then show ?case
    by (subst count_from.simps, subst count_spec.simps) (auto split: option.splits)
qed

lemma replace_from_eq: "old \<noteq> [] \<Longrightarrow> replace_from d src old new = Some (d @ replace_spec src old new)"
proof (induction src old new arbitrary: d rule: replace_spec.induct)
  case (1 src old new)
  then show ?case
    by (subst replace_from.simps, subst replace_spec.simps) (auto split: option.splits)
qed

text \<open>The length of the result.\<close>

lemma length_replace_spec:
  "old \<noteq> [] \<Longrightarrow> length (replace_spec src old new) + count_spec src old * length old =
     length src + count_spec src old * length new"
proof (induction src old new rule: replace_spec.induct)
  case (1 src old new)
  show ?case
  proof (cases "initial_strstr src old")
    case None
    then show ?thesis by (simp add: replace_spec.simps count_spec.simps)
  next
    case (Some k)
    note b = initial_strstr_shorter(1) [OF Some "1.prems"]
    from "1.IH" [OF Some "1.prems" "1.prems"] b show ?thesis
      by (subst (1) replace_spec.simps, subst (1 2) count_spec.simps)
        (simp add: Some "1.prems" algebra_simps)
  qed
qed

text \<open>An empty substring: the loops never end.\<close>

lemma initial_strstr_empty: "initial_strstr s [] = Some 0"
  by (simp add: initial_strstr_def initial_strstr_from.simps c_strstr.simps)

lemma count_from_empty: "count_from n s [] = None"
proof -
  have "count_from n s old = Some y \<Longrightarrow> old \<noteq> []" for n s old y
  proof (rule count_from.raw_induct [of "\<lambda>n s old y. old \<noteq> []"])
    fix cf :: "nat \<Rightarrow> string \<Rightarrow> string \<Rightarrow> nat option" and n s old y
    assume "\<And>n s old y. cf n s old = Some y \<Longrightarrow> old \<noteq> []"
      and "(case initial_strstr s old of None \<Rightarrow> Some n
        | Some k \<Rightarrow> cf (n + 1) (drop (k + length old) s) old) = Some y"
    then show "old \<noteq> []"
      by (cases "old = []") (auto simp: initial_strstr_empty)
  qed
  then show ?thesis by (metis not_None_eq)
qed

section \<open>Allocated copies\<close>

definition loops_for_ever :: "('z world_scheme, unit) state" where
  "loops_for_ever = modify (\<lambda>s. s\<lparr>hang := True\<rparr>)"

text \<open>
  The address of the copy, 0 for a failure, and its text.  The size is computed in
  \<open>size_t\<close>; the copy must fit in what was allocated.
\<close>

definition copy_size :: "nat \<Rightarrow> nat \<Rightarrow> nat \<Rightarrow> nat \<Rightarrow> 64 word" where
  "copy_size src_len occs old_len new_len =
     of_nat src_len - of_nat occs * of_nat old_len + of_nat occs * of_nat new_len"

definition alloc_replace_initial_substrings ::
    "env \<Rightarrow> string \<Rightarrow> string \<Rightarrow> string \<Rightarrow> ('z world_scheme, int \<times> string) state" where
  "alloc_replace_initial_substrings e src_str old_sub_str new_sub_str =
     (case count_initial_substrings src_str old_sub_str of
        None \<Rightarrow> do { loops_for_ever; return (0, []) }
      | Some sub_str_occs \<Rightarrow> do {
          let size = unat (copy_size (length src_str) sub_str_occs (length old_sub_str)
            (length new_sub_str) + 1);
          dest_str \<leftarrow> sysv e (Mem (Malloc (int size)));
          if dest_str \<noteq> 0 then
            (case replace_initial_substrings src_str old_sub_str new_sub_str of
               None \<Rightarrow> do { loops_for_ever; return (dest_str, []) }
             | Some text \<Rightarrow> do { require (length text < size); return (dest_str, text) })
          else return (0, [])
        })"

text \<open>An allocated, null-terminated array of strings: its address, and the address and text of
  each element, the terminator included.\<close>

record str_array =
  sa_addr :: int
  sa_elems :: "(int \<times> string) list"

text \<open>The loop over the strings: the elements written, and whether all of them were allocated.\<close>

fun replace_elements :: "env \<Rightarrow> string list \<Rightarrow> string \<Rightarrow> string \<Rightarrow>
    ('z world_scheme, (int \<times> string) list \<times> bool) state" where
  "replace_elements e [] old new = return ([], True)"
| "replace_elements e (src # srcs) old new = do {
     new_arr_str \<leftarrow> alloc_replace_initial_substrings e src old new;
     if fst new_arr_str = 0 then return ([new_arr_str], False) else do {
       (rest, ok) \<leftarrow> replace_elements e srcs old new;
       return (new_arr_str # rest, ok)
     }
   }"

definition free_substring_array :: "env \<Rightarrow> str_array \<Rightarrow> ('z world_scheme, unit) state" where
  "free_substring_array e arr = do {
     require (0 \<in> fst ` set (sa_elems arr));
     forM (takeWhile (\<lambda>x. fst x \<noteq> 0) (sa_elems arr)) (\<lambda>x. sysu e (Mem (Free (fst x))));
     sysu e (Mem (Free (sa_addr arr)))
   }"

definition replace_initial_substring_array :: "env \<Rightarrow> string list \<Rightarrow> string \<Rightarrow> string \<Rightarrow>
    ('z world_scheme, str_array option) state" where
  "replace_initial_substring_array e src_str_array old new = do {
     new_str_array \<leftarrow> sysv e (Mem (Malloc (uint (8 * (of_nat (length src_str_array) + 1 :: 64 word)))));
     if new_str_array \<noteq> 0 then do {
       (elems, ok) \<leftarrow> replace_elements e src_str_array old new;
       if ok then return (Some \<lparr>sa_addr = new_str_array, sa_elems = elems @ [(0, [])]\<rparr>)
       else do {
         free_substring_array e \<lparr>sa_addr = new_str_array, sa_elems = elems\<rparr>;
         return None
       }
     } else return None
   }"

definition replace_relative_path_array ::
    "env \<Rightarrow> string list \<Rightarrow> ('z log_st_scheme, str_array option) state" where
  "replace_relative_path_array e argv = do {
     (get_path_err, cur_abs_path) \<leftarrow> get_current_exec_path e (PATH_MAX + 1);
     if get_path_err = 0
     then replace_initial_substring_array e argv ''./''
       (case cur_abs_path of None \<Rightarrow> [] | Some d \<Rightarrow> d)
     else do {
       require (argv \<noteq> []);
       er \<leftarrow> gets errno;
       log_printf e ''Substituting relative paths by absolute ones of %s: Error obtaining current path. errno=%d\<newline>''
         [FStr (hd argv), FInt er];
       replace_initial_substring_array e argv ''./'' []
     }
   }"

section \<open>Allocation is all or nothing\<close>

lemma copy_size_exact:
  assumes "old \<noteq> []" and "length (replace_spec src old new) + 1 < 2 ^ 64"
  shows "unat (copy_size (length src) (count_spec src old) (length old) (length new) + 1) =
    length (replace_spec src old new) + 1"
proof -
  let ?n = "count_spec src old"
  have "(of_nat (length (replace_spec src old new)) :: 64 word) + of_nat ?n * of_nat (length old) =
      of_nat (length src) + of_nat ?n * of_nat (length new)"
    using arg_cong [OF length_replace_spec [OF assms(1), of src new], of "of_nat :: nat \<Rightarrow> 64 word"]
    by simp
  then have "copy_size (length src) ?n (length old) (length new) =
      of_nat (length (replace_spec src old new))"
    by (simp add: copy_size_def algebra_simps)
  then have "copy_size (length src) ?n (length old) (length new) + 1 =
      of_nat (length (replace_spec src old new) + 1)" by simp
  then show ?thesis using assms(2) by (simp only: unat_of_nat) simp
qed

text \<open>The number of bytes that \<open>f\<close> maps the handles of a list of elements to.\<close>

definition blocks :: "(int \<times> string) list \<Rightarrow> int \<Rightarrow> int" where
  "blocks xs h = (if h = 0 then 0 else int (count_list (map fst xs) h))"

lemma blocks_simps [simp]:
  "blocks [] h = 0"
  "blocks (x # xs) h = of_bool (fst x \<noteq> 0 \<and> h = fst x) + blocks xs h"
  "blocks (xs @ [(0, t)]) h = blocks xs h"
  by (auto simp: blocks_def)

lemma wp_alloc_replace:
  assumes "old \<noteq> []" and fits: "length (replace_spec src old new) + 1 < 2 ^ 64"
    and none: "\<And>r n. rv r = 0 \<Longrightarrow>
      Q (0, []) (s\<lparr>trace := (Mem (Malloc n), r) # trace s, errno := rerr r\<rparr>)"
    and some: "\<And>r n. rv r \<noteq> 0 \<Longrightarrow> n = int (length (replace_spec src old new) + 1) \<Longrightarrow>
      Q (rv r, replace_spec src old new)
        (s\<lparr>trace := (Mem (Malloc n), r) # trace s, errno := rerr r\<rparr>)"
  shows "wp (alloc_replace_initial_substrings e src old new) Q s"
  unfolding alloc_replace_initial_substrings_def count_initial_substrings_def
    replace_initial_substrings_def
  using assms(1) copy_size_exact [OF assms(1) fits]
  by (auto intro!: wp_intro none some
    simp: count_from_eq replace_from_eq Let_def require_def)

text \<open>The elements that a loop over strings leaves: all of them, or those up to the first
  failure, which is the null pointer.\<close>

definition elements_of :: "string list \<Rightarrow> string \<Rightarrow> string \<Rightarrow> (int \<times> string) list \<Rightarrow> bool \<Rightarrow> bool" where
  "elements_of srcs old new xs ok \<longleftrightarrow>
     (if ok then map snd xs = map (\<lambda>s. replace_spec s old new) srcs \<and> (\<forall>x \<in> set xs. fst x \<noteq> 0)
      else \<exists>ys. xs = ys @ [(0, [])] \<and> (\<forall>y \<in> set ys. fst y \<noteq> 0))"

lemma wp_replace_elements:
  assumes "old \<noteq> []" and "\<forall>src \<in> set srcs. length (replace_spec src old new) + 1 < 2 ^ 64"
    and "\<And>xs ok tr er. adds is_Mem (trace s) tr \<Longrightarrow> elements_of srcs old new xs ok \<Longrightarrow>
      mem_legal tr = mem_legal (trace s) \<Longrightarrow>
      (\<And>h. mem_bal tr h = mem_bal (trace s) h + blocks xs h) \<Longrightarrow>
      Q (xs, ok) (s\<lparr>trace := tr, errno := er\<rparr>)"
  shows "wp (replace_elements e srcs old new) Q s"
  using assms(2,3)
proof (induction srcs arbitrary: s Q)
  case Nil
  from Nil.prems(2) [of "trace s" "[]" True "errno s"] show ?case by (simp add: elements_of_def)
next
  case (Cons src srcs)
  show ?case
  proof (simp, rule wp_alloc_replace [OF assms(1)])
    show "length (replace_spec src old new) + 1 < 2 ^ 64" using Cons.prems(1) by simp
  next
    fix r :: reply and n :: int
    assume "rv r = 0"
    then show "wp (if fst (0, [] :: string) = 0 then return ([(0, [])], False) else
        do { (rest, ok) \<leftarrow> replace_elements e srcs old new; return ((0, []) # rest, ok) }) Q
        (s\<lparr>trace := (Mem (Malloc n), r) # trace s, errno := rerr r\<rparr>)"
      by (auto intro!: Cons.prems(2) simp: elements_of_def)
  next
    fix r :: reply and n :: int
    assume r: "rv r \<noteq> 0"
    show "wp (if fst (rv r, replace_spec src old new) = 0
        then return ([(rv r, replace_spec src old new)], False) else
        do { (rest, ok) \<leftarrow> replace_elements e srcs old new;
          return ((rv r, replace_spec src old new) # rest, ok) }) Q
        (s\<lparr>trace := (Mem (Malloc n), r) # trace s, errno := rerr r\<rparr>)"
      using r
    proof (simp, intro Cons.IH)
      show "\<forall>src \<in> set srcs. length (replace_spec src old new) + 1 < 2 ^ 64"
        using Cons.prems(1) by simp
    next
      fix xs ok tr er
      assume a: "adds is_Mem (trace (s\<lparr>trace := (Mem (Malloc n), r) # trace s, errno := rerr r\<rparr>)) tr"
        and x: "elements_of srcs old new xs ok"
        and l: "mem_legal tr = mem_legal (trace (s\<lparr>trace := (Mem (Malloc n), r) # trace s,
          errno := rerr r\<rparr>))"
        and b: "\<And>h. mem_bal tr h = mem_bal (trace (s\<lparr>trace := (Mem (Malloc n), r) # trace s,
          errno := rerr r\<rparr>)) h + blocks xs h"
      have "adds is_Mem (trace s) ((Mem (Malloc n), r) # trace s)" by simp
      with a have "adds is_Mem (trace s) tr" using adds_trans by fastforce
      moreover have "elements_of (src # srcs) old new ((rv r, replace_spec src old new) # xs) ok"
        using x r by (auto simp: elements_of_def intro: exI [of _ "(rv r, replace_spec src old new) # _"])
      ultimately have "Q ((rv r, replace_spec src old new) # xs, ok) (s\<lparr>trace := tr, errno := er\<rparr>)"
        using r l b by (intro Cons.prems(2)) auto
      then show "wp (case (xs, ok) of (rest, ok) \<Rightarrow>
          return ((rv r, replace_spec src old new) # rest, ok)) Q
        (s\<lparr>trace := (Mem (Malloc n), r) # trace s, errno := rerr r, trace := tr, errno := er\<rparr>)"
        by simp
    qed
  qed
qed

lemma blocks_append [simp]: "blocks (xs @ ys) h = blocks xs h + blocks ys h"
  by (simp add: blocks_def)

lemma blocks_nonneg: "0 \<le> blocks xs h"
  by (simp add: blocks_def)

lemma blocks_nulls: "\<forall>x \<in> set xs. fst x = 0 \<Longrightarrow> blocks xs h = 0"
  by (induction xs) auto

definition arr_blocks :: "str_array \<Rightarrow> int \<Rightarrow> int" where
  "arr_blocks arr h = of_bool (sa_addr arr \<noteq> 0 \<and> h = sa_addr arr) +
     blocks (takeWhile (\<lambda>x. fst x \<noteq> 0) (sa_elems arr)) h"

text \<open>Freeing an array releases its elements and the array itself, once each.\<close>

lemma wp_free_elements:
  assumes "mem_legal (trace s)" and "\<forall>x \<in> set xs. fst x \<noteq> 0"
    and "\<And>h. blocks xs h \<le> mem_bal (trace s) h"
    and post: "\<And>tr er. adds is_Mem (trace s) tr \<Longrightarrow> mem_legal tr \<Longrightarrow>
      (\<And>h. mem_bal tr h = mem_bal (trace s) h - blocks xs h) \<Longrightarrow> Q () (s\<lparr>trace := tr, errno := er\<rparr>)"
  shows "wp (forM xs (\<lambda>x. sysu e (Mem (Free (fst x))))) Q s"
proof (rule wp_forM [where I = "\<lambda>ys t. \<exists>tr er. t = s\<lparr>trace := tr, errno := er\<rparr> \<and>
    adds is_Mem (trace s) tr \<and> mem_legal tr \<and> (\<forall>h. mem_bal tr h = mem_bal (trace s) h - blocks ys h)"])
  show "\<exists>tr er. s = s\<lparr>trace := tr, errno := er\<rparr> \<and> adds is_Mem (trace s) tr \<and> mem_legal tr \<and>
      (\<forall>h. mem_bal tr h = mem_bal (trace s) h - blocks [] h)"
    using assms(1) by (intro exI [of _ "trace s"] exI [of _ "errno s"]) simp
next
  fix ys x zs t
  assume xs: "xs = ys @ x # zs" and "\<exists>tr er. t = s\<lparr>trace := tr, errno := er\<rparr> \<and>
    adds is_Mem (trace s) tr \<and> mem_legal tr \<and> (\<forall>h. mem_bal tr h = mem_bal (trace s) h - blocks ys h)"
  then obtain tr er where t: "t = s\<lparr>trace := tr, errno := er\<rparr>" "adds is_Mem (trace s) tr"
    "mem_legal tr" "\<And>h. mem_bal tr h = mem_bal (trace s) h - blocks ys h" by blast
  have "fst x \<noteq> 0" using assms(2) xs by simp
  then have "0 < mem_bal tr (fst x)"
    using assms(3) [of "fst x"] blocks_nonneg [of zs "fst x"] by (simp add: t(4) xs)
  then show "wp (sysu e (Mem (Free (fst x)))) (\<lambda>_ u. \<exists>tr er. u = s\<lparr>trace := tr, errno := er\<rparr> \<and>
      adds is_Mem (trace s) tr \<and> mem_legal tr \<and>
      (\<forall>h. mem_bal tr h = mem_bal (trace s) h - blocks (ys @ [x]) h)) t"
    using t by (auto intro!: wp_intro exI [of _ "_ # tr"])
next
  fix t
  assume "\<exists>tr er. t = s\<lparr>trace := tr, errno := er\<rparr> \<and> adds is_Mem (trace s) tr \<and> mem_legal tr \<and>
    (\<forall>h. mem_bal tr h = mem_bal (trace s) h - blocks xs h)"
  then show "Q () t" using post by blast
qed

lemma wp_free_substring_array:
  assumes "mem_legal (trace s)" and "0 \<in> fst ` set (sa_elems arr)"
    and "\<And>h. arr_blocks arr h \<le> mem_bal (trace s) h"
    and post: "\<And>tr er. adds is_Mem (trace s) tr \<Longrightarrow> mem_legal tr \<Longrightarrow>
      (\<And>h. mem_bal tr h = mem_bal (trace s) h - arr_blocks arr h) \<Longrightarrow>
      Q () (s\<lparr>trace := tr, errno := er\<rparr>)"
  shows "wp (free_substring_array e arr) Q s"
  unfolding free_substring_array_def
proof (simp add: require_def assms(2), rule wp_free_elements [OF assms(1)])
  show "\<forall>x \<in> set (takeWhile (\<lambda>x. fst x \<noteq> 0) (sa_elems arr)). fst x \<noteq> 0"
    by (auto dest: set_takeWhileD)
next
  fix h
  have "blocks (takeWhile (\<lambda>x. fst x \<noteq> 0) (sa_elems arr)) h \<le> arr_blocks arr h"
    by (simp add: arr_blocks_def)
  also note assms(3)
  finally show "blocks (takeWhile (\<lambda>x. fst x \<noteq> 0) (sa_elems arr)) h \<le> mem_bal (trace s) h" .
next
  fix tr er
  let ?b = "\<lambda>h. blocks (takeWhile (\<lambda>x. fst x \<noteq> 0) (sa_elems arr)) h"
  assume tr: "adds is_Mem (trace s) tr" "mem_legal tr"
    "\<And>h. mem_bal tr h = mem_bal (trace s) h - ?b h"
  have "sa_addr arr \<noteq> 0 \<Longrightarrow> 0 < mem_bal tr (sa_addr arr)"
    using assms(3) [of "sa_addr arr"] by (simp add: tr(3) arr_blocks_def)
  with tr show "wp (sysu e (Mem (Free (sa_addr arr)))) Q (s\<lparr>trace := tr, errno := er\<rparr>)"
    by (auto intro!: wp_intro post simp: arr_blocks_def)
qed

text \<open>What the replacement returns: nothing, with every block freed, or a new array.\<close>

definition array_post :: "string list \<Rightarrow> string \<Rightarrow> string \<Rightarrow> event list \<Rightarrow> str_array option \<Rightarrow>
    event list \<Rightarrow> bool" where
  "array_post srcs old new tr0 res tr \<longleftrightarrow> adds is_Mem tr0 tr \<and> mem_legal tr \<and>
     (case res of None \<Rightarrow> (\<forall>h. mem_bal tr h = mem_bal tr0 h)
      | Some arr \<Rightarrow> (\<forall>h. mem_bal tr h = mem_bal tr0 h + arr_blocks arr h) \<and>
          (\<exists>xs. sa_elems arr = xs @ [(0, [])] \<and> (\<forall>x \<in> set xs. fst x \<noteq> 0) \<and>
             map snd xs = map (\<lambda>s. replace_spec s old new) srcs))"

lemma wp_replace_array:
  assumes old: "old \<noteq> []" and fits: "\<forall>src \<in> set srcs. length (replace_spec src old new) + 1 < 2 ^ 64"
    and legal: "mem_legal (trace s)"
    and post: "\<And>res tr er. array_post srcs old new (trace s) res tr \<Longrightarrow>
      Q res (s\<lparr>trace := tr, errno := er\<rparr>)"
  shows "wp (replace_initial_substring_array e srcs old new) Q s"
  unfolding replace_initial_substring_array_def
proof (simp only: wp_bind, rule wp_sysv)
  fix r :: reply
  let ?m = "Mem (Malloc (uint (8 * (word_of_nat (length srcs) + 1 :: 64 word))))"
  let ?s = "s\<lparr>trace := (?m, r) # trace s, errno := rerr r\<rparr>"
  have legal': "mem_legal (trace ?s)" using legal by simp
  show "wp (if rv r \<noteq> 0 then do {
       (elems, ok) \<leftarrow> replace_elements e srcs old new;
       if ok then return (Some \<lparr>sa_addr = rv r, sa_elems = elems @ [(0, [])]\<rparr>)
       else do {
         free_substring_array e \<lparr>sa_addr = rv r, sa_elems = elems\<rparr>;
         return None } } else return None) Q ?s"
  proof (rule wp_if)
    assume r: "rv r \<noteq> 0"
    show "wp (do {
       (elems, ok) \<leftarrow> replace_elements e srcs old new;
       if ok then return (Some \<lparr>sa_addr = rv r, sa_elems = elems @ [(0, [])]\<rparr>)
       else do {
         free_substring_array e \<lparr>sa_addr = rv r, sa_elems = elems\<rparr>;
         return None } }) Q ?s"
    proof (simp only: wp_bind, rule wp_replace_elements [OF old fits])
      fix xs ok tr er
      assume a: "adds is_Mem (trace ?s) tr" and x: "elements_of srcs old new xs ok"
        and l: "mem_legal tr = mem_legal (trace ?s)"
        and b: "\<And>h. mem_bal tr h = mem_bal (trace ?s) h + blocks xs h"
      have a': "adds is_Mem (trace s) tr" using adds_trans [OF _ a] by simp
      show "wp (case (xs, ok) of (elems, ok) \<Rightarrow>
          if ok then return (Some \<lparr>sa_addr = rv r, sa_elems = elems @ [(0, [])]\<rparr>)
          else do { free_substring_array e \<lparr>sa_addr = rv r, sa_elems = elems\<rparr>; return None })
        Q (?s\<lparr>trace := tr, errno := er\<rparr>)"
      proof (cases ok)
        case True
        with x have ok: "map snd xs = map (\<lambda>s. replace_spec s old new) srcs" "\<forall>x \<in> set xs. fst x \<noteq> 0"
          by (simp_all add: elements_of_def)
        then have "takeWhile (\<lambda>x. fst x \<noteq> 0) (xs @ [(0, [])]) = xs" by simp
        then have "array_post srcs old new (trace s)
            (Some \<lparr>sa_addr = rv r, sa_elems = xs @ [(0, [])]\<rparr>) tr"
          using a' l b ok r legal by (simp add: array_post_def arr_blocks_def)
        then show ?thesis using True post by simp
      next
        case False
        with x obtain ys where ys: "xs = ys @ [(0, [])]" "\<forall>y \<in> set ys. fst y \<noteq> 0"
          by (auto simp: elements_of_def)
        then have "takeWhile (\<lambda>x. fst x \<noteq> 0) xs = ys" by simp
        then have ab: "arr_blocks \<lparr>sa_addr = rv r, sa_elems = xs\<rparr> h =
            of_bool (h = rv r) + blocks xs h" for h
          using r ys by (simp add: arr_blocks_def)
        have "wp (free_substring_array e \<lparr>sa_addr = rv r, sa_elems = xs\<rparr>) (\<lambda>_. Q None)
            (?s\<lparr>trace := tr, errno := er\<rparr>)"
        proof (rule wp_free_substring_array)
          fix tr' er'
          assume f: "adds is_Mem (trace (?s\<lparr>trace := tr, errno := er\<rparr>)) tr'" "mem_legal tr'"
            "\<And>h. mem_bal tr' h = mem_bal (trace (?s\<lparr>trace := tr, errno := er\<rparr>)) h -
              arr_blocks \<lparr>sa_addr = rv r, sa_elems = xs\<rparr> h"
          then have "array_post srcs old new (trace s) None tr'"
            using a' b r adds_trans by (auto simp: array_post_def ab)
          then show "Q None (?s\<lparr>trace := tr, errno := er, trace := tr', errno := er'\<rparr>)"
            using post by simp
        qed (use l legal ys b r ab mem_bal_nonneg [OF legal] in auto)
        then show ?thesis using False by simp
      qed
    qed
  next
    assume "\<not> rv r \<noteq> 0"
    then show "wp (return None) Q ?s"
      using legal by (auto intro!: post simp: array_post_def)
  qed
qed

end
