(* ===== verification/ProcPath_Props.thy ===== *)
theory ProcPath_Props
  imports ProcPath
begin

text \<open>
  Properties of the path functions and of the string replacement of proc_helper.c, and the
  rule for \<open>replace_relative_path_array\<close> that their clients use.
\<close>

section \<open>Sizes\<close>

lemma count_spec_bound: "old \<noteq> [] \<Longrightarrow> count_spec src old * length old \<le> length src"
proof (induction src old rule: count_spec.induct)
  case (1 src old)
  show ?case
  proof (cases "initial_strstr src old")
    case None
    then show ?thesis by (simp add: count_spec.simps)
  next
    case (Some k)
    note b = initial_strstr_shorter(1) [OF Some "1.prems"]
    from "1.IH" [OF Some "1.prems" "1.prems"] b show ?thesis
      by (subst count_spec.simps) (simp add: Some "1.prems")
  qed
qed

lemma replace_spec_size:
  assumes "old \<noteq> []" and "length src < 2 ^ 32" and "strlen new \<le> 4096"
  shows "length (replace_spec src old new) + 1 < 2 ^ 64"
proof -
  have "1 \<le> length old" using assms(1) by (cases old) simp_all
  then have "count_spec src old * 1 \<le> count_spec src old * length old" by (rule mult_le_mono2)
  also have "\<dots> \<le> length src" by (rule count_spec_bound [OF assms(1)])
  finally have "count_spec src old * length new \<le> 2 ^ 32 * 4096"
    using assms(2,3) by (intro mult_le_mono) simp_all
  then show ?thesis using length_replace_spec [OF assms(1), of src new] assms(2) by simp
qed

section \<open>The rule for argument lists\<close>

definition is_Mem_or_File :: "call \<Rightarrow> bool" where
  "is_Mem_or_File c \<longleftrightarrow> is_Mem c \<or> is_File c"

text \<open>The strings of a terminated array.\<close>

definition arr_strings :: "str_array \<Rightarrow> string list" where
  "arr_strings arr = map snd (takeWhile (\<lambda>x. fst x \<noteq> 0) (sa_elems arr))"

definition arr_ok :: "str_array \<Rightarrow> bool" where
  "arr_ok arr \<longleftrightarrow> 0 \<in> fst ` set (sa_elems arr)"

lemma array_post_Some:
  assumes "array_post srcs old new tr0 (Some arr) tr"
  shows "arr_ok arr" and "arr_strings arr = map (\<lambda>s. replace_spec s old new) srcs"
    and "mem_bal tr h = mem_bal tr0 h + arr_blocks arr h"
  using assms by (auto simp: array_post_def arr_ok_def arr_strings_def)

text \<open>The call that reads the link changes no memory.\<close>

lemma array_post_after_file:
  assumes "array_post srcs old new ((File f, r) # tr0) res tr"
  shows "array_post srcs old new ((File f, r) # tr0) res tr \<and> adds is_Mem_or_File tr0 tr \<and>
    (case res of None \<Rightarrow> (\<forall>h. mem_bal tr h = mem_bal tr0 h)
     | Some arr \<Rightarrow> (\<forall>h. mem_bal tr h = mem_bal tr0 h + arr_blocks arr h))"
proof -
  have "adds is_Mem_or_File tr0 ((File f, r) # tr0)" by (simp add: is_Mem_or_File_def)
  moreover have "adds is_Mem_or_File ((File f, r) # tr0) tr"
    using assms by (auto simp: array_post_def is_Mem_or_File_def intro: adds_mono)
  ultimately show ?thesis using assms adds_trans
    by (fastforce simp: array_post_def split: option.splits)
qed

definition rel_path_post :: "string list \<Rightarrow> event list \<Rightarrow> str_array option \<Rightarrow> event list \<Rightarrow> bool" where
  "rel_path_post argv tr0 res tr \<longleftrightarrow> adds is_Mem_or_File tr0 tr \<and> mem_legal tr \<and>
     (case res of None \<Rightarrow> (\<forall>h. mem_bal tr h = mem_bal tr0 h)
      | Some arr \<Rightarrow> arr_ok arr \<and> (\<forall>h. mem_bal tr h = mem_bal tr0 h + arr_blocks arr h) \<and>
          (\<exists>dir. strlen dir \<le> 4096 \<and>
             arr_strings arr = map (\<lambda>s. replace_spec s ''./'' dir) argv))"

lemma array_post_rel_path:
  assumes "array_post argv ''./'' dir ((File f, r) # tr0) res tr" and "strlen dir \<le> 4096"
  shows "rel_path_post argv tr0 res tr"
proof -
  note a = array_post_after_file [OF assms(1)]
  then have m: "mem_legal tr" by (simp add: array_post_def)
  show ?thesis
  proof (cases res)
    case None
    with a m show ?thesis by (simp add: rel_path_post_def)
  next
    case (Some arr)
    with assms(1) have p: "array_post argv ''./'' dir ((File f, r) # tr0) (Some arr) tr" by simp
    from a m Some array_post_Some(1,2) [OF p] assms(2) show ?thesis
      by (auto simp: rel_path_post_def)
  qed
qed

lemma wp_replace_relative_path:
  assumes legal: "mem_legal (trace s)" and argv: "argv \<noteq> []" "\<forall>a \<in> set argv. length a < 2 ^ 32"
    and post: "\<And>res tr er lt u. rel_path_post argv (trace s) res tr \<Longrightarrow>
      Q res (s\<lparr>trace := tr, errno := er, ltrace := lt, lub := u\<rparr>)"
  shows "wp (replace_relative_path_array e argv) Q s"
  unfolding replace_relative_path_array_def
proof (simp only: wp_bind, rule wp_get_current_exec_path)
  fix ret :: int and d :: string and r :: reply
  assume d: "strlen d < PATH_MAX + 1" and "ret \<noteq> 0 \<Longrightarrow> d = []"
  let ?s = "s\<lparr>trace := (File (Readlink ''/proc/self/exe'' 4096), r) # trace s, errno := rerr r\<rparr>"
  have legal': "mem_legal (trace ?s)" using legal by simp
  have run: "wp (replace_initial_substring_array e argv ''./'' dir) Q
      (s\<lparr>trace := (File (Readlink ''/proc/self/exe'' 4096), r) # trace s, errno := er,
        ltrace := lt, lub := u\<rparr>)"
    if dir: "strlen dir \<le> 4096" for dir er lt u
  proof (rule wp_replace_array)
    show "\<forall>src \<in> set argv. length (replace_spec src ''./'' dir) + 1 < 2 ^ 64"
      using argv(2) dir replace_spec_size [of "''./''"] by blast
  next
    fix res tr er'
    assume "array_post argv ''./'' dir (trace (s\<lparr>trace := (File (Readlink ''/proc/self/exe'' 4096),
      r) # trace s, errno := er, ltrace := lt, lub := u\<rparr>)) res tr"
    then have "rel_path_post argv (trace s) res tr" using array_post_rel_path [OF _ dir] by simp
    from post [OF this, where er = er' and lt = lt and u = u]
    show "Q res (s\<lparr>trace := (File (Readlink ''/proc/self/exe'' 4096), r) # trace s, errno := er,
        ltrace := lt, lub := u, trace := tr, errno := er'\<rparr>)" by simp
  qed (use legal in simp_all)
  from run [where er = "rerr r" and lt = "ltrace s" and u = "lub s"]
  have run': "wp (replace_initial_substring_array e argv ''./'' dir) Q ?s"
    if "strlen dir \<le> 4096" for dir using that by simp
  show "wp (case (ret, Some d) of (get_path_err, cur_abs_path) \<Rightarrow>
      if get_path_err = 0 then replace_initial_substring_array e argv ''./''
        (case cur_abs_path of None \<Rightarrow> [] | Some d \<Rightarrow> d)
      else do {
        require (argv \<noteq> []);
        er \<leftarrow> gets errno;
        log_printf e ''Substituting relative paths by absolute ones of %s: Error obtaining current path. errno=%d\<newline>''
          [FStr (hd argv), FInt er];
        replace_initial_substring_array e argv ''./'' [] }) Q ?s"
    using d argv(1) run' run by (auto intro!: wp_intro simp: require_def)
qed simp

lemma wp_get_absolute_path:
  assumes null: "\<And>t. orig = None \<Longrightarrow> t = s \<Longrightarrow> Q (22, None) t"
    and long: "\<And>p. orig = Some p \<Longrightarrow> 4096 < strlen p \<Longrightarrow> Q (22, None) s"
    and abso: "\<And>p. orig = Some p \<Longrightarrow> strlen p \<le> 4096 \<Longrightarrow> p \<noteq> [] \<Longrightarrow> hd p = CHR ''/'' \<Longrightarrow>
      Q (junk e, Some p) (s\<lparr>ub := True\<rparr>)"
    and rel: "\<And>p q ret r er. orig = Some p \<Longrightarrow> p = [] \<or> hd p \<noteq> CHR ''/'' \<Longrightarrow>
      strlen p \<le> 4096 \<Longrightarrow> strlen q \<le> 4096 \<Longrightarrow>
      Q (ret, Some q) (s\<lparr>trace :=
        (File (Readlink ''/proc/self/exe'' 4096), r) # trace s, errno := er\<rparr>)"
  shows "wp (get_absolute_path e orig) Q s"
proof (cases orig)
  case None
  with null show ?thesis by (simp add: get_absolute_path_def)
next
  case (Some p)
  show ?thesis
    using long [OF Some] abso [OF Some]
    by (auto intro!: wp_intro rel [OF Some] simp: get_absolute_path_def Some require_def Let_def
      not_less)
qed

section \<open>A working system\<close>

text \<open>Allocations give the number of the calls so far; the executable is \<open>/opt/a/alarm\<close>.\<close>

definition unix_answer :: "event list \<Rightarrow> call \<Rightarrow> reply" where
  "unix_answer tr c = (case c of
     Mem (Malloc _) \<Rightarrow> ok_reply (int (length tr) + 1)
   | File (Readlink _ _) \<Rightarrow> str_reply 12 ''/opt/a/alarm''
   | _ \<Rightarrow> ok_reply 0)"

definition unix_env :: env where
  "unix_env = env_of unix_answer"

section \<open>Properties\<close>

text \<open>
  The path of the executable always fits in the buffer with its terminator, on every branch;
  when the link can be read and fits, it is the directory of the executable and a slash.
\<close>
theorem get_current_exec_path_fits:
  assumes "run_state (get_current_exec_path e n) s = ((ret, p), t)" and "0 < n"
  shows "\<exists>d. p = Some d \<and> strlen d < n \<and> (ret = 0 \<and>
    rv (answer e (trace s) (File (Readlink ''/proc/self/exe'' 4096))) \<noteq> -1 \<longrightarrow> d = c_dirname (buffer_take 4096
      (rstr (answer e (trace s) (File (Readlink ''/proc/self/exe'' 4096))))) @ ''/'')"
  using assms
  by (auto simp: get_current_exec_path_def run_prims Let_def split: if_splits)

lemma get_current_exec_path_fits_witness:
  "fst (run_state (get_current_exec_path unix_env 20) log_start) = (0, Some ''/opt/a/'') \<and>
   (\<exists>d. Some ''/opt/a/'' = Some d \<and> strlen d < 20)"
proof -
  have r: "fst (run_state (get_current_exec_path unix_env 20) log_start) = (0, Some ''/opt/a/'')"
    by code_simp
  then have "run_state (get_current_exec_path unix_env 20) log_start =
      ((0, Some ''/opt/a/''), snd (run_state (get_current_exec_path unix_env 20) log_start))"
    by (metis prod.collapse)
  from get_current_exec_path_fits [OF this] r show ?thesis by auto
qed

text \<open>
  The absolute path of a file is at most \<open>PATH_MAX\<close> characters long, so that a buffer of
  \<open>PATH_MAX + 1\<close> bytes holds it, and for a relative path the result code is well defined.
\<close>
theorem get_absolute_path_bound:
  assumes "run_state (get_absolute_path e orig) s = ((ret, p), t)"
  shows "(\<forall>q. p = Some q \<longrightarrow> strlen q \<le> PATH_MAX) \<and>
    (orig = None \<or> strlen (the orig) > PATH_MAX \<longrightarrow> ret = EINVAL \<and> t = s) \<and>
    (ub t \<longrightarrow> ub s \<or> (\<exists>q. orig = Some (CHR ''/'' # q)))"
proof -
  have "wp (get_absolute_path e orig) (\<lambda>(ret, p) t. (\<forall>q. p = Some q \<longrightarrow> strlen q \<le> 4096) \<and>
      (orig = None \<or> strlen (the orig) > 4096 \<longrightarrow> ret = 22 \<and> t = s) \<and>
      (ub t \<longrightarrow> ub s \<or> (\<exists>q. orig = Some (CHR ''/'' # q)))) s"
    by (rule wp_get_absolute_path) (auto simp: neq_Nil_conv)
  from wp_runD [OF this assms] show ?thesis by simp
qed

lemma get_absolute_path_bound_witness:
  "fst (run_state (get_absolute_path unix_env (Some ''conf'')) log_start) = (0, Some ''/opt/a/conf'') \<and>
   \<not> ub (snd (run_state (get_absolute_path unix_env (Some ''conf'')) log_start))"
proof -
  have r: "fst (run_state (get_absolute_path unix_env (Some ''conf'')) log_start) =
      (0, Some ''/opt/a/conf'')" by code_simp
  then have "run_state (get_absolute_path unix_env (Some ''conf'')) log_start =
      ((0, Some ''/opt/a/conf''), snd (run_state (get_absolute_path unix_env (Some ''conf'')) log_start))"
    by (metis prod.collapse)
  from get_absolute_path_bound [OF this] r show ?thesis by (auto simp: log_start_def)
qed

text \<open>
  For an absolute path the variable that holds the result code is returned without having
  been set: the code is whatever was on the stack, although the path itself is copied.
\<close>
theorem get_absolute_path_uninitialised:
  assumes "strlen q < PATH_MAX"
  shows "run_state (get_absolute_path e (Some (CHR ''/'' # q))) s =
    ((junk e, Some (CHR ''/'' # q)), s\<lparr>ub := True\<rparr>)"
  using assms by (simp add: get_absolute_path_def run_require)

lemma get_absolute_path_uninitialised_witness:
  "run_state (get_absolute_path unix_env (Some ''/var/log/'')) log_start =
    ((junk unix_env, Some ''/var/log/''), log_start\<lparr>ub := True\<rparr>)"
  using get_absolute_path_uninitialised [of "''var/log/''"] by simp

text \<open>
  \<open>initial_strstr\<close> finds the first occurrence of a non-empty substring that stands at the
  beginning of the string or after a space, and fails exactly when there is none.
\<close>
theorem initial_strstr_first:
  assumes "sub_str \<noteq> []"
  shows "case initial_strstr str sub_str of
      None \<Rightarrow> \<forall>i. \<not> initial_at str sub_str i
    | Some i \<Rightarrow> initial_at str sub_str i \<and> i + length sub_str \<le> length str \<and>
        (\<forall>j < i. \<not> initial_at str sub_str j)"
  using assms initial_strstr_Some [of str sub_str] initial_strstr_shorter(1) [of str sub_str]
    initial_strstr_from_None [of str sub_str 0]
  by (auto simp: initial_strstr_def split: option.splits)

lemma initial_strstr_first_witness:
  "initial_strstr ''cp x/./y ./z'' ''./'' = Some 9 \<and> initial_at ''cp x/./y ./z'' ''./'' 9"
proof -
  have "initial_strstr ''cp x/./y ./z'' ''./'' = Some 9" by code_simp
  then show ?thesis using initial_strstr_first [of "''./''" "''cp x/./y ./z''"] by simp
qed



text \<open>
  C12: replacing the relative paths of an argument list is all or nothing.  When an allocation
  fails, everything allocated before is freed again; otherwise each string is the replacement of
  the original one.  No block is freed twice, no copy exceeds its allocation, no loop hangs.
\<close>
theorem replace_relative_path_all_or_nothing:
  assumes "run_state (replace_relative_path_array e argv) s = (res, t)"
    and "mem_legal (trace s)" and "argv \<noteq> []" and "\<forall>a \<in> set argv. length a < 2 ^ 32"
  shows "mem_legal (trace t) \<and> ub t = ub s \<and> hang t = hang s \<and>
    (case res of
       None \<Rightarrow> \<forall>h. mem_bal (trace t) h = mem_bal (trace s) h
     | Some arr \<Rightarrow> (\<forall>h. mem_bal (trace t) h = mem_bal (trace s) h + arr_blocks arr h) \<and>
         (\<exists>dir. strlen dir \<le> PATH_MAX \<and>
            arr_strings arr = map (\<lambda>a. replace_spec a ''./'' dir) argv))"
proof -
  have "wp (replace_relative_path_array e argv) (\<lambda>res t. rel_path_post argv (trace s) res (trace t) \<and>
      ub t = ub s \<and> hang t = hang s) s"
    by (rule wp_replace_relative_path [OF assms(2-4)]) simp
  from wp_runD [OF this assms(1)] show ?thesis
    by (auto simp: rel_path_post_def split: option.splits)
qed

lemma replace_relative_path_all_or_nothing_witness:
  "map_option arr_strings (fst (run_state (replace_relative_path_array unix_env [''./cam'', ''-x'']) log_start))
     = Some [''/opt/a/cam'', ''-x''] \<and>
   mem_legal (trace (snd (run_state (replace_relative_path_array unix_env [''./cam'', ''-x'']) log_start)))"
proof
  show "map_option arr_strings (fst (run_state (replace_relative_path_array unix_env
      [''./cam'', ''-x'']) log_start)) = Some [''/opt/a/cam'', ''-x'']" by code_simp
  show "mem_legal (trace (snd (run_state (replace_relative_path_array unix_env
      [''./cam'', ''-x'']) log_start)))"
    using replace_relative_path_all_or_nothing [OF surjective_pairing,
      of log_start "[''./cam'', ''-x'']" unix_env] by (simp add: log_start_def)
qed

text \<open>
  C37: freeing an array that \<open>replace_relative_path_array\<close> returned gives back exactly the
  memory that it had allocated.
\<close>
theorem free_undoes_replace:
  assumes "run_state (replace_relative_path_array e argv) s = (Some arr, t)"
    and "mem_legal (trace s)" and "argv \<noteq> []" and "\<forall>a \<in> set argv. length a < 2 ^ 32"
    and "run_state (free_substring_array e arr) t = ((), u)"
  shows "mem_legal (trace u) \<and> (\<forall>h. mem_bal (trace u) h = mem_bal (trace s) h) \<and> ub u = ub s"
proof -
  have "wp (replace_relative_path_array e argv) (\<lambda>res t. rel_path_post argv (trace s) res (trace t) \<and>
      ub t = ub s) s"
    by (rule wp_replace_relative_path [OF assms(2-4)]) simp
  from wp_runD [OF this assms(1)] have t: "rel_path_post argv (trace s) (Some arr) (trace t)" "ub t = ub s"
    by auto
  have "wp (free_substring_array e arr) (\<lambda>_ u. mem_legal (trace u) \<and>
      (\<forall>h. mem_bal (trace u) h = mem_bal (trace t) h - arr_blocks arr h) \<and> ub u = ub t) t"
    by (rule wp_free_substring_array)
      (use t mem_bal_nonneg [OF assms(2)] in \<open>auto simp: rel_path_post_def arr_ok_def\<close>)
  from wp_runD [OF this assms(5)] t show ?thesis by (auto simp: rel_path_post_def)
qed

lemma free_undoes_replace_witness:
  "\<forall>h. mem_bal (trace (snd (run_state (free_substring_array unix_env
      (the (fst (run_state (replace_relative_path_array unix_env [''./cam'']) log_start))))
      (snd (run_state (replace_relative_path_array unix_env [''./cam'']) log_start))))) h = 0"
proof -
  let ?r = "run_state (replace_relative_path_array unix_env [''./cam'']) log_start"
  have "fst ?r \<noteq> None" by code_simp
  then have "?r = (Some (the (fst ?r)), snd ?r)" by (metis option.collapse prod.collapse)
  moreover have "run_state (free_substring_array unix_env (the (fst ?r))) (snd ?r) =
      ((), snd (run_state (free_substring_array unix_env (the (fst ?r))) (snd ?r)))"
    by (simp add: prod_eq_iff)
  moreover have "mem_legal (trace log_start)" "\<And>h. mem_bal (trace log_start) h = 0"
    by (simp_all add: log_start_def)
  ultimately show ?thesis
    using free_undoes_replace [of unix_env "[''./cam'']" log_start] by fastforce
qed

end
