(* ===== verification/LogFiles.thy ===== *)
theory LogFiles
  imports ProcPath_Props
begin

text \<open>
  log_msgs.c, second part: opening the log and event files (an old file that is too long is cut
  to its last bytes) and closing them.  The properties: both files are opened at most once, what
  is open is what the static handles hold, the temporary buffer is freed, and closing closes
  what was opened.
\<close>

section \<open>Operations\<close>

definition LOG_FILE_NAME :: string where
  "LOG_FILE_NAME = ''daemon.log''"

definition EVENT_FILE_NAME :: string where
  "EVENT_FILE_NAME = ''events.log''"

definition MAX_PREV_MSG_FILE_SIZE :: int where
  "MAX_PREV_MSG_FILE_SIZE = 32 * 1024"

text \<open>The branch of \<open>open_msg_file\<close> that cuts a long file; the new handle.\<close>

definition truncate_msg_file :: "env \<Rightarrow> string \<Rightarrow> int \<Rightarrow> int \<Rightarrow> ('z log_st_scheme, int) state" where
  "truncate_msg_file e file_name max_file_len file_handle = do {
     log_file_buf \<leftarrow> sysv e (Mem (Malloc max_file_len));
     if log_file_buf \<noteq> 0 then do {
       sysu e (File (Fseek file_handle (- max_file_len) ''SEEK_END''));
       r \<leftarrow> sys e (File (Fread file_handle max_file_len));
       let loaded = buffer_take max_file_len (rstr r);
       sysu e (File (Fclose file_handle));
       new_handle \<leftarrow> sysv e (File (Fopen file_name ''wt''));
       whenM (new_handle \<noteq> 0) (do {
         cur_time_str \<leftarrow> get_localtime_stamp e (MAX_TIMESTAMP_LEN + 1);
         sysu e (File (Fprintf new_handle ''\<newline>[%s] <Old messages deleted>\<newline>\<newline>''
           [FStr cur_time_str]));
         sysu e (File (Fwrite new_handle loaded))
       });
       sysu e (Mem (Free log_file_buf));
       return new_handle
     } else return file_handle
   }"

definition open_msg_file :: "env \<Rightarrow> string \<Rightarrow> int \<Rightarrow> ('z log_st_scheme, int) state" where
  "open_msg_file e file_name max_file_len = do {
     file_handle \<leftarrow> sysv e (File (Fopen file_name ''a+t''));
     if file_handle \<noteq> 0 then do {
       sysu e (File (FlockUn file_handle));
       sysu e (File (Setbuf file_handle));
       sysu e (File (Fseek file_handle 0 ''SEEK_END''));
       log_size \<leftarrow> sysv e (File (Ftell file_handle));
       file_handle \<leftarrow> (if log_size > max_file_len
         then truncate_msg_file e file_name max_file_len file_handle
         else return file_handle);
       whenM (file_handle \<noteq> 0) (do {
         cur_time_str \<leftarrow> get_localtime_stamp e (MAX_TIMESTAMP_LEN + 1);
         sysu e (File (Fprintf file_handle
           ''\<newline>[%s] --------------------- Log initiated ---------------------\<newline>''
           [FStr cur_time_str]));
         sysu e (File (Fprintf file_handle ''[%s] alarm4pi daemon running\<newline>'' [FStr cur_time_str]))
       });
       return file_handle
     } else return 0
   }"

definition close_log_file :: "env \<Rightarrow> int \<Rightarrow> ('z log_st_scheme, unit) state" where
  "close_log_file e file_handle = whenM (file_handle \<noteq> 0) (do {
     cur_time_str \<leftarrow> get_localtime_stamp e (MAX_TIMESTAMP_LEN + 1);
     sysu e (File (Fprintf file_handle ''[%s] alarm4pi daemon terminated\<newline>\<newline>'' [FStr cur_time_str]));
     sysu e (File (Fclose file_handle))
   })"

text \<open>The two branches of \<open>open_log_files\<close> that open a file in the directory.\<close>

definition open_daemon_log :: "env \<Rightarrow> string \<Rightarrow> ('z log_st_scheme, unit) state" where
  "open_daemon_log e dir = do {
     h \<leftarrow> open_msg_file e (dir @ LOG_FILE_NAME) MAX_PREV_MSG_FILE_SIZE;
     modify (\<lambda>s. s\<lparr>log_file_handle := h\<rparr>);
     er \<leftarrow> gets errno;
     whenM (h = 0) (sysu e (Os (Syslog
       ''The daemon log file (%s) cannot be created or opened: errno=%d\<newline>''
       [FStr (dir @ LOG_FILE_NAME), FInt er])))
   }"

definition open_event_log :: "env \<Rightarrow> string \<Rightarrow> ('z log_st_scheme, unit) state" where
  "open_event_log e dir = do {
     h \<leftarrow> open_msg_file e (dir @ EVENT_FILE_NAME) MAX_PREV_MSG_FILE_SIZE;
     modify (\<lambda>s. s\<lparr>event_file_handle := h\<rparr>);
     er \<leftarrow> gets errno;
     whenM (h = 0) (sysu e (Os (Syslog
       ''The event log file (%s) cannot be created or opened: errno=%d\<newline>''
       [FStr (dir @ EVENT_FILE_NAME), FInt er])))
   }"

text \<open>
  The part of \<open>open_log_files\<close> after the directory is known.  \<open>full_log_filename\<close> holds the
  directory and then the name of the log file, so that the second check of the length counts
  the name of the log file as well.
\<close>

definition open_files_in :: "env \<Rightarrow> string \<Rightarrow> ('z log_st_scheme, int) state" where
  "open_files_in e dir = do {
     let fits = strlen dir + strlen LOG_FILE_NAME \<le> PATH_MAX;
     whenM fits (open_daemon_log e dir);
     let full_log_filename = (if fits then dir @ LOG_FILE_NAME else dir);
     whenM (strlen full_log_filename + strlen EVENT_FILE_NAME \<le> PATH_MAX) (open_event_log e dir);
     l \<leftarrow> gets log_file_handle;
     v \<leftarrow> gets event_file_handle;
     return (if l = 0 \<or> v = 0 then 1 else 0)
   }"

text \<open>A buffer that \<open>get_absolute_path\<close> has not written to is read uninitialised.\<close>

definition open_log_files :: "env \<Rightarrow> string option \<Rightarrow> ('z log_st_scheme, int) state" where
  "open_log_files e log_file_path = do {
     (ret_error, path) \<leftarrow> get_absolute_path e log_file_path;
     whenM (ret_error \<noteq> 0) (sysu e (Os (Syslog
       ''When opening log files: Error obtaining the absolute directory (by using the current-process executable file path): errno=%d\<newline>''
       [FInt ret_error])));
     require (path \<noteq> None);
     let dir = (case path of None \<Rightarrow> [] | Some p \<Rightarrow> p);
     mkdir_ret \<leftarrow> sysv e (File (Mkdir dir 511));
     er \<leftarrow> gets errno;
     whenM (mkdir_ret = -1 \<and> er \<noteq> EEXIST) (sysu e (Os (Syslog
       ''The log file directory (%s) cannot be created: errno=%d\<newline>'' [FStr dir, FInt er])));
     open_files_in e dir
   }"

definition close_log_files :: "env \<Rightarrow> ('z log_st_scheme, unit) state" where
  "close_log_files e = do {
     v \<leftarrow> gets event_file_handle;
     close_log_file e v;
     l \<leftarrow> gets log_file_handle;
     close_log_file e l
   }"

section \<open>The streams that are open\<close>

text \<open>The resources after an operation: streams are those before it and the handles in \<open>hs\<close>.\<close>

definition opened :: "event list \<Rightarrow> int list \<Rightarrow> event list \<Rightarrow> bool" where
  "opened old hs tr \<longleftrightarrow> file_legal tr \<and> mem_legal tr \<and> (\<forall>h. mem_bal tr h = mem_bal old h) \<and>
     (\<forall>h. file_bal tr h = file_bal old h + (if h = 0 then 0 else int (count_list hs h)))"

lemma wp_open_msg_file:
  assumes "file_legal (trace s)" and "mem_legal (trace s)"
    and "\<And>h tr lt er u. opened (trace s) [h] tr \<Longrightarrow>
      Q h (s\<lparr>trace := tr, ltrace := lt, errno := er, lub := u\<rparr>)"
  shows "wp (open_msg_file e name n) Q s"
proof -
  note quiet = assms(3) [where lt = "ltrace s" and u = "lub s", simplified]
  show ?thesis
    unfolding open_msg_file_def truncate_msg_file_def
    using assms(1,2)
    by (auto intro!: wp_intro assms(3) quiet
      simp: opened_def Let_def mem_bal_nonneg file_bal_nonneg)
qed

lemma wp_close_log_file:
  assumes "file_legal (trace s)" and "h \<noteq> 0 \<Longrightarrow> 0 < file_bal (trace s) h"
    and "\<And>tr lt er u. file_legal tr \<Longrightarrow> mem_legal tr = mem_legal (trace s) \<Longrightarrow>
      (\<And>g. mem_bal tr g = mem_bal (trace s) g) \<Longrightarrow>
      (\<And>g. file_bal tr g = file_bal (trace s) g - of_bool (h \<noteq> 0 \<and> g = h)) \<Longrightarrow>
      Q () (s\<lparr>trace := tr, ltrace := lt, errno := er, lub := u\<rparr>)"
  shows "wp (close_log_file e h) Q s"
proof -
  note quiet = assms(3) [where lt = "ltrace s" and u = "lub s", simplified]
  show ?thesis
    unfolding close_log_file_def
    using assms(1,2) quiet [where tr = "trace s" and er = "errno s"]
    by (auto intro!: wp_intro assms(3) quiet)
qed

lemma opened_other:
  assumes "opened a hs b" and "\<And>f. c \<noteq> File f" and "\<And>m. c \<noteq> Mem m"
  shows "opened a hs ((c, r) # b)"
  using assms by (cases c) (auto simp: opened_def)

lemma opened_mkdir: "opened a hs b \<Longrightarrow> opened a hs ((File (Mkdir d m), r) # b)"
  by (simp add: opened_def)

lemma opened_readlink: "opened a hs b \<Longrightarrow> opened a hs ((File (Readlink d m), r) # b)"
  by (simp add: opened_def)

lemma opened_snoc: "opened a hs b \<Longrightarrow> opened b [h] c \<Longrightarrow> opened a (hs @ [h]) c"
  by (auto simp: opened_def)

lemma openedD: "opened a hs b \<Longrightarrow> file_legal b \<and> mem_legal b"
  by (simp add: opened_def)

text \<open>What the static variables hold, and the flags.\<close>

definition files :: "'z log_st_scheme \<Rightarrow> int \<times> int \<times> bool \<times> bool" where
  "files s = (log_file_handle s, event_file_handle s, ub s, hang s)"

lemma files_frame [simp]:
  "files (s\<lparr>trace := tr\<rparr>) = files s" "files (s\<lparr>errno := er\<rparr>) = files s"
  "files (s\<lparr>ltrace := lt\<rparr>) = files s" "files (s\<lparr>lub := u\<rparr>) = files s"
  by (simp_all add: files_def)

text \<open>One of the two files is opened and its handle stored.\<close>

lemma wp_open_daemon_log:
  assumes o: "opened old hs (trace s)"
    and post: "\<And>t. opened old (hs @ [log_file_handle t]) (trace t) \<Longrightarrow>
      files t = (log_file_handle t, event_file_handle s, ub s, hang s) \<Longrightarrow> Q () t"
  shows "wp (open_daemon_log e dir) Q s"
  unfolding open_daemon_log_def
  using openedD [OF o]
  by (auto intro!: wp_open_msg_file wp_intro post opened_other dest: opened_snoc [OF o]
    simp: files_def)

lemma wp_open_event_log:
  assumes o: "opened old hs (trace s)"
    and post: "\<And>t. opened old (hs @ [event_file_handle t]) (trace t) \<Longrightarrow>
      files t = (log_file_handle s, event_file_handle t, ub s, hang s) \<Longrightarrow> Q () t"
  shows "wp (open_event_log e dir) Q s"
  unfolding open_event_log_def
  using openedD [OF o]
  by (auto intro!: wp_open_msg_file wp_intro post opened_other dest: opened_snoc [OF o]
    simp: files_def)

lemma opened_zero: "opened a hs b \<Longrightarrow> opened a (0 # hs) b" "opened a hs b \<Longrightarrow> opened a (hs @ [0]) b"
  by (auto simp: opened_def)

lemma wp_open_files_in:
  assumes o: "opened old [] (trace s)" and zero: "log_file_handle s = 0" "event_file_handle s = 0"
    and post: "\<And>ret t. opened old [log_file_handle t, event_file_handle t] (trace t) \<Longrightarrow>
      ret = (if log_file_handle t = 0 \<or> event_file_handle t = 0 then 1 else 0) \<Longrightarrow>
      ub t = ub s \<Longrightarrow> hang t = hang s \<Longrightarrow> Q ret t"
  shows "wp (open_files_in e dir) Q s"
proof -
  have second: "wp (whenM b (open_event_log e dir)) (\<lambda>_ t.
      (log_file_handle t = 0 \<or> event_file_handle t = 0 \<longrightarrow> Q 1 t) \<and>
      (\<not> (log_file_handle t = 0 \<or> event_file_handle t = 0) \<longrightarrow> Q 0 t)) t"
    if "opened old [log_file_handle t] (trace t)" "event_file_handle t = 0" "ub t = ub s"
      "hang t = hang s" for b and t :: "'a log_st_scheme"
    using that opened_zero(2) [OF that(1)]
    by (auto intro!: wp_whenM wp_open_event_log [OF that(1)] post simp: files_def)
  show ?thesis
    unfolding open_files_in_def Let_def
    using opened_zero(1) [OF o] zero
    by (auto intro!: wp_whenM [of _ "open_daemon_log e dir"] wp_open_daemon_log [OF o] second
      simp: files_def)
qed

text \<open>The directory arguments for which the result code or the buffer is not set.\<close>

definition bad_dir :: "string option \<Rightarrow> bool" where
  "bad_dir p \<longleftrightarrow> p = None \<or> 4096 < strlen (the p) \<or> hd (the p) = CHR ''/''"

lemma wp_absolute_path_opened:
  assumes o: "opened old [] (trace s)"
    and post: "\<And>ret q t. opened old [] (trace t) \<Longrightarrow>
      log_file_handle t = log_file_handle s \<Longrightarrow> event_file_handle t = event_file_handle s \<Longrightarrow>
      ub t \<longrightarrow> ub s \<or> bad_dir p \<Longrightarrow> q = None \<longrightarrow> bad_dir p \<Longrightarrow> Q (ret, q) t"
  shows "wp (get_absolute_path e p) Q s"
  by (rule wp_get_absolute_path; rule post)
    (use o in \<open>auto simp: files_def opened_readlink bad_dir_def\<close>)

lemma wp_open_log_files:
  assumes legal: "file_legal (trace s)" "mem_legal (trace s)"
    and zero: "log_file_handle s = 0" "event_file_handle s = 0"
    and post: "\<And>ret t. opened (trace s) [log_file_handle t, event_file_handle t] (trace t) \<Longrightarrow>
      ret = (if log_file_handle t = 0 \<or> event_file_handle t = 0 then 1 else 0) \<Longrightarrow>
      ub t \<longrightarrow> ub s \<or> bad_dir p \<Longrightarrow> Q ret t"
  shows "wp (open_log_files e p) Q s"
  unfolding open_log_files_def
proof (simp only: wp_bind, rule wp_absolute_path_opened)
  show "opened (trace s) [] (trace s)" using legal by (simp add: opened_def)
next
  fix ret :: int and q :: "string option" and t :: "'a log_st_scheme"
  assume o: "opened (trace s) [] (trace t)" and
    z: "log_file_handle t = log_file_handle s" "event_file_handle t = event_file_handle s" and
    u: "ub t \<longrightarrow> ub s \<or> bad_dir p" "q = None \<longrightarrow> bad_dir p"
  have rest: "wp (open_files_in e dir) Q v"
    if "opened (trace s) [] (trace v)" "log_file_handle v = 0" "event_file_handle v = 0"
      "ub v \<longrightarrow> ub s \<or> bad_dir p" for dir and v :: "'a log_st_scheme"
    by (rule wp_open_files_in [OF that(1-3)]) (use that(4) in \<open>auto intro!: post\<close>)
  show "wp (case (ret, q) of (ret_error, path) \<Rightarrow> do {
     whenM (ret_error \<noteq> 0) (sysu e (Os (Syslog
       ''When opening log files: Error obtaining the absolute directory (by using the current-process executable file path): errno=%d\<newline>''
       [FInt ret_error])));
     require (path \<noteq> None);
     let dir = (case path of None \<Rightarrow> [] | Some p \<Rightarrow> p);
     mkdir_ret \<leftarrow> sysv e (File (Mkdir dir 511));
     er \<leftarrow> gets errno;
     whenM (mkdir_ret = -1 \<and> er \<noteq> EEXIST) (sysu e (Os (Syslog
       ''The log file directory (%s) cannot be created: errno=%d\<newline>'' [FStr dir, FInt er])));
     open_files_in e dir }) Q t"
    using o z u zero
    by (cases q) (auto intro!: wp_intro rest opened_mkdir opened_other simp: Let_def)
qed

lemma wp_close_log_files:
  assumes "file_legal (trace s)"
    and "\<And>h. h \<noteq> 0 \<Longrightarrow>
      int (count_list [log_file_handle s, event_file_handle s] h) \<le> file_bal (trace s) h"
    and post: "\<And>tr lt er u. file_legal tr \<Longrightarrow> mem_legal tr = mem_legal (trace s) \<Longrightarrow>
      (\<And>g. mem_bal tr g = mem_bal (trace s) g) \<Longrightarrow>
      (\<And>g. file_bal tr g = file_bal (trace s) g - (if g = 0 then 0 else
        int (count_list [log_file_handle s, event_file_handle s] g))) \<Longrightarrow>
      Q () (s\<lparr>trace := tr, ltrace := lt, errno := er, lub := u\<rparr>)"
  shows "wp (close_log_files e) Q s"
  unfolding close_log_files_def
proof (simp, rule wp_close_log_file [OF assms(1)])
  let ?l = "log_file_handle s" and ?v = "event_file_handle s"
  show "0 < file_bal (trace s) ?v" if "?v \<noteq> 0" using assms(2) [OF that] by (auto split: if_splits)
  fix tr lt er u
  assume tr: "file_legal tr" "mem_legal tr = mem_legal (trace s)"
    "\<And>g. mem_bal tr g = mem_bal (trace s) g"
    "\<And>g. file_bal tr g = file_bal (trace s) g - of_bool (?v \<noteq> 0 \<and> g = ?v)"
  let ?t = "s\<lparr>trace := tr, ltrace := lt, errno := er, lub := u\<rparr>"
  have "0 < file_bal tr ?l" if "?l \<noteq> 0"
    using that assms(2) [OF that] by (cases "?v = ?l") (simp_all add: tr(4))
  then show "wp (close_log_file e (log_file_handle ?t)) Q ?t"
    by (auto intro!: wp_close_log_file post simp: tr)
qed

text \<open>A file system in which every file opens: the handles are the numbers of the calls.\<close>

definition fs_answer :: "event list \<Rightarrow> call \<Rightarrow> reply" where
  "fs_answer tr c = (case c of
     Mem (Malloc _) \<Rightarrow> ok_reply (int (length tr) + 1)
   | File (Fopen _ _) \<Rightarrow> ok_reply (int (length tr) + 1)
   | File (Ftell _) \<Rightarrow> ok_reply 100
   | File (Readlink _ _) \<Rightarrow> str_reply 12 ''/opt/a/alarm''
   | _ \<Rightarrow> ok_reply 0)"

definition fs_env :: env where
  "fs_env = env_of fs_answer"

section \<open>Properties\<close>

text \<open>
  C38: \<open>open_log_files\<close> reports success exactly when both files are open; the streams that are
  open after it are those that the two static handles hold, no stream is used before it is
  opened or after it is closed, the buffer for old messages is freed, and nothing undefined
  happens for a relative directory name of a sensible length.
\<close>
theorem open_log_files_discipline:
  assumes "run_state (open_log_files e (Some dir)) s = (ret, t)"
    and "file_legal (trace s)" and "mem_legal (trace s)"
    and "log_file_handle s = 0" and "event_file_handle s = 0"
  shows "(ret = 0) = (log_file_handle t \<noteq> 0 \<and> event_file_handle t \<noteq> 0) \<and>
    file_legal (trace t) \<and> mem_legal (trace t) \<and> (\<forall>h. mem_bal (trace t) h = mem_bal (trace s) h) \<and>
    (\<forall>h. file_bal (trace t) h = file_bal (trace s) h +
      (if h = 0 then 0 else int (count_list [log_file_handle t, event_file_handle t] h))) \<and>
    (strlen dir \<le> PATH_MAX \<and> hd dir \<noteq> CHR ''/'' \<and> \<not> ub s \<longrightarrow> \<not> ub t)"
proof -
  have "wp (open_log_files e (Some dir)) (\<lambda>ret t.
      opened (trace s) [log_file_handle t, event_file_handle t] (trace t) \<and>
      ret = (if log_file_handle t = 0 \<or> event_file_handle t = 0 then 1 else 0) \<and>
      (ub t \<longrightarrow> ub s \<or> bad_dir (Some dir))) s"
    by (rule wp_open_log_files [OF assms(2-5)]) auto
  from wp_runD [OF this assms(1)] show ?thesis by (auto simp: opened_def bad_dir_def)
qed

lemma open_log_files_discipline_witness:
  "fst (run_state (open_log_files fs_env (Some ''log/'')) log_start) = 0 \<and>
   log_file_handle (snd (run_state (open_log_files fs_env (Some ''log/'')) log_start)) \<noteq> 0 \<and>
   file_legal (trace (snd (run_state (open_log_files fs_env (Some ''log/'')) log_start)))"
proof -
  have "fst (run_state (open_log_files fs_env (Some ''log/'')) log_start) = 0"
    by (simp add: run_defs open_log_files_def open_files_in_def open_daemon_log_def
      open_event_log_def open_msg_file_def get_localtime_stamp_def get_localtime_str_def
      get_absolute_path_def get_current_exec_path_def fs_env_def fs_answer_def c_dirname_def
      strip_slashes_def is_slash_def LOG_FILE_NAME_def EVENT_FILE_NAME_def
      MAX_PREV_MSG_FILE_SIZE_def)
  then show ?thesis
    using open_log_files_discipline [OF surjective_pairing, of log_start fs_env "''log/''"] by simp
qed

text \<open>
  C39: closing the log files after opening them closes exactly what was opened, once each.  The
  static handles are not reset: they still name the closed streams.
\<close>
theorem close_log_files_closes:
  assumes "run_state (open_log_files e (Some dir)) s = (ret, t)"
    and "file_legal (trace s)" and "mem_legal (trace s)"
    and "log_file_handle s = 0" and "event_file_handle s = 0"
    and "run_state (close_log_files e) t = ((), u)"
  shows "file_legal (trace u) \<and> (\<forall>h. file_bal (trace u) h = file_bal (trace s) h) \<and>
    log_file_handle u = log_file_handle t \<and> event_file_handle u = event_file_handle t"
proof -
  have "wp (open_log_files e (Some dir)) (\<lambda>ret t.
      opened (trace s) [log_file_handle t, event_file_handle t] (trace t)) s"
    by (rule wp_open_log_files [OF assms(2-5)]) auto
  from wp_runD [OF this assms(1)] have t:
    "opened (trace s) [log_file_handle t, event_file_handle t] (trace t)" .
  have "wp (close_log_files e) (\<lambda>_ u. file_legal (trace u) \<and>
      (\<forall>g. file_bal (trace u) g = file_bal (trace t) g - (if g = 0 then 0 else
        int (count_list [log_file_handle t, event_file_handle t] g))) \<and>
      log_file_handle u = log_file_handle t \<and> event_file_handle u = event_file_handle t) t"
    by (rule wp_close_log_files)
      (use t file_bal_nonneg [OF assms(2)] in \<open>simp_all add: opened_def\<close>)
  from wp_runD [OF this assms(6)] t show ?thesis by (auto simp: opened_def)
qed

lemma close_log_files_closes_witness:
  "\<forall>h. file_bal (trace (snd (run_state (close_log_files fs_env)
     (snd (run_state (open_log_files fs_env (Some ''log/'')) log_start))))) h = 0"
proof -
  let ?t = "snd (run_state (open_log_files fs_env (Some ''log/'')) log_start)"
  have r: "run_state (close_log_files fs_env) ?t = ((), snd (run_state (close_log_files fs_env) ?t))"
    by (simp add: prod_eq_iff)
  have l: "file_legal (trace log_start)" "mem_legal (trace log_start)" "log_file_handle log_start = 0"
    "event_file_handle log_start = 0" by simp_all
  from close_log_files_closes [OF surjective_pairing l r] show ?thesis by simp
qed

end
