(* ===== verification/ProcExec.thy ===== *)
theory ProcExec
  imports LogFiles
begin

text \<open>
  proc_helper.c, second part: pauses and elapsed time, and the functions that run a program in a
  child process.  \<open>fork\<close> returns twice; the reply tells which of the two processes the model
  follows.  A function whose result is \<open>None\<close> does not return: the model follows the child,
  which has been replaced by the program or has exited.  File descriptors are counted by
  \<open>fd_bal\<close>: a pipe gives two at once.
\<close>

section \<open>Time\<close>

datatype timespec = Timespec (tv_sec: int) (tv_nsec: int)

text \<open>Times in order of seconds, then of nanoseconds.\<close>

instantiation timespec :: linorder
begin

definition less_eq_timespec :: "timespec \<Rightarrow> timespec \<Rightarrow> bool" where
  "less_eq_timespec a b \<longleftrightarrow> tv_sec a < tv_sec b \<or> (tv_sec a = tv_sec b \<and> tv_nsec a \<le> tv_nsec b)"

definition less_timespec :: "timespec \<Rightarrow> timespec \<Rightarrow> bool" where
  "less_timespec a b \<longleftrightarrow> tv_sec a < tv_sec b \<or> (tv_sec a = tv_sec b \<and> tv_nsec a < tv_nsec b)"

instance
  by standard (auto simp: less_eq_timespec_def less_timespec_def intro: timespec.expand)

end

definition to_nsec :: "timespec \<Rightarrow> int" where
  "to_nsec t = tv_sec t * 1000000000 + tv_nsec t"

definition normalised :: "timespec \<Rightarrow> bool" where
  "normalised t \<longleftrightarrow> 0 \<le> tv_nsec t \<and> tv_nsec t < 1000000000"

text \<open>
  The loop of \<open>millisleep\<close>: what is left to wait, the last result, and whether to go on.
  \<open>nanosleep\<close> stores the remaining time when a signal interrupts it.
\<close>

definition sleep_step :: "env \<Rightarrow> timespec \<times> int \<times> bool \<Rightarrow>
    ('z world_scheme, timespec \<times> int \<times> bool) state" where
  "sleep_step e x = (case x of (time_to_wait, _, _) \<Rightarrow> do {
     r \<leftarrow> sys e (Os (Nanosleep (tv_sec time_to_wait) (tv_nsec time_to_wait)));
     let time_to_wait = (if rv r = -1 \<and> rerr r = EINTR then Timespec (rout r) (rout2 r)
                         else time_to_wait);
     er \<leftarrow> gets errno;
     return (time_to_wait, rv r, rv r = -1 \<and> er = EINTR \<and>
       (tv_sec time_to_wait > 0 \<or> tv_nsec time_to_wait \<ge> 1000000))
   })"

definition millisleep :: "env \<Rightarrow> nat \<Rightarrow> ('z world_scheme, int) state" where
  "millisleep e ms_pause = do {
     x \<leftarrow> sleep_step e (Timespec (int (ms_pause div 1000)) (int (ms_pause mod 1000 * 1000000)), 0, True);
     (_, ret_err, _) \<leftarrow> while_fuel (fuel e) (\<lambda>(_, _, again). return again) (sleep_step e) x;
     er \<leftarrow> gets errno;
     return (if ret_err = -1 \<and> er = EINTR then 0 else ret_err)
   }"

definition get_elapsed_time :: "env \<Rightarrow> timespec option \<Rightarrow> ('z world_scheme, timespec) state" where
  "get_elapsed_time e since_time_ptr = do {
     r \<leftarrow> sys e (Os ClockGettime);
     if rv r = 0 then
       return (case since_time_ptr of
         Some since \<Rightarrow>
           let sec = rout r - tv_sec since; nsec = rout2 r - tv_nsec since
           in if nsec < 0 then Timespec (sec - 1) (nsec + 1000000000) else Timespec sec nsec
       | None \<Rightarrow> Timespec (rout r) (rout2 r))
     else return (Timespec 0 0)
   }"

section \<open>The child processes\<close>

text \<open>A \<open>dup2\<close> whose failure is only logged.\<close>

definition dup2_logged :: "env \<Rightarrow> int \<Rightarrow> int \<Rightarrow> string \<Rightarrow> string \<Rightarrow> ('z log_st_scheme, unit) state" where
  "dup2_logged e fd fd2 msg exec_filename = do {
     ret \<leftarrow> sysv e (Proc (Dup2 fd fd2));
     er \<leftarrow> gets errno;
     whenM (ret = -1) (log_printf e msg [FStr exec_filename, FInt er])
   }"

text \<open>The standard input is taken from the null device.\<close>

definition null_stdin :: "env \<Rightarrow> string \<Rightarrow> ('z log_st_scheme, unit) state" where
  "null_stdin e exec_filename = do {
     null_fd_rd \<leftarrow> sysv e (Proc (OpenNull ''O_RDONLY''));
     if null_fd_rd \<noteq> -1 then do {
       dup2_logged e null_fd_rd 0
         ''Creating process %s: child failed to redirect standard input. errno=%d\<newline>'' exec_filename;
       sysu e (Proc (Close null_fd_rd))
     } else do {
       er \<leftarrow> gets errno;
       log_printf e ''Creating process %s: child could not open null device for reading. errno=%d\<newline>''
         [FStr exec_filename, FInt er];
       sysu e (Proc (Close 0))
     }
   }"

text \<open>
  \<open>execvp\<close> returns only when it fails; then the child logs the failure and exits.  The log file
  number is that of the stream (\<open>fileno\<close>).
\<close>

definition exec_or_exit :: "env \<Rightarrow> string \<Rightarrow> string list \<Rightarrow> string \<Rightarrow> ('z log_st_scheme, unit) state" where
  "exec_or_exit e exec_filename exec_argv msg = do {
     r \<leftarrow> sysv e (Proc (Execvp exec_filename exec_argv));
     whenM (r = -1) (do {
       sysu e (Proc (Close 1));
       sysu e (Proc (Close 2));
       er \<leftarrow> gets errno;
       log_printf e msg [FStr exec_filename, FInt er];
       l \<leftarrow> gets log_file_handle;
       whenM (l \<noteq> 0) (sysu e (File (Fclose l)));
       er \<leftarrow> gets errno;
       sysu e (Proc (Exit er))
     })
   }"

definition close_event_file :: "env \<Rightarrow> ('z log_st_scheme, unit) state" where
  "close_event_file e = do {
     v \<leftarrow> gets event_file_handle;
     whenM (v \<noteq> 0) (sysu e (File (Fclose v)))
   }"

definition log_as_output :: "env \<Rightarrow> string \<Rightarrow> ('z log_st_scheme, unit) state" where
  "log_as_output e exec_filename = do {
     l \<leftarrow> gets log_file_handle;
     whenM (l \<noteq> 0) (do {
       dup2_logged e l 1
         ''Creating process %s: child failed to redirect standard output. errno=%d\<newline>'' exec_filename;
       dup2_logged e l 2
         ''Creating process %s: child failed to redirect standard error output. errno=%d\<newline>'' exec_filename
     })
   }"

definition child_out_log :: "env \<Rightarrow> string \<Rightarrow> string list \<Rightarrow> ('z log_st_scheme, unit) state" where
  "child_out_log e exec_filename exec_argv = do {
     log_as_output e exec_filename;
     close_event_file e;
     null_stdin e exec_filename;
     exec_or_exit e exec_filename exec_argv ''Failed to execute program %s. errno=%d\<newline>''
   }"

definition child_out_fd :: "env \<Rightarrow> int \<Rightarrow> int \<Rightarrow> string \<Rightarrow> string list \<Rightarrow> ('z log_st_scheme, unit) state" where
  "child_out_fd e read_end write_end exec_filename exec_argv = do {
     close_event_file e;
     sysu e (Proc (Close read_end));
     dup2_logged e write_end 1
       ''Creating process %s: child failed to redirect standard output. errno=%d\<newline>'' exec_filename;
     dup2_logged e write_end 2
       ''Creating process %s: child failed to redirect standard error output. errno=%d\<newline>'' exec_filename;
     sysu e (Proc (Close write_end));
     null_stdin e exec_filename;
     exec_or_exit e exec_filename exec_argv
       ''Creating process %s: child failed to execute program. errno=%d\<newline>''
   }"

definition child_in_fd :: "env \<Rightarrow> int \<Rightarrow> int \<Rightarrow> string \<Rightarrow> string list \<Rightarrow> ('z log_st_scheme, unit) state" where
  "child_in_fd e read_end write_end exec_filename exec_argv = do {
     sysu e (Proc (Close write_end));
     log_as_output e exec_filename;
     close_event_file e;
     dup2_logged e read_end 0
       ''Creating process %s: child failed to redirect standard input. errno=%d\<newline>'' exec_filename;
     sysu e (Proc (Close read_end));
     exec_or_exit e exec_filename exec_argv ''Failed to execute program %s. errno=%d\<newline>''
   }"

section \<open>Running a program\<close>

definition flush_logs :: "env \<Rightarrow> ('z log_st_scheme, unit) state" where
  "flush_logs e = do {
     l \<leftarrow> gets log_file_handle;
     whenM (l \<noteq> 0) (sysu e (File (Fflush l)));
     v \<leftarrow> gets event_file_handle;
     whenM (v \<noteq> 0) (sysu e (File (Fflush v)))
   }"

text \<open>The result code and the new process number.\<close>

definition run_background_command_out_log ::
    "env \<Rightarrow> string \<Rightarrow> string list \<Rightarrow> ('z log_st_scheme, (int \<times> int) option) state" where
  "run_background_command_out_log e exec_filename exec_argv = do {
     flush_logs e;
     new_proc_id \<leftarrow> sysv e (Proc Fork);
     if new_proc_id = 0 then do {
       child_out_log e exec_filename exec_argv;
       return None
     } else if new_proc_id > 0 then return (Some (0, new_proc_id))
     else do {
       ret \<leftarrow> gets errno;
       log_printf e ''Creating process %s: first fork failed. errno=%d\<newline>''
         [FStr exec_filename, FInt ret];
       return (Some (ret, new_proc_id))
     }
   }"

text \<open>
  With a pipe: the result code, the process number and the descriptor that is stored through
  \<open>output_fd\<close>, which is a null pointer when \<open>want_fd\<close> is false.  When \<open>pipe\<close> fails
  nothing is stored (\<open>None\<close> for the process number).
\<close>

type_synonym run_fd_result = "(int \<times> int option \<times> int option) option"

definition run_background_command_out_fd ::
    "env \<Rightarrow> bool \<Rightarrow> string \<Rightarrow> string list \<Rightarrow> ('z log_st_scheme, run_fd_result) state" where
  "run_background_command_out_fd e want_fd exec_filename exec_argv = do {
     p \<leftarrow> sys e (Proc Pipe);
     let read_end = rout p;
     let write_end = rout2 p;
     if rv p = 0 then do {
       flush_logs e;
       new_proc_id \<leftarrow> sysv e (Proc Fork);
       if new_proc_id = 0 then do {
         child_out_fd e read_end write_end exec_filename exec_argv;
         return None
       } else if new_proc_id > 0 then do {
         sysu e (Proc (Close write_end));
         if want_fd then return (Some (0, Some new_proc_id, Some read_end))
         else do {
           sysu e (Proc (Close read_end));
           return (Some (0, Some new_proc_id, None))
         }
       } else do {
         ret \<leftarrow> gets errno;
         sysu e (Proc (Close read_end));
         sysu e (Proc (Close write_end));
         er \<leftarrow> gets errno;
         log_printf e ''Creating process %s: fork failed. errno=%d\<newline>'' [FStr exec_filename, FInt er];
         return (Some (ret, Some new_proc_id, None))
       }
     } else do {
       ret \<leftarrow> gets errno;
       log_printf e ''Creating process %s: pipe creation failed. errno=%d\<newline>''
         [FStr exec_filename, FInt ret];
       return (Some (ret, None, None))
     }
   }"

definition run_background_command_in_fd ::
    "env \<Rightarrow> bool \<Rightarrow> string \<Rightarrow> string list \<Rightarrow> ('z log_st_scheme, run_fd_result) state" where
  "run_background_command_in_fd e want_fd exec_filename exec_argv = do {
     p \<leftarrow> sys e (Proc Pipe);
     let read_end = rout p;
     let write_end = rout2 p;
     if rv p = 0 then do {
       flush_logs e;
       new_proc_id \<leftarrow> sysv e (Proc Fork);
       if new_proc_id = 0 then do {
         child_in_fd e read_end write_end exec_filename exec_argv;
         return None
       } else if new_proc_id > 0 then do {
         sysu e (Proc (Close read_end));
         if want_fd then return (Some (0, Some new_proc_id, Some write_end))
         else do {
           sysu e (Proc (Close write_end));
           return (Some (0, Some new_proc_id, None))
         }
       } else do {
         ret \<leftarrow> gets errno;
         sysu e (Proc (Close write_end));
         sysu e (Proc (Close read_end));
         er \<leftarrow> gets errno;
         log_printf e ''Creating process %s: first fork failed. errno=%d\<newline>''
           [FStr exec_filename, FInt er];
         return (Some (ret, Some new_proc_id, None))
       }
     } else do {
       ret \<leftarrow> gets errno;
       log_printf e ''Creating process %s: pipe creation failed. errno=%d\<newline>''
         [FStr exec_filename, FInt ret];
       return (Some (ret, None, None))
     }
   }"

section \<open>Reading the output of a program, and feeding its input\<close>

definition PROC_OUTPUT_READ_TIMEOUT :: int where
  "PROC_OUTPUT_READ_TIMEOUT = 12"

definition MIN_VALID_PROC_OUTPUT :: int where
  "MIN_VALID_PROC_OUTPUT = 30"

text \<open>
  One round of the reading loop: whether to go on, the text read so far and \<open>num_fds_ready\<close>.
  What is read is the reply's text, cut to the size asked for.
\<close>

definition read_step :: "env \<Rightarrow> int \<Rightarrow> int \<Rightarrow> timespec \<Rightarrow> bool \<times> string \<times> int \<Rightarrow>
    ('z world_scheme, bool \<times> string \<times> int) state" where
  "read_step e output_fd output_array_len init_time x = (case x of (_, text, _) \<Rightarrow> do {
     num_fds_ready \<leftarrow> sysv e (Proc (SelectRead output_fd));
     (num_fds_ready, text, end_of_file) \<leftarrow> (if num_fds_ready > 0 then do {
         let space = output_array_len - strlen text - 1;
         r \<leftarrow> sys e (Proc (ReadFd output_fd space));
         let bytes = buffer_take space (rstr r);
         return (if rv r \<ge> 0 then (num_fds_ready, text @ bytes, bytes = []) else (-1, text, False))
       } else return (num_fds_ready, text, False));
     if end_of_file then return (False, text, num_fds_ready) else do {
       elapsed_time \<leftarrow> get_elapsed_time e (Some init_time);
       er \<leftarrow> gets errno;
       return ((num_fds_ready \<ge> 0 \<or> (num_fds_ready = -1 \<and> er = EINTR)) \<and>
         tv_sec elapsed_time < PROC_OUTPUT_READ_TIMEOUT \<and>
         strlen text < output_array_len - 1 \<and>
         (num_fds_ready \<noteq> 0 \<or> strlen text < MIN_VALID_PROC_OUTPUT), text, num_fds_ready)
     }
   })"

text \<open>The result code, the process number and the contents of the array, \<open>None\<close> when nothing
  is stored in it.\<close>

definition run_background_command_out_array :: "env \<Rightarrow> int \<Rightarrow> string \<Rightarrow> string list \<Rightarrow>
    ('z log_st_scheme, (int \<times> int option \<times> string option) option) state" where
  "run_background_command_out_array e output_array_len exec_filename exec_argv = do {
     res \<leftarrow> run_background_command_out_fd e True exec_filename exec_argv;
     case res of
       None \<Rightarrow> return None
     | Some (ret, pid, fd) \<Rightarrow>
         if ret = 0 then do {
           require (0 < output_array_len \<and> fd \<noteq> None);
           let output_fd = (case fd of None \<Rightarrow> junk e | Some d \<Rightarrow> d);
           init_time \<leftarrow> get_elapsed_time e None;
           x \<leftarrow> read_step e output_fd output_array_len init_time (True, [], 0);
           (_, text, num_fds_ready) \<leftarrow> while_fuel (fuel e) (\<lambda>(again, _). return again)
             (read_step e output_fd output_array_len init_time) x;
           er \<leftarrow> gets errno;
           ret \<leftarrow> (if num_fds_ready \<ge> 0 \<or> (num_fds_ready = -1 \<and> er = EINTR) then return 0
             else do {
               log_printf e ''Reading the child-process %s output: the waiting-for-reading operation or the reading operation itself failed. errno=%d\<newline>''
                 [FStr exec_filename, FInt er];
               return er
             });
           sysu e (Proc (SetNonblock output_fd));
           return (Some (ret, pid, Some text))
         } else return (Some (ret, pid, None))
   }"

text \<open>One round of the writing loop; \<open>pos\<close> counts the characters written.\<close>

definition write_step :: "env \<Rightarrow> int \<Rightarrow> string \<Rightarrow> timespec \<Rightarrow> bool \<times> int \<times> int \<Rightarrow>
    ('z world_scheme, bool \<times> int \<times> int) state" where
  "write_step e input_fd input_array init_time x = (case x of (_, pos, _) \<Rightarrow> do {
     num_fds_ready \<leftarrow> sysv e (Proc (SelectWrite input_fd));
     (num_fds_ready, pos) \<leftarrow> (if num_fds_ready > 0 then do {
         bytes_written \<leftarrow> sysv e (Proc (WriteFd input_fd (drop (nat pos) input_array)));
         return (if bytes_written \<ge> 0 then (num_fds_ready, pos + bytes_written) else (-1, pos))
       } else return (num_fds_ready, pos));
     elapsed_time \<leftarrow> get_elapsed_time e (Some init_time);
     er \<leftarrow> gets errno;
     return ((num_fds_ready \<ge> 0 \<or> (num_fds_ready = -1 \<and> er = EINTR)) \<and>
       tv_sec elapsed_time < PROC_OUTPUT_READ_TIMEOUT \<and> pos < strlen input_array, pos, num_fds_ready)
   })"

definition run_background_command_in_array :: "env \<Rightarrow> string \<Rightarrow> string \<Rightarrow> string list \<Rightarrow>
    ('z log_st_scheme, (int \<times> int option) option) state" where
  "run_background_command_in_array e input_array exec_filename exec_argv = do {
     res \<leftarrow> run_background_command_in_fd e True exec_filename exec_argv;
     case res of
       None \<Rightarrow> return None
     | Some (ret, pid, fd) \<Rightarrow>
         if ret = 0 then do {
           require (fd \<noteq> None);
           let input_fd = (case fd of None \<Rightarrow> junk e | Some d \<Rightarrow> d);
           init_time \<leftarrow> get_elapsed_time e None;
           x \<leftarrow> write_step e input_fd input_array init_time (True, 0, 0);
           (_, pos, num_fds_ready) \<leftarrow> while_fuel (fuel e) (\<lambda>(again, _). return again)
             (write_step e input_fd input_array init_time) x;
           er \<leftarrow> gets errno;
           ret \<leftarrow> (if num_fds_ready \<ge> 0 \<or> (num_fds_ready = -1 \<and> er = EINTR) then return 0
             else do {
               log_printf e ''Reading child process %s output: waiting operation or writing operation failed. errno=%d\<newline>''
                 [FStr exec_filename, FInt er];
               return er
             });
           sysu e (Proc (Close input_fd));
           return (Some (ret, pid))
         } else return (Some (ret, pid))
   }"

section \<open>Becoming a daemon\<close>

text \<open>
  Not used by the program.  \<open>None\<close>: the process has exited.  On success \<open>ret_error\<close> is
  returned without having been set.
\<close>

definition null_outputs :: "env \<Rightarrow> ('z world_scheme, unit) state" where
  "null_outputs e = do {
     null_fd_rd \<leftarrow> sysv e (Proc (OpenNull ''O_RDONLY''));
     (if null_fd_rd \<noteq> -1 then do {
       sysu e (Proc (Dup2 null_fd_rd 0));
       sysu e (Proc (Close null_fd_rd))
     } else sysu e (File (Fprintf 2 ''alarm4pi daemon init error: could not open null device for reading'' [])));
     null_fd_wr \<leftarrow> sysv e (Proc (OpenNull ''O_WRONLY''));
     if null_fd_wr \<noteq> -1 then do {
       sysu e (Proc (Dup2 null_fd_wr 2));
       sysu e (Proc (Dup2 null_fd_wr 1));
       sysu e (Proc (Close null_fd_wr))
     } else sysu e (File (Fprintf 2 ''alarm4pi daemon init error: could not open null device for writing'' []))
   }"

definition fail_with :: "env \<Rightarrow> string \<Rightarrow> ('z world_scheme, int option) state" where
  "fail_with e msg = do {
     ret_error \<leftarrow> gets errno;
     sysu e (File (Fprintf 2 msg [FInt ret_error]));
     return (Some ret_error)
   }"

definition daemonize :: "env \<Rightarrow> string \<Rightarrow> ('z world_scheme, int option) state" where
  "daemonize e working_dir = do {
     child_pid \<leftarrow> sysv e (Proc Fork);
     if child_pid \<noteq> -1 then
       if child_pid > 0 then do { sysu e (Proc (Exit 0)); return None } else do {
         ret \<leftarrow> sysv e (Proc Setsid);
         if ret \<noteq> -1 then do {
           sysu e (Proc (IgnoreSignal ''SIGCHLD''));
           sysu e (Proc (IgnoreSignal ''SIGHUP''));
           child_pid \<leftarrow> sysv e (Proc Fork);
           if child_pid \<noteq> -1 then
             if child_pid > 0 then do { sysu e (Proc (Exit 0)); return None } else do {
               sysu e (Proc Umask);
               sysu e (Proc (Chdir working_dir));
               null_outputs e;
               require False;
               return (Some (junk e))
             }
           else fail_with e ''alarm4pi daemon init error: second fork failed. errno=%d\<newline>''
         } else fail_with e
           ''alarm4pi daemon init error: child process could become session leader. errno=%d\<newline>''
       }
     else fail_with e ''alarm4pi daemon init error: first fork failed. errno=%d\<newline>''
   }"

end
