(* ===== verification/ProcExec_Props.thy ===== *)
theory ProcExec_Props
  imports ProcExec
begin

text \<open>
  Properties of pauses, elapsed time and running programs: file descriptors are used while they
  are open and closed once, the output array is never overrun, parent and child part at the fork.
\<close>

section \<open>File descriptors\<close>

text \<open>A pipe gives two descriptors.\<close>

definition fd_delta :: "event \<Rightarrow> int \<Rightarrow> int" where
  "fd_delta ev h = (case ev of
     (Proc Pipe, r) \<Rightarrow> if rv r = 0 then of_bool (h = rout r) + of_bool (h = rout2 r) else 0
   | (Proc (OpenNull _), r) \<Rightarrow> of_bool (rv r \<noteq> -1 \<and> h = rv r)
   | (Proc (Close g), _) \<Rightarrow> - of_bool (h = g)
   | _ \<Rightarrow> 0)"

fun fd_bal :: "event list \<Rightarrow> int \<Rightarrow> int" where
  "fd_bal [] h = 0"
| "fd_bal (ev # tr) h = fd_bal tr h + fd_delta ev h"

definition fd_use :: "event \<Rightarrow> int option" where
  "fd_use ev = (case fst ev of
     Proc (Close g) \<Rightarrow> Some g
   | Proc (SelectRead g) \<Rightarrow> Some g
   | Proc (SelectWrite g) \<Rightarrow> Some g
   | Proc (ReadFd g _) \<Rightarrow> Some g
   | Proc (WriteFd g _) \<Rightarrow> Some g
   | Proc (SetNonblock g) \<Rightarrow> Some g
   | _ \<Rightarrow> None)"

fun fd_legal :: "event list \<Rightarrow> bool" where
  "fd_legal [] = True"
| "fd_legal (ev # tr) = (fd_legal tr \<and>
     (case fd_use ev of None \<Rightarrow> True | Some h \<Rightarrow> 0 < fd_bal tr h))"

declare fd_bal.simps(2) [simp del] fd_legal.simps(2) [simp del]

definition is_Proc :: "call \<Rightarrow> bool" where
  "is_Proc c = (case c of Proc _ \<Rightarrow> True | _ \<Rightarrow> False)"

lemma is_Proc_simps [simp]: "is_Proc (Proc p)" "\<not> is_Proc (File f)" "\<not> is_Proc (Curl cc)"
    "\<not> is_Proc (Gpiod g)" "\<not> is_Proc (Os oc)" "\<not> is_Proc (Mem m)" "\<not> is_Proc (Net n)"
  by (simp_all add: is_Proc_def)

lemma fd_other [simp]: "\<not> is_Proc c \<Longrightarrow> fd_bal ((c, r) # tr) h = fd_bal tr h"
    "\<not> is_Proc c \<Longrightarrow> fd_legal ((c, r) # tr) = fd_legal tr"
  by (cases c; simp add: fd_bal.simps fd_legal.simps fd_delta_def fd_use_def)+

lemma fd_simps [simp]:
  "fd_bal ((Proc Pipe, r) # tr) h = fd_bal tr h +
     (if rv r = 0 then of_bool (h = rout r) + of_bool (h = rout2 r) else 0)"
  "fd_bal ((Proc (Close g), r) # tr) h = fd_bal tr h - of_bool (h = g)"
  "fd_bal ((Proc Fork, r) # tr) h = fd_bal tr h"
  "fd_bal ((Proc (SelectRead g), r) # tr) h = fd_bal tr h"
  "fd_bal ((Proc (SelectWrite g), r) # tr) h = fd_bal tr h"
  "fd_bal ((Proc (ReadFd g n), r) # tr) h = fd_bal tr h"
  "fd_bal ((Proc (WriteFd g x), r) # tr) h = fd_bal tr h"
  "fd_bal ((Proc (SetNonblock g), r) # tr) h = fd_bal tr h"
  "fd_bal ((Proc (Waitpid n), r) # tr) h = fd_bal tr h"
  "fd_bal ((Proc (Kill n y), r) # tr) h = fd_bal tr h"
  "fd_legal ((Proc Pipe, r) # tr) = fd_legal tr"
  "fd_legal ((Proc Fork, r) # tr) = fd_legal tr"
  "fd_legal ((Proc (Close g), r) # tr) = (fd_legal tr \<and> 0 < fd_bal tr g)"
  "fd_legal ((Proc (SelectRead g), r) # tr) = (fd_legal tr \<and> 0 < fd_bal tr g)"
  "fd_legal ((Proc (SelectWrite g), r) # tr) = (fd_legal tr \<and> 0 < fd_bal tr g)"
  "fd_legal ((Proc (ReadFd g n), r) # tr) = (fd_legal tr \<and> 0 < fd_bal tr g)"
  "fd_legal ((Proc (WriteFd g x), r) # tr) = (fd_legal tr \<and> 0 < fd_bal tr g)"
  "fd_legal ((Proc (SetNonblock g), r) # tr) = (fd_legal tr \<and> 0 < fd_bal tr g)"
  by (simp_all add: fd_bal.simps fd_legal.simps fd_delta_def fd_use_def)

lemma fd_adds:
  assumes "adds P old new" and "\<And>c. P c \<Longrightarrow> \<not> is_Proc c"
  shows "fd_bal new h = fd_bal old h" and "fd_legal new = fd_legal old"
proof -
  from assms(1) obtain evs where new: "new = evs @ old" and "\<forall>ev \<in> set evs. P (fst ev)"
    by (auto simp: adds_def)
  from this(2) show "fd_bal new h = fd_bal old h" "fd_legal new = fd_legal old"
    unfolding new by (induction evs) (auto simp: assms(2))
qed

lemma fd_bal_nonneg: "fd_legal tr \<Longrightarrow> 0 \<le> fd_bal tr h"
proof (induction tr)
  case Nil
  then show ?case by simp
next
  case (Cons ev tr)
  then have IH: "0 \<le> fd_bal tr h" by (simp add: fd_legal.simps)
  show ?case
  proof (cases "\<exists>r. ev = (Proc (Close h), r)")
    case True
    with Cons.prems show ?thesis by (auto simp: fd_legal.simps fd_bal.simps fd_delta_def fd_use_def)
  next
    case False
    then have "0 \<le> fd_delta ev h"
      by (auto simp: fd_delta_def split: prod.splits call.splits proc_call.splits)
    with IH show ?thesis by (simp add: fd_bal.simps)
  qed
qed

section \<open>The functions that run a program\<close>

text \<open>What the system documents: a \<open>pipe\<close> or \<open>fork\<close> that fails sets \<open>errno\<close>.\<close>

definition failures_set_errno :: "env \<Rightarrow> bool" where
  "failures_set_errno e \<longleftrightarrow>
     (\<forall>tr. rv (answer e tr (Proc Pipe)) \<noteq> 0 \<longrightarrow> rerr (answer e tr (Proc Pipe)) \<noteq> 0) \<and>
     (\<forall>tr. rv (answer e tr (Proc Fork)) < 0 \<longrightarrow> rerr (answer e tr (Proc Fork)) \<noteq> 0)"

lemma wp_pipe:
  assumes "failures_set_errno e" and "\<And>r. rv r = 0 \<or> rerr r \<noteq> 0 \<Longrightarrow>
    Q r (s\<lparr>trace := (Proc Pipe, r) # trace s, errno := rerr r\<rparr>)"
  shows "wp (sys e (Proc Pipe)) Q s"
  by (rule wp_sys_eq, rule assms(2)) (use assms(1) in \<open>auto simp: failures_set_errno_def not_le\<close>)

lemma wp_fork:
  assumes "failures_set_errno e" and "\<And>r. 0 \<le> rv r \<or> rerr r \<noteq> 0 \<Longrightarrow>
    Q (rv r) (s\<lparr>trace := (Proc Fork, r) # trace s, errno := rerr r\<rparr>)"
  shows "wp (sysv e (Proc Fork)) Q s"
  by (rule wp_sysv_eq, rule assms(2)) (use assms(1) in \<open>auto simp: failures_set_errno_def not_le\<close>)

lemma wp_flush_logs [wp_intro]:
  assumes "\<And>tr er. adds is_File (trace s) tr \<Longrightarrow> Q () (s\<lparr>trace := tr, errno := er\<rparr>)"
  shows "wp (flush_logs e) Q s"
  using assms [where tr = "trace s" and er = "errno s"]
  unfolding flush_logs_def by (auto intro!: wp_intro assms)

lemma not_Proc_File: "is_File c \<Longrightarrow> \<not> is_Proc c"
  by (cases c) simp_all

lemmas fd_File = fd_adds [of is_File, OF _ not_Proc_File]

text \<open>
  The fields of the world that running a program leaves alone in the parent, and a rule for
  calls of functions whose effect does not matter because the process does not come back.
\<close>

definition same_process :: "'z log_st_scheme \<Rightarrow> 'z log_st_scheme \<Rightarrow> bool" where
  "same_process s t \<longleftrightarrow> t\<lparr>trace := trace s, ltrace := ltrace s, errno := errno s, lub := lub s\<rparr> = s"

lemma wp_ignore: "(\<And>a t. Q a t) \<Longrightarrow> wp m Q s"
  by (auto simp: wp_def split: prod.splits)

lemma wp_child_out_log: "(\<And>t. Q () t) \<Longrightarrow> wp (child_out_log e f a) Q s"
  by (rule wp_ignore) simp

lemma wp_child_out_fd: "(\<And>t. Q () t) \<Longrightarrow> wp (child_out_fd e r w f a) Q s"
  by (rule wp_ignore) simp

lemma wp_child_in_fd: "(\<And>t. Q () t) \<Longrightarrow> wp (child_in_fd e r w f a) Q s"
  by (rule wp_ignore) simp

lemma wp_run_out_log:
  assumes law: "failures_set_errno e"
    and child: "\<And>t. Q None t"
    and parent: "\<And>ret pid tr lt er u. pid \<noteq> 0 \<Longrightarrow> (ret = 0) = (0 < pid) \<Longrightarrow>
      adds (\<lambda>c. is_File c \<or> c = Proc Fork) (trace s) tr \<Longrightarrow>
      Q (Some (ret, pid)) (s\<lparr>trace := tr, ltrace := lt, errno := er, lub := u\<rparr>)"
  shows "wp (run_background_command_out_log e f args) Q s"
proof -
  note quiet = parent [where lt = "ltrace s" and u = "lub s", simplified]
  show ?thesis
    unfolding run_background_command_out_log_def
    by (auto intro!: wp_intro wp_fork [OF law] wp_child_out_log child parent quiet adds_Cons elim!: adds_mono)
qed

lemma wp_run_out_fd_balance:
  assumes legal: "fd_legal (trace s)"
  shows "wp (run_background_command_out_fd e want f args)
    (\<lambda>res t. case res of None \<Rightarrow> True | Some (ret, pid, fd) \<Rightarrow> fd_legal (trace t) \<and>
       (\<forall>h. fd_bal (trace t) h = fd_bal (trace s) h + of_bool (fd = Some h)) \<and> same_process s t) s"
  unfolding run_background_command_out_fd_def
  using legal fd_bal_nonneg [OF legal]
  by (auto intro!: wp_intro wp_child_out_fd simp: fd_File Let_def add_nonneg_pos add_pos_nonneg
    same_process_def)

lemma wp_run_out_fd_result:
  assumes law: "failures_set_errno e"
  shows "wp (run_background_command_out_fd e want f args)
    (\<lambda>res t. case res of None \<Rightarrow> True | Some (ret, pid, fd) \<Rightarrow> (fd = None) = (ret \<noteq> 0 \<or> \<not> want)) s"
  unfolding run_background_command_out_fd_def
  by (auto intro!: wp_intro wp_pipe [OF law] wp_fork [OF law] wp_child_out_fd simp: Let_def)

lemma wp_run_in_fd_balance:
  assumes legal: "fd_legal (trace s)"
  shows "wp (run_background_command_in_fd e want f args)
    (\<lambda>res t. case res of None \<Rightarrow> True | Some (ret, pid, fd) \<Rightarrow> fd_legal (trace t) \<and>
       (\<forall>h. fd_bal (trace t) h = fd_bal (trace s) h + of_bool (fd = Some h)) \<and> same_process s t) s"
  unfolding run_background_command_in_fd_def
  using legal fd_bal_nonneg [OF legal]
  by (auto intro!: wp_intro wp_child_in_fd simp: fd_File Let_def add_nonneg_pos add_pos_nonneg
    same_process_def)

lemma wp_run_in_fd_result:
  assumes law: "failures_set_errno e"
  shows "wp (run_background_command_in_fd e want f args)
    (\<lambda>res t. case res of None \<Rightarrow> True | Some (ret, pid, fd) \<Rightarrow> (fd = None) = (ret \<noteq> 0 \<or> \<not> want)) s"
  unfolding run_background_command_in_fd_def
  by (auto intro!: wp_intro wp_pipe [OF law] wp_fork [OF law] wp_child_in_fd simp: Let_def)

lemma wp_run_out_fd:
  assumes law: "failures_set_errno e" and legal: "fd_legal (trace s)"
    and child: "\<And>t. Q None t"
    and parent: "\<And>ret pid fd t. (fd = None) = (ret \<noteq> 0 \<or> \<not> want) \<Longrightarrow> same_process s t \<Longrightarrow>
      fd_legal (trace t) \<Longrightarrow>
      (\<And>h. fd_bal (trace t) h = fd_bal (trace s) h + of_bool (fd = Some h)) \<Longrightarrow>
      Q (Some (ret, pid, fd)) t"
  shows "wp (run_background_command_out_fd e want f args) Q s"
  by (rule wp_mono [OF wp_conj [OF wp_run_out_fd_balance [OF legal] wp_run_out_fd_result [OF law]]])
    (auto intro: child parent split: option.splits)

lemma wp_run_in_fd:
  assumes law: "failures_set_errno e" and legal: "fd_legal (trace s)"
    and child: "\<And>t. Q None t"
    and parent: "\<And>ret pid fd t. (fd = None) = (ret \<noteq> 0 \<or> \<not> want) \<Longrightarrow> same_process s t \<Longrightarrow>
      fd_legal (trace t) \<Longrightarrow>
      (\<And>h. fd_bal (trace t) h = fd_bal (trace s) h + of_bool (fd = Some h)) \<Longrightarrow>
      Q (Some (ret, pid, fd)) t"
  shows "wp (run_background_command_in_fd e want f args) Q s"
  by (rule wp_mono [OF wp_conj [OF wp_run_in_fd_balance [OF legal] wp_run_in_fd_result [OF law]]])
    (auto intro: child parent split: option.splits)

lemma wp_elapsed:
  "(\<And>x r. Q x (s\<lparr>trace := (Os ClockGettime, r) # trace s, errno := rerr r\<rparr>)) \<Longrightarrow>
   wp (get_elapsed_time e since) Q s"
  unfolding get_elapsed_time_def by (auto intro!: wp_intro simp: Let_def)

text \<open>What a loop over a descriptor keeps.\<close>

definition io_inv :: "int \<Rightarrow> (int \<Rightarrow> int) \<Rightarrow> bool \<Rightarrow> 'z world_scheme \<Rightarrow> bool" where
  "io_inv fd B u s \<longleftrightarrow> fd_legal (trace s) \<and> (\<forall>h. fd_bal (trace s) h = B h) \<and> 0 < B fd \<and> ub s = u"

lemma wp_read_step:
  assumes "io_inv fd B u s" and "fst (snd x) = acc" and "strlen acc \<le> len - 1" and "0 < len"
    and "\<And>again acc' n t. io_inv fd B u t \<Longrightarrow> strlen acc' \<le> len - 1 \<Longrightarrow> prefix acc acc' \<Longrightarrow>
      Q (again, acc', n) t"
  shows "wp (read_step e fd len since x) Q s"
proof -
  have space: "strlen acc + strlen (buffer_take (len - strlen acc - 1) y) < len" for y
    using assms(3) strlen_buffer_take [of "len - strlen acc - 1" y] by simp
  obtain a b where x: "x = (a, acc, b)" using assms(2) by (cases x) auto
  show ?thesis
    unfolding read_step_def x
    using assms(1,3,4)
    by (auto intro!: wp_intro wp_elapsed assms(5) simp: Let_def io_inv_def space split: if_splits)
qed

lemma wp_read_loop:
  assumes "io_inv fd B u s" and "strlen (fst (snd x)) \<le> len - 1" and "0 < len"
    and post: "\<And>again acc n t. io_inv fd B u t \<Longrightarrow> strlen acc \<le> len - 1 \<Longrightarrow> Q (again, acc, n) t"
  shows "wp (while_fuel k (\<lambda>(again, _). return again) (read_step e fd len since) x) Q s"
proof (rule wp_while [where I = "\<lambda>y t. io_inv fd B u t \<and> strlen (fst (snd y)) \<le> len - 1"])
  fix y :: "bool \<times> string \<times> int" and t :: "'a world_scheme"
  assume I: "io_inv fd B u t \<and> strlen (fst (snd y)) \<le> len - 1"
  obtain again acc n where y: "y = (again, acc, n)" by (cases y)
  show "wp (case y of (again, _) \<Rightarrow> return again) (\<lambda>g v. if g then wp (read_step e fd len since y)
      (\<lambda>z v. io_inv fd B u v \<and> strlen (fst (snd z)) \<le> len - 1) v else Q y v) t"
    using I assms(3) by (auto intro!: wp_read_step [where acc = acc] post simp: y)
  show "Q y (t\<lparr>hang := True\<rparr>)"
    using I by (auto intro!: post simp: y io_inv_def)
qed (use assms in simp)

lemma same_process_fields:
  assumes "same_process s t"
  shows "ub t = ub s" and "hang t = hang s"
proof -
  from assms have e: "t\<lparr>trace := trace s, ltrace := ltrace s, errno := errno s, lub := lub s\<rparr> = s"
    by (simp add: same_process_def)
  from arg_cong [OF e, of ub] show "ub t = ub s" by simp
  from arg_cong [OF e, of hang] show "hang t = hang s" by simp
qed

lemma wp_run_out_array:
  assumes law: "failures_set_errno e" and legal: "fd_legal (trace s)" and len: "0 < len"
    and child: "\<And>t. Q None t"
    and failed: "\<And>ret pid t. ret \<noteq> 0 \<Longrightarrow> fd_legal (trace t) \<Longrightarrow>
      (\<And>h. fd_bal (trace t) h = fd_bal (trace s) h) \<Longrightarrow> ub t = ub s \<Longrightarrow> Q (Some (ret, pid, None)) t"
    and ran: "\<And>ret pid fd acc t. fd_legal (trace t) \<Longrightarrow>
      (\<And>h. fd_bal (trace t) h = fd_bal (trace s) h + of_bool (h = fd)) \<Longrightarrow> strlen acc < len \<Longrightarrow>
      ub t = ub s \<Longrightarrow> Q (Some (ret, pid, Some acc)) t"
  shows "wp (run_background_command_out_array e len f args) Q s"
  unfolding run_background_command_out_array_def
proof (simp only: wp_bind, rule wp_run_out_fd [OF law legal])
  fix t :: "'a log_st_scheme"
  show "wp (case None of None \<Rightarrow> return None | Some (ret, pid, fd) \<Rightarrow> m ret pid fd) Q t" for m
    using child by simp
next
  fix ret :: int and pid fd :: "int option" and t :: "'a log_st_scheme"
  assume fd: "(fd = None) = (ret \<noteq> 0 \<or> \<not> True)" and same: "same_process s t"
    and l: "fd_legal (trace t)"
    and b: "\<And>h. fd_bal (trace t) h = fd_bal (trace s) h + of_bool (fd = Some h)"
  note ub = same_process_fields(1) [OF same]
  show "wp (case Some (ret, pid, fd) of
       None \<Rightarrow> return None
     | Some (ret, pid, fd) \<Rightarrow>
         if ret = 0 then do {
           require (0 < len \<and> fd \<noteq> None);
           let output_fd = (case fd of None \<Rightarrow> junk e | Some d \<Rightarrow> d);
           init_time \<leftarrow> get_elapsed_time e None;
           x \<leftarrow> read_step e output_fd len init_time (True, [], 0);
           (_, acc, num_fds_ready) \<leftarrow> while_fuel (fuel e) (\<lambda>(again, _). return again)
             (read_step e output_fd len init_time) x;
           er \<leftarrow> gets errno;
           ret \<leftarrow> (if num_fds_ready \<ge> 0 \<or> (num_fds_ready = -1 \<and> er = EINTR) then return 0
             else do {
               log_printf e ''Reading the child-process %s output: the waiting-for-reading operation or the reading operation itself failed. errno=%d\<newline>''
                 [FStr f, FInt er];
               return er
             });
           sysu e (Proc (SetNonblock output_fd));
           return (Some (ret, pid, Some acc))
         } else return (Some (ret, pid, None))) Q t"
  proof (cases "ret = 0")
    case False
    then show ?thesis using fd l b ub failed by simp
  next
    case True
    with fd obtain d where d: "fd = Some d" by auto
    let ?B = "\<lambda>h. fd_bal (trace s) h + of_bool (h = d)"
    have inv: "io_inv d ?B (ub s) (t\<lparr>trace := (Os ClockGettime, r) # trace t, errno := rerr r\<rparr>)" for r
      using l b ub fd_bal_nonneg [OF legal, of d] by (auto simp: io_inv_def d)
    show ?thesis
      using True len
      by (auto intro!: wp_intro wp_elapsed wp_read_step [where B = ?B and u = "ub s" and acc = "[]"]
          wp_read_loop [where B = ?B and u = "ub s"] inv ran [where fd = d]
        simp: d require_def Let_def) (auto simp: io_inv_def)
  qed
qed

lemma wp_write_step:
  assumes "io_inv fd B u s" and "\<And>again p n t. io_inv fd B u t \<Longrightarrow> Q (again, p, n) t"
  shows "wp (write_step e fd dat since x) Q s"
  using assms(1) unfolding write_step_def
  by (cases x) (auto intro!: wp_intro wp_elapsed assms(2) simp: io_inv_def split: if_splits)

lemma wp_write_loop:
  assumes "io_inv fd B u s" and post: "\<And>again p n t. io_inv fd B u t \<Longrightarrow> Q (again, p, n) t"
  shows "wp (while_fuel k (\<lambda>(again, _). return again) (write_step e fd dat since) x) Q s"
proof (rule wp_while [where I = "\<lambda>_. io_inv fd B u"])
  fix y :: "bool \<times> int \<times> int" and t :: "'a world_scheme"
  assume I: "io_inv fd B u t"
  obtain again p n where y: "y = (again, p, n)" by (cases y)
  show "wp (case y of (again, _) \<Rightarrow> return again) (\<lambda>g v. if g then wp (write_step e fd dat since y)
      (\<lambda>_. io_inv fd B u) v else Q y v) t"
    using I by (auto intro!: wp_write_step post simp: y)
  show "Q y (t\<lparr>hang := True\<rparr>)"
    using I by (auto intro!: post simp: y io_inv_def)
qed (use assms in simp)

lemma wp_run_in_array:
  assumes law: "failures_set_errno e" and legal: "fd_legal (trace s)"
    and child: "\<And>t. Q None t"
    and ran: "\<And>ret pid t. fd_legal (trace t) \<Longrightarrow>
      (\<And>h. fd_bal (trace t) h = fd_bal (trace s) h) \<Longrightarrow> ub t = ub s \<Longrightarrow> Q (Some (ret, pid)) t"
  shows "wp (run_background_command_in_array e dat f args) Q s"
  unfolding run_background_command_in_array_def
proof (simp only: wp_bind, rule wp_run_in_fd [OF law legal])
  fix t :: "'a log_st_scheme"
  show "wp (case None of None \<Rightarrow> return None | Some (ret, pid, fd) \<Rightarrow> m ret pid fd) Q t" for m
    using child by simp
next
  fix ret :: int and pid fd :: "int option" and t :: "'a log_st_scheme"
  assume fd: "(fd = None) = (ret \<noteq> 0 \<or> \<not> True)" and same: "same_process s t"
    and l: "fd_legal (trace t)"
    and b: "\<And>h. fd_bal (trace t) h = fd_bal (trace s) h + of_bool (fd = Some h)"
  note ub = same_process_fields(1) [OF same]
  show "wp (case Some (ret, pid, fd) of
       None \<Rightarrow> return None
     | Some (ret, pid, fd) \<Rightarrow>
         if ret = 0 then do {
           require (fd \<noteq> None);
           let input_fd = (case fd of None \<Rightarrow> junk e | Some d \<Rightarrow> d);
           init_time \<leftarrow> get_elapsed_time e None;
           x \<leftarrow> write_step e input_fd dat init_time (True, 0, 0);
           (_, pos, num_fds_ready) \<leftarrow> while_fuel (fuel e) (\<lambda>(again, _). return again)
             (write_step e input_fd dat init_time) x;
           er \<leftarrow> gets errno;
           ret \<leftarrow> (if num_fds_ready \<ge> 0 \<or> (num_fds_ready = -1 \<and> er = EINTR) then return 0
             else do {
               log_printf e ''Reading child process %s output: waiting operation or writing operation failed. errno=%d\<newline>''
                 [FStr f, FInt er];
               return er
             });
           sysu e (Proc (Close input_fd));
           return (Some (ret, pid))
         } else return (Some (ret, pid))) Q t"
  proof (cases "ret = 0")
    case False
    then show ?thesis using fd l b ub ran by simp
  next
    case True
    with fd obtain d where d: "fd = Some d" by auto
    let ?B = "\<lambda>h. fd_bal (trace s) h + of_bool (h = d)"
    have inv: "io_inv d ?B (ub s) (t\<lparr>trace := (Os ClockGettime, r) # trace t, errno := rerr r\<rparr>)" for r
      using l b ub fd_bal_nonneg [OF legal, of d] by (auto simp: io_inv_def d)
    show ?thesis
      using True
      by (auto intro!: wp_intro wp_elapsed wp_write_step [where B = ?B and u = "ub s"]
          wp_write_loop [where B = ?B and u = "ub s"] inv ran
        simp: d require_def Let_def) (auto simp: io_inv_def)
  qed
qed

section \<open>Parent and child\<close>

text \<open>The last call of a process that became another program or exited.\<close>

definition process_ended :: "event list \<Rightarrow> bool" where
  "process_ended tr \<longleftrightarrow> (case tr of
     (Proc (Execvp _ _), r) # _ \<Rightarrow> rv r \<noteq> -1
   | (Proc (Exit _), _) # _ \<Rightarrow> True
   | _ \<Rightarrow> False)"

text \<open>What \<open>fork\<close> has returned, and the calls that only a child makes, latest first.\<close>

definition fork_replies :: "event list \<Rightarrow> int list" where
  "fork_replies tr = map (\<lambda>ev. rv (snd ev)) (filter (\<lambda>ev. fst ev = Proc Fork) tr)"

definition child_calls :: "event list \<Rightarrow> call list" where
  "child_calls tr = filter (\<lambda>c. case c of Proc (Dup2 _ _) \<Rightarrow> True | Proc (Execvp _ _) \<Rightarrow> True
     | Proc (Exit _) \<Rightarrow> True | _ \<Rightarrow> False) (map fst tr)"

text \<open>
  The child redirects its streams, among them as \<open>outs\<close> says, then runs the program, once, and exits
  when that fails.
\<close>

definition runs_program :: "call list \<Rightarrow> string \<Rightarrow> string list \<Rightarrow> event list \<Rightarrow> event list \<Rightarrow> bool" where
  "runs_program outs f args tr tr' \<longleftrightarrow> process_ended tr' \<and> (\<exists>ds. (\<forall>d \<in> set ds. \<exists>n. d = Proc (Dup2 n 0)) \<and>
     (child_calls tr' = Proc (Execvp f args) # ds @ outs @ child_calls tr \<or>
      (\<exists>er. child_calls tr' = Proc (Exit er) # Proc (Execvp f args) # ds @ outs @ child_calls tr)))"

text \<open>The function has forked once: the child has run the program, and only the parent has returned.\<close>

definition fork_outcome :: "call list \<Rightarrow> string \<Rightarrow> string list \<Rightarrow> event list \<Rightarrow> (int \<times> int) option \<Rightarrow>
    event list \<Rightarrow> bool" where
  "fork_outcome outs f args tr res tr' \<longleftrightarrow> (case fork_replies tr' of
     [] \<Rightarrow> False
   | p # ps \<Rightarrow> ps = fork_replies tr \<and>
       (if p = 0 then res = None \<and> runs_program outs f args tr tr'
        else child_calls tr' = child_calls tr \<and> (\<exists>ret. res = Some (ret, p) \<and> (ret = 0 \<longleftrightarrow> 0 < p))))"

definition pipe_outcome :: "reply \<Rightarrow> call list \<Rightarrow> string \<Rightarrow> string list \<Rightarrow> event list \<Rightarrow> run_fd_result \<Rightarrow>
    event list \<Rightarrow> bool" where
  "pipe_outcome pipe outs f args tr res tr' \<longleftrightarrow>
     (if rv pipe = 0 then fork_outcome outs f args tr (map_option (\<lambda>(ret, pid, _). (ret, the pid)) res) tr'
      else fork_replies tr' = fork_replies tr \<and> child_calls tr' = child_calls tr \<and>
        (\<exists>ret. ret \<noteq> 0 \<and> res = Some (ret, None, None)))"

text \<open>The standard output and error output go to the log file, when there is one.\<close>

definition to_log :: "int \<Rightarrow> call list" where
  "to_log l = (if l \<noteq> 0 then [Proc (Dup2 l 2), Proc (Dup2 l 1)] else [])"

lemma fork_replies_Cons [simp]:
  "fork_replies ((c, r) # tr) = (if c = Proc Fork then rv r # fork_replies tr else fork_replies tr)"
  by (simp add: fork_replies_def)

lemma child_calls_Cons [simp]:
  "child_calls ((c, r) # tr) = (case c of Proc (Dup2 _ _) \<Rightarrow> c # child_calls tr | Proc (Execvp _ _) \<Rightarrow> c # child_calls tr
     | Proc (Exit _) \<Rightarrow> c # child_calls tr | _ \<Rightarrow> child_calls tr)"
  by (auto simp: child_calls_def split: call.split proc_call.split)

text \<open>The trace with the replies \<open>ps\<close> of \<open>fork\<close> and the calls \<open>cs\<close> of a child.\<close>

definition child_at :: "int list \<Rightarrow> call list \<Rightarrow> 'z world_scheme \<Rightarrow> bool" where
  "child_at ps cs s \<longleftrightarrow> fork_replies (trace s) = ps \<and> child_calls (trace s) = cs"

lemma child_at_frame [simp]:
  "child_at ps cs (s\<lparr>ltrace := lt\<rparr>) = child_at ps cs s" "child_at ps cs (s\<lparr>errno := er\<rparr>) = child_at ps cs s"
  "child_at ps cs (s\<lparr>lub := u\<rparr>) = child_at ps cs s"
  by (simp_all add: child_at_def)

lemma child_at_call [simp]:
  "c \<noteq> Proc Fork \<Longrightarrow> child_calls [(c, r)] = [] \<Longrightarrow> child_at ps cs (s\<lparr>trace := (c, r) # tr\<rparr>) = child_at ps cs (s\<lparr>trace := tr\<rparr>)"
  by (auto simp: child_at_def split: call.splits proc_call.splits)

lemma child_calls_Nil [simp]: "child_calls [] = []"
  by (simp add: child_calls_def)

lemma child_at_File: "adds is_File (trace s) tr \<Longrightarrow> child_at ps cs s \<Longrightarrow> child_at ps cs (s\<lparr>trace := tr, errno := er\<rparr>)"
proof -
  have "fork_replies (evs @ tr') = fork_replies tr' \<and> child_calls (evs @ tr') = child_calls tr'"
    if "\<forall>ev \<in> set evs. is_File (fst ev)" for evs tr'
    using that by (induction evs) (auto split: call.split)
  then show "adds is_File (trace s) tr \<Longrightarrow> child_at ps cs s \<Longrightarrow> child_at ps cs (s\<lparr>trace := tr, errno := er\<rparr>)"
    by (auto simp: adds_def child_at_def)
qed

lemma wp_dup2_logged:
  assumes "child_at ps cs s" and "\<And>t. child_at ps (Proc (Dup2 a b) # cs) t \<Longrightarrow> Q () t"
  shows "wp (dup2_logged e a b msg f) Q s"
  unfolding dup2_logged_def using assms(1) by (auto intro!: wp_intro assms(2) simp: child_at_def)

lemma wp_log_as_output:
  assumes "child_at ps cs s" and "\<And>t. child_at ps (to_log (log_file_handle s) @ cs) t \<Longrightarrow> Q () t"
  shows "wp (log_as_output e f) Q s"
  unfolding log_as_output_def using assms
  by (auto intro!: wp_intro wp_dup2_logged [OF assms(1)] wp_dup2_logged simp: to_log_def whenM_def)

lemma wp_close_event_file:
  assumes "child_at ps cs s" and "\<And>t. child_at ps cs t \<Longrightarrow> Q () t"
  shows "wp (close_event_file e) Q s"
  unfolding close_event_file_def using assms(1) by (auto intro!: wp_intro assms(2) simp: child_at_def)

lemma wp_null_stdin:
  assumes "child_at ps cs s" and "\<And>ds t. \<forall>d \<in> set ds. \<exists>n. d = Proc (Dup2 n 0) \<Longrightarrow> child_at ps (ds @ cs) t \<Longrightarrow> Q () t"
  shows "wp (null_stdin e f) Q s"
proof -
  have dup: "wp (dup2_logged e n 0 msg f) (\<lambda>_. wp (sysu e (Proc (Close n))) Q) t" if "child_at ps cs t"
    for n msg and t :: "'a log_st_scheme"
    by (rule wp_dup2_logged [OF that]) (auto intro!: wp_sysu assms(2) [where ds = "[Proc (Dup2 n 0)]"])
  show ?thesis
    unfolding null_stdin_def
    using assms(1) by (auto intro!: wp_intro dup assms(2) [where ds = "[]"])
qed

lemma wp_exec_or_exit:
  assumes "child_at ps (ds @ outs @ child_calls tr) s" and "\<forall>d \<in> set ds. \<exists>n. d = Proc (Dup2 n 0)"
    and "\<And>t. fork_replies (trace t) = ps \<Longrightarrow> runs_program outs f args tr (trace t) \<Longrightarrow> Q () t"
  shows "wp (exec_or_exit e f args msg) Q s"
proof -
  have Q: "Q () t" if "fork_replies (trace t) = ps" "process_ended (trace t)"
      "child_calls (trace t) = Proc (Execvp f args) # ds @ outs @ child_calls tr \<or>
       (\<exists>er. child_calls (trace t) = Proc (Exit er) # Proc (Execvp f args) # ds @ outs @ child_calls tr)" for t
    by (rule assms(3) [OF that(1)]) (use that(2,3) assms(2) in \<open>auto simp: runs_program_def\<close>)
  show ?thesis
    unfolding exec_or_exit_def
    using assms(1) by (auto intro!: wp_intro Q simp: process_ended_def child_at_def)
qed

lemma wp_child_runs:
  assumes "child_at ps (child_calls tr) s"
  shows "wp (child_out_log e f args) (\<lambda>_ t. fork_replies (trace t) = ps \<and> runs_program (to_log (log_file_handle s)) f args tr (trace t)) s"
    and "wp (child_out_fd e r w f args) (\<lambda>_ t. fork_replies (trace t) = ps \<and>
      runs_program [Proc (Dup2 w 2), Proc (Dup2 w 1)] f args tr (trace t)) s"
    and "wp (child_in_fd e r w f args) (\<lambda>_ t. fork_replies (trace t) = ps \<and>
      runs_program (Proc (Dup2 r 0) # to_log (log_file_handle s)) f args tr (trace t)) s"
proof -
  have run: "wp (exec_or_exit e f args msg) (\<lambda>_ t. fork_replies (trace t) = ps \<and> runs_program outs f args tr (trace t)) t"
    if "child_at ps (ds @ outs @ child_calls tr) t" "\<forall>d \<in> set ds. \<exists>n. d = Proc (Dup2 n 0)" for ds outs msg and t :: "'a log_st_scheme"
    by (rule wp_exec_or_exit [OF that]) simp
  show "wp (child_out_log e f args) (\<lambda>_ t. fork_replies (trace t) = ps \<and> runs_program (to_log (log_file_handle s)) f args tr (trace t)) s"
    unfolding child_out_log_def wp_bind
    by (rule wp_log_as_output [OF assms], erule wp_close_event_file, erule wp_null_stdin, rule run) simp_all
  show "wp (child_out_fd e r w f args) (\<lambda>_ t. fork_replies (trace t) = ps \<and>
      runs_program [Proc (Dup2 w 2), Proc (Dup2 w 1)] f args tr (trace t)) s"
    unfolding child_out_fd_def wp_bind
    apply (rule wp_close_event_file [OF assms])
    apply (rule wp_sysu)
    apply (rule wp_dup2_logged, simp, erule wp_dup2_logged, rule wp_sysu, rule wp_null_stdin, simp)
    apply (rule run, simp_all)
    done
  show "wp (child_in_fd e r w f args) (\<lambda>_ t. fork_replies (trace t) = ps \<and>
      runs_program (Proc (Dup2 r 0) # to_log (log_file_handle s)) f args tr (trace t)) s"
    unfolding child_in_fd_def wp_bind
    apply (rule wp_sysu)
    apply (rule wp_log_as_output [where ps = ps and cs = "child_calls tr"], simp add: assms, erule wp_close_event_file, erule wp_dup2_logged, rule wp_sysu)
    apply (rule run [where ds = "[]"], simp_all)
    done
qed

lemma fork_views_File:
  assumes "adds is_File tr tr'"
  shows "fork_replies tr' = fork_replies tr" and "child_calls tr' = child_calls tr"
  using child_at_File [of "\<lparr>trace = tr, ltrace = [], errno = 0, ub = False, hang = False, lub = False\<rparr>" tr'] assms
  by (simp_all add: child_at_def)

lemma wp_out_log_outcome:
  assumes "failures_set_errno e"
  shows "wp (run_background_command_out_log e f args)
    (\<lambda>r t. fork_outcome (to_log (log_file_handle s)) f args (trace s) r (trace t)) s"
  unfolding run_background_command_out_log_def
  by (auto intro!: wp_intro wp_fork [OF assms] wp_mono [OF wp_child_runs(1) [where tr = "trace s" and ps = "0 # fork_replies (trace s)"]]
    simp: fork_outcome_def fork_views_File child_at_def)

lemma wp_out_fd_outcome:
  assumes "failures_set_errno e" and "pipe = answer e (trace s) (Proc Pipe)"
  shows "wp (run_background_command_out_fd e want f args)
    (\<lambda>r t. pipe_outcome pipe [Proc (Dup2 (rout2 pipe) 2), Proc (Dup2 (rout2 pipe) 1)] f args (trace s) r (trace t)) s"
  unfolding run_background_command_out_fd_def
  using assms
  by (auto intro!: wp_intro wp_sys_eq wp_fork [OF assms(1)]
      wp_mono [OF wp_child_runs(2) [where tr = "trace s" and ps = "0 # fork_replies (trace s)"]]
    simp: fork_outcome_def pipe_outcome_def fork_views_File child_at_def Let_def failures_set_errno_def)

lemma wp_in_fd_outcome:
  assumes "failures_set_errno e" and "pipe = answer e (trace s) (Proc Pipe)"
  shows "wp (run_background_command_in_fd e want f args)
    (\<lambda>r t. pipe_outcome pipe (Proc (Dup2 (rout pipe) 0) # to_log (log_file_handle s)) f args (trace s) r (trace t)) s"
  unfolding run_background_command_in_fd_def
  using assms
  by (auto intro!: wp_intro wp_sys_eq wp_fork [OF assms(1)]
      wp_mono [OF wp_child_runs(3) [where tr = "trace s" and ps = "0 # fork_replies (trace s)"]]
    simp: fork_outcome_def pipe_outcome_def fork_views_File child_at_def Let_def failures_set_errno_def)

section \<open>A system with one child\<close>

text \<open>
  The pipe is (5, 6), the child is 42, reading gives "203.0.113.7" once and then the end of
  the output, a nap is interrupted once with 300 ms left.
\<close>

definition child_answer :: "event list \<Rightarrow> call \<Rightarrow> reply" where
  "child_answer tr c = (case c of
     Proc Pipe \<Rightarrow> \<lparr>rv = 0, rerr = 0, rints = [5, 6], rstr = [], rstrs = []\<rparr>
   | Proc Fork \<Rightarrow> ok_reply 42
   | Proc (SelectRead _) \<Rightarrow> ok_reply 1
   | Proc (SelectWrite _) \<Rightarrow> ok_reply 1
   | Proc (ReadFd _ _) \<Rightarrow> if \<exists>x \<in> set tr. (case fst x of Proc (ReadFd _ _) \<Rightarrow> True | _ \<Rightarrow> False)
       then ok_reply 0 else str_reply 11 ''203.0.113.7''
   | Proc (WriteFd _ x) \<Rightarrow> ok_reply (strlen x)
   | Proc (Execvp _ _) \<Rightarrow> err_reply (-1) 2
   | Os ClockGettime \<Rightarrow> \<lparr>rv = 0, rerr = 0, rints = [100, 5], rstr = [], rstrs = []\<rparr>
   | Os (Nanosleep _ _) \<Rightarrow> if tr = [] then \<lparr>rv = -1, rerr = EINTR, rints = [0, 300000000],
       rstr = [], rstrs = []\<rparr> else ok_reply 0
   | _ \<Rightarrow> ok_reply 0)"

definition child_env :: env where
  "child_env = env_of child_answer"

lemma child_env_errno: "failures_set_errno child_env"
  by (simp add: failures_set_errno_def child_env_def env_of_def child_answer_def ok_reply_def)

section \<open>Properties\<close>

text \<open>
  The elapsed time is normalised and is exactly the difference between now and the given
  moment, to the nanosecond, when both are normalised; it is not negative when the clock has
  not gone back.
\<close>
theorem elapsed_time_exact:
  assumes "run_state (get_elapsed_time e (Some since)) s = (d, t)"
    and "now = Timespec (rout (answer e (trace s) (Os ClockGettime)))
      (rout2 (answer e (trace s) (Os ClockGettime)))"
    and "rv (answer e (trace s) (Os ClockGettime)) = 0" and "normalised now" and "normalised since"
  shows "normalised d \<and> to_nsec d + to_nsec since = to_nsec now \<and>
    (since \<le> now \<longrightarrow> Timespec 0 0 \<le> d)"
  using assms
  by (auto simp: get_elapsed_time_def run_prims Let_def normalised_def to_nsec_def
    less_eq_timespec_def split: if_splits)

lemma elapsed_time_exact_witness:
  "fst (run_state (get_elapsed_time child_env (Some (Timespec 98 7))) log_start) = Timespec 1 999999998 \<and>
   normalised (Timespec 1 999999998)"
proof -
  have "run_state (get_elapsed_time child_env (Some (Timespec 98 7))) log_start =
      (Timespec 1 999999998, snd (run_state (get_elapsed_time child_env (Some (Timespec 98 7))) log_start))"
    by (simp add: get_elapsed_time_def run_defs child_env_def child_answer_def rout_def rout2_def)
  from elapsed_time_exact [OF this refl] show ?thesis
    by (simp add: get_elapsed_time_def child_env_def env_of_def child_answer_def rout_def rout2_def
      normalised_def run_prims Let_def)
qed

text \<open>
  In the parent, running a program with its output read through a pipe closes the descriptors
  that are not handed to the caller: on failure both ends, on success the write end, and the
  read end too when the caller does not want it; no descriptor is closed twice.
\<close>
theorem run_out_fd_closes:
  assumes "run_state (run_background_command_out_fd e want f args) s = (Some (ret, pid, fd), t)"
    and "failures_set_errno e" and "fd_legal (trace s)"
  shows "fd_legal (trace t) \<and> (fd = None) = (ret \<noteq> 0 \<or> \<not> want) \<and>
    (\<forall>h. fd_bal (trace t) h = fd_bal (trace s) h + of_bool (fd = Some h)) \<and> ub t = ub s"
proof -
  have "wp (run_background_command_out_fd e want f args) (\<lambda>res t. case res of None \<Rightarrow> True
    | Some (ret, pid, fd) \<Rightarrow> fd_legal (trace t) \<and> (fd = None) = (ret \<noteq> 0 \<or> \<not> want) \<and>
       (\<forall>h. fd_bal (trace t) h = fd_bal (trace s) h + of_bool (fd = Some h)) \<and> ub t = ub s) s"
    by (rule wp_run_out_fd [OF assms(2,3)]) (simp_all add: same_process_fields)
  from wp_runD [OF this assms(1)] show ?thesis by simp
qed

lemma run_out_fd_closes_witness:
  "fst (run_state (run_background_command_out_fd child_env True ''ip'' [''ip'']) log_start) =
     Some (0, Some 42, Some 5) \<and>
   fd_bal (trace (snd (run_state (run_background_command_out_fd child_env True ''ip'' [''ip'']) log_start))) 6 = 0"
proof -
  have r: "fst (run_state (run_background_command_out_fd child_env True ''ip'' [''ip'']) log_start) =
     Some (0, Some 42, Some 5)"
    by (simp add: run_background_command_out_fd_def flush_logs_def run_defs child_env_def
      child_answer_def rout_def rout2_def)
  then have "run_state (run_background_command_out_fd child_env True ''ip'' [''ip'']) log_start =
     (Some (0, Some 42, Some 5), snd (run_state (run_background_command_out_fd child_env True ''ip'' [''ip''])
       log_start))"
    by (simp add: prod_eq_iff)
  from run_out_fd_closes [OF this child_env_errno] r show ?thesis by simp
qed

text \<open>
  C33: the output of a program never overruns the array: with its terminator it is at most as long
  as the array, whatever the program prints and however the reads are split.  The read end of
  the pipe stays open afterwards, for good: the caller never learns its number.
\<close>
theorem run_out_array_bounded:
  assumes "run_state (run_background_command_out_array e len f args) s = (Some (ret, pid, out), t)"
    and "failures_set_errno e" and "fd_legal (trace s)" and "0 < len"
  shows "fd_legal (trace t) \<and> ub t = ub s \<and> (case out of
      None \<Rightarrow> ret \<noteq> 0 \<and> (\<forall>h. fd_bal (trace t) h = fd_bal (trace s) h)
    | Some x \<Rightarrow> strlen x < len \<and>
        (\<exists>fd. \<forall>h. fd_bal (trace t) h = fd_bal (trace s) h + of_bool (h = fd)))"
proof -
  have "wp (run_background_command_out_array e len f args) (\<lambda>res t. case res of None \<Rightarrow> True
    | Some (ret, pid, out) \<Rightarrow> fd_legal (trace t) \<and> ub t = ub s \<and> (case out of
      None \<Rightarrow> ret \<noteq> 0 \<and> (\<forall>h. fd_bal (trace t) h = fd_bal (trace s) h)
    | Some x \<Rightarrow> strlen x < len \<and>
        (\<exists>fd. \<forall>h. fd_bal (trace t) h = fd_bal (trace s) h + of_bool (h = fd)))) s"
    by (rule wp_run_out_array [OF assms(2-4)]) auto
  from wp_runD [OF this assms(1)] show ?thesis by simp
qed

lemma run_out_array_bounded_witness:
  "fst (run_state (run_background_command_out_array child_env 8 ''ip'' [''ip'']) log_start) =
     Some (0, Some 42, Some ''203.0.1'') \<and>
   \<not> ub (snd (run_state (run_background_command_out_array child_env 8 ''ip'' [''ip'']) log_start))"
proof -
  have r: "fst (run_state (run_background_command_out_array child_env 8 ''ip'' [''ip'']) log_start) =
     Some (0, Some 42, Some ''203.0.1'')"
    by code_simp
  then have "run_state (run_background_command_out_array child_env 8 ''ip'' [''ip'']) log_start =
     (Some (0, Some 42, Some ''203.0.1''),
      snd (run_state (run_background_command_out_array child_env 8 ''ip'' [''ip'']) log_start))"
    by (simp add: prod_eq_iff)
  from run_out_array_bounded [OF this child_env_errno] r show ?thesis by simp
qed

text \<open>
  C34: feeding a program's input leaves no descriptor behind: both ends of the pipe are closed on
  every return.
\<close>
theorem run_in_array_closes:
  assumes "run_state (run_background_command_in_array e dat f args) s = (Some (ret, pid), t)"
    and "failures_set_errno e" and "fd_legal (trace s)"
  shows "fd_legal (trace t) \<and> (\<forall>h. fd_bal (trace t) h = fd_bal (trace s) h) \<and> ub t = ub s"
proof -
  have "wp (run_background_command_in_array e dat f args) (\<lambda>res t. case res of None \<Rightarrow> True
    | Some (ret, pid) \<Rightarrow> fd_legal (trace t) \<and>
       (\<forall>h. fd_bal (trace t) h = fd_bal (trace s) h) \<and> ub t = ub s) s"
    by (rule wp_run_in_array [OF assms(2,3)]) auto
  from wp_runD [OF this assms(1)] show ?thesis by simp
qed

lemma run_in_array_closes_witness:
  "fst (run_state (run_background_command_in_array child_env ''yes'' ''cat'' [''cat'']) log_start) =
     Some (0, Some 42) \<and>
   fd_bal (trace (snd (run_state (run_background_command_in_array child_env ''yes'' ''cat'' [''cat''])
     log_start))) 6 = 0"
proof -
  have r: "fst (run_state (run_background_command_in_array child_env ''yes'' ''cat'' [''cat'']) log_start) =
     Some (0, Some 42)"
    by code_simp
  then have "run_state (run_background_command_in_array child_env ''yes'' ''cat'' [''cat'']) log_start =
     (Some (0, Some 42),
      snd (run_state (run_background_command_in_array child_env ''yes'' ''cat'' [''cat'']) log_start))"
    by (simp add: prod_eq_iff)
  from run_in_array_closes [OF this child_env_errno] r show ?thesis by simp
qed

text \<open>
  C35: parent and child take the branches that are meant for them.  \<open>fork\<close> is called once (not at all when the pipe
  cannot be made, which is reported as an error).  Where it returns 0 the function does not return: this process
  redirects its streams to the log file or the pipe, runs the named program once, and exits when that fails.  Where
  it returns anything else the function returns that number, with the result 0 exactly for a new process, and this
  process has redirected nothing, run nothing and not exited.
\<close>
theorem fork_separates_parent_and_child:
  assumes "failures_set_errno e" and "pipe = answer e (trace s) (Proc Pipe)"
    and "run_state (run_background_command_out_log e f args) s = (r1, t1)"
    and "run_state (run_background_command_out_fd e want f args) s = (r2, t2)"
    and "run_state (run_background_command_in_fd e want f args) s = (r3, t3)"
  shows "fork_outcome (to_log (log_file_handle s)) f args (trace s) r1 (trace t1) \<and>
    pipe_outcome pipe [Proc (Dup2 (rout2 pipe) 2), Proc (Dup2 (rout2 pipe) 1)] f args (trace s) r2 (trace t2) \<and>
    pipe_outcome pipe (Proc (Dup2 (rout pipe) 0) # to_log (log_file_handle s)) f args (trace s) r3 (trace t3)"
  using wp_runD [OF wp_out_log_outcome [OF assms(1)] assms(3)] wp_runD [OF wp_out_fd_outcome [OF assms(1,2)] assms(4)]
    wp_runD [OF wp_in_fd_outcome [OF assms(1,2)] assms(5)] by blast

text \<open>The witness: the process is the child, and the program cannot be run.\<close>

definition forked_answer :: "event list \<Rightarrow> call \<Rightarrow> reply" where
  "forked_answer tr c = (case c of
     Proc Pipe \<Rightarrow> \<lparr>rv = 0, rerr = 0, rints = [5, 6], rstr = [], rstrs = []\<rparr>
   | Proc (Execvp _ _) \<Rightarrow> err_reply (-1) 2
   | _ \<Rightarrow> ok_reply 0)"

lemma fork_separates_parent_and_child_witness:
  "\<exists>t1 t2 t3.
    run_state (run_background_command_out_log (env_of forked_answer) ''cam'' [''cam'']) log_start = (None, t1) \<and>
    run_state (run_background_command_out_fd (env_of forked_answer) True ''cam'' [''cam'']) log_start = (None, t2) \<and>
    run_state (run_background_command_in_fd (env_of forked_answer) True ''cam'' [''cam'']) log_start = (None, t3) \<and>
    runs_program [] ''cam'' [''cam''] [] (trace t1) \<and>
    runs_program [Proc (Dup2 6 2), Proc (Dup2 6 1)] ''cam'' [''cam''] [] (trace t2) \<and>
    runs_program [Proc (Dup2 5 0)] ''cam'' [''cam''] [] (trace t3)"
proof -
  let ?e = "env_of forked_answer"
  let ?runs = "(run_state (run_background_command_out_log ?e ''cam'' [''cam'']) log_start,
    run_state (run_background_command_out_fd ?e True ''cam'' [''cam'']) log_start,
    run_state (run_background_command_in_fd ?e True ''cam'' [''cam'']) log_start)"
  have none: "fst (fst ?runs) = None" "fst (fst (snd ?runs)) = None" "fst (snd (snd ?runs)) = None" by code_simp+
  obtain r1 t1 r2 t2 r3 t3 where runs: "?runs = ((r1, t1), (r2, t2), (r3, t3))" by (metis prod.collapse)
  have law: "failures_set_errno ?e" by (simp add: failures_set_errno_def env_of_def forked_answer_def ok_reply_def)
  have pipe: "\<lparr>rv = 0, rerr = 0, rints = [5, 6], rstr = [], rstrs = []\<rparr> = answer ?e (trace log_start) (Proc Pipe)"
    by (simp add: env_of_def forked_answer_def)
  have fields: "trace log_start = []" "log_file_handle log_start = 0" by (simp_all add: log_start_def)
  have r: "r1 = None" "r2 = None" "r3 = None" using none unfolding runs by simp_all
  have "runs_program [] ''cam'' [''cam''] [] (trace t1) \<and>
      runs_program [Proc (Dup2 6 2), Proc (Dup2 6 1)] ''cam'' [''cam''] [] (trace t2) \<and>
      runs_program [Proc (Dup2 5 0)] ''cam'' [''cam''] [] (trace t3)"
    using fork_separates_parent_and_child [OF law pipe, of "''cam''" "[''cam'']" r1 t1 True r2 t2 r3 t3] runs
    by (auto simp: r fields pipe_outcome_def fork_outcome_def to_log_def rout_def rout2_def split: list.splits if_splits)
  with runs r show ?thesis by auto
qed

end
