(* ===== verification/ProcWait.thy ===== *)
theory ProcWait
  imports ProcExec_Props
begin

text \<open>
  proc_helper.c, third part: the list of child processes, in which \<open>-1\<close> stands for a process
  that has exited: reaping, running again, killing, and the loop that waits for the children.
  A list that a C function changes in place is an argument and part of the result; \<open>None\<close> is
  again a function that does not return (the model follows a child).
\<close>

section \<open>Operations\<close>

definition kill_processes :: "env \<Rightarrow> int list \<Rightarrow> ('z world_scheme, unit) state" where
  "kill_processes e process_ids =
     forM process_ids (\<lambda>p. whenM (p \<noteq> -1) (sysu e (Proc (Kill p ''SIGTERM''))))"

text \<open>The status of a reaped child: 0 for a normal exit, 1 for a signal, and a number.\<close>

definition WIFEXITED :: "reply \<Rightarrow> bool" where
  "WIFEXITED r = (rout r = 0)"

definition WIFSIGNALED :: "reply \<Rightarrow> bool" where
  "WIFSIGNALED r = (rout r = 1)"

fun child_index :: "int list \<Rightarrow> int \<Rightarrow> nat option" where
  "child_index [] p = None"
| "child_index (q # qs) p = (if q = p then Some 0 else map_option Suc (child_index qs p))"

text \<open>The body of the reaping loop.\<close>

definition note_exit :: "env \<Rightarrow> int list \<Rightarrow> reply \<Rightarrow> ('z log_st_scheme, int list) state" where
  "note_exit e process_ids r =
     (if WIFEXITED r \<or> WIFSIGNALED r then
        (case child_index process_ids (rv r) of
           Some n_child \<Rightarrow> do {
             (if WIFEXITED r then log_printf e
                ''The executed child process num. %i with PID=%i has exited normally returning a status code=%i.\<newline>''
                [FInt (int n_child), FInt (rv r), FInt (rout2 r)]
              else log_printf e
                ''The executed child process num. %i with PID=%i was terminated by the signal %i.\<newline>''
                [FInt (int n_child), FInt (rv r), FInt (rout2 r)]);
             return (process_ids[n_child := -1])
           }
         | None \<Rightarrow> do {
             log_printf e ''The terminated child process with PID=%i is not in the executed child list.\<newline>''
               [FInt (rv r)];
             return process_ids
           })
      else return process_ids)"

text \<open>The result code and the list of processes.\<close>

definition update_child_processes_state ::
    "env \<Rightarrow> int list \<Rightarrow> ('z log_st_scheme, int \<times> int list) state" where
  "update_child_processes_state e process_ids = do {
     r \<leftarrow> sys e (Proc (Waitpid (-1)));
     (process_ids, r) \<leftarrow> while_fuel (fuel e) (\<lambda>(_, r). return (rv r > 0))
       (\<lambda>(process_ids, r). do {
          process_ids \<leftarrow> note_exit e process_ids r;
          r \<leftarrow> sys e (Proc (Waitpid (-1)));
          return (process_ids, r)
        }) (process_ids, r);
     er \<leftarrow> gets errno;
     return (if rv r = -1 then (if er = ECHILD then 0 else er) else rv r, process_ids)
   }"

text \<open>
  Running the processes again that have exited.  A failure sets the counter to -1, which the
  increment at the end of the round turns into 0.  If the argument list cannot be allocated,
  \<open>exec_abs_args[0]\<close> reads through a null pointer.
\<close>

fun exec_exited_loop :: "env \<Rightarrow> int \<Rightarrow> (int \<times> string list) list \<Rightarrow>
    ('z log_st_scheme, (int \<times> int list) option) state" where
  "exec_exited_loop e n_run_procs [] = return (Some (n_run_procs, []))"
| "exec_exited_loop e n_run_procs ((pid, exec_args) # rest) =
     (if n_run_procs < 0 then return (Some (n_run_procs, pid # map fst rest))
      else if pid \<noteq> -1 then do {
        res \<leftarrow> exec_exited_loop e n_run_procs rest;
        return (map_option (\<lambda>(n, pids). (n, pid # pids)) res)
      } else do {
        exec_abs_args \<leftarrow> replace_relative_path_array e exec_args;
        case exec_abs_args of
          None \<Rightarrow> do { require False; return (Some (n_run_procs, pid # map fst rest)) }
        | Some arr \<Rightarrow> do {
            require (arr_strings arr \<noteq> []);
            run_cmd_ret \<leftarrow> run_background_command_out_log e (hd (arr_strings arr)) (arr_strings arr);
            case run_cmd_ret of
              None \<Rightarrow> return None
            | Some (ret, new_pid) \<Rightarrow> do {
                free_substring_array e arr;
                er \<leftarrow> gets errno;
                n_run_procs \<leftarrow> (if ret = 0 then do {
                    log_printf e ''Created again child process %s with PID=%i\<newline>''
                      [FStr (hd exec_args), FInt new_pid];
                    return n_run_procs
                  } else do {
                    log_printf e ''Error executing again the child process %s. errno %i: %s\<newline>''
                      [FStr (hd exec_args), FInt er, FErr er];
                    return (-1)
                  });
                res \<leftarrow> exec_exited_loop e (n_run_procs + 1) rest;
                return (map_option (\<lambda>(n, pids). (n, new_pid # pids)) res)
              }
          }
      })"

definition exec_exited_child_processes :: "env \<Rightarrow> int list \<Rightarrow> string list list \<Rightarrow>
    ('z log_st_scheme, (int \<times> int list) option) state" where
  "exec_exited_child_processes e process_ids processes_exec_args =
     exec_exited_loop e 0 (zip process_ids processes_exec_args)"

definition count_running_child_processes :: "int list \<Rightarrow> nat" where
  "count_running_child_processes process_ids = length (filter (\<lambda>p. p \<noteq> -1) process_ids)"

section \<open>The waiting loop\<close>

definition SIGCHLD :: int where [simp]: "SIGCHLD = 17"

text \<open>The local variables of the loop; \<open>w_child\<close> is set when the model follows a child.\<close>

record wait_vars =
  w_error :: int
  w_pids :: "int list"
  w_retries :: int
  w_child :: bool

definition retries_left :: "int \<Rightarrow> bool" where
  "retries_left n \<longleftrightarrow> n > 0 \<or> n = -1"

text \<open>\<open>*exit_flag\<close> is read only when no child is running.\<close>

definition wait_again :: "env \<Rightarrow> wait_vars \<Rightarrow> ('z log_st_scheme, bool) state" where
  "wait_again e w =
     (if w_child w \<or> w_error w \<noteq> 0 then return False
      else if count_running_child_processes (w_pids w) > 0 then return True
      else do { flag \<leftarrow> sysv e (Os ReadFlag); return (flag = 0 \<and> retries_left (w_retries w)) })"

text \<open>The branch for a timeout: the exited processes are run again unless the flag is set.\<close>

definition wait_run_again :: "env \<Rightarrow> string list list \<Rightarrow> wait_vars \<Rightarrow> ('z log_st_scheme, wait_vars) state" where
  "wait_run_again e processes_exec_args w = do {
     res \<leftarrow> exec_exited_child_processes e (w_pids w) processes_exec_args;
     return (case res of
       None \<Rightarrow> w\<lparr>w_child := True\<rparr>
     | Some (fn_ret, pids) \<Rightarrow> w\<lparr>w_pids := pids, w_retries :=
         (if fn_ret > 0 \<and> w_retries w > 0 then w_retries w - 1 else w_retries w)\<rparr>)
   }"

definition wait_timeout :: "env \<Rightarrow> string list list \<Rightarrow> wait_vars \<Rightarrow> ('z log_st_scheme, wait_vars) state" where
  "wait_timeout e processes_exec_args w = do {
     flag \<leftarrow> sysv e (Os ReadFlag);
     if flag = 0 \<and> retries_left (w_retries w) then wait_run_again e processes_exec_args w else return w
   }"

definition wait_step :: "env \<Rightarrow> string list list \<Rightarrow> int \<Rightarrow> wait_vars \<Rightarrow> ('z log_st_scheme, wait_vars) state" where
  "wait_step e processes_exec_args exec_retry_per w = do {
     wait_ret \<leftarrow> sysv e (Os (Sigtimedwait exec_retry_per));
     er \<leftarrow> gets errno;
     if wait_ret = SIGCHLD then do {
       (fn_ret, pids) \<leftarrow> update_child_processes_state e (w_pids w);
       whenM (fn_ret \<noteq> 0) (log_printf e
         ''Error finding out the child processes that have exited. returned error %i: %s\<newline>''
         [FInt fn_ret, FErr fn_ret]);
       return (w\<lparr>w_pids := pids\<rparr>)
     } else if wait_ret = -1 then
       (if er = EAGAIN then wait_timeout e processes_exec_args w
        else if er \<noteq> EINTR then do {
          log_printf e ''Error waiting for child processes to exit. returned error %i: %s\<newline>''
            [FInt er, FErr er];
          return (w\<lparr>w_error := er\<rparr>)
        } else return w)
     else return w
   }"

text \<open>The part after SIGCHLD has been blocked; the result code and the list of processes.\<close>

definition wait_blocked :: "env \<Rightarrow> int list \<Rightarrow> string list list \<Rightarrow> int \<Rightarrow> int \<Rightarrow>
    ('z log_st_scheme, (int \<times> int list) option) state" where
  "wait_blocked e process_ids processes_exec_args exec_retry_per exec_retries_left = do {
     (fn_ret, process_ids) \<leftarrow> update_child_processes_state e process_ids;
     whenM (fn_ret \<noteq> 0) (log_printf e
       ''Error finding out the child processes that have exited immediately. returned error %i: %s\<newline>''
       [FInt fn_ret, FErr fn_ret]);
     w \<leftarrow> while_fuel (fuel e) (wait_again e) (wait_step e processes_exec_args exec_retry_per)
       \<lparr>w_error = 0, w_pids = process_ids, w_retries = exec_retries_left, w_child = False\<rparr>;
     if w_child w then return None else do {
       fn_ret \<leftarrow> sysv e (Os (Sigprocmask ''SIG_SETMASK''));
       er \<leftarrow> gets errno;
       if fn_ret = -1 then do {
         log_printf e ''Error restoring the signals whose delivery will be blocked by the current thread. errno %i: %s\<newline>''
           [FInt er, FErr er];
         return (Some (er, w_pids w))
       } else return (Some (w_error w, w_pids w))
     }
   }"

definition wait_child_processes :: "env \<Rightarrow> int list \<Rightarrow> string list list \<Rightarrow> int \<Rightarrow> int \<Rightarrow>
    ('z log_st_scheme, (int \<times> int list) option) state" where
  "wait_child_processes e process_ids processes_exec_args exec_retry_per exec_retries_left = do {
     fn_ret \<leftarrow> sysv e (Os (Sigset ''sigemptyset''));
     fn_ret \<leftarrow> (if fn_ret = 0 then sysv e (Os (Sigset ''sigaddset SIGCHLD'')) else return fn_ret);
     if fn_ret = -1 then do {
       ret_error \<leftarrow> gets errno;
       log_printf e ''Error assigning the child-process-exit singal to the set of signals. errno %i: %s\<newline>''
         [FInt ret_error, FErr ret_error];
       return (Some (ret_error, process_ids))
     } else do {
       fn_ret \<leftarrow> sysv e (Os (Sigprocmask ''SIG_BLOCK''));
       if fn_ret = -1 then do {
         ret_error \<leftarrow> gets errno;
         log_printf e ''Error setting the current thread to block the delivery of child-process-exit signal. errno %i: %s\<newline>''
           [FInt ret_error, FErr ret_error];
         return (Some (ret_error, process_ids))
       } else wait_blocked e process_ids processes_exec_args exec_retry_per exec_retries_left
     }
   }"

end
