(* ===== verification/ProcWait_Props.thy ===== *)
theory ProcWait_Props
  imports ProcWait
begin

text \<open>
  Properties of the child process list: what reaping marks, what running again changes, what
  the kill function signals, and when the waiting loop is left.
\<close>

section \<open>Reaping\<close>

text \<open>The processes that calls of \<open>waitpid\<close> report as ended.\<close>

definition ended :: "event \<Rightarrow> bool" where
  "ended ev \<longleftrightarrow> fst ev = Proc (Waitpid (-1)) \<and> rv (snd ev) > 0 \<and> (WIFEXITED (snd ev) \<or> WIFSIGNALED (snd ev))"

definition reaped :: "event list \<Rightarrow> int set" where
  "reaped evs = (\<lambda>ev. rv (snd ev)) ` {ev \<in> set evs. ended ev}"

definition mark :: "int set \<Rightarrow> int list \<Rightarrow> int list" where
  "mark P pids = map (\<lambda>p. if p \<in> P then -1 else p) pids"

lemma reaped_simps [simp]:
  "reaped [] = {}"
  "reaped (ev # evs) = (if ended ev then insert (rv (snd ev)) (reaped evs) else reaped evs)"
  by (auto simp: reaped_def)

lemma mark_empty [simp]: "mark {} pids = pids"
  by (simp add: mark_def)

definition distinct_live :: "int list \<Rightarrow> bool" where
  "distinct_live pids \<longleftrightarrow> distinct (filter (\<lambda>p. p \<noteq> -1) pids)"

lemma child_index_None: "child_index pids p = None \<longleftrightarrow> p \<notin> set pids"
  by (induction pids) auto

lemma child_index_mark:
  "child_index pids q = Some n \<Longrightarrow> q \<noteq> -1 \<Longrightarrow> distinct_live pids \<Longrightarrow> pids[n := -1] = mark {q} pids"
proof (induction pids arbitrary: n)
  case Nil
  then show ?case by simp
next
  case (Cons p pids)
  show ?case
  proof (cases "p = q")
    case True
    with Cons.prems have "q \<notin> set pids" by (auto simp: distinct_live_def split: if_splits)
    with True Cons.prems show ?thesis by (auto simp: mark_def intro: map_idI [symmetric])
  next
    case False
    with Cons.prems obtain m where "child_index pids q = Some m" "n = Suc m" by auto
    moreover from Cons.prems have "distinct_live pids" by (auto simp: distinct_live_def split: if_splits)
    ultimately show ?thesis using Cons.IH Cons.prems(2) False by (simp add: mark_def)
  qed
qed

lemma mark_mark: "-1 \<notin> P \<Longrightarrow> mark {q} (mark P pids) = mark (insert q P) pids"
  by (auto simp: mark_def)

lemma mark_none: "q \<notin> set (mark P pids) \<Longrightarrow> q \<noteq> -1 \<Longrightarrow> mark (insert q P) pids = mark P pids"
  by (auto simp: mark_def)

lemma distinct_live_mark: "distinct_live pids \<Longrightarrow> distinct_live (mark P pids)"
proof (induction pids)
  case Nil
  then show ?case by (simp add: mark_def)
next
  case (Cons p pids)
  have "set (filter (\<lambda>p. p \<noteq> -1) (mark P pids)) \<subseteq> set (filter (\<lambda>p. p \<noteq> -1) pids)"
    by (auto simp: mark_def)
  with Cons show ?case by (auto simp: distinct_live_def mark_def split: if_splits)
qed

lemma reaped_positive: "p \<in> reaped evs \<Longrightarrow> 0 < p"
  by (auto simp: reaped_def ended_def)

lemma wp_note_exit:
  assumes dist: "distinct_live pids" and r: "rv r > 0"
    and post: "\<And>lt er u. Q (mark (reaped ((Proc (Waitpid (-1)), r) # evs)) pids)
      (s\<lparr>ltrace := lt, errno := er, lub := u\<rparr>)"
  shows "wp (note_exit e (mark (reaped evs) pids) r) Q s"
proof -
  note same = post [where lt = "ltrace s" and er = "errno s" and u = "lub s", simplified]
  have "-1 \<notin> reaped evs" using reaped_positive by force
  then have ex: "(mark (reaped evs) pids)[n := -1] = mark (insert (rv r) (reaped evs)) pids"
    if "child_index (mark (reaped evs) pids) (rv r) = Some n" for n
    using child_index_mark [OF that] distinct_live_mark [OF dist] r by (simp add: mark_mark)
  have no: "mark (insert (rv r) (reaped evs)) pids = mark (reaped evs) pids"
    if "child_index (mark (reaped evs) pids) (rv r) = None"
    using that mark_none [of "rv r" "reaped evs" pids] r by (simp add: child_index_None)
  show ?thesis
    unfolding note_exit_def
    using r post same by (auto intro!: wp_intro simp: ended_def ex no)
qed

text \<open>The system has finitely many children: after \<open>b\<close> of them no more are reported.\<close>

definition waited :: "event list \<Rightarrow> nat" where
  "waited tr = length (filter (\<lambda>ev. fst ev = Proc (Waitpid (-1)) \<and> rv (snd ev) > 0) tr)"

definition reap_bound :: "env \<Rightarrow> nat \<Rightarrow> bool" where
  "reap_bound e b \<longleftrightarrow> (\<forall>tr. b \<le> waited tr \<longrightarrow> rv (answer e tr (Proc (Waitpid (-1)))) \<le> 0)"

definition is_reap :: "call \<Rightarrow> bool" where
  "is_reap c \<longleftrightarrow> c = Proc (Waitpid (-1))"

text \<open>The state between two rounds: the last reply has not been looked at yet.\<close>

definition reap_inv :: "nat \<Rightarrow> int list \<Rightarrow> 'z log_st_scheme \<Rightarrow> int list \<times> reply \<Rightarrow> 'z log_st_scheme \<Rightarrow> bool" where
  "reap_inv b pids s x t \<longleftrightarrow> same_process s t \<and> (rv (snd x) > 0 \<longrightarrow> waited (trace t) \<le> b) \<and>
     (\<exists>evs. trace t = (Proc (Waitpid (-1)), snd x) # evs @ trace s \<and>
        (\<forall>ev \<in> set evs. is_reap (fst ev)) \<and> fst x = mark (reaped evs) pids)"

lemma same_process_refl [simp]: "same_process s s"
  by (simp add: same_process_def)

lemma same_process_step [simp]:
  "same_process s (t\<lparr>trace := tr\<rparr>) = same_process s t"
  "same_process s (t\<lparr>ltrace := lt\<rparr>) = same_process s t"
  "same_process s (t\<lparr>errno := er\<rparr>) = same_process s t"
  "same_process s (t\<lparr>lub := u\<rparr>) = same_process s t"
  by (simp_all add: same_process_def)

text \<open>What reaping does to a list of processes: it marks the reaped ones.\<close>

definition updated :: "int list \<Rightarrow> 'z log_st_scheme \<Rightarrow> int list \<Rightarrow> 'z log_st_scheme \<Rightarrow> bool" where
  "updated pids s pids' t \<longleftrightarrow> same_process s t \<and> (\<exists>evs. trace t = evs @ trace s \<and>
     (\<forall>ev \<in> set evs. is_reap (fst ev)) \<and> pids' = mark (reaped evs) pids)"

lemma wp_update_children:
  assumes dist: "distinct_live pids" and bound: "reap_bound e b" "b < fuel e"
    and post: "\<And>ret pids' t. updated pids s pids' t \<Longrightarrow> Q (ret, pids') t"
  shows "wp (update_child_processes_state e pids) Q s"
proof -
  let ?body = "\<lambda>(process_ids, r). do {
          process_ids \<leftarrow> note_exit e process_ids r;
          r \<leftarrow> sys e (Proc (Waitpid (-1)));
          return (process_ids, r) }"
  let ?I = "reap_inv b pids s"
  let ?m = "\<lambda>x t. if rv (snd x) > 0 then Suc (b - waited (trace (t :: 'a log_st_scheme))) else 0"
  have call: "wp (sys e (Proc (Waitpid (-1)))) R t"
    if "\<And>r. (rv r > 0 \<Longrightarrow> waited (trace t) < b) \<Longrightarrow>
      R r (t\<lparr>trace := (Proc (Waitpid (-1)), r) # trace t, errno := rerr r\<rparr>)"
    for R and t :: "'a log_st_scheme"
    by (rule wp_sys_eq, rule that) (use bound(1) in \<open>force simp: reap_bound_def not_le\<close>)
  have step: "wp (?body (pids', r)) (\<lambda>y v. ?I y v \<and> ?m y v < ?m (pids', r) t) t"
    if inv: "?I (pids', r) t" and r: "rv r > 0" for pids' r and t :: "'a log_st_scheme"
  proof -
    from inv obtain evs where tr: "trace t = (Proc (Waitpid (-1)), r) # evs @ trace s"
      "\<forall>ev \<in> set evs. is_reap (fst ev)" and pids': "pids' = mark (reaped evs) pids"
      and same: "same_process s t" and w: "waited (trace t) \<le> b"
      using r by (auto simp: reap_inv_def)
    let ?evs = "(Proc (Waitpid (-1)), r) # evs"
    have later: "?I (mark (reaped ?evs) pids, r') (t\<lparr>trace := (Proc (Waitpid (-1)), r') # trace t,
        ltrace := lt, errno := er, lub := u\<rparr>) \<and>
      ?m (mark (reaped ?evs) pids, r') (t\<lparr>trace := (Proc (Waitpid (-1)), r') # trace t,
        ltrace := lt, errno := er, lub := u\<rparr>) < ?m (pids', r) t"
      if "rv r' > 0 \<longrightarrow> waited (trace t) < b" for r' :: reply and lt er u
      using that same tr w r
      by (auto simp: reap_inv_def is_reap_def waited_def intro!: exI [of _ ?evs])
    show ?thesis
      unfolding pids'
    proof (simp only: prod.case wp_bind, rule wp_note_exit [OF dist r], simp only: wp_bind, rule call)
      fix lt er u and r' :: reply
      let ?t = "t\<lparr>ltrace := lt, errno := er, lub := u\<rparr>"
      assume "rv r' > 0 \<Longrightarrow> waited (trace ?t) < b"
      then have "rv r' > 0 \<longrightarrow> waited (trace t) < b" by simp
      from later [OF this, of u "rerr r'" lt]
      show "wp (return (mark (reaped ?evs) pids, r')) (\<lambda>y v. ?I y v \<and> ?m y v < ?m (mark (reaped evs) pids, r) t)
          (?t\<lparr>trace := (Proc (Waitpid (-1)), r') # trace ?t, errno := rerr r'\<rparr>)"
        unfolding pids' by simp
    qed
  qed
  have fin: "wp (gets errno) (\<lambda>er. Q (if rv r = -1 then (if er = ECHILD then 0 else er) else rv r, pids')) t"
    if "?I (pids', r) t" "\<not> rv r > 0" for pids' r and t :: "'a log_st_scheme"
  proof -
    from that obtain evs where "trace t = ((Proc (Waitpid (-1)), r) # evs) @ trace s"
        "\<forall>ev \<in> set ((Proc (Waitpid (-1)), r) # evs). is_reap (fst ev)" "same_process s t"
        "pids' = mark (reaped ((Proc (Waitpid (-1)), r) # evs)) pids"
      by (auto simp: reap_inv_def is_reap_def ended_def)
    then have "updated pids s pids' t" unfolding updated_def by blast
    then show ?thesis by (auto intro!: post)
  qed
  show ?thesis
    unfolding update_child_processes_state_def
    apply (simp only: wp_bind, rule call, simp only: wp_bind, rule wp_while_total [where I = ?I and m = ?m])
    subgoal by (auto simp: reap_inv_def waited_def)
    subgoal using bound(2) by (auto simp: waited_def)
    subgoal for r x t using step [of "fst x" "snd x" t] fin [of "fst x" "snd x" t] by (cases x) auto
    done
qed

section \<open>Running again\<close>

text \<open>The array of arguments is still whole after the program has been started.\<close>

lemma array_after_run:
  assumes rel: "rel_path_post argv old (Some arr) tr" and ran: "adds (\<lambda>c. is_File c \<or> c = Proc Fork) tr tr2"
    and legal: "mem_legal old"
  shows "mem_legal tr2" and "0 \<in> fst ` set (sa_elems arr)" and "arr_blocks arr h \<le> mem_bal tr2 h"
    and "mem_bal tr2 h - arr_blocks arr h = mem_bal old h"
proof -
  have other: "\<not> is_Mem c" if "is_File c \<or> c = Proc Fork" for c
    using that by (cases c) auto
  from mem_bal_adds [OF ran other] have "mem_bal tr2 h = mem_bal tr h" "mem_legal tr2 = mem_legal tr"
    by blast+
  with rel mem_bal_nonneg [OF legal, of h] show "mem_legal tr2" "0 \<in> fst ` set (sa_elems arr)"
    "arr_blocks arr h \<le> mem_bal tr2 h" "mem_bal tr2 h - arr_blocks arr h = mem_bal old h"
    by (auto simp: rel_path_post_def arr_ok_def)
qed

definition kept :: "int list \<Rightarrow> int list \<Rightarrow> bool" where
  "kept pids pids' \<longleftrightarrow> list_all2 (\<lambda>p q. p \<noteq> -1 \<longrightarrow> q = p) pids pids'"

lemma kept_refl [simp]: "kept pids pids"
  by (simp add: kept_def list_all2_refl)

lemma kept_Cons [simp]: "kept (p # pids) (q # qs) = ((p \<noteq> -1 \<longrightarrow> q = p) \<and> kept pids qs)"
  by (simp add: kept_def)

definition args_ok :: "string list \<Rightarrow> bool" where
  "args_ok args \<longleftrightarrow> args \<noteq> [] \<and> (\<forall>a \<in> set args. length a < 2 ^ 32)"

definition same_memory :: "event list \<Rightarrow> event list \<Rightarrow> bool" where
  "same_memory old tr \<longleftrightarrow> mem_legal tr \<and> (\<forall>h. mem_bal tr h = mem_bal old h)"

lemma wp_exec_exited_loop:
  assumes law: "failures_set_errno e"
    and "mem_legal (trace s)" and "\<forall>x \<in> set xs. args_ok (snd x)" and "0 \<le> n"
    and child: "\<And>t. Q None t"
    and "\<And>m pids' t. 0 \<le> m \<Longrightarrow> kept (map fst xs) pids' \<Longrightarrow> same_memory (trace s) (trace t) \<Longrightarrow>
      Q (Some (m, pids')) t"
  shows "wp (exec_exited_loop e n xs) Q s"
  using assms(2-)
proof (induction xs arbitrary: n s Q)
  case Nil
  from Nil(5) [of n "[]" s] Nil show ?case by (simp add: same_memory_def)
next
  case (Cons x xs)
  obtain pid args where x: "x = (pid, args)" by fastforce
  note legal = Cons.prems(1) and post = Cons.prems(5)
  from Cons.prems(2) x have args: "args \<noteq> []" "\<forall>a \<in> set args. length a < 2 ^ 32"
    and rest: "\<forall>x \<in> set xs. args_ok (snd x)" by (auto simp: args_ok_def)
  have again: "wp (do {
        res \<leftarrow> exec_exited_loop e m xs;
        return (map_option (\<lambda>(n, pids). (n, q # pids)) res) }) Q t"
    if "0 \<le> m" "same_memory (trace s) (trace t)" "pid \<noteq> -1 \<longrightarrow> q = pid" for m q and t :: "'a log_st_scheme"
  proof -
    have "wp (exec_exited_loop e m xs) (\<lambda>res. Q (map_option (\<lambda>(n, pids). (n, q # pids)) res)) t"
      by (rule Cons.IH) (use that rest Cons.prems(4) post in \<open>auto simp: same_memory_def x\<close>)
    then show ?thesis by simp
  qed
  show ?case
  proof (cases "pid = -1")
    case False
    then show ?thesis
      using Cons.prems(3) again [of n s pid] legal by (simp add: x same_memory_def)
  next
    case True
    have free: "wp (free_substring_array e arr) R t"
      if "rel_path_post args (trace s) (Some arr) tr" "adds (\<lambda>c. is_File c \<or> c = Proc Fork) tr (trace t)"
        "\<And>tr er. same_memory (trace s) tr \<Longrightarrow> R () (t\<lparr>trace := tr, errno := er\<rparr>)"
      for arr tr R and t :: "'a log_st_scheme"
      by (rule wp_free_substring_array)
        (use array_after_run [OF that(1,2) legal] that(3) in \<open>auto simp: same_memory_def\<close>)
    have fail: "same_memory (trace s) tr" if "rel_path_post args (trace s) None tr" for tr
      using that by (simp add: rel_path_post_def same_memory_def)
    show ?thesis
      using Cons.prems(3) True
      by (auto intro!: wp_intro wp_replace_relative_path [OF legal args] wp_run_out_log [OF law]
          again [simplified] free child post Cons.prems(4) simp: x dest!: fail)
  qed
qed

section \<open>Killing and waiting\<close>

lemma wp_kill_processes:
  assumes "\<And>evs er. map fst (rev evs) = map (\<lambda>p. Proc (Kill p ''SIGTERM'')) (filter (\<lambda>p. p \<noteq> -1) pids) \<Longrightarrow>
      Q () (s\<lparr>trace := evs @ trace s, errno := er\<rparr>)"
  shows "wp (kill_processes e pids) Q s"
  unfolding kill_processes_def
  using assms
proof (induction pids arbitrary: s)
  case Nil
  from Nil [of "[]" "errno s"] show ?case by simp
next
  case (Cons p pids)
  have later: "wp (forM pids (\<lambda>p. whenM (p \<noteq> -1) (sysu e (Proc (Kill p ''SIGTERM''))))) Q
      (s\<lparr>trace := (Proc (Kill p ''SIGTERM''), r) # trace s, errno := rerr r\<rparr>)" if "p \<noteq> -1" for r
    by (rule Cons.IH) (use that Cons.prems [where evs = "_ @ [(Proc (Kill p ''SIGTERM''), r)]"] in simp)
  show ?case
  proof (cases "p = -1")
    case True
    then have "wp (forM pids (\<lambda>p. whenM (p \<noteq> -1) (sysu e (Proc (Kill p ''SIGTERM''))))) Q s"
      by (intro Cons.IH) (use Cons.prems in simp)
    with True show ?thesis by (simp add: whenM_def)
  next
    case False
    then show ?thesis using later by (auto intro!: wp_intro)
  qed
qed

text \<open>The signal functions set \<open>errno\<close> when they fail.\<close>

definition signals_set_errno :: "env \<Rightarrow> bool" where
  "signals_set_errno e \<longleftrightarrow> (\<forall>tr x. rv (answer e tr (Os (Sigset x))) = -1 \<longrightarrow> rerr (answer e tr (Os (Sigset x))) \<noteq> 0) \<and>
     (\<forall>tr x. rv (answer e tr (Os (Sigprocmask x))) = -1 \<longrightarrow> rerr (answer e tr (Os (Sigprocmask x))) \<noteq> 0)"

definition waited_for :: "(int \<times> int list) option \<Rightarrow> 'z log_st_scheme \<Rightarrow> bool" where
  "waited_for res t \<longleftrightarrow> hang t \<or> (case res of None \<Rightarrow> True | Some (ret, pids) \<Rightarrow> ret = 0 \<longrightarrow>
     count_running_child_processes pids = 0 \<and>
     (\<exists>r xs. trace t = (Os (Sigprocmask ''SIG_SETMASK''), r) # xs \<and> rv r \<noteq> -1))"

lemma wp_sigprocmask:
  assumes "signals_set_errno e"
    and "\<And>r. rv r = -1 \<longrightarrow> rerr r \<noteq> 0 \<Longrightarrow>
      Q (rv r) (s\<lparr>trace := (Os (Sigprocmask x), r) # trace s, errno := rerr r\<rparr>)"
  shows "wp (sysv e (Os (Sigprocmask x))) Q s"
  by (rule wp_sysv_eq, rule assms(2)) (use assms(1) in \<open>simp add: signals_set_errno_def\<close>)

lemma wp_sigset:
  assumes "signals_set_errno e"
    and "\<And>r. rv r = -1 \<longrightarrow> rerr r \<noteq> 0 \<Longrightarrow>
      Q (rv r) (s\<lparr>trace := (Os (Sigset x), r) # trace s, errno := rerr r\<rparr>)"
  shows "wp (sysv e (Os (Sigset x))) Q s"
  by (rule wp_sysv_eq, rule assms(2)) (use assms(1) in \<open>simp add: signals_set_errno_def\<close>)

lemma wp_wait_blocked:
  assumes law: "signals_set_errno e"
  shows "wp (wait_blocked e pids args per retries) waited_for s"
proof -
  let ?finish = "\<lambda>w. if w_child w then return None else do {
       fn_ret \<leftarrow> sysv e (Os (Sigprocmask ''SIG_SETMASK''));
       er \<leftarrow> gets errno;
       if fn_ret = -1 then do {
         log_printf e ''Error restoring the signals whose delivery will be blocked by the current thread. errno %i: %s\<newline>''
           [FInt er, FErr er];
         return (Some (er, w_pids w))
       } else return (Some (w_error w, w_pids w)) }"
  have loop: "wp (while_fuel n (wait_again e) (wait_step e args per) w) (\<lambda>w. wp (?finish w) waited_for) t"
    for n w and t :: "'a log_st_scheme"
    by (rule wp_while [where I = "\<lambda>_ _. True"])
      (auto simp: wait_again_def waited_for_def intro!: wp_intro wp_sigprocmask [OF law])
  show ?thesis
    unfolding wait_blocked_def
    by (simp only: wp_bind, rule wp_ignore, rule wp_case_prod, simp only: wp_bind, rule wp_ignore,
        simp only: wp_bind, rule loop)
qed

lemma wp_wait_child_processes:
  assumes law: "signals_set_errno e"
  shows "wp (wait_child_processes e pids args per retries) waited_for s"
proof -
  have "wp (wait_blocked e pids args per retries) waited_for t" for t :: "'a log_st_scheme"
    by (rule wp_wait_blocked [OF law])
  then show ?thesis
    unfolding wait_child_processes_def
    by (auto intro!: wp_intro wp_sigprocmask [OF law] wp_sigset [OF law] simp: waited_for_def)
qed

section \<open>A system in which child 42 has ended\<close>

definition reap_answer :: "event list \<Rightarrow> call \<Rightarrow> reply" where
  "reap_answer tr c = (case c of
     Proc (Waitpid _) \<Rightarrow> if waited tr = 0
       then \<lparr>rv = 42, rerr = 0, rints = [0, 3], rstr = [], rstrs = []\<rparr> else err_reply (-1) ECHILD
   | Proc Fork \<Rightarrow> ok_reply 43
   | Mem (Malloc _) \<Rightarrow> ok_reply (int (length tr) + 1)
   | File (Readlink _ _) \<Rightarrow> str_reply 12 ''/opt/a/alarm''
   | Os ReadFlag \<Rightarrow> ok_reply 1
   | _ \<Rightarrow> ok_reply 0)"

definition reap_env :: env where
  "reap_env = env_of reap_answer"

lemma reap_env_laws: "reap_bound reap_env 1" "failures_set_errno reap_env" "signals_set_errno reap_env"
    "fuel reap_env = 100"
  by (auto simp: reap_bound_def failures_set_errno_def signals_set_errno_def reap_env_def env_of_def
    reap_answer_def ok_reply_def err_reply_def)

lemma reap_run: "run_state (update_child_processes_state reap_env [41, 42]) log_start =
    ((0, [41, -1]), snd (run_state (update_child_processes_state reap_env [41, 42]) log_start))"
  by (simp add: prod_eq_iff) code_simp

section \<open>Properties\<close>

text \<open>
  C32: reaping ends when the system has finitely many children, and replaces exactly the processes
  of the list that \<open>waitpid\<close> has reported as ended by -1; it makes no other call.
\<close>
theorem update_marks_reaped:
  assumes "run_state (update_child_processes_state e pids) s = ((ret, pids'), t)"
    and "distinct_live pids" and "reap_bound e b" and "b < fuel e"
  shows "hang t = hang s \<and> ub t = ub s \<and> (\<exists>evs. trace t = evs @ trace s \<and>
    fst ` set evs \<subseteq> {Proc (Waitpid (-1))} \<and> pids' = mark (reaped evs) pids)"
proof -
  have "wp (update_child_processes_state e pids) (\<lambda>(_, pids') t. updated pids s pids' t) s"
    by (rule wp_update_children [OF assms(2-4)]) simp
  from wp_runD [OF this assms(1)] have "updated pids s pids' t" by simp
  then show ?thesis
    using same_process_fields [of s t] by (auto simp: updated_def is_reap_def)
qed

lemma update_marks_reaped_witness:
  "fst (run_state (update_child_processes_state reap_env [41, 42]) log_start) = (0, [41, -1]) \<and>
   \<not> hang (snd (run_state (update_child_processes_state reap_env [41, 42]) log_start))"
proof -
  have "distinct_live [41, 42]" "1 < fuel reap_env"
    by (simp_all add: distinct_live_def reap_env_laws)
  from update_marks_reaped [OF reap_run this(1) reap_env_laws(1) this(2)] reap_run show ?thesis
    by (metis fst_conv log_start_fields(3))
qed

text \<open>
  C31: running the ended processes again never touches a process that still runs, frees every
  argument list it allocates and counts the processes started; a failure is never reported: the
  result is not negative, although the comment of the code promises -1.
\<close>
theorem run_again_keeps_the_rest:
  assumes "run_state (exec_exited_child_processes e pids args) s = (Some (n, pids'), t)"
    and "failures_set_errno e" and "mem_legal (trace s)" and "\<forall>a \<in> set args. args_ok a"
    and "length pids = length args"
  shows "0 \<le> n \<and> list_all2 (\<lambda>p q. p \<noteq> -1 \<longrightarrow> q = p) pids pids' \<and> mem_legal (trace t) \<and>
    (\<forall>h. mem_bal (trace t) h = mem_bal (trace s) h)"
proof -
  have "wp (exec_exited_child_processes e pids args) (\<lambda>res t. case res of None \<Rightarrow> True
      | Some (n, pids') \<Rightarrow> 0 \<le> n \<and> kept pids pids' \<and> same_memory (trace s) (trace t)) s"
    unfolding exec_exited_child_processes_def
    by (rule wp_exec_exited_loop [OF assms(2,3)])
      (use assms(4,5) in \<open>auto dest: set_zip_rightD\<close>)
  from wp_runD [OF this assms(1)] show ?thesis by (simp add: kept_def same_memory_def)
qed

lemma run_again_keeps_the_rest_witness:
  "fst (run_state (exec_exited_child_processes reap_env [41, -1] [[''./cam''], [''./net'']]) log_start) =
     Some (1, [41, 43]) \<and>
   mem_bal (trace (snd (run_state (exec_exited_child_processes reap_env [41, -1] [[''./cam''], [''./net'']])
     log_start))) 3 = 0"
proof -
  let ?m = "exec_exited_child_processes reap_env [41, -1] [[''./cam''], [''./net'']]"
  have r: "fst (run_state ?m log_start) = Some (1, [41, 43])" by code_simp
  then have "run_state ?m log_start = (Some (1, [41, 43]), snd (run_state ?m log_start))"
    by (simp add: prod_eq_iff)
  from run_again_keeps_the_rest [OF this reap_env_laws(2)] r show ?thesis by (simp add: args_ok_def)
qed

text \<open>
  The termination signal goes to every process of the list that is running, in order, and to
  nothing else: never to -1, which would signal every process of the system.
\<close>
theorem kill_only_running:
  "\<exists>evs. trace (snd (run_state (kill_processes e pids) s)) = evs @ trace s \<and>
     map fst (rev evs) = map (\<lambda>p. Proc (Kill p ''SIGTERM'')) (filter (\<lambda>p. p \<noteq> -1) pids)"
proof -
  have "wp (kill_processes e pids) (\<lambda>_ t. \<exists>evs. trace t = evs @ trace s \<and>
     map fst (rev evs) = map (\<lambda>p. Proc (Kill p ''SIGTERM'')) (filter (\<lambda>p. p \<noteq> -1) pids)) s"
    by (rule wp_kill_processes) simp
  then show ?thesis by (simp add: wp_def split: prod.splits)
qed

text \<open>
  C30: when waiting for the children reports success, no process of the list is running and the
  signal mask has been put back.
\<close>
theorem wait_ends_without_children:
  assumes "run_state (wait_child_processes e pids args per retries) s = (Some (0, pids'), t)"
    and "signals_set_errno e" and "\<not> hang t"
  shows "(\<forall>p \<in> set pids'. p = -1) \<and>
    (\<exists>r xs. trace t = (Os (Sigprocmask ''SIG_SETMASK''), r) # xs \<and> rv r \<noteq> -1)"
proof -
  from wp_runD [OF wp_wait_child_processes [OF assms(2)] assms(1)] assms(3)
  show ?thesis by (simp add: waited_for_def count_running_child_processes_def filter_empty_conv)
qed

lemma wait_ends_without_children_witness:
  "fst (run_state (wait_child_processes reap_env [42] [[''./cam'']] 5 3) log_start) = Some (0, [-1]) \<and>
   (\<exists>r xs. trace (snd (run_state (wait_child_processes reap_env [42] [[''./cam'']] 5 3) log_start)) =
     (Os (Sigprocmask ''SIG_SETMASK''), r) # xs \<and> rv r \<noteq> -1)"
proof -
  let ?m = "wait_child_processes reap_env [42] [[''./cam'']] 5 3"
  have r: "fst (run_state ?m log_start) = Some (0, [-1])" by code_simp
  then have "run_state ?m log_start = (Some (0, [-1]), snd (run_state ?m log_start))"
    by (simp add: prod_eq_iff)
  moreover have "\<not> hang (snd (run_state ?m log_start))" by code_simp
  ultimately show ?thesis using wait_ends_without_children [OF _ reap_env_laws(3)] r by blast
qed

end
