(* ===== verification/Curl.thy ===== *)
theory Curl
  imports ProcExec_Props Gpio_Props
begin

text \<open>
  What the four clients of libcurl share: the protocol of its handles and of the strings it
  allocates, the transfer with its write callback, the contract that every request of a client
  keeps (\<open>curl_service\<close>), and the reading of a configuration file of \<open>name=value\<close> lines,
  which Pushover, Telegram and ownCloud repeat.
\<close>

section \<open>Handles and escaped strings\<close>

definition easy_acq :: sel where
  "easy_acq ev = (case ev of (Curl CurlEasyInit, r) \<Rightarrow> acq_if r | _ \<Rightarrow> None)"

definition easy_rel :: sel where
  "easy_rel ev = (case ev of (Curl (CurlEasyCleanup h), _) \<Rightarrow> Some h | _ \<Rightarrow> None)"

definition easy_use :: sel where
  "easy_use ev = (case ev of
     (Curl (CurlEasySetopt h _), _) \<Rightarrow> Some h
   | (Curl (CurlEasyPerform h), _) \<Rightarrow> Some h
   | (Curl (CurlEasyGetResponseCode h), _) \<Rightarrow> Some h
   | (Curl (CurlEasyEscape h _), _) \<Rightarrow> Some h
   | _ \<Rightarrow> None)"

interpretation easy: handle_protocol easy_acq easy_rel easy_use
  by unfold_locales
    (auto simp: easy_acq_def easy_rel_def easy_use_def acq_if_def
      split: prod.splits call.splits curl_call.splits if_splits)

definition esc_acq :: sel where
  "esc_acq ev = (case ev of (Curl (CurlEasyEscape _ _), r) \<Rightarrow> acq_if r | _ \<Rightarrow> None)"

text \<open>\<open>curl_free(NULL)\<close> does nothing.\<close>

definition esc_rel :: sel where
  "esc_rel ev = (case ev of (Curl (CurlFree h), _) \<Rightarrow> if h = 0 then None else Some h | _ \<Rightarrow> None)"

definition esc_use :: sel where
  "esc_use ev = None"

interpretation esc: handle_protocol esc_acq esc_rel esc_use
  by unfold_locales
    (auto simp: esc_acq_def esc_rel_def esc_use_def acq_if_def
      split: prod.splits call.splits curl_call.splits if_splits)

abbreviation easy_bal :: "event list \<Rightarrow> int \<Rightarrow> int" where
  "easy_bal \<equiv> balance easy_acq easy_rel"

abbreviation esc_bal :: "event list \<Rightarrow> int \<Rightarrow> int" where
  "esc_bal \<equiv> balance esc_acq esc_rel"

definition easy_legal :: "event list \<Rightarrow> bool" where
  "easy_legal tr = legal easy_acq easy_rel easy_use tr"

definition esc_legal :: "event list \<Rightarrow> bool" where
  "esc_legal tr = legal esc_acq esc_rel esc_use tr"

lemmas curl_sel_defs = balance.simps legal.simps easy_acq_def easy_rel_def easy_use_def
  easy_legal_def esc_acq_def esc_rel_def esc_use_def esc_legal_def acq_if_def

lemma easy_simps [simp]:
  "easy_legal []"
  "easy_bal ((Curl CurlEasyInit, r) # tr) h = easy_bal tr h + of_bool (rv r \<noteq> 0 \<and> h = rv r)"
  "easy_legal ((Curl CurlEasyInit, r) # tr) = easy_legal tr"
  "easy_bal ((Curl (CurlEasyCleanup g), r) # tr) h = easy_bal tr h - of_bool (h = g)"
  "easy_legal ((Curl (CurlEasyCleanup g), r) # tr) = (easy_legal tr \<and> 0 < easy_bal tr g)"
  "easy_bal ((Curl (CurlEasySetopt g opt), r) # tr) h = easy_bal tr h"
  "easy_legal ((Curl (CurlEasySetopt g opt), r) # tr) = (easy_legal tr \<and> 0 < easy_bal tr g)"
  "easy_bal ((Curl (CurlEasyPerform g), r) # tr) h = easy_bal tr h"
  "easy_legal ((Curl (CurlEasyPerform g), r) # tr) = (easy_legal tr \<and> 0 < easy_bal tr g)"
  "easy_bal ((Curl (CurlEasyGetResponseCode g), r) # tr) h = easy_bal tr h"
  "easy_legal ((Curl (CurlEasyGetResponseCode g), r) # tr) = (easy_legal tr \<and> 0 < easy_bal tr g)"
  "easy_bal ((Curl (CurlEasyEscape g x), r) # tr) h = easy_bal tr h"
  "easy_legal ((Curl (CurlEasyEscape g x), r) # tr) = (easy_legal tr \<and> 0 < easy_bal tr g)"
  "easy_bal ((Curl (CurlFree g), r) # tr) h = easy_bal tr h"
  "easy_legal ((Curl (CurlFree g), r) # tr) = easy_legal tr"
  "easy_bal ((Curl CurlGlobalInit, r) # tr) h = easy_bal tr h"
  "easy_legal ((Curl CurlGlobalInit, r) # tr) = easy_legal tr"
  "easy_bal ((Curl CurlGlobalCleanup, r) # tr) h = easy_bal tr h"
  "easy_legal ((Curl CurlGlobalCleanup, r) # tr) = easy_legal tr"
  by (auto simp: curl_sel_defs)

lemma esc_simps [simp]:
  "esc_legal []"
  "esc_bal ((Curl (CurlEasyEscape g x), r) # tr) h = esc_bal tr h + of_bool (rv r \<noteq> 0 \<and> h = rv r)"
  "esc_legal ((Curl (CurlEasyEscape g x), r) # tr) = esc_legal tr"
  "esc_bal ((Curl (CurlFree g), r) # tr) h = esc_bal tr h - of_bool (g \<noteq> 0 \<and> h = g)"
  "esc_legal ((Curl (CurlFree g), r) # tr) = (esc_legal tr \<and> (g \<noteq> 0 \<longrightarrow> 0 < esc_bal tr g))"
  "esc_bal ((Curl CurlEasyInit, r) # tr) h = esc_bal tr h"
  "esc_legal ((Curl CurlEasyInit, r) # tr) = esc_legal tr"
  "esc_bal ((Curl (CurlEasyCleanup g), r) # tr) h = esc_bal tr h"
  "esc_legal ((Curl (CurlEasyCleanup g), r) # tr) = esc_legal tr"
  "esc_bal ((Curl (CurlEasySetopt g opt), r) # tr) h = esc_bal tr h"
  "esc_legal ((Curl (CurlEasySetopt g opt), r) # tr) = esc_legal tr"
  "esc_bal ((Curl (CurlEasyPerform g), r) # tr) h = esc_bal tr h"
  "esc_legal ((Curl (CurlEasyPerform g), r) # tr) = esc_legal tr"
  "esc_bal ((Curl (CurlEasyGetResponseCode g), r) # tr) h = esc_bal tr h"
  "esc_legal ((Curl (CurlEasyGetResponseCode g), r) # tr) = esc_legal tr"
  "esc_bal ((Curl CurlGlobalInit, r) # tr) h = esc_bal tr h"
  "esc_legal ((Curl CurlGlobalInit, r) # tr) = esc_legal tr"
  "esc_bal ((Curl CurlGlobalCleanup, r) # tr) h = esc_bal tr h"
  "esc_legal ((Curl CurlGlobalCleanup, r) # tr) = esc_legal tr"
  by (auto simp: curl_sel_defs)

definition is_Curl :: "call \<Rightarrow> bool" where
  "is_Curl c = (case c of Curl _ \<Rightarrow> True | _ \<Rightarrow> False)"

lemma is_Curl_simps [simp]: "is_Curl (Curl cc)" "\<not> is_Curl (Mem m)" "\<not> is_Curl (File f)"
    "\<not> is_Curl (Gpiod g)" "\<not> is_Curl (Os oc)" "\<not> is_Curl (Proc p)" "\<not> is_Curl (Net n)"
  by (simp_all add: is_Curl_def)

lemma curl_other [simp]:
  assumes "\<not> is_Curl c"
  shows "easy_bal ((c, r) # tr) h = easy_bal tr h" "easy_legal ((c, r) # tr) = easy_legal tr"
    "esc_bal ((c, r) # tr) h = esc_bal tr h" "esc_legal ((c, r) # tr) = esc_legal tr"
  using assms by (cases c; simp add: curl_sel_defs)+

lemma easy_bal_nonneg: "easy_legal tr \<Longrightarrow> 0 \<le> easy_bal tr h"
  unfolding easy_legal_def by (rule easy.balance_nonneg)

lemma esc_bal_nonneg: "esc_legal tr \<Longrightarrow> 0 \<le> esc_bal tr h"
  unfolding esc_legal_def by (rule esc.balance_nonneg)

section \<open>The error number after a message\<close>

text \<open>
  What POSIX documents: the functions on files set \<open>errno\<close> to a number other than zero when they
  fail, and no function sets it to zero.
\<close>

fun call_failed :: "call \<Rightarrow> reply \<Rightarrow> bool" where
  "call_failed (File (Fopen p m)) r = (rv r = 0)"
| "call_failed (File (Fflush h)) r = (rv r \<noteq> 0)"
| "call_failed (File (Fsync h)) r = (rv r \<noteq> 0)"
| "call_failed (File (Fclose h)) r = (rv r \<noteq> 0)"
| "call_failed (File (Unlink p)) r = (rv r \<noteq> 0)"
| "call_failed (File (Rename p q)) r = (rv r \<noteq> 0)"
| "call_failed c r = False"

definition errno_seen :: "event list \<Rightarrow> bool" where
  "errno_seen tr \<longleftrightarrow> (\<exists>ev \<in> set tr. rerr (snd ev) \<noteq> 0)"

definition errno_stays_set :: "env \<Rightarrow> bool" where
  "errno_stays_set e \<longleftrightarrow>
     (\<forall>tr c. call_failed c (answer e tr c) \<longrightarrow> rerr (answer e tr c) \<noteq> 0) \<and>
     (\<forall>tr c. errno_seen tr \<longrightarrow> rerr (answer e tr c) \<noteq> 0)"

text \<open>What the law says of one call, and that it has set the number before.  The facts are kept folded.\<close>

definition call_errno :: "env \<Rightarrow> call \<Rightarrow> reply \<Rightarrow> event list \<Rightarrow> bool" where
  "call_errno e c r tr \<longleftrightarrow> (errno_stays_set e \<and> (call_failed c r \<or> errno_seen tr) \<longrightarrow> rerr r \<noteq> 0)"

definition errno_set :: "env \<Rightarrow> event list \<Rightarrow> bool" where
  "errno_set e tr \<longleftrightarrow> (errno_stays_set e \<longrightarrow> errno_seen tr)"

lemma errno_set_failed: "call_errno e c r tr \<Longrightarrow> call_failed c r \<Longrightarrow> errno_set e ((c, r) # tr)"
  by (simp add: call_errno_def errno_set_def errno_seen_def)

lemmas errno_set_file = errno_set_failed [where c = "File (Fflush h)" for h, simplified]
  errno_set_failed [where c = "File (Fsync h)" for h, simplified] errno_set_failed [where c = "File (Fclose h)" for h, simplified]
  errno_set_failed [where c = "File (Unlink p)" for p, simplified] errno_set_failed [where c = "File (Rename p q)" for p q, simplified]

lemma errno_set_more: "errno_set e tr \<Longrightarrow> errno_set e (ev # tr)"
  by (simp add: errno_set_def errno_seen_def)

lemma errno_set_result: "call_errno e c r tr \<Longrightarrow> errno_set e tr \<Longrightarrow> errno_stays_set e \<longrightarrow> rerr r \<noteq> 0"
  by (simp add: call_errno_def errno_set_def)

lemma wp_call_errno:
  assumes "\<And>r. call_errno e c r (trace s) \<Longrightarrow>
    Q (rv r) (s\<lparr>trace := (c, r) # trace s, errno := rerr r\<rparr>)"
  shows "wp (sysv e c) Q s"
  by (rule wp_sysv_eq, rule assms) (auto simp: errno_stays_set_def call_errno_def)

lemma wp_calls_errno:
  assumes "\<And>r. call_errno e c r (trace s) \<Longrightarrow>
    Q () (s\<lparr>trace := (c, r) # trace s, errno := rerr r\<rparr>)"
  shows "wp (sysu e c) Q s"
  by (rule wp_sysu_eq, rule assms) (auto simp: errno_stays_set_def call_errno_def)

text \<open>A stream that cannot be opened, and a message.\<close>

definition errno_kept :: "int \<Rightarrow> int \<Rightarrow> bool" where
  "errno_kept x y \<longleftrightarrow> (x \<noteq> 0 \<longrightarrow> y \<noteq> 0)"

definition fopen_errno :: "env \<Rightarrow> reply \<Rightarrow> bool" where
  "fopen_errno e r \<longleftrightarrow> (errno_stays_set e \<and> rv r = 0 \<longrightarrow> rerr r \<noteq> 0)"

lemma fopen_errnoD:
  "fopen_errno e r \<Longrightarrow> rv r = 0 \<Longrightarrow> errno_kept (rerr r) er \<Longrightarrow> errno_stays_set e \<Longrightarrow> er \<noteq> 0"
  by (simp add: fopen_errno_def errno_kept_def)

lemma wp_fopen_errno:
  assumes "\<And>r. fopen_errno e r \<Longrightarrow>
    Q (rv r) (s\<lparr>trace := (File (Fopen p m), r) # trace s, errno := rerr r\<rparr>)"
  shows "wp (sysv e (File (Fopen p m))) Q s"
  by (rule wp_call_errno [where e = e], rule assms) (simp add: fopen_errno_def call_errno_def)

lemma wp_lsys_errno:
  assumes "errno s \<noteq> 0" and "\<And>r er. er \<noteq> 0 \<Longrightarrow> Q r (s\<lparr>ltrace := (c, r) # ltrace s, errno := er\<rparr>)"
  shows "wp (lsys e c) Q s"
  using assms by (simp add: wp_def run_lsys)

lemma wp_log_errno:
  assumes "\<And>lt er u. errno_kept (errno s) er \<Longrightarrow> Q () (s\<lparr>ltrace := lt, errno := er, lub := u\<rparr>)"
  shows "wp (log_printf e fmt args) Q s"
proof -
  have "wp (log_printf e fmt args) (\<lambda>_ t. errno t \<noteq> 0) s" if "errno s \<noteq> 0"
    unfolding log_printf_def msg_printf_def get_localtime_stamp_def get_localtime_str_def
    using that by (auto intro!: wp_if wp_whenM wp_lrequire wp_lsys_errno)
  then have "wp (log_printf e fmt args) (\<lambda>_ t. errno_kept (errno s) (errno t)) s"
    by (cases "errno s = 0") (auto simp: errno_kept_def intro: wp_runI elim: wp_mono)
  moreover have "wp (log_printf e fmt args)
      (\<lambda>_ t. \<exists>lt er u. t = s\<lparr>ltrace := lt, errno := er, lub := u\<rparr>) s"
    by (rule wp_log_printf) blast
  ultimately have "wp (log_printf e fmt args)
      (\<lambda>_ t. errno_kept (errno s) (errno t) \<and>
        (\<exists>lt er u. t = s\<lparr>ltrace := lt, errno := er, lub := u\<rparr>)) s" by (rule wp_conj)
  then show ?thesis by (rule wp_mono) (auto intro!: assms)
qed

section \<open>Transfers\<close>

definition CURLE_OK :: int where [simp]: "CURLE_OK = 0"

definition CURLE_WRITE_ERROR :: int where [simp]: "CURLE_WRITE_ERROR = 23"

definition setopts :: "env \<Rightarrow> int \<Rightarrow> curl_opt list \<Rightarrow> ('z world_scheme, unit) state" where
  "setopts e curl opts = forM opts (\<lambda>opt. sysu e (Curl (CurlEasySetopt curl opt)))"

text \<open>
  libcurl gives the data it receives to the write callback in pieces, \<open>rstrs\<close> of the reply.  The
  transfer fails when the callback does not take all of a piece.
\<close>

fun deliver :: "(string \<Rightarrow> 'b \<Rightarrow> ('s, int \<times> 'b) state) \<Rightarrow> string list \<Rightarrow> 'b \<Rightarrow> ('s, bool \<times> 'b) state" where
  "deliver cb [] userdata = return (True, userdata)"
| "deliver cb (piece # pieces) userdata = do {
     (n, userdata) \<leftarrow> cb piece userdata;
     if n = strlen piece then deliver cb pieces userdata else return (False, userdata)
   }"

definition curl_easy_perform :: "env \<Rightarrow> int \<Rightarrow> (string \<Rightarrow> 'b \<Rightarrow> ('z world_scheme, int \<times> 'b) state) \<Rightarrow> 'b \<Rightarrow>
    ('z world_scheme, int \<times> 'b) state" where
  "curl_easy_perform e curl cb userdata = do {
     r \<leftarrow> sys e (Curl (CurlEasyPerform curl));
     (taken, userdata) \<leftarrow> deliver cb (rstrs r) userdata;
     return (if taken then rv r else CURLE_WRITE_ERROR, userdata)
   }"

text \<open>The buffer for the body of a response: its address and its contents.\<close>

definition curl_write_callback_fn :: "env \<Rightarrow> string \<Rightarrow> int \<times> string \<Rightarrow>
    ('z log_st_scheme, int \<times> int \<times> string) state" where
  "curl_write_callback_fn e contents = (\<lambda>(data, body). do {
     let realsize = strlen contents;
     new_data \<leftarrow> c_realloc e data (strlen body + realsize + 1);
     if new_data \<noteq> 0 then return (realsize, new_data, body @ contents)
     else do {
       log_printf e ''Error: Out of memory while receiving response wirh Curl.\<newline>'' [];
       return (0, data, body)
     }
   })"

section \<open>Clean operations\<close>

text \<open>
  All handles, strings, blocks and streams are used legally; \<open>clean\<close> says that this still holds
  in the new trace and that an operation has given back everything it acquired.
\<close>

definition res_ok :: "event list \<Rightarrow> bool" where
  "res_ok tr \<longleftrightarrow> easy_legal tr \<and> esc_legal tr \<and> mem_legal tr \<and> file_legal tr"

definition res_bal :: "event list \<Rightarrow> int \<Rightarrow> int \<times> int \<times> int \<times> int" where
  "res_bal tr h = (easy_bal tr h, esc_bal tr h, mem_bal tr h, file_bal tr h)"

definition clean :: "event list \<Rightarrow> event list \<Rightarrow> bool" where
  "clean old new \<longleftrightarrow> res_ok new \<and> (\<forall>h. res_bal new h = res_bal old h)"

lemma clean_refl: "res_ok tr \<Longrightarrow> clean tr tr"
  by (simp add: clean_def)

lemma clean_trans: "clean a b \<Longrightarrow> clean b c \<Longrightarrow> clean a c"
  by (simp add: clean_def)

lemma cleanD: "clean a b \<Longrightarrow> res_ok b"
  by (simp add: clean_def)

lemma res_ok_nonneg: "res_ok tr \<Longrightarrow>
    0 \<le> easy_bal tr h \<and> 0 \<le> esc_bal tr h \<and> 0 \<le> mem_bal tr h \<and> 0 \<le> file_bal tr h"
  by (simp add: res_ok_def easy_bal_nonneg esc_bal_nonneg mem_bal_nonneg file_bal_nonneg)

lemmas clean_defs = clean_def res_ok_def res_bal_def

lemma clean_neutral:
  "clean a b \<Longrightarrow> clean a ((Os oc, r) # b)"
  "clean a b \<Longrightarrow> clean a ((Net nc, r) # b)"
  "clean a b \<Longrightarrow> clean a ((Gpiod gc, r) # b)"
  "clean a b \<Longrightarrow> clean a ((Curl CurlGlobalInit, r) # b)"
  "clean a b \<Longrightarrow> clean a ((Curl CurlGlobalCleanup, r) # b)"
  "clean a b \<Longrightarrow> clean a ((File (Readlink p n), r) # b)"
  "clean a b \<Longrightarrow> clean a ((File (Mkdir p n), r) # b)"
  "clean a b \<Longrightarrow> clean a ((File (Stat p), r) # b)"
  by (simp_all add: clean_defs)

text \<open>The parts of a transfer.\<close>

lemma wp_setopts:
  assumes "0 < easy_bal (trace s) h" and "res_ok (trace s)"
    and "\<And>tr er. clean (trace s) tr \<Longrightarrow> adds is_Curl (trace s) tr \<Longrightarrow> Q () (s\<lparr>trace := tr, errno := er\<rparr>)"
  shows "wp (setopts e h opts) Q s"
  using assms
proof (induction opts arbitrary: s)
  case Nil
  from Nil(3) [where tr = "trace s" and er = "errno s"] Nil(2) show ?case
    by (simp add: setopts_def clean_refl)
next
  case (Cons opt opts)
  have "wp (setopts e h opts) Q
      (s\<lparr>trace := (Curl (CurlEasySetopt h opt), r) # trace s, errno := rerr r\<rparr>)" for r
    by (rule Cons.IH; use Cons.prems(1,2) in \<open>(auto simp: res_ok_def)?\<close>)
      (auto intro!: Cons.prems(3) simp: clean_defs intro: adds_trans [OF adds_Cons [OF adds_refl, where r = r and c = "Curl (CurlEasySetopt h opt)"]])
  then show ?case by (auto simp: setopts_def intro!: wp_intro)
qed

text \<open>What the write callbacks do between the pieces: \<open>J\<close> relates user data and trace.\<close>

lemma wp_deliver:
  assumes "J userdata (trace s)"
    and step: "\<And>x u t R. J u (trace t) \<Longrightarrow>
      (\<And>n u' tr lt er lb. J u' tr \<Longrightarrow> R (n, u') (t\<lparr>trace := tr, ltrace := lt, errno := er, lub := lb\<rparr>)) \<Longrightarrow>
      wp (cb x u) R t"
    and post: "\<And>ok u tr lt er lb. J u tr \<Longrightarrow>
      Q (ok, u) (s\<lparr>trace := tr, ltrace := lt, errno := er, lub := lb\<rparr>)"
  shows "wp (deliver cb pieces userdata) Q s"
  using assms(1,3)
proof (induction pieces arbitrary: userdata s)
  case Nil
  from Nil(2) [OF Nil(1), where lt = "ltrace s" and er = "errno s" and lb = "lub s"] show ?case by simp
next
  case (Cons x xs)
  note later = Cons.prems(2)
  show ?case
  proof (simp, rule step [OF Cons.prems(1)])
    fix n u' tr lt er lb
    assume J: "J u' tr"
    let ?t = "s\<lparr>trace := tr, ltrace := lt, errno := er, lub := lb\<rparr>"
    have "wp (deliver cb xs u') Q ?t"
      by (rule Cons.IH) (use J later in auto)
    then show "wp (case (n, u') of (n, userdata) \<Rightarrow>
        if n = strlen x then deliver cb xs userdata else return (False, userdata)) Q ?t"
      using later [OF J] by simp
  qed
qed

lemma wp_curl_easy_perform:
  assumes "\<And>r. J userdata ((Curl (CurlEasyPerform h), r) # trace s)"
    and "\<And>x u t R. J u (trace t) \<Longrightarrow>
      (\<And>n u' tr lt er lb. J u' tr \<Longrightarrow> R (n, u') (t\<lparr>trace := tr, ltrace := lt, errno := er, lub := lb\<rparr>)) \<Longrightarrow>
      wp (cb x u) R t"
    and post: "\<And>res u tr lt er lb. J u tr \<Longrightarrow>
      Q (res, u) (s\<lparr>trace := tr, ltrace := lt, errno := er, lub := lb\<rparr>)"
  shows "wp (curl_easy_perform e h cb userdata) Q s"
  unfolding curl_easy_perform_def
  by (auto intro!: wp_intro wp_deliver [where J = J] assms)

text \<open>
  The response buffer: after any number of pieces the trace is legal and the buffer is the only
  block that the transfer still holds.
\<close>

definition transfer_inv :: "event list \<Rightarrow> int \<times> string \<Rightarrow> event list \<Rightarrow> bool" where
  "transfer_inv old = (\<lambda>(data, body) tr. res_ok tr \<and> suffix old tr \<and>
     (\<forall>h. easy_bal tr h = easy_bal old h \<and> esc_bal tr h = esc_bal old h \<and>
       file_bal tr h = file_bal old h \<and> mem_bal tr h = mem_bal old h + of_bool (data \<noteq> 0 \<and> h = data)))"

lemma wp_write_callback:
  assumes "transfer_inv old u (trace t)" and old: "res_ok old"
    and post: "\<And>n u' tr lt er lb. transfer_inv old u' tr \<Longrightarrow>
      R (n, u') (t\<lparr>trace := tr, ltrace := lt, errno := er, lub := lb\<rparr>)"
  shows "wp (curl_write_callback_fn e x u) R t"
proof -
  note quiet = post [where lt = "ltrace t" and lb = "lub t", simplified]
  show ?thesis
    unfolding curl_write_callback_fn_def c_realloc_def
    using assms(1) res_ok_nonneg [OF old]
    by (cases u) (auto intro!: wp_intro post quiet simp: transfer_inv_def res_ok_def Let_def add_pos_nonneg
        suffix_ConsI)
qed

lemma wp_post:
  assumes ok: "res_ok (trace s)" and h: "0 < easy_bal (trace s) h"
    and post: "\<And>res data body tr lt er lb. transfer_inv (trace s) (data, body) tr \<Longrightarrow>
      Q (res, data, body) (s\<lparr>trace := tr, ltrace := lt, errno := er, lub := lb\<rparr>)"
  shows "wp (curl_easy_perform e h (curl_write_callback_fn e) (0, [])) Q s"
proof (rule wp_curl_easy_perform [where J = "transfer_inv (trace s)"])
  show "transfer_inv (trace s) (0, []) ((Curl (CurlEasyPerform h), r) # trace s)" for r
    using ok h by (auto simp: transfer_inv_def res_ok_def suffix_ConsI)
qed (use post in \<open>auto intro: wp_write_callback [OF _ ok]\<close>)

text \<open>
  A request that a server has confirmed: after the trace \<open>old\<close> the response code was asked for,
  and it was one of those in \<open>P\<close>.
\<close>

definition confirmed :: "(int \<Rightarrow> bool) \<Rightarrow> event list \<Rightarrow> event list \<Rightarrow> bool" where
  "confirmed P old tr \<longleftrightarrow> (\<exists>h r xs. suffix ((Curl (CurlEasyGetResponseCode h), r) # xs) tr \<and>
     suffix old xs \<and> rv r = 0 \<and> P (rout r))"

lemma confirmed_Cons [simp]: "confirmed P old ((c, r) # xs) \<longleftrightarrow>
    (\<exists>h. c = Curl (CurlEasyGetResponseCode h)) \<and> suffix old xs \<and> rv r = 0 \<and> P (rout r) \<or> confirmed P old xs"
  unfolding confirmed_def suffix_Cons by auto

lemma confirmed_old: "suffix old old' \<Longrightarrow> confirmed P old' tr \<Longrightarrow> confirmed P old tr"
  unfolding confirmed_def using suffix_order.trans by metis

lemma confirmed_tail: "confirmed P (ev # old) tr \<Longrightarrow> confirmed P old tr"
  by (rule confirmed_old) (simp_all add: suffix_ConsI)

text \<open>
  The contract of a request to a service, for libraries that keep a law: it leaves nothing behind and changes nothing but the
  traces and \<open>errno\<close>, in particular none of the static variables and not the flag for undefined
  behaviour.
\<close>

locale curl_service =
  fixes law :: "env \<Rightarrow> bool" and request :: "env \<Rightarrow> 'a \<Rightarrow> ('z log_st_scheme, int) state"
  assumes request_clean: "law e \<Longrightarrow> res_ok (trace s) \<Longrightarrow>
    (\<And>ret tr lt er u. clean (trace s) tr \<Longrightarrow>
      Q ret (s\<lparr>trace := tr, ltrace := lt, errno := er, lub := u\<rparr>)) \<Longrightarrow>
    wp (request e x) Q s"
begin

lemma request_frame:
  assumes "run_state (request e x) s = (ret, t)" and "law e" and "res_ok (trace s)"
  shows "clean (trace s) (trace t) \<and> ub t = ub s \<and> hang t = hang s \<and> log_st.more t = log_st.more s"
proof -
  have "wp (request e x) (\<lambda>_ t. clean (trace s) (trace t) \<and> ub t = ub s \<and> hang t = hang s \<and>
      log_st.more t = log_st.more s) s"
    by (rule request_clean [OF assms(2,3)]) simp
  from wp_runD [OF this assms(1)] show ?thesis .
qed

text \<open>Any number of requests.\<close>

lemma requests_clean:
  assumes "law e" and "res_ok (trace s)"
  shows "wp (forM xs (\<lambda>x. State_Monad.bind (request e x) (\<lambda>_. return ())))
    (\<lambda>_ t. clean (trace s) (trace t) \<and> ub t = ub s \<and> log_st.more t = log_st.more s) s"
  by (rule wp_forM_inv [where I = "\<lambda>t. clean (trace s) (trace t) \<and> ub t = ub s \<and>
        log_st.more t = log_st.more s"])
    (auto intro!: clean_refl assms request_clean dest: cleanD intro: clean_trans)

end

end
