(* ===== verification/Capturer.thy ===== *)
theory Capturer
  imports Curl
begin

text \<open>
  capturer.c: one frame of the camera is downloaded over HTTP and stored in the capture
  directory.  The state is that of the static variables of the file; a pointer that the code
  compares with \<open>NULL\<close> is an option.
\<close>

section \<open>State\<close>

record capturer_st = gpio_st +
  g_capture_path :: string
  g_snapshot_url :: string
  g_initialized :: int
  g_curl_global_initialized :: int

definition CAPTURER_SNAPSHOT_URL :: string where
  "CAPTURER_SNAPSHOT_URL = ''http://127.0.0.1:8008/?action=snapshot''"

section \<open>Helpers\<close>

definition S_ISDIR :: "reply \<Rightarrow> bool" where
  "S_ISDIR st = (rout st = 1)"

text \<open>
  The check of one directory of the path, which is created when it does not exist.  The result 0 lets the loop go on: a
  \<open>mkdir\<close> that fails sets \<open>errno\<close>, so that this is not the code of a failure.
\<close>

definition make_directory :: "env \<Rightarrow> string \<Rightarrow> ('z world_scheme, int) state" where
  "make_directory e tmp = do {
     st \<leftarrow> sys e (File (Stat tmp));
     if rv st \<noteq> 0 then do {
       m \<leftarrow> sysv e (File (Mkdir tmp 493));
       er \<leftarrow> gets errno;
       return (if m \<noteq> 0 \<and> er \<noteq> EEXIST then er else 0)
     } else return (if \<not> S_ISDIR st then ENOTDIR else 0)
   }"

text \<open>The loop over the slashes of the path: \<open>tmp\<close> is the part before the current character.\<close>

fun make_parents :: "env \<Rightarrow> string \<Rightarrow> string \<Rightarrow> ('z world_scheme, int) state" where
  "make_parents e tmp [] = return 0"
| "make_parents e tmp (c # cs) =
     (if c = CHR ''/'' \<and> tmp \<noteq> [] then do {
        ret \<leftarrow> make_directory e tmp;
        if ret \<noteq> 0 then return ret else make_parents e (tmp @ [c]) cs
      } else make_parents e (tmp @ [c]) cs)"

definition make_directory_recursive :: "env \<Rightarrow> string option \<Rightarrow> ('z world_scheme, int) state" where
  "make_directory_recursive e path = (case path of
     None \<Rightarrow> return EINVAL
   | Some path \<Rightarrow>
       if path = [] \<or> strlen path > PATH_MAX then return EINVAL
       else if strlen path \<ge> PATH_MAX + 1 then return ENAMETOOLONG
       else do {
         ret \<leftarrow> make_parents e (take 1 path) (drop 1 path);
         if ret \<noteq> 0 then return ret else make_directory e path
       })"

definition validate_filename :: "string option \<Rightarrow> int" where
  "validate_filename filename_to_save = (case filename_to_save of
     None \<Rightarrow> EINVAL
   | Some f \<Rightarrow>
       if f = [] \<or> strlen f > PATH_MAX then EINVAL
       else if c_strchr f (CHR ''/'') then EINVAL
       else if c_strstr f ''..'' \<noteq> None then EINVAL
       else 0)"

text \<open>The result code and the contents of the destination.\<close>

definition build_full_path :: "int \<Rightarrow> string option \<Rightarrow> string option \<Rightarrow> int \<times> string" where
  "build_full_path dst_size dir file = (case (dir, file) of
     (Some d, Some f) \<Rightarrow> (case c_format ''%s/%s'' [FStr d, FStr f] of
        None \<Rightarrow> (EIO, [])
      | Some x \<Rightarrow> (if strlen x \<ge> dst_size then ENAMETOOLONG else 0, buffer_take (dst_size - 1) x))
   | _ \<Rightarrow> (EINVAL, []))"

text \<open>The write callback; its user data is the stream.\<close>

definition curl_write_cb :: "env \<Rightarrow> string \<Rightarrow> int \<Rightarrow> ('z world_scheme, int \<times> int) state" where
  "curl_write_cb e contents fp =
     (if fp = 0 \<or> contents = [] then return (0, fp)
      else do {
        written \<leftarrow> sysv e (File (Fwrite fp contents));
        return (if written \<noteq> strlen contents then 0 else strlen contents, fp)
      })"

definition CURLE_URL_MALFORMAT :: int where "CURLE_URL_MALFORMAT = 3"

definition CURLE_COULDNT_CONNECT :: int where "CURLE_COULDNT_CONNECT = 7"

definition CURLE_OUT_OF_MEMORY :: int where "CURLE_OUT_OF_MEMORY = 27"

definition CURLE_OPERATION_TIMEDOUT :: int where "CURLE_OPERATION_TIMEDOUT = 28"

definition curl_result_to_errno :: "int \<Rightarrow> int" where
  "curl_result_to_errno code =
     (if code = CURLE_OK then 0
      else if code = CURLE_OUT_OF_MEMORY then ENOMEM
      else if code = CURLE_COULDNT_CONNECT then ECONNREFUSED
      else if code = CURLE_OPERATION_TIMEDOUT then ETIMEDOUT
      else if code = CURLE_URL_MALFORMAT then EINVAL
      else EIO)"

section \<open>Operations\<close>

definition capturer_init :: "env \<Rightarrow> string option \<Rightarrow> ('z capturer_st_scheme, int) state" where
  "capturer_init e full_capture_path =
     (if full_capture_path = None \<or> full_capture_path = Some [] \<or>
         strlen (the full_capture_path) > PATH_MAX then do {
        log_printf e ''Error: capturer_init received an invalid capture path.\<newline>'' [];
        return EINVAL
      } else do {
        let path = the full_capture_path;
        ret_error \<leftarrow> make_directory_recursive e full_capture_path;
        if ret_error \<noteq> 0 then do {
          log_printf e ''Error: capturer cannot create or access directory %s. errno=%d\<newline>''
            [FStr path, FInt ret_error];
          return ret_error
        } else if strlen path \<ge> PATH_MAX + 1 then do {
          log_printf e ''Error: capturer capture path too long: %s\<newline>'' [FStr path];
          return ENAMETOOLONG
        } else do {
          modify (\<lambda>s. s\<lparr>g_capture_path := path\<rparr>);
          if strlen CAPTURER_SNAPSHOT_URL \<ge> 1024 then do {
            log_printf e ''Error: capturer default snapshot URL too long.\<newline>'' [];
            return ENAMETOOLONG
          } else do {
            modify (\<lambda>s. s\<lparr>g_snapshot_url := CAPTURER_SNAPSHOT_URL\<rparr>);
            curl_up \<leftarrow> gets g_curl_global_initialized;
            init_ret \<leftarrow> (if curl_up = 0 then sysv e (Curl CurlGlobalInit) else return 0);
            if init_ret \<noteq> 0 then do {
              log_printf e ''Error: capturer cannot initialize libcurl global state.\<newline>'' [];
              return EIO
            } else do {
              modify (\<lambda>s. s\<lparr>g_curl_global_initialized := (if curl_up = 0 then 1 else curl_up)\<rparr>);
              modify (\<lambda>s. s\<lparr>g_initialized := 1\<rparr>);
              return 0
            }
          }
        }
      })"

definition frame_opts :: "string \<Rightarrow> int \<Rightarrow> curl_opt list" where
  "frame_opts url fp =
     [OptStr ''CURLOPT_URL'' url,
      OptStr ''CURLOPT_WRITEFUNCTION'' ''curl_write_cb'',
      OptPtr ''CURLOPT_WRITEDATA'' fp,
      OptLong ''CURLOPT_FAILONERROR'' 1,
      OptLong ''CURLOPT_FOLLOWLOCATION'' 1,
      OptLong ''CURLOPT_NOSIGNAL'' 1,
      OptLong ''CURLOPT_CONNECTTIMEOUT_MS'' 5000,
      OptLong ''CURLOPT_TIMEOUT_MS'' 15000,
      OptStr ''CURLOPT_USERAGENT'' ''capturer/1.0'']"

text \<open>The clean-up of a failed download: the handle, the stream and the temporary file.\<close>

definition discard_frame :: "env \<Rightarrow> int \<Rightarrow> int \<Rightarrow> string \<Rightarrow> ('z world_scheme, unit) state" where
  "discard_frame e curl fp temp_path = do {
     sysu e (Curl (CurlEasyCleanup curl));
     sysu e (File (Fclose fp));
     sysu e (File (Unlink temp_path))
   }"

text \<open>From the complete temporary file to the final name.\<close>

definition publish_frame :: "env \<Rightarrow> string \<Rightarrow> string \<Rightarrow> ('z log_st_scheme, int) state" where
  "publish_frame e temp_path final_path = do {
     st \<leftarrow> sysv e (File (Stat final_path));
     unlink_ret \<leftarrow> (if st = 0 then sysv e (File (Unlink final_path)) else return 0);
     if unlink_ret \<noteq> 0 then do {
       er \<leftarrow> gets errno;
       log_printf e ''Error: capturer cannot remove previous image file %s. errno=%d\<newline>''
         [FStr final_path, FInt er];
       sysu e (File (Unlink temp_path));
       gets errno
     } else do {
       rename_ret \<leftarrow> sysv e (File (Rename temp_path final_path));
       if rename_ret \<noteq> 0 then do {
         er \<leftarrow> gets errno;
         log_printf e ''Error: capturer cannot rename %s to %s. errno=%d\<newline>''
           [FStr temp_path, FStr final_path, FInt er];
         sysu e (File (Unlink temp_path));
         gets errno
       } else do {
         log_printf e ''Camera frame has been downloaded and stored in %s\<newline>'' [FStr final_path];
         return 0
       }
     }
   }"

text \<open>From the successful transfer to the closed temporary file.\<close>

definition finish_frame :: "env \<Rightarrow> int \<Rightarrow> int \<Rightarrow> string \<Rightarrow> string \<Rightarrow> ('z log_st_scheme, int) state" where
  "finish_frame e curl fp temp_path final_path = do {
     flush_ret \<leftarrow> sysv e (File (Fflush fp));
     if flush_ret \<noteq> 0 then do {
       er \<leftarrow> gets errno;
       log_printf e ''Error: capturer cannot flush file %s. errno=%d\<newline>'' [FStr temp_path, FInt er];
       discard_frame e curl fp temp_path;
       gets errno
     } else do {
       sync_ret \<leftarrow> sysv e (File (Fsync fp));
       if sync_ret \<noteq> 0 then do {
         er \<leftarrow> gets errno;
         log_printf e ''Error: capturer cannot sync file %s. errno=%d\<newline>'' [FStr temp_path, FInt er];
         discard_frame e curl fp temp_path;
         gets errno
       } else do {
         close_ret \<leftarrow> sysv e (File (Fclose fp));
         if close_ret \<noteq> 0 then do {
           er \<leftarrow> gets errno;
           log_printf e ''Error: capturer cannot close file %s. errno=%d\<newline>'' [FStr temp_path, FInt er];
           sysu e (Curl (CurlEasyCleanup curl));
           sysu e (File (Unlink temp_path));
           gets errno
         } else do {
           sysu e (Curl (CurlEasyCleanup curl));
           publish_frame e temp_path final_path
         }
       }
     }
   }"

text \<open>The download into the open stream.  If the response code cannot be obtained, the variable for
  it is read uninitialised.\<close>

definition download_frame :: "env \<Rightarrow> int \<Rightarrow> string \<Rightarrow> string \<Rightarrow> ('z capturer_st_scheme, int) state" where
  "download_frame e fp temp_path final_path = do {
     curl \<leftarrow> sysv e (Curl CurlEasyInit);
     if curl = 0 then do {
       log_printf e ''Error: capturer cannot initialize curl easy handle.\<newline>'' [];
       sysu e (File (Fclose fp));
       sysu e (File (Unlink temp_path));
       return ENOMEM
     } else do {
       url \<leftarrow> gets g_snapshot_url;
       setopts e curl (frame_opts url fp);
       (curl_res, _) \<leftarrow> curl_easy_perform e curl (curl_write_cb e) fp;
       if curl_res \<noteq> CURLE_OK then do {
         log_printf e ''Error: capturer cannot download frame from %s. curl=%d (%s)\<newline>''
           [FStr url, FInt curl_res, FCurlErr curl_res];
         discard_frame e curl fp temp_path;
         return (curl_result_to_errno curl_res)
       } else do {
         r \<leftarrow> sys e (Curl (CurlEasyGetResponseCode curl));
         require (rv r = 0);
         let http_code = (if rv r = 0 then rout r else junk e);
         if http_code < 200 \<or> http_code \<ge> 300 then do {
           log_printf e ''Error: capturer got HTTP code %ld from %s\<newline>'' [FInt http_code, FStr url];
           discard_frame e curl fp temp_path;
           return EIO
         } else finish_frame e curl fp temp_path final_path
       }
     }
   }"

definition capturer_get_frame :: "env \<Rightarrow> string option \<Rightarrow> ('z capturer_st_scheme, int) state" where
  "capturer_get_frame e filename_to_save = do {
     initialized \<leftarrow> gets g_initialized;
     if initialized = 0 then do {
       log_printf e ''Error: capturer_get_frame called before capturer_init.\<newline>'' [];
       return ENODEV
     } else if validate_filename filename_to_save \<noteq> 0 then do {
       log_printf e ''Error: capturer_get_frame received an invalid filename.\<newline>'' [];
       return (validate_filename filename_to_save)
     } else do {
       dir \<leftarrow> gets g_capture_path;
       let file = the filename_to_save;
       let (ret_error, final_path) = build_full_path (PATH_MAX + 1) (Some dir) filename_to_save;
       if ret_error \<noteq> 0 then do {
         log_printf e ''Error: capturer cannot build destination path for %s. errno=%d\<newline>''
           [FStr file, FInt ret_error];
         return ret_error
       } else do {
         let (ret_error, temp_path) = build_full_path (PATH_MAX + 1) (Some dir) filename_to_save;
         if ret_error \<noteq> 0 then do {
           log_printf e ''Error: capturer cannot build temporary path for %s. errno=%d\<newline>''
             [FStr file, FInt ret_error];
           return ret_error
         } else if strlen temp_path + 5 \<ge> PATH_MAX + 1 then do {
           log_printf e ''Error: capturer temporary path too long for %s.\<newline>'' [FStr file];
           return ENAMETOOLONG
         } else do {
           let temp_path = temp_path @ ''.tmp'';
           require (strlen temp_path < PATH_MAX + 1);
           fp \<leftarrow> sysv e (File (Fopen temp_path ''wb''));
           if fp = 0 then do {
             er \<leftarrow> gets errno;
             log_printf e ''Error: capturer cannot create the file %s for the downloaded image. errno=%d\<newline>''
               [FStr temp_path, FInt er];
             gets errno
           } else download_frame e fp temp_path final_path
         }
       }
     }
   }"

definition capturer_deinit :: "env \<Rightarrow> ('z capturer_st_scheme, unit) state" where
  "capturer_deinit e = do {
     curl_up \<leftarrow> gets g_curl_global_initialized;
     whenM (curl_up \<noteq> 0) (do {
       sysu e (Curl CurlGlobalCleanup);
       modify (\<lambda>s. s\<lparr>g_curl_global_initialized := 0\<rparr>)
     });
     modify (\<lambda>s. s\<lparr>g_initialized := 0, g_capture_path := [], g_snapshot_url := []\<rparr>)
   }"

section \<open>A request leaves nothing behind\<close>

text \<open>What libcurl documents: the response code of a handle can always be asked for.\<close>

definition response_code_ok :: "env \<Rightarrow> bool" where
  "response_code_ok e \<longleftrightarrow> (\<forall>tr h. rv (answer e tr (Curl (CurlEasyGetResponseCode h))) = 0)"

text \<open>During a download, the handle and the stream of the temporary file are held.\<close>

definition frame_inv :: "event list \<Rightarrow> int \<Rightarrow> int \<Rightarrow> event list \<Rightarrow> bool" where
  "frame_inv old curl fp tr \<longleftrightarrow> res_ok tr \<and> (\<forall>h. esc_bal tr h = esc_bal old h \<and> mem_bal tr h = mem_bal old h \<and>
     easy_bal tr h = easy_bal old h + of_bool (h = curl) \<and> file_bal tr h = file_bal old h + of_bool (h = fp))"

definition discarded :: "string \<Rightarrow> event list \<Rightarrow> bool" where
  "discarded temp_path tr \<longleftrightarrow> (\<exists>r xs. tr = (File (Unlink temp_path), r) # xs)"

definition stored :: "string \<Rightarrow> string \<Rightarrow> event list \<Rightarrow> bool" where
  "stored temp_path final_path tr \<longleftrightarrow> (\<exists>r xs. tr = (File (Rename temp_path final_path), r) # xs \<and> rv r = 0)"

text \<open>The two ends of a download: the file has got its final name, or the temporary file is
  removed and the result is an error.\<close>

definition frame_end :: "env \<Rightarrow> event list \<Rightarrow> string \<Rightarrow> string \<Rightarrow> int \<Rightarrow> event list \<Rightarrow> bool" where
  "frame_end e old temp final ret tr \<longleftrightarrow> clean old tr \<and>
     (stored temp final tr \<and> ret = 0 \<or> discarded temp tr \<and> (errno_stays_set e \<longrightarrow> ret \<noteq> 0))"

lemma frame_end_failed:
  "call_errno e (File (Unlink temp)) r tr \<Longrightarrow> errno_set e tr \<Longrightarrow> clean old ((File (Unlink temp), r) # tr) \<Longrightarrow>
   frame_end e old temp final (rerr r) ((File (Unlink temp), r) # tr)"
  using errno_set_result [of e _ r tr] by (auto simp: frame_end_def discarded_def)

lemma wp_discard_frame:
  assumes "frame_inv old curl fp (trace s)" and "res_ok old"
    and "\<And>tr er. clean old tr \<Longrightarrow> discarded temp tr \<Longrightarrow>
      (errno_set e (trace s) \<Longrightarrow> frame_end e old temp final er tr) \<Longrightarrow> Q () (s\<lparr>trace := tr, errno := er\<rparr>)"
  shows "wp (discard_frame e curl fp temp) Q s"
proof -
  have tidy: "clean old ((File (Unlink temp), r3) # (File (Fclose fp), r2) # (Curl (CurlEasyCleanup curl), r1) # trace s)"
    for r1 r2 r3
    using assms(1) res_ok_nonneg [OF assms(2)] by (auto simp: frame_inv_def clean_defs add_pos_nonneg)
  show ?thesis
    unfolding discard_frame_def
    by (auto intro!: wp_sysu wp_calls_errno [where e = e] assms(3) tidy frame_end_failed errno_set_more simp: discarded_def)
qed

lemma wp_publish_frame:
  assumes "clean old (trace s)"
    and post: "\<And>ret tr lt er u. frame_end e old temp final ret tr \<Longrightarrow>
      Q ret (s\<lparr>trace := tr, ltrace := lt, errno := er, lub := u\<rparr>)"
  shows "wp (publish_frame e temp final) Q s"
proof -
  have calm: "clean old ((File c, r) # tr)" if "clean old tr" "c = Unlink p \<or> c = Stat p \<or> c = Rename p q" for c r tr p q
    using that by (auto simp: clean_defs)
  have moved: "frame_end e old temp final 0 ((File (Rename temp final), r) # tr)" if "rv r = 0" "clean old tr" for r tr
    using that calm [of tr "Rename temp final" _ _ r] by (auto simp: frame_end_def stored_def)
  show ?thesis
    unfolding publish_frame_def
    using assms(1)
    by (auto intro!: wp_intro wp_calls_errno [where e = e] wp_call_errno [where e = e] post frame_end_failed moved calm)
      (blast intro: errno_set_file errno_set_more)+
qed

lemma wp_finish_frame:
  assumes inv: "frame_inv old curl fp (trace s)" and ok: "res_ok old"
    and post: "\<And>ret tr lt er u. frame_end e old temp final ret tr \<Longrightarrow>
      Q ret (s\<lparr>trace := tr, ltrace := lt, errno := er, lub := u\<rparr>)"
  shows "wp (finish_frame e curl fp temp final) Q s"
proof -
  note nonneg = res_ok_nonneg [OF ok]
  have written: "frame_inv old curl fp ((File c, r) # tr)" if "frame_inv old curl fp tr" "c = Fflush fp \<or> c = Fsync fp" for c r tr
    using that nonneg by (auto simp: frame_inv_def res_ok_def add_nonneg_pos)
  have closed: "clean old ((Curl (CurlEasyCleanup curl), r2) # (File (Fclose fp), r1) # tr)" if "frame_inv old curl fp tr" for r1 r2 tr
    using that nonneg by (auto simp: frame_inv_def clean_defs add_nonneg_pos)
  have removed: "clean old ((File (Unlink temp), r) # tr)" if "clean old tr" for r tr
    using that by (simp add: clean_defs)
  show ?thesis
    unfolding finish_frame_def
    using inv
    by (auto intro!: wp_intro wp_calls_errno [where e = e] wp_call_errno [where e = e]
        wp_discard_frame [OF _ ok, where e = e and temp = temp and final = final] wp_publish_frame [where old = old]
        post frame_end_failed written closed removed)
      (blast intro: errno_set_file errno_set_more)+
qed

lemma wp_write_cb:
  assumes "frame_inv old curl fp (trace t)" and "res_ok old" and "u = fp"
    and "\<And>n u' tr lt er lb. frame_inv old curl fp tr \<and> u' = fp \<Longrightarrow>
      R (n, u') (t\<lparr>trace := tr, ltrace := lt, errno := er, lub := lb\<rparr>)"
  shows "wp (curl_write_cb e x u) R t"
proof -
  note quiet = assms(4) [where lt = "ltrace t" and lb = "lub t", simplified]
  note same = quiet [where tr = "trace t" and er = "errno t", simplified]
  show ?thesis
    unfolding curl_write_cb_def
    using assms(1,3) res_ok_nonneg [OF assms(2)]
    by (auto intro!: wp_intro quiet same simp: frame_inv_def res_ok_def add_pos_nonneg)
qed

lemma wp_response_code:
  assumes "response_code_ok e"
    and "\<And>r. rv r = 0 \<Longrightarrow> Q r (s\<lparr>trace := (Curl (CurlEasyGetResponseCode h), r) # trace s, errno := rerr r\<rparr>)"
  shows "wp (sys e (Curl (CurlEasyGetResponseCode h))) Q s"
  by (rule wp_sys_eq, rule assms(2)) (use assms(1) in \<open>simp add: response_code_ok_def\<close>)

lemma frame_inv_more:
  assumes "frame_inv old curl fp tr" and "clean tr tr'"
  shows "frame_inv old curl fp tr'"
  using assms by (simp add: frame_inv_def clean_def res_bal_def)

lemma frame_inv_easy:
  "frame_inv old curl fp tr \<Longrightarrow> res_ok old \<Longrightarrow> 0 < easy_bal tr curl \<and> res_ok tr"
  using res_ok_nonneg [of old curl] by (simp add: frame_inv_def)

text \<open>The transfer with its options.\<close>

lemma wp_frame_setopts:
  assumes inv: "frame_inv old curl fp (trace s)" and ok: "res_ok old"
    and "\<And>tr er. frame_inv old curl fp tr \<Longrightarrow> Q () (s\<lparr>trace := tr, errno := er\<rparr>)"
  shows "wp (setopts e curl opts) Q s"
  by (rule wp_setopts) (use frame_inv_easy [OF inv ok] frame_inv_more [OF inv] assms(3) in auto)

lemma frame_inv_perform:
  assumes "frame_inv old curl fp tr" and "res_ok old"
  shows "frame_inv old curl fp ((Curl (CurlEasyPerform curl), r) # tr)"
    and "frame_inv old curl fp ((Curl (CurlEasyGetResponseCode curl), r) # tr)"
  using frame_inv_easy [OF assms] assms(1) by (auto simp: frame_inv_def res_ok_def)

lemma wp_frame_perform:
  assumes inv: "frame_inv old curl fp (trace s)" and ok: "res_ok old"
    and post: "\<And>res u tr lt er lb. frame_inv old curl fp tr \<Longrightarrow>
      Q (res, u) (s\<lparr>trace := tr, ltrace := lt, errno := er, lub := lb\<rparr>)"
  shows "wp (curl_easy_perform e curl (curl_write_cb e) fp) Q s"
  by (rule wp_curl_easy_perform [where J = "\<lambda>u tr. frame_inv old curl fp tr \<and> u = fp"])
    (use frame_inv_perform [OF inv ok] post in \<open>auto intro!: wp_write_cb [OF _ ok]\<close>)

lemma wp_download_frame:
  assumes law: "response_code_ok e" and ok: "res_ok old" and fp: "fp \<noteq> 0"
    and inv: "\<And>h. file_bal (trace s) h = file_bal old h + of_bool (h = fp)" "res_ok (trace s)"
      "\<And>h. easy_bal (trace s) h = easy_bal old h" "\<And>h. esc_bal (trace s) h = esc_bal old h"
      "\<And>h. mem_bal (trace s) h = mem_bal old h"
    and post: "\<And>ret tr lt er u. frame_end e old temp final ret tr \<Longrightarrow>
      Q ret (s\<lparr>trace := tr, ltrace := lt, errno := er, lub := u\<rparr>)"
  shows "wp (download_frame e fp temp final) Q s"
proof -
  have start: "frame_inv old (rv r) fp ((Curl CurlEasyInit, r) # trace s)" if "rv r \<noteq> 0" for r
    using inv that by (auto simp: frame_inv_def res_ok_def)
  have none: "frame_end e old temp final 12 ((File (Unlink temp), r3) # (File (Fclose fp), r2) #
      (Curl CurlEasyInit, r1) # trace s)" if "rv r1 = 0" for r1 r2 r3
    using inv res_ok_nonneg [OF ok, of fp] that
    by (auto simp: frame_end_def clean_defs discarded_def add_pos_nonneg)
  have bad: "frame_end e old temp final ret tr" if "clean old tr" "discarded temp tr" "ret \<noteq> 0" for ret tr
    using that by (simp add: frame_end_def)
  have code: "curl_result_to_errno c \<noteq> 0" if "c \<noteq> 0" for c
    using that by (simp add: curl_result_to_errno_def)
  show ?thesis
    unfolding download_frame_def
    using fp
    by (auto intro!: wp_intro wp_frame_setopts [OF _ ok, where fp = fp]
        wp_frame_perform [OF _ ok] wp_response_code [OF law]
        wp_discard_frame [OF _ ok, where e = e and temp = temp and final = final] wp_finish_frame [OF _ ok] start frame_inv_perform [OF _ ok] none bad code post
      simp: require_def Let_def)
qed

text \<open>A frame is stored only with its full path, and never outside the capture directory.\<close>

definition frame_result :: "env \<Rightarrow> 'z capturer_st_scheme \<Rightarrow> string option \<Rightarrow> int \<Rightarrow> event list \<Rightarrow> bool" where
  "frame_result e s file ret tr \<longleftrightarrow> clean (trace s) tr \<and>
     (ret = 0 \<and> g_initialized s \<noteq> 0 \<and> validate_filename file = 0 \<and>
        (\<exists>f. file = Some f \<and> stored (g_capture_path s @ ''/'' @ f @ ''.tmp'') (g_capture_path s @ ''/'' @ f) tr) \<or>
      (errno_stays_set e \<longrightarrow> ret \<noteq> 0) \<and> (tr = trace s \<or>
        (\<exists>f. file = Some f \<and> discarded (g_capture_path s @ ''/'' @ f @ ''.tmp'') tr) \<or>
        (\<exists>f r. file = Some f \<and> tr = (File (Fopen (g_capture_path s @ ''/'' @ f @ ''.tmp'') ''wb''), r) # trace s)))"

lemma build_full_path_Some:
  "build_full_path n (Some d) (Some f) =
     (if strlen d + 1 + strlen f \<ge> n then ENAMETOOLONG else 0, buffer_take (n - 1) (d @ ''/'' @ f))"
  by (simp add: build_full_path_def)

lemma wp_capturer_get_frame:
  assumes law: "response_code_ok e" and ok: "res_ok (trace s)"
    and post: "\<And>ret tr lt er u. frame_result e s name ret tr \<Longrightarrow>
      Q ret (s\<lparr>trace := tr, ltrace := lt, errno := er, lub := u\<rparr>)"
  shows "wp (capturer_get_frame e name) Q s"
proof (cases "validate_filename name = 0 \<and> g_initialized s \<noteq> 0")
  case False
  have none: "frame_result e s name ret (trace s)" if "ret \<noteq> 0" for ret
    using clean_refl [OF ok] that by (simp add: frame_result_def)
  note same = post [OF none, simplified]
  show ?thesis
    unfolding capturer_get_frame_def using False by (auto intro!: wp_intro same)
next
  case True
  then obtain f where f: "name = Some f"
    by (cases name) (auto simp: validate_filename_def)
  let ?d = "g_capture_path s"
  show ?thesis
  proof (cases "strlen ?d + 1 + strlen f + 5 \<ge> 4097")
    case True
    have none: "frame_result e s name ret (trace s)" if "ret \<noteq> 0" for ret
      using clean_refl [OF ok] that by (simp add: frame_result_def)
    note same = post [OF none, simplified]
    show ?thesis
      unfolding capturer_get_frame_def f
      using True \<open>validate_filename name = 0 \<and> g_initialized s \<noteq> 0\<close> f
      by (auto intro!: wp_intro same simp: build_full_path_Some Let_def)
  next
    case False
    have final: "buffer_take 4096 (?d @ ''/'' @ f) = ?d @ ''/'' @ f" using False by simp
    have opened: "wp (download_frame e fp (?d @ ''/'' @ f @ ''.tmp'') (?d @ ''/'' @ f)) Q
        (s\<lparr>trace := (File (Fopen (?d @ ''/'' @ f @ ''.tmp'') ''wb''), r) # trace s, errno := rerr r\<rparr>)"
      if "fp = rv r" "rv r \<noteq> 0" for fp r
      by (rule wp_download_frame [OF law ok])
        (use that ok True in \<open>auto simp: res_ok_def frame_end_def frame_result_def f intro!: post\<close>)
    have missing: "frame_result e s name er ((File (Fopen (?d @ ''/'' @ f @ ''.tmp'') ''wb''), r) # trace s)"
      if "rv r = 0" "fopen_errno e r" "errno_kept (rerr r) er" for er r
      using ok that fopen_errnoD [of e r er] by (auto simp: frame_result_def f clean_defs)
    show ?thesis
      unfolding capturer_get_frame_def f
      using True False opened
      by (auto intro!: wp_intro wp_log_errno wp_fopen_errno [where e = e] post missing [unfolded f, simplified]
        simp: build_full_path_Some Let_def final require_def f)
  qed
qed

interpretation capturer: curl_service response_code_ok capturer_get_frame
  by unfold_locales (auto intro!: wp_capturer_get_frame simp: frame_result_def)

end
