(* ===== verification/ConfFile.thy ===== *)
theory ConfFile
  imports Curl
begin

text \<open>
  The configuration files of the ownCloud, Pushover and Telegram clients.  The three sources
  repeat the same code: the path of the file relative to the executable, and a loop of
  \<open>fscanf\<close> calls that stops at the end of the file or at an unknown variable.  Here it is
  written once, over the list of variables (name and maximum length); each client gives its own
  list.  The contents of a file are part of the reply to \<open>fopen\<close>.
\<close>

section \<open>The code\<close>

definition MAX_CONF_STR_LEN :: nat where
  "MAX_CONF_STR_LEN = 160"

definition MAX_URL_LEN :: nat where
  "MAX_URL_LEN = 2083"

text \<open>The path of the file; \<open>fmt\<close> is the message for an unknown directory.\<close>

definition conf_file_path :: "env \<Rightarrow> string \<Rightarrow> string \<Rightarrow> ('z log_st_scheme, string) state" where
  "conf_file_path e fmt conf_filename =
     (if conf_filename = [] \<or> hd conf_filename \<noteq> CHR ''/'' then do {
        (ret_error, full_conf_filename) \<leftarrow> get_current_exec_path e PATH_MAX;
        if ret_error = 0 then do {
          let dir = (case full_conf_filename of None \<Rightarrow> [] | Some d \<Rightarrow> d);
          return (if strlen dir + strlen conf_filename \<le> PATH_MAX then dir @ conf_filename
                  else conf_filename)
        } else do {
          log_printf e fmt [FInt ret_error];
          return conf_filename
        }
      } else return conf_filename)"

text \<open>\<open>fscanf(..) == 0 && fscanf(..) == 0 && ...\<close>, with the buffers written.\<close>

type_synonym conf_vars = "(string \<times> nat) list"

fun scan_chain :: "conf_vars \<Rightarrow> string list \<Rightarrow> stream \<Rightarrow> bool \<times> string list \<times> stream" where
  "scan_chain ((key, n) # vars) (buf # bufs) st = (case scan_var key n st of
     (k, w, st') \<Rightarrow>
       let buf = (case w of None \<Rightarrow> buf | Some x \<Rightarrow> x) in
       if k = 0 then (case scan_chain vars bufs st' of (all0, bufs, st'') \<Rightarrow> (all0, buf # bufs, st''))
       else (False, buf # bufs, st'))"
| "scan_chain vars bufs st = (True, bufs, st)"

type_synonym conf_state = "string list \<times> stream \<times> int"

definition conf_cond :: "conf_state \<Rightarrow> ('z log_st_scheme, bool) state" where
  "conf_cond = (\<lambda>(_, st, ret_error). return (\<not> at_eof st \<and> ret_error = 0))"

definition conf_step :: "conf_vars \<Rightarrow> ('z log_st_scheme, unit) state \<Rightarrow> conf_state \<Rightarrow>
    ('z log_st_scheme, conf_state) state" where
  "conf_step vars on_unknown = (\<lambda>(bufs, st, ret_error). case scan_chain vars bufs st of
     (unknown, bufs, st) \<Rightarrow>
       if unknown then do { on_unknown; return (bufs, st, EINVAL) }
       else return (bufs, st, ret_error))"

definition conf_loop :: "env \<Rightarrow> conf_vars \<Rightarrow> ('z log_st_scheme, unit) state \<Rightarrow> stream \<Rightarrow>
    ('z log_st_scheme, int \<times> string list) state" where
  "conf_loop e vars on_unknown st = do {
     (bufs, _, ret_error) \<leftarrow> while_fuel (fuel e) conf_cond (conf_step vars on_unknown)
       (map (\<lambda>_. []) vars, st, 0);
     return (ret_error, bufs)
   }"

definition stream_of :: "reply \<Rightarrow> stream" where
  "stream_of r = \<lparr>inp = rstr r, at_eof = False, unreadable = (rout r \<noteq> 0)\<rparr>"

section \<open>One round\<close>

definition word_ok :: "nat \<Rightarrow> string \<Rightarrow> bool" where
  "word_ok n x \<longleftrightarrow> length x \<le> n \<and> (\<forall>c \<in> set x. \<not> is_space c)"

lemma word_ok_Nil [simp]: "word_ok n []"
  by (simp add: word_ok_def)

lemma length_skip_ws: "length (inp (skip_ws st)) \<le> length (inp st)"
  by (simp add: length_dropWhile_le)

lemma match_lit_end:
  "unreadable (match_stream (match_lit key (skip_ws st))) = unreadable st"
  "length (inp (match_stream (match_lit key (skip_ws st)))) \<le> length (inp st)"
  using match_lit_frame [of key "skip_ws st"] length_skip_ws [of st] by simp_all

lemma read_word_cases:
  assumes "read_word n st = (w, st')"
  shows "unreadable st' = unreadable st \<and> length (inp st') \<le> length (inp st) \<and>
    (case w of None \<Rightarrow> 0 < n \<longrightarrow> at_eof st' \<or> unreadable st
     | Some x \<Rightarrow> word_ok n x \<and> x \<noteq> [] \<and> length (inp st') < length (inp st))"
proof (cases w)
  case None
  then have "st' = skip_ws st"
    using assms by (auto simp: read_word_def Let_def split: if_splits)
  then have "unreadable st' = unreadable st \<and> length (inp st') \<le> length (inp st)"
    using length_skip_ws [of st] by simp
  then show ?thesis using None assms read_word_None by auto
next
  case (Some x)
  then show ?thesis using read_word_Some [of n st x st'] assms by (simp add: word_ok_def)
qed

lemma scan_var_cases:
  assumes "scan_var key n st = (k, w, st')"
  shows "unreadable st' = unreadable st \<and> length (inp st') \<le> length (inp st) \<and>
    (k = 0 \<and> w = None \<or>
     k = -1 \<and> w = None \<and> (0 < n \<longrightarrow> at_eof st' \<or> unreadable st) \<or>
     k = 1 \<and> length (inp st') < length (inp st) \<and> (\<exists>x. w = Some x \<and> word_ok n x))"
proof (cases "match_lit key (skip_ws st)")
  case (Matched m)
  then have m: "unreadable m = unreadable st" "length (inp m) \<le> length (inp st)"
    using match_lit_end [of key st] by simp_all
  obtain v r where rw: "read_word n m = (v, r)" by fastforce
  note c = read_word_cases [OF rw]
  show ?thesis
  proof (cases v)
    case None
    with assms Matched rw c m show ?thesis by (auto simp: scan_var_def)
  next
    case (Some x)
    with assms Matched rw have "k = 1" "w = Some x" "st' = skip_ws r" by (auto simp: scan_var_def)
    with c m Some length_skip_ws [of r] show ?thesis by auto
  qed
next
  case (Mismatch m)
  with assms match_lit_end [of key st] show ?thesis by (auto simp: scan_var_def)
next
  case (InputFailure m)
  with assms match_lit_end [of key st] match_lit_InputFailure [OF InputFailure]
  show ?thesis by (auto simp: scan_var_def)
qed

text \<open>The buffers hold words that fit.\<close>

definition bufs_ok :: "conf_vars \<Rightarrow> string list \<Rightarrow> bool" where
  "bufs_ok vars bufs \<longleftrightarrow> list_all2 (\<lambda>v. word_ok (snd v)) vars bufs"

lemma bufs_ok_empty: "bufs_ok vars (map (\<lambda>_. []) vars)"
  by (simp add: bufs_ok_def list_all2_conv_all_nth)

lemma scan_chain_cases:
  assumes "scan_chain vars bufs st = (unknown, bufs', st')" and "bufs_ok vars bufs"
    and "\<forall>v \<in> set vars. 0 < snd v"
  shows "unreadable st' = unreadable st \<and> length (inp st') \<le> length (inp st) \<and> bufs_ok vars bufs' \<and>
    (unknown \<or> at_eof st' \<or> unreadable st \<or> length (inp st') < length (inp st))"
  using assms
proof (induction vars bufs st arbitrary: unknown bufs' st' rule: scan_chain.induct)
  case (1 key n vars buf bufs st)
  obtain k w m where sv: "scan_var key n st = (k, w, m)" by (metis prod_cases3)
  note c = scan_var_cases [OF sv]
  from "1.prems" have n: "0 < n" "word_ok n buf" "bufs_ok vars bufs" "\<forall>v \<in> set vars. 0 < snd v"
    by (auto simp: bufs_ok_def)
  show ?case
  proof (cases "k = 0")
    case True
    obtain u b r where sc: "scan_chain vars bufs m = (u, b, r)" by (metis prod_cases3)
    note ih = "1.IH" [OF sv [symmetric] refl refl True sc n(3,4)]
    from True c have "w = None" by auto
    with "1.prems"(1) sv sc True have "unknown = u" "bufs' = buf # b" "st' = r" by auto
    with ih c n(2) show ?thesis by (auto simp: bufs_ok_def)
  next
    case False
    with "1.prems"(1) sv have "\<not> unknown" "st' = m"
      "bufs' = (case w of None \<Rightarrow> buf | Some x \<Rightarrow> x) # bufs" by auto
    with c n False show ?thesis by (auto simp: bufs_ok_def)
  qed
qed (auto simp: bufs_ok_def)

section \<open>The loop\<close>

lemma logged_step: "logged s t \<Longrightarrow> logged s (t\<lparr>ltrace := lt, errno := er, lub := u\<rparr>)"
  unfolding logged_def by (elim exE, intro exI [of _ lt] exI [of _ er] exI [of _ u]) simp

text \<open>
  The message for an unknown variable changes nothing that matters.  Whatever the file holds,
  the values fit in their buffers; with enough fuel the loop ends on every file that can be
  read.
\<close>

definition conf_ended :: "env \<Rightarrow> stream \<Rightarrow> bool" where
  "conf_ended e st \<longleftrightarrow> \<not> unreadable st \<and> length (inp st) + 1 < fuel e"

lemma wp_conf_step:
  assumes "bufs_ok vars bufs" and "\<forall>v \<in> set vars. 0 < snd v"
    and quiet: "\<And>t R. (\<And>lt er u. R () (t\<lparr>ltrace := lt, errno := er, lub := u\<rparr>)) \<Longrightarrow> wp on_unknown R t"
    and post: "\<And>bufs' st' ret lt er u. bufs_ok vars bufs' \<Longrightarrow> unreadable st' = unreadable st \<Longrightarrow>
      length (inp st') \<le> length (inp st) \<Longrightarrow> ret = 0 \<or> ret = EINVAL \<Longrightarrow>
      ret \<noteq> 0 \<or> at_eof st' \<or> unreadable st \<or> length (inp st') < length (inp st) \<Longrightarrow>
      Q (bufs', st', ret) (s\<lparr>ltrace := lt, errno := er, lub := u\<rparr>)"
  shows "wp (conf_step vars on_unknown (bufs, st, 0)) Q s"
proof -
  obtain u b r where sc: "scan_chain vars bufs st = (u, b, r)" by (metis prod_cases3)
  note c = scan_chain_cases [OF sc assms(1,2)]
  note none = post [where lt = "ltrace s" and er = "errno s" and u = "lub s", simplified]
  show ?thesis
    using c by (auto simp: conf_step_def sc intro!: quiet post none)
qed

lemma wp_conf_loop:
  assumes vars: "\<forall>v \<in> set vars. 0 < snd v"
    and quiet: "\<And>t R. (\<And>lt er u. R () (t\<lparr>ltrace := lt, errno := er, lub := u\<rparr>)) \<Longrightarrow> wp on_unknown R t"
    and post: "\<And>ret bufs lt er u h. bufs_ok vars bufs \<Longrightarrow> ret = 0 \<or> ret = EINVAL \<Longrightarrow>
      h = hang s \<or> \<not> conf_ended e st \<Longrightarrow>
      Q (ret, bufs) (s\<lparr>ltrace := lt, errno := er, hang := h, lub := u\<rparr>)"
  shows "wp (conf_loop e vars on_unknown st) Q s"
proof -
  let ?I = "\<lambda>x t. case x of (bufs, st', ret) \<Rightarrow> bufs_ok vars bufs \<and> unreadable st' = unreadable st \<and>
    (ret = 0 \<or> ret = EINVAL) \<and> logged s t"
  let ?m = "\<lambda>x t. case x of (bufs, st', ret :: int) \<Rightarrow>
    length (inp st') + (if at_eof st' \<or> ret \<noteq> 0 then 0 else 1)"
  let ?R = "\<lambda>x. wp (case x of (bufs, _, ret_error) \<Rightarrow> return (ret_error, bufs)) Q"
  note s = logged_refl [of s]
  have done_ok: "?R x t" if "?I x t" for x :: conf_state and t
    using that post [where h = "hang s"] by (auto simp: logged_def split: prod.splits)
  have step: "wp (conf_step vars on_unknown x)
      (\<lambda>y v. ?I y v \<and> (\<not> unreadable st \<longrightarrow> ?m y v < ?m x t)) t"
    if inv: "?I x t" and run: "\<not> at_eof (fst (snd x))" "snd (snd x) = 0" for x :: conf_state and t
  proof -
    obtain b st1 where x: "x = (b, st1, 0)" using run by (cases x) auto
    show ?thesis
      unfolding x by (rule wp_conf_step [OF _ vars quiet]) (use inv run x in \<open>auto intro: logged_step\<close>)
  qed
  have "wp (while_fuel (fuel e) conf_cond (conf_step vars on_unknown) (map (\<lambda>_. []) vars, st, 0)) ?R s"
  proof (cases "conf_ended e st")
    case True
    show ?thesis
    proof (rule wp_while_total [where I = ?I and m = ?m])
      fix x :: conf_state and t :: "'a log_st_scheme"
      assume i: "?I x t"
      have "wp (conf_step vars on_unknown x) (\<lambda>z v. ?I z v \<and> ?m z v < ?m x t) t"
        if "\<not> at_eof (fst (snd x))" "snd (snd x) = 0"
        using step [OF i that] by (rule wp_mono) (use True in \<open>simp add: conf_ended_def\<close>)
      then show "wp (conf_cond x) (\<lambda>g u. if g then wp (conf_step vars on_unknown x)
          (\<lambda>z v. ?I z v \<and> ?m z v < ?m x t) u else ?R x u) t"
        using done_ok [OF i] by (cases x) (simp add: conf_cond_def)
    qed (use True s bufs_ok_empty in \<open>auto simp: conf_ended_def\<close>)
  next
    case False
    show ?thesis
    proof (rule wp_while [where I = ?I])
      fix x :: conf_state and t :: "'a log_st_scheme"
      assume i: "?I x t"
      have "wp (conf_step vars on_unknown x) ?I t" if "\<not> at_eof (fst (snd x))" "snd (snd x) = 0"
        using step [OF i that] by (rule wp_mono) simp
      then show "wp (conf_cond x) (\<lambda>g u. if g then wp (conf_step vars on_unknown x) ?I u else ?R x u) t"
        using done_ok [OF i] by (cases x) (simp add: conf_cond_def)
    next
      fix x :: conf_state and t :: "'a log_st_scheme"
      assume "?I x t"
      then show "?R x (t\<lparr>hang := True\<rparr>)"
        using post [where h = True] False by (auto simp: logged_def split: prod.splits)
    qed (use s bufs_ok_empty in auto)
  qed
  then show ?thesis unfolding conf_loop_def by simp
qed

lemma wp_conf_file_path:
  assumes "\<And>path tr lt er u. tr = trace s \<or> (\<exists>r. tr = (File (Readlink ''/proc/self/exe'' 4096), r) # trace s) \<Longrightarrow>
      strlen conf \<le> 4096 \<longrightarrow> strlen path \<le> 4096 \<Longrightarrow>
      Q path (s\<lparr>trace := tr, ltrace := lt, errno := er, lub := u\<rparr>)"
  shows "wp (conf_file_path e fmt conf) Q s"
proof -
  note quiet = assms [where lt = "ltrace s" and u = "lub s", simplified]
  note same = quiet [where tr = "trace s" and er = "errno s", simplified]
  show ?thesis
    unfolding conf_file_path_def
    by (auto intro!: wp_intro assms quiet same simp: Let_def)
qed

section \<open>Well-formed files\<close>

text \<open>
  The condition that the comments of the sources state: the names of the variables start with
  different letters (and with no white space).  Then a mismatch reads nothing from the file.
\<close>

definition vars_ok :: "conf_vars \<Rightarrow> bool" where
  "vars_ok vars \<longleftrightarrow> distinct (map (hd \<circ> fst) vars) \<and>
     (\<forall>v \<in> set vars. fst v \<noteq> [] \<and> \<not> is_space (hd (fst v)) \<and> 0 < snd v)"

fun set_var :: "conf_vars \<Rightarrow> string list \<Rightarrow> string \<Rightarrow> string \<Rightarrow> string list" where
  "set_var ((key, n) # vars) (buf # bufs) k v =
     (if key = k then v # bufs else buf # set_var vars bufs k v)"
| "set_var vars bufs k v = bufs"

definition conf_lines :: "(string \<times> string) list \<Rightarrow> string" where
  "conf_lines kvs = concat (map (\<lambda>(k, v). k @ v @ ''\<newline>'') kvs)"

definition line_ok :: "conf_vars \<Rightarrow> string \<times> string \<Rightarrow> bool" where
  "line_ok vars kv \<longleftrightarrow> (\<exists>n. (fst kv, n) \<in> set vars \<and> word_ok n (snd kv)) \<and> snd kv \<noteq> []"

lemma is_space_newline [simp]: "is_space (CHR 0x0A)"
  by (simp add: is_space_def)

lemma skip_ws_none: "inp st \<noteq> [] \<Longrightarrow> \<not> is_space (hd (inp st)) \<Longrightarrow> skip_ws st = st"
  by (cases "inp st") (simp_all add: skip_ws_def Let_def)

lemma scan_var_other:
  assumes "inp st = d # ds" and "\<not> is_space d" and "key \<noteq> []" and "hd key \<noteq> d"
  shows "scan_var key n st = (0, None, st)"
  using assms by (cases key) (simp_all add: scan_var_def skip_ws_none)

lemma match_lit_key:
  assumes "inp st = key @ rest"
  shows "match_lit key st = Matched (st\<lparr>inp := rest\<rparr>)"
proof -
  have "st\<lparr>inp := key @ rest\<rparr> = st" using assms by simp
  then show ?thesis using match_lit_here [of key rest st] by simp
qed

lemma takeWhile_word: "word_ok n v \<Longrightarrow>
    takeWhile (\<lambda>c. \<not> is_space c) (v @ CHR 0x0A # rest) = v"
  by (subst takeWhile_append2) (auto simp: word_ok_def)

lemma scan_var_line:
  assumes i: "inp st = key @ v @ CHR 0x0A # rest" and k: "key \<noteq> []" "\<not> is_space (hd key)"
    and v: "word_ok n v" "v \<noteq> []"
  shows "scan_var key n st = (1, Some v, skip_ws (st\<lparr>inp := rest\<rparr>))"
proof -
  have ws: "skip_ws st = st" using i k by (intro skip_ws_none) simp_all
  have "\<not> is_space (hd v)" using v by (cases v) (auto simp: word_ok_def)
  then have ws2: "skip_ws (st\<lparr>inp := v @ CHR 0x0A # rest\<rparr>) = st\<lparr>inp := v @ CHR 0x0A # rest\<rparr>"
    using v by (intro skip_ws_none) simp_all
  have "length v \<le> n" using v(1) by (simp add: word_ok_def)
  then have "read_word n (st\<lparr>inp := v @ CHR 0x0A # rest\<rparr>) = (Some v, st\<lparr>inp := CHR 0x0A # rest\<rparr>)"
    using v by (cases n) (auto simp: read_word_def Let_def ws2 takeWhile_word)
  moreover have "skip_ws (st\<lparr>inp := CHR 0x0A # rest\<rparr>) = skip_ws (st\<lparr>inp := rest\<rparr>)"
    by (simp add: skip_ws_def)
  ultimately show ?thesis using i by (simp add: scan_var_def ws match_lit_key)
qed

lemma scan_chain_line:
  assumes "vars_ok vars" and "length bufs = length vars" and "(key, m) \<in> set vars"
    and "inp st = key @ v @ CHR 0x0A # rest" and "word_ok m v" "v \<noteq> []"
  shows "scan_chain vars bufs st = (False, set_var vars bufs key v, skip_ws (st\<lparr>inp := rest\<rparr>))"
  using assms(1-3)
proof (induction vars arbitrary: bufs)
  case Nil
  then show ?case by simp
next
  case (Cons x vars)
  obtain k n where x: "x = (k, n)" by fastforce
  from Cons.prems obtain buf bs where b: "bufs = buf # bs" by (cases bufs) auto
  show ?case
  proof (cases "(key, m) = (k, n)")
    case True
    with Cons.prems(1) x have "key \<noteq> []" "\<not> is_space (hd key)" by (auto simp: vars_ok_def)
    from scan_var_line [OF assms(4) this assms(5,6)] show ?thesis
      using True by (simp add: x b)
  next
    case False
    with Cons.prems(3) x have mem: "(key, m) \<in> set vars" by auto
    then have "hd key \<in> set (map (hd \<circ> fst) vars)" by force
    with Cons.prems(1) x have ne: "hd k \<noteq> hd key" unfolding vars_ok_def by fastforce
    obtain d ds where "key = d # ds" using Cons.prems(1) mem by (cases key) (auto simp: vars_ok_def)
    moreover have "\<not> is_space (hd key)" "k \<noteq> []" using Cons.prems(1) mem x by (auto simp: vars_ok_def)
    ultimately have "scan_var k n st = (0, None, st)"
      using ne assms(4) by (intro scan_var_other) auto
    moreover have "scan_chain vars bs st = (False, set_var vars bs key v, skip_ws (st\<lparr>inp := rest\<rparr>))"
      using Cons.IH Cons.prems mem b by (simp add: vars_ok_def)
    ultimately show ?thesis using ne by (auto simp: x b)
  qed
qed

definition conf_values :: "conf_vars \<Rightarrow> (string \<times> string) list \<Rightarrow> string list" where
  "conf_values vars kvs = foldl (\<lambda>bufs (k, v). set_var vars bufs k v) (map (\<lambda>_. []) vars) kvs"

lemma length_set_var [simp]: "length (set_var vars bufs k v) = length bufs"
  by (induction vars bufs k v rule: set_var.induct) auto

lemma conf_lines_start:
  assumes "vars_ok vars" and "\<forall>kv \<in> set kvs. line_ok vars kv" and "kvs \<noteq> []"
  shows "conf_lines kvs \<noteq> [] \<and> \<not> is_space (hd (conf_lines kvs))"
proof -
  obtain k v rest where "kvs = (k, v) # rest" using assms(3) by (cases kvs) auto
  moreover from this assms have "k \<noteq> []" "\<not> is_space (hd k)"
    by (fastforce simp: line_ok_def vars_ok_def)+
  ultimately show ?thesis by (simp add: conf_lines_def)
qed

lemma skip_ws_lines:
  assumes "vars_ok vars" and "\<forall>kv \<in> set kvs. line_ok vars kv" and "\<not> at_eof st" "\<not> unreadable st"
  shows "inp (skip_ws (st\<lparr>inp := conf_lines kvs\<rparr>)) = conf_lines kvs"
    and "at_eof (skip_ws (st\<lparr>inp := conf_lines kvs\<rparr>)) = (kvs = [])"
    and "\<not> unreadable (skip_ws (st\<lparr>inp := conf_lines kvs\<rparr>))"
proof -
  have "inp (skip_ws (st\<lparr>inp := conf_lines kvs\<rparr>)) = conf_lines kvs \<and>
      at_eof (skip_ws (st\<lparr>inp := conf_lines kvs\<rparr>)) = (kvs = [])"
  proof (cases "kvs = []")
    case True
    with assms(4) show ?thesis by (simp add: conf_lines_def skip_ws_def hit_end_def)
  next
    case False
    with conf_lines_start [OF assms(1,2)] assms(3) show ?thesis by (simp add: skip_ws_none)
  qed
  then show "inp (skip_ws (st\<lparr>inp := conf_lines kvs\<rparr>)) = conf_lines kvs"
    "at_eof (skip_ws (st\<lparr>inp := conf_lines kvs\<rparr>)) = (kvs = [])" by blast+
qed (use assms(4) in simp)

text \<open>A state of the loop in the middle of a well-formed file.\<close>

lemma conf_loop_lines:
  assumes "vars_ok vars" and "\<forall>kv \<in> set kvs. line_ok vars kv" and "length bufs = length vars"
    and "inp st = conf_lines kvs" and "at_eof st = (kvs = [])" and "\<not> unreadable st"
    and "length kvs < n"
  shows "\<exists>st'. run_state (while_fuel n conf_cond (conf_step vars m) (bufs, st, 0)) s =
    ((foldl (\<lambda>bufs (k, v). set_var vars bufs k v) bufs kvs, st', 0), s)"
  using assms(2-)
proof (induction kvs arbitrary: bufs st n)
  case Nil
  then show ?case by (cases n) (simp_all add: conf_cond_def)
next
  case (Cons kv kvs)
  obtain k v where kv: "kv = (k, v)" by fastforce
  obtain n' where n: "n = Suc n'" "length kvs < n'" using Cons.prems(6) by (cases n) auto
  from Cons.prems(1) kv obtain w where w: "(k, w) \<in> set vars" "word_ok w v" "v \<noteq> []"
    by (auto simp: line_ok_def)
  let ?st = "skip_ws (st\<lparr>inp := conf_lines kvs\<rparr>)"
  have i: "inp st = k @ v @ CHR 0x0A # conf_lines kvs"
    using Cons.prems(3) kv by (simp add: conf_lines_def)
  note sc = scan_chain_line [OF assms(1) Cons.prems(2) w(1) i w(2,3)]
  have lines: "\<forall>kv \<in> set kvs. line_ok vars kv" using Cons.prems(1) by simp
  note st = skip_ws_lines [OF assms(1) lines Cons.prems(4) [simplified] Cons.prems(5)]
  from Cons.IH [OF lines _ st n(2), of "set_var vars bufs k v"] Cons.prems(2)
  obtain st' where "run_state (while_fuel n' conf_cond (conf_step vars m)
      (set_var vars bufs k v, ?st, 0)) s =
    ((foldl (\<lambda>bufs (k, v). set_var vars bufs k v) (set_var vars bufs k v) kvs, st', 0), s)" by auto
  then show ?case
    using Cons.prems(4) by (simp add: n kv conf_cond_def conf_step_def sc)
qed

text \<open>Reading back what was written: the last value of every variable.\<close>

lemma conf_loop_reads:
  assumes "vars_ok vars" and "\<forall>kv \<in> set kvs. line_ok vars kv" and "kvs \<noteq> []"
    and "inp st = conf_lines kvs" and "\<not> at_eof st" and "\<not> unreadable st" and "length kvs < fuel e"
  shows "run_state (conf_loop e vars m st) s = ((0, conf_values vars kvs), s)"
  using conf_loop_lines [OF assms(1,2) _ assms(4) _ assms(6,7), of "map (\<lambda>_. []) vars" m s] assms(3,5)
  by (auto simp: conf_loop_def conf_values_def)

end
