(* ===== verification/Owncloud.thy ===== *)
theory Owncloud
  imports Capturer ConfFile
begin

text \<open>
  owncloud.c: the client that uploads captured files to a WebDAV server.  The static variables
  are the fields of the state; texts written into a fixed array go through \<open>c_store\<close>, which
  requires that they fit with their terminator.
\<close>

section \<open>State\<close>

record owncloud_st = capturer_st +
  oc_capture_path :: string
  oc_remote_dir :: string
  oc_server_url :: string
  oc_user_id :: string
  oc_user_password :: string
  owncloud_initialized :: int

definition c_store :: "int \<Rightarrow> string \<Rightarrow> ('z world_scheme, string) state" where
  "c_store n x = do { require (strlen x < n); return x }"

lemma wp_c_store [wp_intro]:
  "(strlen x < n \<Longrightarrow> Q x s) \<Longrightarrow> (\<not> strlen x < n \<Longrightarrow> Q x (s\<lparr>ub := True\<rparr>)) \<Longrightarrow> wp (c_store n x) Q s"
  unfolding c_store_def by (auto intro!: wp_intro)

definition URL_START_HTTP :: string where "URL_START_HTTP = ''http://''"

definition URL_START_HTTPS :: string where "URL_START_HTTPS = ''https://''"

definition owncloud_vars :: conf_vars where
  "owncloud_vars = [(''server_url='', MAX_URL_LEN), (''user='', MAX_CONF_STR_LEN),
     (''password='', MAX_CONF_STR_LEN)]"

definition add_slash :: "string \<Rightarrow> string" where
  "add_slash p = (if p \<noteq> [] \<and> last p \<noteq> CHR ''/'' then p @ ''/'' else p)"

section \<open>Initialization\<close>

definition set_owncloud_initialized :: "int \<Rightarrow> ('z owncloud_st_scheme, unit) state" where
  "set_owncloud_initialized b = modify (\<lambda>s. s\<lparr>owncloud_initialized := b\<rparr>)"

text \<open>The checks of the values loaded from the file.\<close>

definition check_owncloud_conf :: "env \<Rightarrow> ('z owncloud_st_scheme, int) state" where
  "check_owncloud_conf e = do {
     url \<leftarrow> gets oc_server_url;
     user \<leftarrow> gets oc_user_id;
     password \<leftarrow> gets oc_user_password;
     if url \<noteq> [] then do {
       url \<leftarrow> c_store (int MAX_URL_LEN + 2) (add_slash url);
       modify (\<lambda>s. s\<lparr>oc_server_url := url\<rparr>);
       if user \<noteq> [] then
         (if password \<noteq> [] then
            (if c_starts_with url URL_START_HTTP \<or> c_starts_with url URL_START_HTTPS then do {
               log_printf e ''Using owncloud server: %s to store the captured images\<newline>'' [FStr url];
               curl_res \<leftarrow> sysv e (Curl CurlGlobalInit);
               if curl_res = CURLE_OK then do {
                 set_owncloud_initialized 1;
                 return 0
               } else do {
                 log_printf e ''Error initializing Curl library for Telegram API: %s\<newline>'' [FCurlErr curl_res];
                 set_owncloud_initialized 0;
                 return EINVAL
               }
             } else do {
               log_printf e ''Error parsing owncloud config file: server URL start is not valid. It must be %s or %s\<newline>''
                 [FStr URL_START_HTTP, FStr URL_START_HTTPS];
               set_owncloud_initialized 0;
               return EINVAL
             })
          else do {
            log_printf e ''Error parsing owncloud config file: user password (%s) not found\<newline>''
              [FStr ''password=''];
            set_owncloud_initialized 0;
            return EINVAL
          })
       else do {
         log_printf e ''Error parsing owncloud config file: user id (%s) not found\<newline>'' [FStr ''user=''];
         set_owncloud_initialized 0;
         return EINVAL
       }
     } else do {
       log_printf e ''Error parsing owncloud config file: server URL (%s) not found\<newline>''
         [FStr ''server_url=''];
       set_owncloud_initialized 0;
       return EINVAL
     }
   }"

text \<open>Opening and reading the configuration file.\<close>

definition load_owncloud_conf :: "env \<Rightarrow> string \<Rightarrow> ('z owncloud_st_scheme, int) state" where
  "load_owncloud_conf e full_conf_filename = do {
     modify (\<lambda>s. s\<lparr>oc_server_url := [], oc_user_id := [], oc_user_password := []\<rparr>);
     r \<leftarrow> sys e (File (Fopen full_conf_filename ''rt''));
     let conf_fd = rv r;
     if conf_fd \<noteq> 0 then do {
       (ret_error, bufs) \<leftarrow> conf_loop e owncloud_vars
         (log_printf e ''Error loading owncloud config file: unknown variable name found in file\<newline>'' [])
         (stream_of r);
       modify (\<lambda>s. s\<lparr>oc_server_url := bufs ! 0, oc_user_id := bufs ! 1, oc_user_password := bufs ! 2\<rparr>);
       whenM (ret_error \<noteq> 0) (set_owncloud_initialized 0);
       ret_error \<leftarrow> (if ret_error = 0 then check_owncloud_conf e else return ret_error);
       sysu e (File (Fclose conf_fd));
       return ret_error
     } else do {
       ret_error \<leftarrow> gets errno;
       set_owncloud_initialized 0;
       log_printf e ''Error opening owncloud config file %s: errno=%d\<newline>''
         [FStr full_conf_filename, FInt ret_error];
       return ret_error
     }
   }"

definition owncloud_init :: "env \<Rightarrow> string \<Rightarrow> string \<Rightarrow> string \<Rightarrow> ('z owncloud_st_scheme, int) state" where
  "owncloud_init e conf_filename full_capture_path remote_destin_directory =
     (if strlen conf_filename > PATH_MAX then do {
        log_printf e ''Error: Filename of ownCloud configuration is larger than %d\<newline>'' [FInt PATH_MAX];
        return EINVAL
      } else if strlen full_capture_path + 1 > PATH_MAX then do {
        log_printf e ''Error in owncloud_init: Image capture path is larger than %d\<newline>'' [FInt (PATH_MAX - 1)];
        return EINVAL
      } else if strlen remote_destin_directory + 1 > PATH_MAX then do {
        log_printf e ''Error: ownCloud remote destination directory is larger than %d\<newline>'' [FInt (PATH_MAX - 1)];
        return EINVAL
      } else do {
        path \<leftarrow> c_store (PATH_MAX + 1) (add_slash full_capture_path);
        dir \<leftarrow> c_store (PATH_MAX + 1) (add_slash remote_destin_directory);
        modify (\<lambda>s. s\<lparr>oc_capture_path := path, oc_remote_dir := dir\<rparr>);
        full_conf_filename \<leftarrow> conf_file_path e
          ''Reading owncloud configuration file: Cannot obtain the directory of the current-process executable file: errno=%d\<newline>''
          conf_filename;
        load_owncloud_conf e full_conf_filename
      })"

section \<open>Uploads\<close>

definition upload_opts :: "string \<Rightarrow> string \<Rightarrow> string \<Rightarrow> int \<Rightarrow> int \<Rightarrow> curl_opt list" where
  "upload_opts url user password file_handle file_size =
     [OptStr ''CURLOPT_URL'' url,
      OptStr ''CURLOPT_USERNAME'' user,
      OptStr ''CURLOPT_PASSWORD'' password,
      OptLong ''CURLOPT_UPLOAD'' 1,
      OptPtr ''CURLOPT_READDATA'' file_handle,
      OptLong ''CURLOPT_INFILESIZE_LARGE'' file_size,
      OptLong ''CURLOPT_SSL_VERIFYPEER'' 0,
      OptLong ''CURLOPT_SSL_VERIFYHOST'' 0]"

text \<open>The request on an open file and the evaluation of its result.\<close>

definition upload_request :: "env \<Rightarrow> int \<Rightarrow> int \<Rightarrow> string \<Rightarrow> string \<Rightarrow> int \<Rightarrow> ('z owncloud_st_scheme, int) state" where
  "upload_request e curl_handle file_handle full_server_URL filename_to_upload file_size = do {
     user \<leftarrow> gets oc_user_id;
     password \<leftarrow> gets oc_user_password;
     setopts e curl_handle (upload_opts full_server_URL user password file_handle file_size);
     curl_res \<leftarrow> sysv e (Curl (CurlEasyPerform curl_handle));
     if curl_res = CURLE_OK then do {
       r \<leftarrow> sys e (Curl (CurlEasyGetResponseCode curl_handle));
       ret_err \<leftarrow> (if rv r = CURLE_OK then do {
           let http_code = rout r;
           log_printf e ''Uploaded file %s to owncloud server with HTTP status: %ld\<newline>''
             [FStr filename_to_upload, FInt http_code];
           if http_code \<ge> 200 \<and> http_code < 300 then return 0
           else do {
             log_printf e ''Error: ownCloud server returned HTTP code: %ld (instead of 200-300 code).\<newline>''
               [FInt http_code];
             return EINVAL
           }
         } else do {
           log_printf e ''Error: Curl could not obtain the HTTP response code from the ownCloud server.\<newline>'' [];
           return EINVAL
         });
       sysu e (Curl (CurlEasyCleanup curl_handle));
       return ret_err
     } else do {
       log_printf e ''Error: Failed to send upload request to the ownCloud server: %s\<newline>'' [FCurlErr curl_res];
       sysu e (Curl (CurlEasyCleanup curl_handle));
       return ECOMM
     }
   }"

definition upload_capture :: "env \<Rightarrow> string \<Rightarrow> ('z owncloud_st_scheme, int) state" where
  "upload_capture e filename_to_upload = do {
     initialized \<leftarrow> gets owncloud_initialized;
     path \<leftarrow> gets oc_capture_path;
     url \<leftarrow> gets oc_server_url;
     user \<leftarrow> gets oc_user_id;
     dir \<leftarrow> gets oc_remote_dir;
     if initialized = 0 then return EPERM
     else if filename_to_upload = [] then do {
       log_printf e ''Error the filename to upload to the Owncloud server is empty\<newline>'' [];
       return EINVAL
     } else if strlen path + strlen filename_to_upload > PATH_MAX then do {
       log_printf e ''Error: Filename of ownCloud configuration plus its path is larger than %d\<newline>'' [FInt PATH_MAX];
       return EINVAL
     } else if strlen url + strlen user + strlen dir + strlen filename_to_upload + 1 > int MAX_URL_LEN + 1 then do {
       log_printf e ''Error: Full URL of ownCloud server is larger than %d\<newline>'' [FInt (int MAX_URL_LEN + 1)];
       return EINVAL
     } else do {
       filename_full_path \<leftarrow> c_store (PATH_MAX + 1) (path @ filename_to_upload);
       full_server_URL \<leftarrow> c_store (int MAX_URL_LEN + 2) (url @ user @ ''/'' @ dir @ filename_to_upload);
       file_handle \<leftarrow> sysv e (File (Fopen filename_full_path ''rb''));
       if file_handle \<noteq> 0 then do {
         sysu e (File (Fseek file_handle 0 ''SEEK_END''));
         file_size \<leftarrow> sysv e (File (Ftell file_handle));
         sysu e (File (Fseek file_handle 0 ''SEEK_SET''));
         curl_handle \<leftarrow> sysv e (Curl CurlEasyInit);
         ret_err \<leftarrow> (if curl_handle \<noteq> 0
           then upload_request e curl_handle file_handle full_server_URL filename_to_upload file_size
           else do {
             log_printf e ''Error: curl_easy_init() failed for ownCloud.\<newline>'' [];
             return ENOMEM
           });
         sysu e (File (Fclose file_handle));
         return ret_err
       } else do {
         log_printf e ''Error opening file for upload to the ownCloud server: %s\<newline>'' [FStr filename_to_upload];
         gets errno
       }
     }
   }"

definition MAX_FILENAME_LEN :: int where "MAX_FILENAME_LEN = 160"

text \<open>The loop over the indices from \<open>file_ind\<close> on; \<open>n\<close> files are left.\<close>

fun upload_from :: "env \<Rightarrow> string \<Rightarrow> int \<Rightarrow> nat \<Rightarrow> ('z owncloud_st_scheme, int) state" where
  "upload_from e filenames_to_upload file_ind 0 = return 0"
| "upload_from e filenames_to_upload file_ind (Suc n) = do {
     let name = c_snprintf MAX_FILENAME_LEN filenames_to_upload [FInt file_ind];
     require (name \<noteq> None);
     ret_err \<leftarrow> upload_capture e (case name of None \<Rightarrow> [] | Some x \<Rightarrow> x);
     if ret_err = 0 then upload_from e filenames_to_upload (file_ind + 1) n else return ret_err
   }"

definition upload_captures :: "env \<Rightarrow> string \<Rightarrow> int \<Rightarrow> ('z owncloud_st_scheme, int) state" where
  "upload_captures e filenames_to_upload num_of_files = upload_from e filenames_to_upload 0 (nat num_of_files)"

definition owncloud_deinit :: "env \<Rightarrow> ('z owncloud_st_scheme, unit) state" where
  "owncloud_deinit e = do {
     initialized \<leftarrow> gets owncloud_initialized;
     whenM (initialized \<noteq> 0) (sysu e (Curl CurlGlobalCleanup))
   }"

section \<open>A request leaves nothing behind\<close>

text \<open>While a file is being uploaded its stream is held, during the request the handle as well.\<close>

definition file_inv :: "event list \<Rightarrow> int \<Rightarrow> event list \<Rightarrow> bool" where
  "file_inv old fp tr \<longleftrightarrow> res_ok tr \<and> suffix old tr \<and> (\<forall>h. esc_bal tr h = esc_bal old h \<and>
     mem_bal tr h = mem_bal old h \<and> easy_bal tr h = easy_bal old h \<and>
     file_bal tr h = file_bal old h + of_bool (h = fp))"

lemma file_inv_close:
  assumes "file_inv old fp tr" and "res_ok old"
  shows "clean old ((File (Fclose fp), r) # tr)"
  using assms res_ok_nonneg [OF assms(2), of fp]
  by (auto simp: file_inv_def clean_defs add_pos_nonneg)

definition http_ok :: "int \<Rightarrow> bool" where
  "http_ok code \<longleftrightarrow> 200 \<le> code \<and> code < 300"

lemma frame_inv_cleanup:
  assumes "frame_inv old curl fp tr" and "res_ok old" and "suffix old tr"
  shows "file_inv old fp ((Curl (CurlEasyCleanup curl), r) # tr)"
  using assms res_ok_nonneg [OF assms(2), of curl]
  by (auto simp: file_inv_def frame_inv_def res_ok_def add_pos_nonneg suffix_ConsI)

lemma wp_upload_setopts:
  assumes inv: "frame_inv old curl fp (trace s)" "suffix old (trace s)" and ok: "res_ok old"
    and "\<And>tr er. frame_inv old curl fp tr \<Longrightarrow> suffix old tr \<Longrightarrow> Q () (s\<lparr>trace := tr, errno := er\<rparr>)"
  shows "wp (setopts e curl opts) Q s"
  by (rule wp_setopts)
    (use frame_inv_easy [OF inv(1) ok] frame_inv_more [OF inv(1)] assms(2,4)
      in \<open>auto dest!: adds_suffix intro: suffix_order.trans\<close>)

lemma wp_upload_request:
  assumes inv: "frame_inv old curl fp (trace s)" "suffix old (trace s)" and ok: "res_ok old"
    and post: "\<And>ret tr lt er u. file_inv old fp tr \<Longrightarrow> ret = 0 \<longrightarrow> confirmed http_ok old tr \<Longrightarrow>
      Q ret (s\<lparr>trace := tr, ltrace := lt, errno := er, lub := u\<rparr>)"
  shows "wp (upload_request e curl fp url name len) Q s"
  unfolding upload_request_def
  using inv
  by (auto intro!: wp_intro wp_upload_setopts [OF _ _ ok, where fp = fp] post
      frame_inv_cleanup [OF _ ok] frame_inv_perform [OF _ ok]
    simp: Let_def http_ok_def suffix_ConsI)

text \<open>
  A file that cannot be opened gives the error number as it is after the message; that it is not
  zero is the law \<open>errno_stays_set\<close>.
\<close>

definition upload_result :: "env \<Rightarrow> 'z owncloud_st_scheme \<Rightarrow> string \<Rightarrow> int \<Rightarrow> event list \<Rightarrow> bool" where
  "upload_result e s name ret tr \<longleftrightarrow> clean (trace s) tr \<and>
     (ret = 0 \<and> errno_stays_set e \<longrightarrow>
        owncloud_initialized s \<noteq> 0 \<and> name \<noteq> [] \<and> confirmed http_ok (trace s) tr)"

lemma wp_upload_capture:
  assumes ok: "res_ok (trace s)"
    and post: "\<And>ret tr lt er u. upload_result e s name ret tr \<Longrightarrow>
      Q ret (s\<lparr>trace := tr, ltrace := lt, errno := er, lub := u\<rparr>)"
  shows "wp (upload_capture e name) Q s"
proof -
  note quiet = post [where lt = "ltrace s" and u = "lub s", simplified]
  have none: "upload_result e s name ret (trace s)" if "ret \<noteq> 0" for ret
    using clean_refl [OF ok] that by (simp add: upload_result_def)
  note same = post [OF none, simplified]
  note same_quiet = same [where lt = "ltrace s" and u = "lub s" and er = "errno s", simplified]
  have opened: "file_inv (trace s) (rv r) ((File (Fseek (rv r) i w), r3) # (File (Ftell (rv r)), r2) #
      (File (Fseek (rv r) j v), r1) # (File (Fopen p m), r) # trace s)" if "rv r \<noteq> 0" for r p m i j v w r1 r2 r3
    using ok res_ok_nonneg [OF ok, of "rv r"] that
    by (auto simp: file_inv_def res_ok_def suffix_ConsI add_pos_nonneg)
  have init: "frame_inv (trace s) (rv r) fp ((Curl CurlEasyInit, r) # tr)"
    if "file_inv (trace s) fp tr" "rv r \<noteq> 0" for r fp tr
    using that by (auto simp: file_inv_def frame_inv_def res_ok_def)
  have fin: "upload_result e s name ret ((File (Fclose fp), r) # tr)"
    if "file_inv (trace s) fp tr" "owncloud_initialized s \<noteq> 0" "name \<noteq> []"
      "ret = 0 \<longrightarrow> confirmed http_ok (trace s) tr" for ret fp r tr
    using file_inv_close [OF that(1) ok] that(2-4) by (auto simp: upload_result_def)
  have missing: "upload_result e s name er ((File (Fopen p m), r) # trace s)"
    if "rv r = 0" "fopen_errno e r" "errno_kept (rerr r) er" for er p m r
    using ok that fopen_errnoD [of e r er] by (auto simp: upload_result_def clean_defs)
  have nomem: "file_inv (trace s) fp ((Curl CurlEasyInit, r) # tr)"
    if "file_inv (trace s) fp tr" "rv r = 0" for fp r tr
    using that by (auto simp: file_inv_def res_ok_def suffix_ConsI)
  show ?thesis
    unfolding upload_capture_def
    by (auto intro!: wp_intro wp_log_errno wp_fopen_errno [where e = e]
        wp_upload_request [OF _ _ ok] post fin missing nomem opened init same same_quiet
        suffix_ConsI suffix_order.refl)
qed

interpretation owncloud: curl_service "\<lambda>_. True" upload_capture
  by unfold_locales (auto intro!: wp_upload_capture simp: upload_result_def)

end
