(* ===== verification/Pushover.thy ===== *)
theory Pushover
  imports Owncloud
begin

text \<open>
  pushover2.c: the client of the Pushover notification service.
\<close>

section \<open>State\<close>

record pushover_st = owncloud_st +
  po_token_id :: string
  po_user_id :: string
  po_server_url :: string
  pushover_initialized :: int

definition MAX_PUSHOVER_MSG_SIZE :: int where "MAX_PUSHOVER_MSG_SIZE = 1024 * 4 + 1"

definition MAX_POST_FIELDS_LEN :: int where "MAX_POST_FIELDS_LEN = 4096"

definition PUSHOVER_SEND_MSG_URL :: string where
  "PUSHOVER_SEND_MSG_URL = ''https://api.pushover.net/1/messages.json''"

definition RETRY_TIME_SEC :: int where "RETRY_TIME_SEC = 31"

definition EXPIRE_TIME_SEC :: int where "EXPIRE_TIME_SEC = 120"

definition pushover_vars :: conf_vars where
  "pushover_vars = [(''server_url='', MAX_URL_LEN), (''token='', MAX_CONF_STR_LEN),
     (''user='', MAX_CONF_STR_LEN)]"

section \<open>Initialization\<close>

definition set_pushover_initialized :: "int \<Rightarrow> ('z pushover_st_scheme, unit) state" where
  "set_pushover_initialized b = modify (\<lambda>s. s\<lparr>pushover_initialized := b\<rparr>)"

text \<open>The server of the configuration file, or the default server.\<close>

definition choose_pushover_server :: "env \<Rightarrow> string \<Rightarrow> ('z pushover_st_scheme, int) state" where
  "choose_pushover_server e server_url =
     (if server_url \<noteq> [] then
        (if c_starts_with server_url ''https://'' then
           (if strlen server_url \<le> int MAX_URL_LEN then do {
              url \<leftarrow> c_store (int MAX_URL_LEN + 1) server_url;
              modify (\<lambda>s. s\<lparr>po_server_url := url\<rparr>);
              token \<leftarrow> gets po_token_id;
              log_printf e ''Using Pushover service: %s to send notifications\<newline>'' [FStr token];
              return 0
            } else do {
              log_printf e ''Error loading Pushover config file: server URL is too long (more than 2083 characters)\<newline>'' [];
              set_pushover_initialized 0;
              return EINVAL
            })
         else do {
           log_printf e ''Error loading Pushover config file: server URL start is not https://\<newline>'' [];
           set_pushover_initialized 0;
           return EINVAL
         })
      else do {
        url \<leftarrow> c_store (int MAX_URL_LEN + 1) PUSHOVER_SEND_MSG_URL;
        modify (\<lambda>s. s\<lparr>po_server_url := url\<rparr>);
        return 0
      })"

definition check_pushover_conf :: "env \<Rightarrow> string \<Rightarrow> ('z pushover_st_scheme, int) state" where
  "check_pushover_conf e server_url = do {
     token \<leftarrow> gets po_token_id;
     user \<leftarrow> gets po_user_id;
     if token \<noteq> [] then
       (if user \<noteq> [] then do {
          ret_error \<leftarrow> choose_pushover_server e server_url;
          if ret_error = 0 then do {
            curl_res \<leftarrow> sysv e (Curl CurlGlobalInit);
            if curl_res = CURLE_OK then do {
              modify (\<lambda>s. s\<lparr>pushover_initialized := pushover_initialized s + 1\<rparr>);
              return 0
            } else do {
              log_printf e ''Error initializing Curl library for Pushover API: %s\<newline>'' [FCurlErr curl_res];
              set_pushover_initialized 0;
              return EINVAL
            }
          } else return ret_error
        } else do {
          log_printf e ''Error loading Pushover config file: user id not found\<newline>'' [];
          set_pushover_initialized 0;
          return EINVAL
        })
     else do {
       log_printf e ''Error loading Pushover config file: token id not found\<newline>'' [];
       set_pushover_initialized 0;
       return EINVAL
     }
   }"

definition load_pushover_conf :: "env \<Rightarrow> string \<Rightarrow> ('z pushover_st_scheme, int) state" where
  "load_pushover_conf e full_conf_filename = do {
     r \<leftarrow> sys e (File (Fopen full_conf_filename ''rt''));
     let conf_fd = rv r;
     if conf_fd \<noteq> 0 then do {
       modify (\<lambda>s. s\<lparr>po_token_id := [], po_user_id := [], po_server_url := []\<rparr>);
       (ret_error, bufs) \<leftarrow> conf_loop e pushover_vars
         (log_printf e ''Error loading Pushover config file: unknown variable name found in file\<newline>'' [])
         (stream_of r);
       modify (\<lambda>s. s\<lparr>po_token_id := bufs ! 1, po_user_id := bufs ! 2\<rparr>);
       ret_error \<leftarrow> (if ret_error = 0 then check_pushover_conf e (bufs ! 0) else return ret_error);
       sysu e (File (Fclose conf_fd));
       return ret_error
     } else do {
       ret_error \<leftarrow> gets errno;
       set_pushover_initialized 0;
       log_printf e ''Error opening Pushover config file %s: errno=%d\<newline>''
         [FStr full_conf_filename, FInt ret_error];
       return ret_error
     }
   }"

definition pushover_init :: "env \<Rightarrow> string \<Rightarrow> ('z pushover_st_scheme, int) state" where
  "pushover_init e conf_filename =
     (if strlen conf_filename > PATH_MAX then return EINVAL
      else do {
        full_conf_filename \<leftarrow> conf_file_path e
          ''Error obtaining the directory of the current-process executable file: errno=%d\<newline>'' conf_filename;
        load_pushover_conf e full_conf_filename
      })"

section \<open>The response\<close>

text \<open>\<open>sscanf(p, "\"status\"%*[^0-9-]%d", &n)\<close> on a text that starts with \<open>"status"\<close>.\<close>

definition not_number :: "char \<Rightarrow> bool" where
  "not_number c = (\<not> is_digit c \<and> c \<noteq> CHR ''-'')"

definition scan_status :: "string \<Rightarrow> int option" where
  "scan_status status_ptr = (let rest = drop 8 status_ptr in
     if takeWhile not_number rest = [] then None else scan_int (dropWhile not_number rest))"

text \<open>The body is read as a C string, up to the first zero byte.\<close>

definition check_pushover_body :: "env \<Rightarrow> int \<times> string \<Rightarrow> ('z log_st_scheme, int) state" where
  "check_pushover_body e = (\<lambda>(data, body).
     if data \<noteq> 0 then
       (let body = c_text body in case c_strstr body [CHR 0x22, CHR ''s'', CHR ''t'', CHR ''a'', CHR ''t'', CHR ''u'', CHR ''s'', CHR 0x22] of
          Some k \<Rightarrow> (case scan_status (drop k body) of
             Some notif_state \<Rightarrow>
               if notif_state = 1 then return 0
               else do {
                 log_printf e ''Error status code %i received from Pushover server\<newline>'' [FInt notif_state];
                 return EBADRQC
               }
           | None \<Rightarrow> do {
               log_printf e ''Invalid format of response body from Pushover server. Status code could not be obtained\<newline>'' [];
               return EPROTO
             })
        | None \<Rightarrow> do {
            log_printf e ''Invalid format of response body from Pushover server. Status code field not found\<newline>'' [];
            return EPROTO
          })
     else do {
       log_printf e ''Empty response body from Pushover server\<newline>'' [];
       return EPROTO
     })"

text \<open>The evaluation of the transfer.\<close>

definition check_pushover_response :: "env \<Rightarrow> int \<Rightarrow> int \<Rightarrow> int \<times> string \<Rightarrow> ('z log_st_scheme, int) state" where
  "check_pushover_response e curl_handle curl_res post_response =
     (if curl_res = CURLE_OK then do {
        r \<leftarrow> sys e (Curl (CurlEasyGetResponseCode curl_handle));
        if rv r = CURLE_OK then
          (if rout r = 200 then check_pushover_body e post_response
           else do {
             log_printf e ''HTTP error code %u received from Pushover server\<newline>'' [FInt (rout r)];
             return EBADRQC
           })
        else do {
          log_printf e ''Error: Curl could not obtain the HTTP response code of the Pushover message post.\<newline>'' [];
          return EINVAL
        }
      } else do {
        log_printf e ''Error: Failed to send Pushover post message: %s\<newline>'' [FCurlErr curl_res];
        return ECOMM
      })"

section \<open>Messages\<close>

definition pushover_fields :: "string \<Rightarrow> string \<Rightarrow> string \<Rightarrow> string \<Rightarrow> string \<Rightarrow> string option" where
  "pushover_fields msg_priority token user msg priority =
     (if msg_priority = ''2''
      then c_snprintf MAX_POST_FIELDS_LEN ''token=%s&user=%s&message=%s&priority=%s&retry=%d&expire=%d''
        [FStr token, FStr user, FStr msg, FStr priority, FInt RETRY_TIME_SEC, FInt EXPIRE_TIME_SEC]
      else c_snprintf MAX_POST_FIELDS_LEN ''token=%s&user=%s&message=%s&priority=%s''
        [FStr token, FStr user, FStr msg, FStr priority])"

definition pushover_opts :: "string \<Rightarrow> string \<Rightarrow> curl_opt list" where
  "pushover_opts url post_fields =
     [OptStr ''CURLOPT_URL'' url,
      OptStr ''CURLOPT_POSTFIELDS'' post_fields,
      OptStr ''CURLOPT_USERAGENT'' ''pushover-c-notifier/1.0'',
      OptPtr ''CURLOPT_HTTPHEADER'' 0,
      OptLong ''CURLOPT_CONNECTTIMEOUT'' 10,
      OptLong ''CURLOPT_TIMEOUT'' 30,
      OptStr ''CURLOPT_WRITEFUNCTION'' ''curl_write_callback_fn'',
      OptStr ''CURLOPT_WRITEDATA'' ''post_response'',
      OptLong ''CURLOPT_SSL_VERIFYPEER'' 1,
      OptLong ''CURLOPT_SSL_VERIFYHOST'' 2]"

text \<open>The branch in which the four texts have been escaped; they are freed by the caller.\<close>

definition post_pushover :: "env \<Rightarrow> int \<Rightarrow> string \<Rightarrow> string \<Rightarrow> string \<Rightarrow> string \<Rightarrow> string \<Rightarrow>
    ('z pushover_st_scheme, int \<times> int) state" where
  "post_pushover e curl_handle msg_priority token user msg priority = do {
     let post_fields = pushover_fields msg_priority token user msg priority;
     require (post_fields \<noteq> None);
     url \<leftarrow> gets po_server_url;
     setopts e curl_handle (pushover_opts url (case post_fields of None \<Rightarrow> [] | Some x \<Rightarrow> x));
     (curl_res, post_response) \<leftarrow> curl_easy_perform e curl_handle (curl_write_callback_fn e) (0, []);
     ret_error \<leftarrow> check_pushover_response e curl_handle curl_res post_response;
     return (ret_error, fst post_response)
   }"

definition free_if :: "env \<Rightarrow> int \<Rightarrow> ('z world_scheme, unit) state" where
  "free_if e p = whenM (p \<noteq> 0) (sysu e (Curl (CurlFree p)))"

definition send_pushover_notification :: "env \<Rightarrow> string \<Rightarrow> string \<Rightarrow> ('z pushover_st_scheme, int) state" where
  "send_pushover_notification e msg_str msg_priority = do {
     initialized \<leftarrow> gets pushover_initialized;
     if initialized = 0 then return EPERM
     else if strlen msg_str \<ge> MAX_PUSHOVER_MSG_SIZE then do {
       log_printf e ''Error the Pushover send message function is being called but the message is too long to be sent\<newline>'' [];
       return EINVAL
     } else do {
       curl_handle \<leftarrow> sysv e (Curl CurlEasyInit);
       if curl_handle \<noteq> 0 then do {
         token \<leftarrow> gets po_token_id;
         user \<leftarrow> gets po_user_id;
         escaped_msg \<leftarrow> sys e (Curl (CurlEasyEscape curl_handle msg_str));
         escaped_token \<leftarrow> sys e (Curl (CurlEasyEscape curl_handle token));
         escaped_user \<leftarrow> sys e (Curl (CurlEasyEscape curl_handle user));
         escaped_priority \<leftarrow> sys e (Curl (CurlEasyEscape curl_handle msg_priority));
         if rv escaped_msg \<noteq> 0 \<and> rv escaped_token \<noteq> 0 \<and> rv escaped_user \<noteq> 0 \<and> rv escaped_priority \<noteq> 0 then do {
           (ret_error, data) \<leftarrow> post_pushover e curl_handle msg_priority (rstr escaped_token)
             (rstr escaped_user) (rstr escaped_msg) (rstr escaped_priority);
           sysu e (Curl (CurlFree (rv escaped_msg)));
           sysu e (Curl (CurlFree (rv escaped_token)));
           sysu e (Curl (CurlFree (rv escaped_user)));
           sysu e (Curl (CurlFree (rv escaped_priority)));
           sysu e (Curl (CurlEasyCleanup curl_handle));
           sysu e (Mem (Free data));
           return ret_error
         } else do {
           free_if e (rv escaped_msg);
           free_if e (rv escaped_token);
           free_if e (rv escaped_user);
           free_if e (rv escaped_priority);
           sysu e (Curl (CurlEasyCleanup curl_handle));
           sysu e (Mem (Free 0));
           log_printf e ''Error: Curl failed to URL-encode data to send through Pushover.\<newline>'' [];
           return ENOMEM
         }
       } else do {
         log_printf e ''Error: curl_easy_init() failed for Pushover.\<newline>'' [];
         return ENOMEM
       }
     }
   }"

definition pushover_deinit :: "env \<Rightarrow> ('z pushover_st_scheme, unit) state" where
  "pushover_deinit e = do {
     initialized \<leftarrow> gets pushover_initialized;
     whenM (initialized \<noteq> 0) (do {
       sysu e (Curl CurlGlobalCleanup);
       modify (\<lambda>s. s\<lparr>pushover_initialized := pushover_initialized s - 1\<rparr>)
     })
   }"

section \<open>A request leaves nothing behind\<close>

text \<open>A request that has set its options, one whose transfer is over, and one that has given back
  its handle and its escaped strings.\<close>

definition posting :: "event list \<Rightarrow> int \<Rightarrow> event list \<Rightarrow> bool" where
  "posting old curl tr \<longleftrightarrow> clean old tr \<and> suffix old tr"

definition posted :: "event list \<Rightarrow> int \<Rightarrow> int list \<Rightarrow> event list \<Rightarrow> bool" where
  "posted old curl escs tr \<longleftrightarrow> res_ok tr \<and> (\<forall>h. mem_bal tr h = mem_bal old h \<and> file_bal tr h = file_bal old h \<and>
     easy_bal tr h = easy_bal old h - of_bool (h = curl) \<and>
     esc_bal tr h = esc_bal old h - int (count_list escs h))"

definition http_200 :: "int \<Rightarrow> bool" where
  "http_200 code \<longleftrightarrow> code = 200"

lemma wp_post_perform:
  assumes p: "posting old curl (trace s)" and curl: "0 < easy_bal old curl"
    and post: "\<And>res data body tr lt er lb. transfer_inv old (data, body) tr \<Longrightarrow>
      Q (res, data, body) (s\<lparr>trace := tr, ltrace := lt, errno := er, lub := lb\<rparr>)"
  shows "wp (curl_easy_perform e curl (curl_write_callback_fn e) (0, [])) Q s"
proof (rule wp_post)
  show "res_ok (trace s)" "0 < easy_bal (trace s) curl"
    using p curl by (auto simp: posting_def clean_def res_bal_def)
next
  fix res data body tr lt er lb
  assume "transfer_inv (trace s) (data, body) tr"
  then have "transfer_inv old (data, body) tr"
    using p by (auto simp: transfer_inv_def posting_def clean_def res_bal_def intro: suffix_order.trans)
  then show "Q (res, data, body) (s\<lparr>trace := tr, ltrace := lt, errno := er, lub := lb\<rparr>)" by (rule post)
qed

lemma pushover_fields_Some: "pushover_fields p a b c d \<noteq> None"
  by (simp add: pushover_fields_def c_snprintf_def)

text \<open>The body of the response has arrived and says 1.\<close>

lemma wp_check_body:
  assumes "\<And>ret lt er u. Q ret (s\<lparr>ltrace := lt, errno := er, lub := u\<rparr>)"
  shows "wp (check_pushover_body e (data, body)) Q s"
proof -
  note same = assms [where lt = "ltrace s" and er = "errno s" and u = "lub s", simplified]
  show ?thesis
    unfolding check_pushover_body_def
    by (auto intro!: wp_intro assms same)
qed

definition checked :: "event list \<Rightarrow> event list \<Rightarrow> int \<Rightarrow> int \<Rightarrow> bool" where
  "checked old tr data ret \<longleftrightarrow> res_ok tr \<and> (\<forall>h. easy_bal tr h = easy_bal old h \<and> esc_bal tr h = esc_bal old h \<and>
     file_bal tr h = file_bal old h \<and> mem_bal tr h = mem_bal old h + of_bool (data \<noteq> 0 \<and> h = data)) \<and>
     (ret = 0 \<longrightarrow> confirmed http_200 old tr)"

lemma wp_check_response:
  assumes "transfer_inv old (data, body) (trace s)" and "0 < easy_bal old curl"
    and post: "\<And>ret tr lt er u. checked old tr data ret \<Longrightarrow>
      Q ret (s\<lparr>trace := tr, ltrace := lt, errno := er, lub := u\<rparr>)"
  shows "wp (check_pushover_response e curl res (data, body)) Q s"
proof -
  note same = post [where tr = "trace s", simplified]
  show ?thesis
    unfolding check_pushover_response_def
    using assms(1,2)
    by (auto intro!: wp_intro wp_check_body post same
      simp: checked_def transfer_inv_def res_ok_def http_200_def)
qed

lemma wp_post_pushover:
  assumes ok: "res_ok (trace s)" and curl: "0 < easy_bal (trace s) curl"
    and post: "\<And>ret data tr lt er u. checked (trace s) tr data ret \<Longrightarrow>
      Q (ret, data) (s\<lparr>trace := tr, ltrace := lt, errno := er, lub := u\<rparr>)"
  shows "wp (post_pushover e curl prio a b c d) Q s"
proof -
  have set: "wp (setopts e curl opts) R s" if "\<And>tr er. posting (trace s) curl tr \<Longrightarrow>
      R () (s\<lparr>trace := tr, errno := er\<rparr>)" for opts R
    by (rule wp_setopts [OF curl ok]) (auto intro!: that simp: posting_def dest: adds_suffix)
  show ?thesis
    unfolding post_pushover_def
    using curl
    by (auto intro!: wp_intro set wp_post_perform [where old = "trace s" and curl = curl]
        wp_check_response [where old = "trace s"] post
      simp: pushover_fields_Some require_def Let_def)
qed

text \<open>The four escaped strings, of which some may be null, and the block of the response.\<close>

definition escaped :: "event list \<Rightarrow> int \<Rightarrow> int list \<Rightarrow> int \<Rightarrow> event list \<Rightarrow> bool" where
  "escaped old curl ps data tr \<longleftrightarrow> res_ok tr \<and> (\<forall>h. file_bal tr h = file_bal old h \<and>
     mem_bal tr h = mem_bal old h + of_bool (data \<noteq> 0 \<and> h = data) \<and>
     easy_bal tr h = easy_bal old h + of_bool (h = curl) \<and>
     esc_bal tr h = esc_bal old h + (if h = 0 then 0 else int (count_list ps h)))"

lemma escaped_init: "res_ok old \<Longrightarrow> rv r \<noteq> 0 \<Longrightarrow> escaped old (rv r) [] 0 ((Curl CurlEasyInit, r) # old)"
  by (auto simp: escaped_def res_ok_def)

lemma escaped_more:
  "escaped old curl ps data tr \<Longrightarrow> res_ok old \<Longrightarrow>
   escaped old curl (rv r # ps) data ((Curl (CurlEasyEscape curl x), r) # tr)"
  using res_ok_nonneg [of old curl] by (auto simp: escaped_def res_ok_def add_nonneg_pos)

lemma escaped_free:
  assumes "escaped old curl (p # ps) data tr" and "res_ok old"
  shows "escaped old curl ps data ((Curl (CurlFree p), r) # tr)"
  using assms(1) res_ok_nonneg [OF assms(2), of p]
  by (auto simp: escaped_def res_ok_def add_nonneg_pos)

lemma escaped_null: "escaped old curl (0 # ps) data tr \<Longrightarrow> escaped old curl ps data tr"
  by (auto simp: escaped_def)

lemma escaped_rev: "escaped old curl (rev ps) data tr = escaped old curl ps data tr"
  by (simp add: escaped_def)

lemma escaped_checked:
  assumes "escaped old curl ps 0 tr" and "checked tr tr' data ret"
  shows "escaped old curl ps data tr'"
  using assms by (auto simp: escaped_def checked_def)

lemma escaped_easy: "escaped old curl ps data tr \<Longrightarrow> res_ok old \<Longrightarrow> 0 < easy_bal tr curl \<and> res_ok tr"
  using res_ok_nonneg [of old curl] by (auto simp: escaped_def)

lemma escaped_end:
  assumes "escaped old curl [] data tr" and "res_ok old"
  shows "clean old ((Mem (Free data), r') # (Curl (CurlEasyCleanup curl), r) # tr)"
  using assms(1) res_ok_nonneg [OF assms(2), of curl] res_ok_nonneg [OF assms(2), of data]
  by (auto simp: escaped_def clean_defs add_nonneg_pos)

lemma wp_free_if:
  assumes "escaped old curl (p # ps) data (trace s)" and "res_ok old"
    and "\<And>tr er. escaped old curl ps data tr \<Longrightarrow> Q () (s\<lparr>trace := tr, errno := er\<rparr>)"
  shows "wp (free_if e p) Q s"
proof -
  note same = assms(3) [where tr = "trace s" and er = "errno s", simplified]
  show ?thesis
    unfolding free_if_def
    using assms(1) by (auto intro!: wp_intro assms(3) same escaped_free [OF _ assms(2)] dest: escaped_null)
qed

text \<open>What follows the four escapes.\<close>

lemma wp_escaped_failed:
  assumes esc: "escaped old curl [p1, p2, p3, p4] 0 (trace s)" and ok: "res_ok old"
    and post: "\<And>tr lt er u. clean old tr \<Longrightarrow> Q ENOMEM (s\<lparr>trace := tr, ltrace := lt, errno := er, lub := u\<rparr>)"
  shows "wp (do {
      free_if e p1; free_if e p2; free_if e p3; free_if e p4;
      sysu e (Curl (CurlEasyCleanup curl));
      sysu e (Mem (Free 0));
      log_printf e msg [];
      return ENOMEM }) Q s"
  using esc
  by (auto intro!: wp_intro wp_free_if [OF _ ok, where curl = curl and data = 0]
      escaped_end [OF _ ok] post [simplified])

lemma wp_escaped_ok:
  assumes esc: "escaped old curl [p1, p2, p3, p4] 0 (trace s)" and ok: "res_ok old" and old: "suffix old (trace s)"
    and post: "\<And>ret tr lt er u. clean old tr \<Longrightarrow> ret = 0 \<longrightarrow> confirmed http_200 old tr \<Longrightarrow>
      Q ret (s\<lparr>trace := tr, ltrace := lt, errno := er, lub := u\<rparr>)"
  shows "wp (do {
      (ret_error, data) \<leftarrow> post_pushover e curl prio a b c d;
      sysu e (Curl (CurlFree p1)); sysu e (Curl (CurlFree p2));
      sysu e (Curl (CurlFree p3)); sysu e (Curl (CurlFree p4));
      sysu e (Curl (CurlEasyCleanup curl));
      sysu e (Mem (Free data));
      return ret_error }) Q s"
proof -
  have fin: "clean old ((Mem (Free data), r6) # (Curl (CurlEasyCleanup curl), r5) # (Curl (CurlFree p4), r4) #
      (Curl (CurlFree p3), r3) # (Curl (CurlFree p2), r2) # (Curl (CurlFree p1), r1) # tr)"
    if "\<exists>ret. checked (trace s) tr data ret" for r1 r2 r3 r4 r5 r6 data tr
  proof -
    from that obtain ret where "checked (trace s) tr data ret" by blast
    then show ?thesis
      by (intro escaped_end [OF _ ok] escaped_free [OF _ ok]) (rule escaped_checked [OF esc])
  qed
  have conf: "confirmed http_200 old tr" if "checked (trace s) tr d 0" for tr d
    using that confirmed_old [OF old] by (simp add: checked_def)
  show ?thesis
    using escaped_easy [OF esc ok]
    by (auto intro!: wp_intro wp_post_pushover post fin) (use conf in blast)+
qed

lemma wp_send_pushover:
  assumes ok: "res_ok (trace s)"
    and post: "\<And>ret tr lt er u. clean (trace s) tr \<Longrightarrow>
      ret = 0 \<longrightarrow> pushover_initialized s \<noteq> 0 \<and> strlen msg < MAX_PUSHOVER_MSG_SIZE \<and>
        confirmed http_200 (trace s) tr \<Longrightarrow>
      Q ret (s\<lparr>trace := tr, ltrace := lt, errno := er, lub := u\<rparr>)"
  shows "wp (send_pushover_notification e msg prio) Q s"
proof -
  note quiet = post [where lt = "ltrace s" and u = "lub s", simplified]
  note same = post [OF clean_refl [OF ok], simplified]
  note same_quiet = quiet [OF clean_refl [OF ok], where er = "errno s", simplified]
  have noinit: "clean (trace s) ((Curl CurlEasyInit, r) # trace s)" if "rv r = 0" for r
    using ok that by (simp add: clean_defs)
  have esc: "escaped (trace s) (rv h) [p1, p2, p3, p4] 0
      ((Curl (CurlEasyEscape (rv h) x4), r4) # (Curl (CurlEasyEscape (rv h) x3), r3) #
       (Curl (CurlEasyEscape (rv h) x2), r2) # (Curl (CurlEasyEscape (rv h) x1), r1) #
       (Curl CurlEasyInit, h) # trace s)"
    if h: "rv h \<noteq> 0" and p: "p1 = rv r1" "p2 = rv r2" "p3 = rv r3" "p4 = rv r4"
    for h r1 r2 r3 r4 p1 p2 p3 p4 x1 x2 x3 x4
  proof -
    have "escaped (trace s) (rv h) (rev [rv r1, rv r2, rv r3, rv r4]) 0
      ((Curl (CurlEasyEscape (rv h) x4), r4) # (Curl (CurlEasyEscape (rv h) x3), r3) #
       (Curl (CurlEasyEscape (rv h) x2), r2) # (Curl (CurlEasyEscape (rv h) x1), r1) #
       (Curl CurlEasyInit, h) # trace s)"
      by (simp, (rule escaped_more [OF _ ok])+, rule escaped_init [OF ok h])
    then show ?thesis by (simp only: escaped_rev p)
  qed
  show ?thesis
    unfolding send_pushover_notification_def
    by (auto intro!: wp_intro wp_escaped_failed [OF _ ok, simplified] wp_escaped_ok [OF _ ok, simplified]
        esc noinit post quiet same same_quiet suffix_ConsI)
qed

interpretation pushover: curl_service "\<lambda>_. True" "\<lambda>e (msg, prio). send_pushover_notification e msg prio"
  by unfold_locales (auto intro!: wp_send_pushover)

end
