(* ===== verification/Telegram.thy ===== *)
theory Telegram
  imports Pushover
begin

text \<open>
  telegram.c: the client of the Telegram bot interface.
\<close>

section \<open>State\<close>

record telegram_st = pushover_st +
  tg_chat_id :: string
  tg_api_token :: string
  telegram_initialized :: int

definition MAX_TELEGRAM_MSG_SIZE :: int where "MAX_TELEGRAM_MSG_SIZE = 1024 * 4"

definition TELEGRAM_SEND_MSG_URL :: string where
  "TELEGRAM_SEND_MSG_URL = ''https://api.telegram.org/bot%s/sendMessage''"

definition telegram_vars :: conf_vars where
  "telegram_vars = [(''chat_id='', MAX_CONF_STR_LEN), (''api_token='', MAX_CONF_STR_LEN)]"

section \<open>Initialization\<close>

definition set_telegram_initialized :: "int \<Rightarrow> ('z telegram_st_scheme, unit) state" where
  "set_telegram_initialized b = modify (\<lambda>s. s\<lparr>telegram_initialized := b\<rparr>)"

definition check_telegram_conf :: "env \<Rightarrow> ('z telegram_st_scheme, int) state" where
  "check_telegram_conf e = do {
     chat_id \<leftarrow> gets tg_chat_id;
     api_token \<leftarrow> gets tg_api_token;
     if chat_id \<noteq> [] then
       (if api_token \<noteq> [] then
          (if c_strchr api_token (CHR '':'') then do {
             curl_res \<leftarrow> sysv e (Curl CurlGlobalInit);
             if curl_res = CURLE_OK then do {
               set_telegram_initialized 1;
               log_printf e ''Using Telegram bot: %s to send notifications\<newline>'' [FStr api_token];
               return 0
             } else do {
               log_printf e ''Error initializing Curl library for Telegram API: %s\<newline>'' [FCurlErr curl_res];
               set_telegram_initialized 0;
               return EINVAL
             }
           } else do {
             log_printf e ''Error loading Telegram config file: the API token does not contain the ':' sepatator character\<newline>'' [];
             set_telegram_initialized 0;
             return EINVAL
           })
        else do {
          log_printf e ''Error loading Telegram config file: API token not found\<newline>'' [];
          set_telegram_initialized 0;
          return EINVAL
        })
     else do {
       log_printf e ''Error loading Telegram config file: Chat ID not found\<newline>'' [];
       set_telegram_initialized 0;
       return EINVAL
     }
   }"

definition load_telegram_conf :: "env \<Rightarrow> string \<Rightarrow> ('z telegram_st_scheme, int) state" where
  "load_telegram_conf e full_conf_filename = do {
     r \<leftarrow> sys e (File (Fopen full_conf_filename ''rt''));
     let conf_fd = rv r;
     if conf_fd \<noteq> 0 then do {
       (ret_error, bufs) \<leftarrow> conf_loop e telegram_vars (return ()) (stream_of r);
       modify (\<lambda>s. s\<lparr>tg_chat_id := bufs ! 0, tg_api_token := bufs ! 1\<rparr>);
       ret_error \<leftarrow> (if ret_error = 0 then check_telegram_conf e else do {
           set_telegram_initialized 0;
           log_printf e ''Error loading Telegram config file: unknown variable name found in file\<newline>'' [];
           return ret_error
         });
       sysu e (File (Fclose conf_fd));
       return ret_error
     } else do {
       ret_error \<leftarrow> gets errno;
       set_telegram_initialized 0;
       log_printf e ''Error opening Telegram config file %s: errno=%d\<newline>''
         [FStr full_conf_filename, FInt ret_error];
       return ret_error
     }
   }"

definition telegram_init :: "env \<Rightarrow> string \<Rightarrow> ('z telegram_st_scheme, int) state" where
  "telegram_init e conf_filename =
     (if strlen conf_filename > PATH_MAX then return EINVAL
      else do {
        full_conf_filename \<leftarrow> conf_file_path e
          ''Error obtaining the directory of the current-process executable file: errno=%d\<newline>'' conf_filename;
        load_telegram_conf e full_conf_filename
      })"

section \<open>Messages\<close>

definition telegram_opts :: "string \<Rightarrow> string \<Rightarrow> curl_opt list" where
  "telegram_opts telegram_url post_fields =
     [OptStr ''CURLOPT_URL'' telegram_url,
      OptStr ''CURLOPT_POSTFIELDS'' post_fields,
      OptStr ''CURLOPT_USERAGENT'' ''telegram-c-notifier/1.0'',
      OptLong ''CURLOPT_CONNECTTIMEOUT'' 10,
      OptLong ''CURLOPT_TIMEOUT'' 30,
      OptStr ''CURLOPT_WRITEFUNCTION'' ''curl_write_callback_fn'',
      OptStr ''CURLOPT_WRITEDATA'' ''post_response'']"

definition telegram_url :: "string \<Rightarrow> string option" where
  "telegram_url api_token = c_snprintf (int MAX_URL_LEN) TELEGRAM_SEND_MSG_URL [FStr api_token]"

definition telegram_fields :: "string \<Rightarrow> string \<Rightarrow> string option" where
  "telegram_fields chat_id msg =
     c_snprintf MAX_POST_FIELDS_LEN ''chat_id=%s&text=%s'' [FStr chat_id, FStr msg]"

text \<open>The evaluation of a transfer that succeeded.\<close>

definition check_telegram_response :: "env \<Rightarrow> int \<Rightarrow> ('z log_st_scheme, int) state" where
  "check_telegram_response e curl_handle = do {
     r \<leftarrow> sys e (Curl (CurlEasyGetResponseCode curl_handle));
     if rv r = CURLE_OK then
       (if rout r = 200 then return 0
        else do {
          log_printf e ''Error: Telegram server returned HTTP code: %ld (instead of 200).\<newline>'' [FInt (rout r)];
          return EINVAL
        })
     else do {
       log_printf e ''Error: Curl could not obtain the HTTP response code of the Telegram message post.\<newline>'' [];
       return EINVAL
     }
   }"

text \<open>The branch in which the message has been escaped.\<close>

definition post_telegram :: "env \<Rightarrow> int \<Rightarrow> reply \<Rightarrow> ('z telegram_st_scheme, int) state" where
  "post_telegram e curl_handle escaped_msg = do {
     chat_id \<leftarrow> gets tg_chat_id;
     api_token \<leftarrow> gets tg_api_token;
     let url = telegram_url api_token;
     let post_fields = telegram_fields chat_id (rstr escaped_msg);
     require (url \<noteq> None \<and> post_fields \<noteq> None);
     setopts e curl_handle (telegram_opts (case url of None \<Rightarrow> [] | Some x \<Rightarrow> x)
       (case post_fields of None \<Rightarrow> [] | Some x \<Rightarrow> x));
     (curl_res, post_response) \<leftarrow> curl_easy_perform e curl_handle (curl_write_callback_fn e) (0, []);
     if curl_res = CURLE_OK then do {
       ret_error \<leftarrow> check_telegram_response e curl_handle;
       sysu e (Curl (CurlFree (rv escaped_msg)));
       sysu e (Curl (CurlEasyCleanup curl_handle));
       sysu e (Mem (Free (fst post_response)));
       return ret_error
     } else do {
       log_printf e ''Error: Failed to send Telegram post message: %s\<newline>'' [FCurlErr curl_res];
       sysu e (Curl (CurlFree (rv escaped_msg)));
       sysu e (Curl (CurlEasyCleanup curl_handle));
       sysu e (Mem (Free (fst post_response)));
       return ECOMM
     }
   }"

definition send_telegram_message :: "env \<Rightarrow> string \<Rightarrow> ('z telegram_st_scheme, int) state" where
  "send_telegram_message e msg_str = do {
     initialized \<leftarrow> gets telegram_initialized;
     if initialized = 0 then return EPERM
     else do {
       curl_handle \<leftarrow> sysv e (Curl CurlEasyInit);
       if curl_handle \<noteq> 0 then do {
         escaped_msg \<leftarrow> sys e (Curl (CurlEasyEscape curl_handle msg_str));
         if rv escaped_msg \<noteq> 0 then post_telegram e curl_handle escaped_msg
         else do {
           sysu e (Curl (CurlEasyCleanup curl_handle));
           log_printf e ''Error: Curl failed to URL-encode message to send through Telegram.\<newline>'' [];
           return ENOMEM
         }
       } else do {
         log_printf e ''Error: curl_easy_init() failed for Telegram.\<newline>'' [];
         return ENOMEM
       }
     }
   }"

definition telegram_deinit :: "env \<Rightarrow> ('z telegram_st_scheme, unit) state" where
  "telegram_deinit e = do {
     initialized \<leftarrow> gets telegram_initialized;
     whenM (initialized \<noteq> 0) (do {
       sysu e (Curl CurlGlobalCleanup);
       modify (\<lambda>s. s\<lparr>telegram_initialized := telegram_initialized s - 1\<rparr>)
     })
   }"

section \<open>A request leaves nothing behind\<close>

lemma url_and_fields: "telegram_url t \<noteq> None" "telegram_fields c m \<noteq> None"
  by (simp_all add: telegram_url_def TELEGRAM_SEND_MSG_URL_def telegram_fields_def c_snprintf_def)

lemma wp_post_telegram:
  assumes ok: "res_ok (trace s)" and curl: "0 < easy_bal (trace s) curl" and esc: "0 < esc_bal (trace s) (rv x)"
    and x: "rv x \<noteq> 0" and post: "\<And>ret tr lt er u. posted (trace s) curl [rv x] tr \<Longrightarrow>
      ret = 0 \<longrightarrow> confirmed http_200 (trace s) tr \<Longrightarrow>
      Q ret (s\<lparr>trace := tr, ltrace := lt, errno := er, lub := u\<rparr>)"
  shows "wp (post_telegram e curl x) Q s"
proof -
  have set: "wp (setopts e curl opts) R s" if "\<And>tr er. posting (trace s) curl tr \<Longrightarrow>
      R () (s\<lparr>trace := tr, errno := er\<rparr>)" for opts R
    by (rule wp_setopts [OF curl ok]) (auto intro!: that simp: posting_def dest: adds_suffix)
  show ?thesis
    unfolding post_telegram_def check_telegram_response_def
    using curl esc x res_ok_nonneg [OF ok]
    by (auto intro!: wp_intro set wp_post_perform [where old = "trace s" and curl = curl] post
      simp: url_and_fields require_def Let_def transfer_inv_def posted_def res_ok_def http_200_def suffix_ConsI)
qed

lemma wp_send_telegram:
  assumes ok: "res_ok (trace s)"
    and post: "\<And>ret tr lt er u. clean (trace s) tr \<Longrightarrow>
      ret = 0 \<longrightarrow> telegram_initialized s \<noteq> 0 \<and> confirmed http_200 (trace s) tr \<Longrightarrow>
      Q ret (s\<lparr>trace := tr, ltrace := lt, errno := er, lub := u\<rparr>)"
  shows "wp (send_telegram_message e msg_str) Q s"
proof -
  note quiet = post [where lt = "ltrace s" and u = "lub s", simplified]
  note same = quiet [OF clean_refl [OF ok], where er = "errno s", simplified]
  have given: "clean (trace s) tr"
    if "posted ((Curl (CurlEasyEscape (rv r) msg_str), x) # (Curl CurlEasyInit, r) # trace s) (rv r) [rv x] tr"
      "rv r \<noteq> 0" "rv x \<noteq> 0" for r x tr
    using that by (auto simp: posted_def clean_def res_bal_def)
  have sent: "wp (post_telegram e (rv r) x) Q (s\<lparr>trace := (Curl (CurlEasyEscape (rv r) msg_str), x) #
      (Curl CurlEasyInit, r) # trace s, errno := rerr x\<rparr>)"
    if "rv r \<noteq> 0" "rv x \<noteq> 0" "telegram_initialized s \<noteq> 0" for r x
    by (rule wp_post_telegram)
      (use ok that res_ok_nonneg [OF ok] given in
        \<open>auto simp: res_ok_def add_nonneg_pos intro!: post dest!: confirmed_tail\<close>)
  show ?thesis
    unfolding send_telegram_message_def
    using ok res_ok_nonneg [OF ok]
    by (auto intro!: wp_intro sent post quiet same simp: clean_defs add_nonneg_pos add_pos_nonneg)
qed

interpretation telegram: curl_service "\<lambda>_. True" send_telegram_message
  by unfold_locales (rule wp_send_telegram, auto)

end
