(* ===== verification/ConfFile_Props.thy ===== *)
theory ConfFile_Props
  imports Telegram
begin

text \<open>
  Properties of the configuration files: what a well-formed file gives, that reading ends with
  values that fit, and the file for which it does not end.
\<close>

section \<open>The variables of the three clients\<close>

definition client_vars :: "conf_vars set" where
  "client_vars = {owncloud_vars, pushover_vars, telegram_vars}"

lemma client_vars_ok: "vars \<in> client_vars \<Longrightarrow> vars_ok vars"
  by (auto simp: client_vars_def owncloud_vars_def pushover_vars_def telegram_vars_def vars_ok_def
    is_space_def MAX_URL_LEN_def MAX_CONF_STR_LEN_def)

lemma vars_ok_positive: "vars_ok vars \<Longrightarrow> \<forall>v \<in> set vars. 0 < snd v"
  by (auto simp: vars_ok_def)

lemma vars_ok_distinct: "vars_ok vars \<Longrightarrow> distinct (map fst vars)"
  by (auto simp: vars_ok_def distinct_map inj_on_def)

section \<open>Values\<close>

text \<open>The value of a variable: the last one in the file, or the empty string.\<close>

definition last_value :: "(string \<times> string) list \<Rightarrow> string \<Rightarrow> string" where
  "last_value kvs k = (case map_of (rev kvs) k of None \<Rightarrow> [] | Some v \<Rightarrow> v)"

lemma last_value_snoc: "last_value (kvs @ [(k, v)]) = (last_value kvs)(k := v)"
  by (auto simp: last_value_def fun_eq_iff)

lemma set_var_map:
  "distinct (map fst vars) \<Longrightarrow> set_var vars (map f (map fst vars)) k v = map (f(k := v)) (map fst vars)"
proof (induction vars)
  case Nil
  then show ?case by simp
next
  case (Cons x vars)
  obtain key n where x: "x = (key, n)" by fastforce
  show ?case
  proof (cases "key = k")
    case True
    with Cons.prems x have "k \<notin> set (map fst vars)" by auto
    then have "map (f(k := v)) (map fst vars) = map f (map fst vars)" by (intro map_cong) auto
    with True show ?thesis by (simp add: x)
  next
    case False
    with Cons x show ?thesis by simp
  qed
qed

lemma conf_values_last:
  assumes "distinct (map fst vars)"
  shows "conf_values vars kvs = map (last_value kvs) (map fst vars)"
proof (induction kvs rule: rev_induct)
  case Nil
  then show ?case by (simp add: conf_values_def last_value_def)
next
  case (snoc kv kvs)
  obtain k v where "kv = (k, v)" by fastforce
  with snoc set_var_map [OF assms, of "last_value kvs" k v] show ?case
    by (simp add: conf_values_def last_value_snoc)
qed

section \<open>A file that cannot be read\<close>

lemma scan_chain_unreadable:
  assumes "vars \<in> client_vars" and "inp st = []" and "unreadable st" and "length bufs = length vars"
  shows "scan_chain vars bufs st = (False, bufs, st)"
proof -
  have ws: "skip_ws st = st" using assms(2,3) by (simp add: skip_ws_def hit_end_def)
  have "scan_var key n st = (-1, None, st)" if "key \<noteq> []" for key n
    using that assms(2,3) by (cases key) (simp_all add: scan_var_def ws hit_end_def)
  with assms(1,4) show ?thesis
    by (cases bufs) (auto simp: client_vars_def owncloud_vars_def pushover_vars_def telegram_vars_def)
qed

lemma unreadable_loop:
  assumes "vars \<in> client_vars" and "inp st = []" and "unreadable st" and "\<not> at_eof st"
    and "length bufs = length vars"
  shows "hang (snd (run_state (while_fuel n conf_cond (conf_step vars m) (bufs, st, 0)) s))"
  using assms by (induction n) (simp_all add: conf_cond_def conf_step_def scan_chain_unreadable)

section \<open>Properties\<close>

text \<open>
  C10: a file of lines with known names and values that are words of the allowed lengths is read
  without an error and gives for every variable the last value that the file has for it; nothing
  else changes.
\<close>
theorem conf_reads_back:
  assumes "vars \<in> client_vars" and "\<forall>kv \<in> set kvs. line_ok vars kv" and "kvs \<noteq> []"
    and "length kvs < fuel e"
  shows "run_state (conf_loop e vars m \<lparr>inp = conf_lines kvs, at_eof = False, unreadable = False\<rparr>) s =
    ((0, map (last_value kvs) (map fst vars)), s)"
  using conf_loop_reads [OF client_vars_ok [OF assms(1)] assms(2,3) _ _ _ assms(4),
      of "\<lparr>inp = conf_lines kvs, at_eof = False, unreadable = False\<rparr>" m s]
    conf_values_last [OF vars_ok_distinct [OF client_vars_ok [OF assms(1)]]]
  by simp

lemma conf_reads_back_witness:
  "run_state (conf_loop (env_of (\<lambda>_ _. ok_reply 0)) telegram_vars (return ())
     \<lparr>inp = conf_lines [(''api_token='', ''12:xy''), (''chat_id='', ''77'')], at_eof = False, unreadable = False\<rparr>) log_start =
   ((0, [''77'', ''12:xy'']), log_start)"
proof -
  have "\<forall>kv \<in> set [(''api_token='', ''12:xy''), (''chat_id='', ''77'')]. line_ok telegram_vars kv"
    by (auto simp: line_ok_def telegram_vars_def word_ok_def is_space_def MAX_CONF_STR_LEN_def)
  from conf_reads_back [OF _ this, of "env_of (\<lambda>_ _. ok_reply 0)" "return ()" log_start] show ?thesis
    by (simp add: client_vars_def env_of_def last_value_def telegram_vars_def)
qed

text \<open>
  C23: on every file that can be read to its end the loop ends, in at most as many rounds as the
  file has characters, plus one; the result is 0 or \<open>EINVAL\<close>, and every value fits in the array
  that holds it and has no white space.
\<close>
theorem conf_reading_ends:
  assumes "run_state (conf_loop e vars (log_printf e msg []) st) s = ((ret, bufs), t)"
    and "vars \<in> client_vars" and "\<not> unreadable st" and "length (inp st) + 1 < fuel e"
  shows "hang t = hang s \<and> ub t = ub s \<and> trace t = trace s \<and> (ret = 0 \<or> ret = EINVAL) \<and>
    list_all2 (\<lambda>v x. length x \<le> snd v \<and> (\<forall>c \<in> set x. \<not> is_space c)) vars bufs"
proof -
  have "wp (conf_loop e vars (log_printf e msg []) st) (\<lambda>(ret, bufs) t. hang t = hang s \<and> ub t = ub s \<and>
      trace t = trace s \<and> (ret = 0 \<or> ret = EINVAL) \<and> bufs_ok vars bufs) s"
    by (rule wp_conf_loop [OF vars_ok_positive [OF client_vars_ok [OF assms(2)]] wp_log_printf])
      (use assms(3,4) in \<open>auto simp: conf_ended_def\<close>)
  from wp_runD [OF this assms(1)] show ?thesis by (simp add: bufs_ok_def word_ok_def [abs_def])
qed

lemma conf_reading_ends_witness:
  "fst (run_state (conf_loop (env_of (\<lambda>_ _. ok_reply 0)) telegram_vars (log_printf (env_of (\<lambda>_ _. ok_reply 0)) ''?'' [])
     \<lparr>inp = ''chat_id=7 nonsense'', at_eof = False, unreadable = False\<rparr>) log_start) = (22, [''7'', []]) \<and>
   \<not> hang (snd (run_state (conf_loop (env_of (\<lambda>_ _. ok_reply 0)) telegram_vars
     (log_printf (env_of (\<lambda>_ _. ok_reply 0)) ''?'' [])
     \<lparr>inp = ''chat_id=7 nonsense'', at_eof = False, unreadable = False\<rparr>) log_start))"
proof -
  let ?m = "conf_loop (env_of (\<lambda>_ _. ok_reply 0)) telegram_vars (log_printf (env_of (\<lambda>_ _. ok_reply 0)) ''?'' [])
     \<lparr>inp = ''chat_id=7 nonsense'', at_eof = False, unreadable = False\<rparr>"
  have r: "fst (run_state ?m log_start) = (22, [''7'', []])" by code_simp
  then have "run_state ?m log_start = ((22, [''7'', []]), snd (run_state ?m log_start))"
    by (simp add: prod_eq_iff)
  from conf_reading_ends [OF this] r show ?thesis by (simp add: client_vars_def env_of_def)
qed

text \<open>
  C24: a configuration file that opens but cannot be read, as a directory, keeps the loop going for
  ever: the end-of-file indicator is never set, so that no fuel is enough.
\<close>
theorem unreadable_conf_never_ends:
  assumes "vars \<in> client_vars"
  shows "hang (snd (run_state (conf_loop e vars m \<lparr>inp = [], at_eof = False, unreadable = True\<rparr>) s))"
  using unreadable_loop [OF assms, of "\<lparr>inp = [], at_eof = False, unreadable = True\<rparr>"
      "map (\<lambda>_. []) vars" "fuel e" m s]
  by (auto simp: conf_loop_def split: prod.splits)

lemma unreadable_conf_never_ends_witness:
  "hang (snd (run_state (conf_loop (env_of (\<lambda>_ _. ok_reply 0)) telegram_vars (return ())
     \<lparr>inp = [], at_eof = False, unreadable = True\<rparr>) log_start))"
  by (rule unreadable_conf_never_ends) (simp add: client_vars_def)

end
