(* ===== verification/Capturer_Props.thy ===== *)
theory Capturer_Props
  imports Capturer
begin

text \<open>
  Properties of the camera capture: a frame is stored under its name or not at all, the accepted
  names stay inside the capture directory, and the creation of a directory is the creation of
  its ancestors in order.
\<close>

section \<open>Names and paths\<close>

text \<open>A name of one path component without two dots in a row.\<close>

definition plain_name :: "string \<Rightarrow> bool" where
  "plain_name f \<longleftrightarrow> f \<noteq> [] \<and> length f \<le> 4096 \<and> CHR ''/'' \<notin> set f \<and> \<not> sublist ''..'' f"

lemma c_strstr_sublist: "c_strstr s sub = None \<longleftrightarrow> \<not> sublist sub s"
proof
  assume none: "c_strstr s sub = None"
  show "\<not> sublist sub s"
  proof
    assume "sublist sub s"
    then obtain a b where "s = a @ sub @ b" by (auto simp: sublist_def)
    with c_strstr_None [OF none, of "length a"] show False by simp
  qed
next
  assume no: "\<not> sublist sub s"
  show "c_strstr s sub = None"
  proof (rule ccontr)
    assume "c_strstr s sub \<noteq> None"
    then obtain k where "c_strstr s sub = Some k" by auto
    from c_strstr_Some [OF this] have "sublist sub (drop k s)" by (auto intro: prefix_imp_sublist)
    then show False using no sublist_drop by (blast intro: sublist_order.order.trans)
  qed
qed

lemma validate_filename_plain: "validate_filename (Some f) = 0 \<longleftrightarrow> plain_name f"
  by (auto simp: validate_filename_def plain_name_def c_strstr_sublist c_strchr_def)

text \<open>The part of a path after its last slash.\<close>

definition last_component :: "string \<Rightarrow> string" where
  "last_component p = rev (takeWhile (\<lambda>c. c \<noteq> CHR ''/'') (rev p))"

lemma last_component_file: "CHR ''/'' \<notin> set f \<Longrightarrow> last_component (d @ ''/'' @ f) = f"
  proof -
  assume "CHR ''/'' \<notin> set f"
  then have "takeWhile (\<lambda>c. c \<noteq> CHR ''/'') (rev f @ CHR ''/'' # rev d) = rev f"
    by (subst takeWhile_append2) auto
  then show ?thesis by (simp add: last_component_def)
qed

text \<open>The ancestors of a path, the path itself last: the parts before the slashes other than a
  leading one.\<close>

definition dir_prefixes :: "string \<Rightarrow> string list" where
  "dir_prefixes path = map (\<lambda>i. take i path) (filter (\<lambda>i. path ! i = CHR ''/'') [1..<length path]) @ [path]"

text \<open>One after the other until one fails.\<close>

definition unless_error :: "('s, int) state \<Rightarrow> ('s, int) state \<Rightarrow> ('s, int) state" where
  "unless_error m n = do { ret \<leftarrow> m; if ret \<noteq> 0 then return ret else n }"

lemma unless_error_return [simp]: "unless_error (return 0) n = n" "unless_error m (return 0) = m"
  by (auto intro!: state.expand simp: unless_error_def fun_eq_iff State_Monad.bind_def split: prod.splits)

lemma unless_error_assoc: "unless_error (unless_error m n) l = unless_error m (unless_error n l)"
proof -
  have "(\<lambda>ret. State_Monad.bind (if ret \<noteq> 0 then return ret else n) (\<lambda>ret. if ret \<noteq> 0 then return ret else l)) =
      (\<lambda>ret. if ret \<noteq> 0 then return ret
        else State_Monad.bind n (\<lambda>ret. if ret \<noteq> 0 then return ret else l))"
    by (rule ext) simp
  then show ?thesis by (simp only: unless_error_def State_Monad.bind_assoc)
qed

fun make_all :: "env \<Rightarrow> string list \<Rightarrow> ('z world_scheme, int) state" where
  "make_all e [] = return 0"
| "make_all e (p # ps) = unless_error (make_directory e p) (make_all e ps)"

lemma make_all_append: "make_all e (ps @ qs) = unless_error (make_all e ps) (make_all e qs)"
  by (induction ps) (simp_all add: unless_error_assoc)

lemma make_parents_Cons: "make_parents e tmp (c # cs) =
    (if c = CHR ''/'' \<and> tmp \<noteq> [] then unless_error (make_directory e tmp) (make_parents e (tmp @ [c]) cs)
     else make_parents e (tmp @ [c]) cs)"
  by (simp only: make_parents.simps unless_error_def)

lemma make_parents_all:
  assumes "tmp \<noteq> []"
  shows "(make_parents e tmp cs :: ('z world_scheme, int) state) = make_all e (map (\<lambda>i. take i (tmp @ cs))
    (filter (\<lambda>i. (tmp @ cs) ! i = CHR ''/'') [length tmp..<length (tmp @ cs)]))"
  using assms
proof (induction cs arbitrary: tmp)
  case (Cons c cs)
  let ?f = "\<lambda>xs. make_all e (map (\<lambda>i. take i (tmp @ c # cs))
    (filter (\<lambda>i. (tmp @ c # cs) ! i = CHR ''/'') xs)) :: ('z world_scheme, int) state"
  have "[length tmp..<length (tmp @ c # cs)] = length tmp # [length (tmp @ [c])..<length (tmp @ c # cs)]"
    using upt_conv_Cons [of "length tmp" "length (tmp @ c # cs)"] by simp
  then have f: "?f [length tmp..<length (tmp @ c # cs)] =
      (if c = CHR ''/'' then unless_error (make_directory e tmp) (?f [length (tmp @ [c])..<length (tmp @ c # cs)])
       else ?f [length (tmp @ [c])..<length (tmp @ c # cs)])"
    by (simp del: upt_Suc upt_conv_Nil)
  have ih: "make_parents e (tmp @ [c]) cs = ?f [length (tmp @ [c])..<length (tmp @ c # cs)]"
    using Cons.IH [of "tmp @ [c]"] by (simp del: upt_Suc)
  show ?case unfolding f make_parents_Cons ih using Cons.prems by (simp del: upt_Suc)
qed simp

lemma make_directory_recursive_eq: "make_directory_recursive e (Some p) =
    (if p = [] \<or> 4096 < length p then return EINVAL
     else unless_error (make_parents e (take 1 p) (drop 1 p)) (make_directory e p))"
  by (simp add: make_directory_recursive_def unless_error_def)

text \<open>A libcurl without memory, which hands out no handle, and an initialized capturer.\<close>

definition no_curl :: env where
  "no_curl = (env_of (\<lambda>_ c. case c of File (Fopen _ _) \<Rightarrow> err_reply 9 1 | _ \<Rightarrow> err_reply 0 1))
     \<lparr>lanswer := \<lambda>_ _. err_reply 0 1\<rparr>"

definition camera_start :: capturer_st where
  "camera_start = log_st.extend log_start \<lparr>g_gpio_chip = 0, g_pin_ctxs = 0, pin_ctx_mem = [], g_num_lines = 0,
     g_library_opened = 0, g_capture_path = ''/c'', g_snapshot_url = CAPTURER_SNAPSHOT_URL, g_initialized = 1,
     g_curl_global_initialized = 1\<rparr>"

lemma camera_start_fields [simp]: "trace camera_start = []" "g_capture_path camera_start = ''/c''"
  by (simp_all add: camera_start_def log_st.defs log_start_def)

section \<open>Properties\<close>

text \<open>
  C8: when libcurl can always tell the response code and the libraries do not clear
  \<open>errno\<close>, the result of \<open>capturer_get_frame\<close> is 0 exactly when the last thing done was to give the
  complete temporary file its final name in the capture directory; after a failure nothing was
  opened or the last thing done was the removal of the temporary file (whose own success the code does not check).  The handle and the stream are given back, and
  there is no undefined behaviour.
\<close>
theorem frame_stored_or_removed:
  assumes "run_state (capturer_get_frame e name) s = (ret, t)"
    and "response_code_ok e" and "errno_stays_set e" and "res_ok (trace s)"
  shows "clean (trace s) (trace t) \<and> ub t = ub s \<and> hang t = hang s \<and> log_st.more t = log_st.more s \<and>
    (if ret = 0
     then \<exists>f. name = Some f \<and> g_initialized s \<noteq> 0 \<and> plain_name f \<and>
       stored (g_capture_path s @ ''/'' @ f @ ''.tmp'') (g_capture_path s @ ''/'' @ f) (trace t)
     else trace t = trace s \<or> (\<exists>f. name = Some f \<and>
       (discarded (g_capture_path s @ ''/'' @ f @ ''.tmp'') (trace t) \<or>
        (\<exists>r. trace t = (File (Fopen (g_capture_path s @ ''/'' @ f @ ''.tmp'') ''wb''), r) # trace s))))"
proof -
  have "wp (capturer_get_frame e name) (\<lambda>ret t. frame_result e s name ret (trace t) \<and>
      ub t = ub s \<and> hang t = hang s \<and> log_st.more t = log_st.more s) s"
    by (rule wp_capturer_get_frame [OF assms(2,4)]) simp
  from wp_runD [OF this assms(1)] show ?thesis
    using assms(3) validate_filename_plain by (auto simp: frame_result_def)
qed

lemma frame_stored_or_removed_witness:
  "fst (run_state (capturer_get_frame no_curl (Some ''x.jpg'')) camera_start) = 12 \<and>
   discarded ''/c/x.jpg.tmp'' (trace (snd (run_state (capturer_get_frame no_curl (Some ''x.jpg'')) camera_start)))"
proof -
  let ?m = "capturer_get_frame no_curl (Some ''x.jpg'')"
  have r: "fst (run_state ?m camera_start) = 12" by code_simp
  then have run: "run_state ?m camera_start = (12, snd (run_state ?m camera_start))"
    by (simp add: prod_eq_iff)
  have other: "length (trace (snd (run_state ?m camera_start))) = 4" by code_simp
  have law: "response_code_ok no_curl" "errno_stays_set no_curl" "res_ok (trace camera_start)"
    by (auto simp: response_code_ok_def errno_stays_set_def res_ok_def no_curl_def env_of_def err_reply_def
      split: call.splits file_call.splits)
  from frame_stored_or_removed [OF run law] r other show ?thesis by auto
qed

text \<open>
  C29: the names that \<open>validate_filename\<close> accepts and whose path fits are exactly those of one path
  component without two dots in a row: the path is the name inside the directory, and the name is
  its last component.
\<close>
theorem frame_path_inside:
  assumes "build_full_path (PATH_MAX + 1) (Some d) (Some f) = (ret, p)"
  shows "validate_filename (Some f) = 0 \<and> ret = 0 \<longleftrightarrow>
    plain_name f \<and> p = d @ ''/'' @ f \<and> length p \<le> 4096 \<and> last_component p = f"
proof (cases "length d + 1 + length f \<le> 4096")
  case True
  then have "ret = 0" "p = d @ ''/'' @ f" using assms by (auto simp: build_full_path_Some)
  with True show ?thesis
    using last_component_file [of f d] by (auto simp: validate_filename_plain plain_name_def)
next
  case False
  then have "ret = ENAMETOOLONG" "p \<noteq> d @ ''/'' @ f \<or> \<not> length p \<le> 4096"
    using assms by (auto simp: build_full_path_Some)
  then show ?thesis by auto
qed

lemma frame_path_inside_witness:
  "validate_filename (Some ''a.jpg'') = 0 \<and> last_component ''/c/a.jpg'' = ''a.jpg''"
proof -
  have b: "build_full_path (PATH_MAX + 1) (Some ''/c'') (Some ''a.jpg'') = (0, ''/c/a.jpg'')" by code_simp
  have "plain_name ''a.jpg''" by code_simp
  with frame_path_inside [OF b] show ?thesis by (simp add: last_component_def)
qed

text \<open>
  C13: for a path of 1 to 4096 characters \<open>make_directory_recursive\<close> checks or creates its ancestors, from
  the root on, and then the path itself, and stops at the first that fails; any other argument is
  refused with \<open>EINVAL\<close> before the file system is touched.
\<close>
theorem make_directory_recursive_prefixes:
  "make_directory_recursive e path = (case path of
     None \<Rightarrow> return EINVAL
   | Some p \<Rightarrow> if p = [] \<or> 4096 < length p then return EINVAL else make_all e (dir_prefixes p))"
proof (cases path)
  case (Some p)
  show ?thesis
  proof (cases "p = [] \<or> 4096 < length p")
    case False
    then have "take 1 p \<noteq> []" "length (take 1 p) = 1" by (cases p; simp)+
    with False Some show ?thesis
      by (simp add: make_directory_recursive_eq dir_prefixes_def make_all_append make_parents_all del: upt_Suc)
  qed (auto simp: Some make_directory_recursive_def)
qed (simp add: make_directory_recursive_def)

end
