(* ===== verification/Clients_Props.thy ===== *)
theory Clients_Props
  imports Telegram
begin

text \<open>
  Properties of the three services: what a successful result means, that nothing is left behind,
  and what of the response and of the configuration reaches the request.
\<close>

section \<open>The field of the response\<close>

definition status_key :: string where
  "status_key = [CHR 0x22, CHR ''s'', CHR ''t'', CHR ''a'', CHR ''t'', CHR ''u'', CHR ''s'', CHR 0x22]"

text \<open>A text is found where it first occurs.\<close>

lemma c_strstr_first:
  assumes "\<not> sublist sub (pre @ butlast sub)" and "sub \<noteq> []"
  shows "c_strstr (pre @ sub @ rest) sub = Some (length pre)"
proof (cases "c_strstr (pre @ sub @ rest) sub")
  case None
  from c_strstr_None [OF this, of "length pre"] show ?thesis by simp
next
  case (Some k)
  note k = c_strstr_Some [OF Some]
  have "\<not> k < length pre"
  proof
    assume less: "k < length pre"
    have here: "take (length sub) (drop k (pre @ sub @ rest)) = sub"
    proof -
      from k obtain zs where zs: "drop k (pre @ sub @ rest) = sub @ zs" unfolding prefix_def by blast
      show ?thesis unfolding zs by simp
    qed
    have "take (length sub) (drop k (pre @ sub @ rest)) = take (length sub) (drop k (pre @ butlast sub))"
    proof -
      have "pre @ sub @ rest = (pre @ butlast sub) @ last sub # rest"
        using assms(2) by (simp add: append_butlast_last_id [symmetric])
      then show ?thesis using less assms(2) by (cases sub) (auto simp: take_append)
    qed
    with here have "sublist sub (pre @ butlast sub)"
      by (metis sublist_drop sublist_take sublist_order.order.trans)
    with assms(1) show False by simp
  qed
  moreover have "\<not> length pre < k"
    using k by auto
  ultimately show ?thesis using Some by simp
qed

lemma scan_status_field:
  assumes "sep \<noteq> []" and "\<forall>c \<in> set sep. not_number c" and "rest = [] \<or> \<not> is_digit (hd rest)"
  shows "scan_status (status_key @ sep @ dec_int n @ rest) = Some n"
proof -
  have "dec_int n \<noteq> [] \<and> \<not> not_number (hd (dec_int n))"
  proof -
    have "dec_int n \<noteq> []" using dec_nat_not_Nil by (simp add: dec_int_def)
    then have "hd (dec_int n) \<in> set (dec_int n)" by simp
    with \<open>dec_int n \<noteq> []\<close> set_dec_int [of _ n] show ?thesis by (auto simp: not_number_def)
  qed
  then have split: "takeWhile not_number (sep @ dec_int n @ rest) = sep"
      "dropWhile not_number (sep @ dec_int n @ rest) = dec_int n @ rest"
    using assms(2) by (cases "dec_int n"; simp)+
  have "drop 8 (status_key @ sep @ dec_int n @ rest) = sep @ dec_int n @ rest"
    by (simp add: status_key_def)
  with split assms(1) scan_int_dec_int [OF assms(3)] show ?thesis
    by (simp add: scan_status_def Let_def)
qed

section \<open>Services for the witnesses\<close>

text \<open>Libraries and a server that answer every request with code 200, and initialized clients.\<close>

definition code_200 :: env where
  "code_200 = (env_of (\<lambda>_ c. case c of
       Curl (CurlEasyGetResponseCode _) \<Rightarrow> \<lparr>rv = 0, rerr = 1, rints = [200], rstr = [], rstrs = []\<rparr>
     | Curl (CurlEasyPerform _) \<Rightarrow>
         \<lparr>rv = 0, rerr = 1, rints = [], rstr = [], rstrs = [''{'' @ status_key @ '':1'', ''}'']\<rparr>
     | _ \<Rightarrow> err_reply 7 1))\<lparr>lanswer := \<lambda>_ _. err_reply 0 1\<rparr>"

definition clients_start :: telegram_st where
  "clients_start = log_st.extend (log_start\<lparr>console_messages := 0\<rparr>) \<lparr>g_gpio_chip = 0, g_pin_ctxs = 0, pin_ctx_mem = [], g_num_lines = 0,
     g_library_opened = 0, g_capture_path = ''/c'', g_snapshot_url = CAPTURER_SNAPSHOT_URL, g_initialized = 1,
     g_curl_global_initialized = 1, oc_capture_path = ''/c/'', oc_remote_dir = ''d/'', oc_server_url = ''http://h/'',
     oc_user_id = ''u'', oc_user_password = ''p'', owncloud_initialized = 1, po_token_id = ''t'', po_user_id = ''u'',
     po_server_url = PUSHOVER_SEND_MSG_URL, pushover_initialized = 1, tg_chat_id = ''1'', tg_api_token = ''2:x'',
     telegram_initialized = 1\<rparr>"

lemmas run_client_defs = setopts_def curl_easy_perform_def rout_def code_200_def clients_start_def log_st.defs
  log_start_def run_defs c_realloc_def curl_write_callback_fn_def log_printf_def msg_printf_def

lemma clients_start_trace [simp]: "trace clients_start = []"
  by (simp add: clients_start_def log_st.defs log_start_def)

lemma code_200_laws: "errno_stays_set code_200" "res_ok (trace clients_start)"
  by (auto simp: errno_stays_set_def res_ok_def code_200_def env_of_def err_reply_def
    split: call.splits curl_call.splits)

section \<open>Properties\<close>

text \<open>
  C16: \<open>upload_capture\<close> gives back the file and the handle whatever happens and changes no variable; it
  reports success only when the client was initialized, the name was not empty and the server has
  answered the upload with a code of 200 to 299.
\<close>
theorem upload_confirmed:
  assumes "run_state (upload_capture e name) s = (ret, t)" and "errno_stays_set e" and "res_ok (trace s)"
  shows "clean (trace s) (trace t) \<and> ub t = ub s \<and> hang t = hang s \<and> log_st.more t = log_st.more s \<and>
    (ret = 0 \<longrightarrow> owncloud_initialized s \<noteq> 0 \<and> name \<noteq> [] \<and> confirmed http_ok (trace s) (trace t))"
proof -
  have "wp (upload_capture e name) (\<lambda>ret t. upload_result e s name ret (trace t) \<and>
      ub t = ub s \<and> hang t = hang s \<and> log_st.more t = log_st.more s) s"
    by (rule wp_upload_capture [OF assms(3)]) simp
  from wp_runD [OF this assms(1)] assms(2) show ?thesis by (simp add: upload_result_def)
qed

lemma upload_confirmed_witness:
  "fst (run_state (upload_capture code_200 ''x.jpg'') clients_start) = 0 \<and>
   confirmed http_ok [] (trace (snd (run_state (upload_capture code_200 ''x.jpg'') clients_start)))"
proof -
  let ?m = "upload_capture code_200 ''x.jpg''"
  have r: "fst (run_state ?m clients_start) = 0" 
    by (simp add: upload_capture_def upload_request_def upload_opts_def c_store_def MAX_URL_LEN_def run_client_defs)
  then have "run_state ?m clients_start = (0, snd (run_state ?m clients_start))" by (simp add: prod_eq_iff)
  from upload_confirmed [OF this code_200_laws] r show ?thesis by simp
qed

text \<open>
  C14: \<open>send_pushover_notification\<close> frees every escaped text, the response and the handle, whichever of
  the allocations fails, and reports success only for a message that fits and whose request the server has
  answered with code 200; what the body of the answer must say besides is stated below.
\<close>
theorem pushover_confirmed:
  assumes "run_state (send_pushover_notification e msg prio) s = (ret, t)" and "res_ok (trace s)"
  shows "clean (trace s) (trace t) \<and> ub t = ub s \<and> hang t = hang s \<and> log_st.more t = log_st.more s \<and>
    (ret = 0 \<longrightarrow> pushover_initialized s \<noteq> 0 \<and> strlen msg < MAX_PUSHOVER_MSG_SIZE \<and>
      confirmed http_200 (trace s) (trace t))"
proof -
  have "wp (send_pushover_notification e msg prio) (\<lambda>ret t. (clean (trace s) (trace t) \<and>
      (ret = 0 \<longrightarrow> pushover_initialized s \<noteq> 0 \<and> strlen msg < MAX_PUSHOVER_MSG_SIZE \<and>
        confirmed http_200 (trace s) (trace t))) \<and>
      ub t = ub s \<and> hang t = hang s \<and> log_st.more t = log_st.more s) s"
    by (rule wp_send_pushover [OF assms(2)]) simp
  from wp_runD [OF this assms(1)] show ?thesis by simp
qed

lemma pushover_confirmed_witness:
  "fst (run_state (send_pushover_notification code_200 ''hi'' ''2'') clients_start) = 0 \<and>
   confirmed http_200 [] (trace (snd (run_state (send_pushover_notification code_200 ''hi'' ''2'') clients_start)))"
proof -
  let ?m = "send_pushover_notification code_200 ''hi'' ''2''"
  have r: "fst (run_state ?m clients_start) = 0"
    by (simp add: send_pushover_notification_def post_pushover_def check_pushover_response_def pushover_opts_def
      pushover_fields_Some MAX_PUSHOVER_MSG_SIZE_def check_pushover_body_def run_client_defs status_key_def c_strstr.simps c_text_def
      scan_status_def scan_int_def not_number_def is_digit_def is_space_def)
  then have "run_state ?m clients_start = (0, snd (run_state ?m clients_start))" by (simp add: prod_eq_iff)
  from pushover_confirmed [OF this code_200_laws(2)] r show ?thesis by simp
qed

text \<open>
  C15: \<open>send_telegram_message\<close> gives back everything it acquires and reports success only when the client
  was initialized and the server has confirmed the message with code 200.
\<close>
theorem telegram_confirmed:
  assumes "run_state (send_telegram_message e msg) s = (ret, t)" and "res_ok (trace s)"
  shows "clean (trace s) (trace t) \<and> ub t = ub s \<and> hang t = hang s \<and> log_st.more t = log_st.more s \<and>
    (ret = 0 \<longrightarrow> telegram_initialized s \<noteq> 0 \<and> confirmed http_200 (trace s) (trace t))"
proof -
  have "wp (send_telegram_message e msg) (\<lambda>ret t. (clean (trace s) (trace t) \<and>
      (ret = 0 \<longrightarrow> telegram_initialized s \<noteq> 0 \<and> confirmed http_200 (trace s) (trace t))) \<and>
      ub t = ub s \<and> hang t = hang s \<and> log_st.more t = log_st.more s) s"
    by (rule wp_send_telegram [OF assms(2)]) simp
  from wp_runD [OF this assms(1)] show ?thesis by simp
qed

lemma telegram_confirmed_witness:
  "fst (run_state (send_telegram_message code_200 ''hi'') clients_start) = 0 \<and>
   confirmed http_200 [] (trace (snd (run_state (send_telegram_message code_200 ''hi'') clients_start)))"
proof -
  let ?m = "send_telegram_message code_200 ''hi''"
  have r: "fst (run_state ?m clients_start) = 0"
    by (simp add: send_telegram_message_def post_telegram_def check_telegram_response_def telegram_opts_def
      url_and_fields run_client_defs)
  then have "run_state ?m clients_start = (0, snd (run_state ?m clients_start))" by (simp add: prod_eq_iff)
  from telegram_confirmed [OF this code_200_laws(2)] r show ?thesis by simp
qed

text \<open>
  C25: in a response whose first \<open>"status"\<close> is followed by a separator and a number of a C \<open>int\<close>, with no zero
  byte before it, that number is what the client reads: the result is 0 for the status 1 and \<open>EBADRQC\<close> for any
  other, and no other byte of the response matters.
\<close>
theorem pushover_status_read:
  assumes "data \<noteq> 0" and "\<not> sublist status_key (pre @ butlast status_key)"
    and "sep \<noteq> []" and "\<forall>c \<in> set sep. not_number c"
    and "CHR 0x00 \<notin> set pre" and "CHR 0x00 \<notin> set sep"
    and "- (2 ^ 31) \<le> n" and "n < 2 ^ 31" and "rest = [] \<or> \<not> is_digit (hd rest)"
  shows "fst (run_state (check_pushover_body e (data, pre @ status_key @ sep @ dec_int n @ rest)) s) =
    (if n = 1 then 0 else EBADRQC)"
proof -
  have "CHR 0x00 \<notin> set (pre @ status_key @ sep @ dec_int n)"
    using assms(5,6) set_dec_int [of "CHR 0x00" n] by (auto simp: status_key_def is_digit_def)
  from c_text_append [OF this] have body: "c_text (pre @ status_key @ sep @ dec_int n @ rest) =
      pre @ status_key @ sep @ dec_int n @ c_text rest" by simp
  have "c_strstr (pre @ status_key @ sep @ dec_int n @ c_text rest) status_key = Some (length pre)"
    by (rule c_strstr_first [OF assms(2)]) (simp add: status_key_def)
  moreover have "c_text rest = [] \<or> \<not> is_digit (hd (c_text rest))" using assms(9) by (cases rest) (auto simp: c_text_def)
  ultimately show ?thesis
    using assms(1) scan_status_field [OF assms(3,4), of "c_text rest" n]
    by (simp add: check_pushover_body_def body status_key_def [symmetric] split: prod.splits)
qed

lemma pushover_status_read_witness:
  "fst (run_state (check_pushover_body code_200 (7, ''{'' @ status_key @ '':'' @ dec_int 0 @ ''}'')) clients_start) = 56"
proof -
  have "\<not> sublist status_key (''{'' @ butlast status_key)" by code_simp
  from pushover_status_read [OF _ this, of 7 "'':''" 0 "''}''" code_200 clients_start] show ?thesis
    by (simp add: not_number_def is_digit_def)
qed

end
