(* ===== verification/PortMapping.thy ===== *)
theory PortMapping
  imports Telegram
begin

text \<open>
  port_mapping.c: the forwarding of the web server's port in the router, by UPnP.  The library
  counts as initialized when the text \<open>Lan_address\<close> is not empty.  The URLs that miniupnpc
  allocates are represented by the calls that fill and free them.
\<close>

section \<open>State\<close>

record upnp_st = telegram_st +
  lan_address :: string

definition INET6_ADDRSTRLEN :: int where "INET6_ADDRSTRLEN = 46"

definition WEB_SERVER_PORT :: string where "WEB_SERVER_PORT = ''8008''"

text \<open>LAN address (\<open>None\<close> for the local host), WAN port, LAN port, protocol, description; the
  table ends where there is no WAN port.\<close>

type_synonym port_mapping = "string option \<times> string \<times> string \<times> string \<times> string"

definition Port_mappings :: "port_mapping list" where
  "Port_mappings = [(None, WEB_SERVER_PORT, WEB_SERVER_PORT, ''TCP'', ''webcam RPi'')]"

section \<open>Operations\<close>

text \<open>The external address: the result of the call and the text for the caller's buffer.\<close>

definition external_address :: "env \<Rightarrow> ('z upnp_st_scheme, string) state" where
  "external_address e = do {
     r \<leftarrow> sys e (Net UpnpGetExternalIPAddress);
     if rv r = 0 then do {
       let wan_address_buf = buffer_take (INET6_ADDRSTRLEN - 1) (rstr r);
       log_printf e '' External IP: %s (according to UPNP IGD)\<newline>'' [FStr wan_address_buf];
       return wan_address_buf
     } else do {
       log_printf e '' Could not get external IP address. ret error=%i\<newline>'' [FInt (rv r)];
       return []
     }
   }"

text \<open>The devices of the list: the texts \<open>descURL\<close> and \<open>st\<close> of each, which alternate in the reply.\<close>

fun devices :: "string list \<Rightarrow> (string \<times> string) list" where
  "devices (descURL # st # ds) = (descURL, st) # devices ds"
| "devices _ = []"

text \<open>
  The result code, and what is stored in the caller's buffer: \<open>None\<close> for nothing.  The library
  gives the list of the devices found, and 0 or an error number where there is none.
\<close>

definition init_UPNP :: "env \<Rightarrow> bool \<Rightarrow> ('z upnp_st_scheme, int \<times> string option) state" where
  "init_UPNP e wan_address = do {
     upnp_dev_list \<leftarrow> sys e (Net UpnpDiscover);
     if rv upnp_dev_list \<noteq> 0 then do {
       log_printf e ''List of UPNP devices found on the network :\<newline>'' [];
       forM (devices (rstrs upnp_dev_list))
         (\<lambda>dev. log_printf e ''-Descr. URL: %s\<newline> service type: %s\<newline>'' [FStr (fst dev), FStr (snd dev)]);
       igd \<leftarrow> sys e (Net (UpnpGetValidIGD (rv upnp_dev_list)));
       modify (\<lambda>s. s\<lparr>lan_address := buffer_take (INET6_ADDRSTRLEN - 1) (rstr igd)\<rparr>);
       res \<leftarrow> (if rv igd > 0 then do {
           lan \<leftarrow> gets lan_address;
           log_printf e '' LAN IP address: %s (according to UPNP IGD)\<newline>'' [FStr lan];
           addr \<leftarrow> external_address e;
           return (0, if wan_address then Some addr else None)
         } else do {
           log_printf e '' No valid Internet Gateway Device could be connected to. fn ret state=%i\<newline>'' [FInt (rv igd)];
           return (-1, None)
         });
       sysu e (Net (UpnpFreeDevlist (rv upnp_dev_list)));
       return res
     } else do {
       log_printf e ''Could not discover upnp device. ret error=%i\<newline>'' [FInt (rout upnp_dev_list)];
       return (rout upnp_dev_list, None)
     }
   }"

definition terminate_UPNP :: "env \<Rightarrow> ('z upnp_st_scheme, int) state" where
  "terminate_UPNP e = do {
     lan \<leftarrow> gets lan_address;
     if lan \<noteq> [] then do {
       sysu e (Net UpnpFreeUrls);
       modify (\<lambda>s. s\<lparr>lan_address := []\<rparr>);
       return 0
     } else return (-1)
   }"

fun add_mappings :: "env \<Rightarrow> string \<Rightarrow> port_mapping list \<Rightarrow> int \<Rightarrow> int \<Rightarrow> ('z upnp_st_scheme, int) state" where
  "add_mappings e lan [] map_index fn_error = return fn_error"
| "add_mappings e lan ((addr, wan_port, lan_port, protocol, descr) # rest) map_index fn_error = do {
     let curr_lan_addr = (case addr of None \<Rightarrow> lan | Some a \<Rightarrow> a);
     fn_error \<leftarrow> sysv e (Net (UpnpAddPortMapping wan_port lan_port curr_lan_addr descr protocol));
     whenM (fn_error \<noteq> 0)
       (log_printf e '' Failed to map port num. %i. ret error=%i\<newline>'' [FInt map_index, FInt fn_error]);
     add_mappings e lan rest (map_index + 1) fn_error
   }"

definition add_UPNP_mapping :: "env \<Rightarrow> ('z upnp_st_scheme, int) state" where
  "add_UPNP_mapping e = do {
     lan \<leftarrow> gets lan_address;
     if lan \<noteq> [] then add_mappings e lan Port_mappings 0 0 else return (-1)
   }"

definition ENTRY_HEADER :: string where
  "ENTRY_HEADER = '' Lan address'' @ [CHR 0x09] @ ''WAN->LANport'' @ [CHR 0x09] @ ''Prot'' @ [CHR 0x09] @
     ''Dur'' @ [CHR 0x09] @ ''En?'' @ [CHR 0x09] @ ''R.Host'' @ [CHR 0x09] @ ''Descr.'' @ [CHR 0x0A]"

definition ENTRY_FORMAT :: string where
  "ENTRY_FORMAT = '' %s'' @ [CHR 0x09] @ ''%s -> %s'' @ [CHR 0x09] @ ''%s'' @ [CHR 0x09] @ ''%s'' @ [CHR 0x09] @
     ''%s'' @ [CHR 0x09, CHR 0x22] @ ''%s'' @ [CHR 0x22, CHR 0x09] @ ''%s'' @ [CHR 0x0A]"

text \<open>The loop that lists the mappings until the router has no more: the index and the last result.
  The texts of an entry are \<open>rstrs\<close> of the reply.\<close>

definition print_step :: "env \<Rightarrow> int \<times> int \<Rightarrow> ('z upnp_st_scheme, int \<times> int) state" where
  "print_step e = (\<lambda>(map_index, _). do {
     let map_index_str = (case c_snprintf 32 ''%d'' [FInt map_index] of None \<Rightarrow> [] | Some x \<Rightarrow> x);
     r \<leftarrow> sys e (Net (UpnpGetGenericPortMappingEntry map_index_str));
     whenM (rv r = 0) (log_printf e ENTRY_FORMAT (map FStr (rstrs r)));
     return (map_index + 1, rv r)
   })"

definition print_UPNP_mapping :: "env \<Rightarrow> ('z upnp_st_scheme, int) state" where
  "print_UPNP_mapping e = do {
     lan \<leftarrow> gets lan_address;
     if lan \<noteq> [] then do {
       log_printf e ENTRY_HEADER [];
       (_, get_entry_error) \<leftarrow> while_fuel (fuel e) (\<lambda>(_, get_entry_error). return (get_entry_error = 0))
         (print_step e) (0, 0);
       return get_entry_error
     } else return (-1)
   }"

fun delete_mappings :: "env \<Rightarrow> port_mapping list \<Rightarrow> int \<Rightarrow> int \<Rightarrow> ('z upnp_st_scheme, int) state" where
  "delete_mappings e [] map_index fn_error = return fn_error"
| "delete_mappings e ((addr, wan_port, lan_port, protocol, descr) # rest) map_index fn_error = do {
     fn_error \<leftarrow> sysv e (Net (UpnpDeletePortMapping wan_port protocol));
     whenM (fn_error \<noteq> 0)
       (log_printf e '' Failed to delete port mapping num. %i. ret error=%i\<newline>'' [FInt map_index, FInt fn_error]);
     delete_mappings e rest (map_index + 1) fn_error
   }"

definition delete_UPNP_mapping :: "env \<Rightarrow> ('z upnp_st_scheme, int) state" where
  "delete_UPNP_mapping e = do {
     lan \<leftarrow> gets lan_address;
     if lan \<noteq> [] then delete_mappings e Port_mappings 0 0 else return (-1)
   }"

end
