(* ===== verification/PublicIp.thy ===== *)
theory PublicIp
  imports PortMapping "HOL-Library.Word"
begin

unbundle bit_operations_syntax

text \<open>
  public_ip.c: the public address of the router, which is what a certain name server answers to
  a query for a certain name.  An IPv4 address is the 32-bit word \<open>s_addr\<close>, in network order
  on a little-endian machine.  The resolver state is a local variable of the function: that the function puts back the options
  and servers of the state before it returns has no effect outside.
\<close>

section \<open>Addresses\<close>

type_synonym in_addr = "32 word"

definition octet :: "nat \<Rightarrow> in_addr \<Rightarrow> int" where
  "octet i a = uint (drop_bit (8 * i) a AND 255)"

definition inet_ntoa :: "in_addr \<Rightarrow> string" where
  "inet_ntoa a = dec_int (octet 0 a) @ ''.'' @ dec_int (octet 1 a) @ ''.'' @
     dec_int (octet 2 a) @ ''.'' @ dec_int (octet 3 a)"

definition OPENDNS_NAME :: string where "OPENDNS_NAME = ''resolver1.opendns.com''"

definition PUBLIC_IP_RECORD :: string where "PUBLIC_IP_RECORD = ''myip.opendns.com''"

section \<open>Messages for error codes\<close>

text \<open>HOST_NOT_FOUND, NO_DATA and TRY_AGAIN of netdb.h; the return codes of nameser.h.\<close>

definition herror_msg :: "int \<Rightarrow> string" where
  "herror_msg herror_cod =
     (if herror_cod = 1 then ''Unknown specified host''
      else if herror_cod = 4 then ''No NS records for specified domain''
      else if herror_cod = 2 then ''No response for NS query''
      else ''Unexpected error'')"

definition resp_code_msg :: "int \<Rightarrow> string" where
  "resp_code_msg rcode =
     (if rcode = 1 then ''FORMERR response''
      else if rcode = 2 then ''SERVFAIL response''
      else if rcode = 3 then ''NXDOMAIN response''
      else if rcode = 4 then ''NOTIMP response''
      else if rcode = 5 then ''REFUSED response''
      else ''unexpected return code'')"

section \<open>Resolving a name\<close>

text \<open>The loop over the results: the result code and the address stored last.\<close>

fun pick_address :: "in_addr list \<Rightarrow> in_addr option \<Rightarrow> int \<times> in_addr option" where
  "pick_address [] ip_addr = (-1, ip_addr)"
| "pick_address (a # as) ip_addr = (if a \<noteq> 0 then (0, Some a) else pick_address as (Some a))"

definition hostname_to_ip :: "env \<Rightarrow> string \<Rightarrow> ('z log_st_scheme, int \<times> in_addr option) state" where
  "hostname_to_ip e hostname = do {
     r \<leftarrow> sys e (Net (Getaddrinfo hostname));
     if rv r = 0 then do {
       let res = pick_address (map word_of_int (rints r)) None;
       sysu e (Net Freeaddrinfo);
       return res
     } else do {
       log_printf e ''Error resolving IP of hostname %s. error: %s\<newline>'' [FStr hostname, FGaiErr (rv r)];
       return (rv r, None)
     }
   }"

section \<open>The query\<close>

text \<open>The resolver state: options, number of name servers and their addresses.\<close>

record res_state =
  rs_options :: "32 word"
  rs_nscount :: int
  rs_addrs :: "in_addr list"

definition RES_DEFNAMES :: "32 word" where "RES_DEFNAMES = 128"

definition res_state_of :: "reply \<Rightarrow> res_state" where
  "res_state_of r = \<lparr>rs_options = word_of_int (rout r), rs_nscount = rout2 r,
     rs_addrs = map word_of_int (drop 2 (rints r))\<rparr>"

text \<open>The state for the query: no default domain and the given name server only.\<close>

definition use_server :: "in_addr \<Rightarrow> res_state \<Rightarrow> res_state" where
  "use_server dns_ip st = st\<lparr>rs_options := rs_options st AND NOT RES_DEFNAMES,
     rs_nscount := 1, rs_addrs := dns_ip # drop 1 (rs_addrs st)\<rparr>"

text \<open>The answer record: the result code and the address.\<close>

definition read_record :: "env \<Rightarrow> in_addr \<Rightarrow> ('z log_st_scheme, int \<times> in_addr option) state" where
  "read_record e dns_ip = do {
     fn_ret \<leftarrow> sysv e (Net NsParserr);
     er \<leftarrow> gets errno;
     if fn_ret = 0 then do {
       resp_type \<leftarrow> sysv e (Net NsRrType);
       if resp_type = 1 then do {
         record_data \<leftarrow> sys e (Net NsRrRdata);
         disp \<leftarrow> sys e (Net InetNtop);
         whenM (rv disp \<noteq> 0) (log_printf e ''> %s\<newline>'' [FStr (rstr disp)]);
         return (0, Some (word_of_int (rout record_data)))
       } else do {
         log_printf e ''%s: expected answer type %d, got %d\<newline>''
           [FStr (inet_ntoa dns_ip), FInt 1, FInt resp_type];
         return (-2, None)
       }
     } else do {
       log_printf e ''ns_parserr: %s\<newline>'' [FErr er];
       return (fn_ret, None)
     }
   }"

definition read_response :: "env \<Rightarrow> in_addr \<Rightarrow> ('z log_st_scheme, int \<times> in_addr option) state" where
  "read_response e dns_ip = do {
     fn_ret \<leftarrow> sysv e (Net NsInitparse);
     er \<leftarrow> gets errno;
     if fn_ret \<ge> 0 then do {
       resp_error_code \<leftarrow> sysv e (Net NsGetRcode);
       if resp_error_code = 0 then do {
         answer_count \<leftarrow> sysv e (Net NsMsgCount);
         if answer_count = 1 then read_record e dns_ip
         else do {
           log_printf e ''%s: expected 1 answer, got %d\<newline>'' [FStr (inet_ntoa dns_ip), FInt answer_count];
           return (-1, None)
         }
       } else do {
         log_printf e ''DNS response reported an error (domain: %s): %s\<newline>''
           [FStr (inet_ntoa dns_ip), FStr (resp_code_msg resp_error_code)];
         return (-4, None)
       }
     } else do {
       log_printf e ''ns_initparse: %s\<newline>'' [FErr er];
       return (fn_ret, None)
     }
   }"

text \<open>The query to the server and its answer; the second number of the reply is \<open>h_errno\<close>.\<close>

definition query_server :: "env \<Rightarrow> in_addr \<Rightarrow> string \<Rightarrow> res_state \<Rightarrow>
    ('z log_st_scheme, int \<times> in_addr option) state" where
  "query_server e dns_ip domain_name res_stat = do {
     r \<leftarrow> sys e (Net (ResNquery domain_name (map uint (take (nat (rs_nscount res_stat)) (rs_addrs res_stat)))
       (uint (rs_options res_stat))));
     er \<leftarrow> gets errno;
     if rv r \<noteq> -1 then read_response e dns_ip
     else do {
       (if er = ECONNREFUSED
        then log_printf e ''Connection refused: There is no name server running on %s\<newline>''
          [FStr (inet_ntoa dns_ip)]
        else log_printf e ''There was no response from %s (h_errno: %i: %s)\<newline>''
          [FStr (inet_ntoa dns_ip), FInt (rout r), FStr (herror_msg (rout r))]);
       return (-3, None)
     }
   }"

definition hostname_to_ip_at_dns :: "env \<Rightarrow> string \<Rightarrow> string \<Rightarrow>
    ('z log_st_scheme, int \<times> in_addr option) state" where
  "hostname_to_ip_at_dns e dns_server domain_name = do {
     r \<leftarrow> sys e (Net ResNinit);
     er \<leftarrow> gets errno;
     if rv r = 0 then do {
       (fn_ret, dns_ip) \<leftarrow> hostname_to_ip e dns_server;
       if fn_ret = 0 then do {
         require (dns_ip \<noteq> None);
         let ip = (case dns_ip of None \<Rightarrow> word_of_int (junk e) | Some a \<Rightarrow> a);
         query_server e ip domain_name (use_server ip (res_state_of r))
       } else return (fn_ret, None)
     } else do {
       log_printf e ''res_init error. errno:%i\<newline>'' [FInt er];
       return (rv r, None)
     }
   }"

text \<open>The result code and the text stored in the caller's buffer, \<open>None\<close> when nothing is.\<close>

definition get_public_ip :: "env \<Rightarrow> ('z log_st_scheme, int \<times> string option) state" where
  "get_public_ip e = do {
     (fn_ret, public_ip_addr) \<leftarrow> hostname_to_ip_at_dns e OPENDNS_NAME PUBLIC_IP_RECORD;
     if fn_ret = 0 then do {
       require (public_ip_addr \<noteq> None);
       return (fn_ret, Some (inet_ntoa (case public_ip_addr of None \<Rightarrow> word_of_int (junk e) | Some a \<Rightarrow> a)))
     } else return (fn_ret, None)
   }"

end
