(* ===== verification/Polling.thy ===== *)
theory Polling
  imports PublicIp
begin

text \<open>
  gpio_polling.c: the monitor.  It sets up the pins and the clients, and its thread reads the
  arming pin and the contacts once per second and reports every change of a contact.
\<close>

section \<open>State\<close>

record polling_st = upnp_st +
  msg_info_str :: string
  full_capture_path :: string

definition PUSHOVER_CONFIG_FILENAME :: string where "PUSHOVER_CONFIG_FILENAME = ''pushover_conf.txt''"

definition OWNCLOUD_CONFIG_FILENAME :: string where "OWNCLOUD_CONFIG_FILENAME = ''owncloud_conf.txt''"

definition TELEGRAM_CONFIG_FILENAME :: string where "TELEGRAM_CONFIG_FILENAME = ''telegram_conf.txt''"

definition OWNCLOUD_REMOTE_DIRECTORY :: string where "OWNCLOUD_REMOTE_DIRECTORY = ''captures''"

definition PIR_POLLING_PERIOD_SECS :: nat where "PIR_POLLING_PERIOD_SECS = 1000"

definition Alarm_gpios :: "int list" where "Alarm_gpios = [CONTACT1_GPIO, CONTACT2_GPIO]"

definition MAX_NOTIF_MSG_SIZE :: int where
  "MAX_NOTIF_MSG_SIZE = (if MAX_PUSHOVER_MSG_SIZE < MAX_TELEGRAM_MSG_SIZE then MAX_PUSHOVER_MSG_SIZE
     else MAX_TELEGRAM_MSG_SIZE)"

definition MSG_INFO_SIZE :: int where "MSG_INFO_SIZE = INET6_ADDRSTRLEN + 100"

section \<open>Notifications\<close>

text \<open>A formatted text; a format that does not fit its arguments is undefined behaviour.\<close>

definition formatted :: "string option \<Rightarrow> ('z world_scheme, string) state" where
  "formatted x = do { require (x \<noteq> None); return (case x of None \<Rightarrow> [] | Some t \<Rightarrow> t) }"

definition send_info_notif :: "env \<Rightarrow> string \<Rightarrow> string \<Rightarrow> ('z polling_st_scheme, int) state" where
  "send_info_notif e msg_str msg_priority = do {
     info \<leftarrow> gets msg_info_str;
     tot_msg_str \<leftarrow> formatted (c_snprintf MAX_NOTIF_MSG_SIZE ''%s. %s'' [FStr info, FStr msg_str]);
     ret_err1 \<leftarrow> send_telegram_message e tot_msg_str;
     ret_err2 \<leftarrow> send_pushover_notification e tot_msg_str msg_priority;
     return (if ret_err1 \<noteq> 0 then ret_err1 else ret_err2)
   }"

text \<open>The result code, hour, minute and second.\<close>

definition get_current_time :: "env \<Rightarrow> ('z log_st_scheme, int \<times> int \<times> int \<times> int) state" where
  "get_current_time e = do {
     since \<leftarrow> lsys e LTime;
     r \<leftarrow> lsys e (LLocaltime (rv since));
     er \<leftarrow> gets errno;
     return (if rv r \<noteq> 0 then (0, tm_hour (tm_of r), tm_min (tm_of r), tm_sec (tm_of r))
             else (er, 0, 0, 0))
   }"

definition update_ip_msg :: "env \<Rightarrow> string \<Rightarrow> ('z polling_st_scheme, int) state" where
  "update_ip_msg e msg_info_fmt = do {
     (ret_err, wan_address) \<leftarrow> get_public_ip e;
     whenM (ret_err = 0) (do {
       let wan = (case wan_address of None \<Rightarrow> [] | Some a \<Rightarrow> a);
       curr_msg_info_str \<leftarrow> formatted (c_snprintf MSG_INFO_SIZE msg_info_fmt [FStr wan]);
       info \<leftarrow> gets msg_info_str;
       whenM (curr_msg_info_str \<noteq> info) (do {
         modify (\<lambda>s. s\<lparr>msg_info_str := curr_msg_info_str\<rparr>);
         log_printf e ''Public IP address: %s\<newline>'' [FStr wan];
         _ \<leftarrow> send_info_notif e ''Alarm4pi running. Public IP obtained'' ''-2'';
         return ()
       })
     });
     return ret_err
   }"

section \<open>Captures\<close>

definition get_localtime_filename :: "env \<Rightarrow> nat \<Rightarrow> ('z log_st_scheme, string) state" where
  "get_localtime_filename e n = get_localtime_str e n ''%Y-%m-%d_%Hh%Mm%Ss''"

definition MAX_TIME_FILENAME_LEN :: nat where "MAX_TIME_FILENAME_LEN = 20"

definition IMAGE_FILENAME_END :: string where "IMAGE_FILENAME_END = ''.jpg''"

definition IMAGE_FILENAME_SIZE :: nat where
  "IMAGE_FILENAME_SIZE = MAX_TIME_FILENAME_LEN + (length IMAGE_FILENAME_END + 1) + 1"

definition compose_capture_filename :: "env \<Rightarrow> ('z log_st_scheme, string) state" where
  "compose_capture_filename e = do {
     x \<leftarrow> get_localtime_filename e IMAGE_FILENAME_SIZE;
     c_store (int IMAGE_FILENAME_SIZE) (x @ IMAGE_FILENAME_END)
   }"

text \<open>The recording of a video by a program; \<open>None\<close> in the child.\<close>

definition capture_images_cmd :: "env \<Rightarrow> string \<Rightarrow> ('z polling_st_scheme, unit option) state" where
  "capture_images_cmd e image_filename = do {
     dir \<leftarrow> gets full_capture_path;
     if strlen dir + strlen image_filename < PATH_MAX + 1 then do {
       let full_image_file_path = dir @ image_filename;
       res \<leftarrow> run_background_command_out_log e ''rpicam-vid''
         [''rpicam-vid'', ''-n'', ''-t'', ''5s'', ''--framerate'', ''5'', ''-o'', full_image_file_path];
       case res of
         None \<Rightarrow> return None
       | Some (capture_run_ret, capture_proc_id) \<Rightarrow>
           if capture_run_ret = 0 then do {
             wait_ret \<leftarrow> sysv e (Proc (Waitpid capture_proc_id));
             (if wait_ret \<noteq> -1
              then log_printf e ''Presumably, a video file has been stored in %s\<newline>'' [FStr full_image_file_path]
              else log_printf e ''Error waiting for the capture process to finish\<newline>'' [FStr ''rpicam-vid'']);
             return (Some ())
           } else do {
             log_printf e ''Capture child process (%s) could not be executed\<newline>'' [FStr ''rpicam-vid''];
             return (Some ())
           }
     } else do {
       log_printf e ''The complete captured image filename (%s) could not be composed: path too long\<newline>''
         [FStr image_filename];
       return (Some ())
     }
   }"

section \<open>Alarm events\<close>

definition notif_text :: "int \<Rightarrow> int \<Rightarrow> string option" where
  "notif_text pin val = c_snprintf MAX_NOTIF_MSG_SIZE ''Sensor pin (GPIO %i) changed its value to %i\<newline>''
     [FInt pin, FInt val]"

text \<open>The message is also used as a format string; it must not ask for arguments.\<close>

definition on_alarm_event :: "env \<Rightarrow> int \<Rightarrow> int \<Rightarrow> ('z polling_st_scheme, unit) state" where
  "on_alarm_event e pin val = do {
     notif_msg \<leftarrow> formatted (notif_text pin val);
     require (c_format notif_msg [] \<noteq> None);
     event_printf e notif_msg [];
     _ \<leftarrow> send_info_notif e notif_msg ''2'';
     whenM (val \<noteq> PIN_LOW_VAL) (do {
       cap_filename \<leftarrow> compose_capture_filename e;
       _ \<leftarrow> capturer_get_frame e (Some cap_filename);
       _ \<leftarrow> upload_capture e cap_filename;
       return ()
     })
   }"

text \<open>
  With the macro \<open>RELAY1_ON_ALARM_EVENT\<close>, at night, the lamp on the first relay is switched on (the relay is active
  low) before the report, and gets its old state back afterwards.  The error -1 says that the state was not read.
\<close>

definition at_night :: "int \<times> int \<times> int \<times> int \<Rightarrow> bool" where
  "at_night now = (case now of (err, hour, _) \<Rightarrow> \<not> (err = 0 \<and> hour > 8 \<and> hour < 18))"

definition relay_switch_on :: "env \<Rightarrow> int \<Rightarrow> ('z polling_st_scheme, int \<times> int option) state" where
  "relay_switch_on e val = do {
     now \<leftarrow> get_current_time e;
     if at_night now \<and> val \<noteq> PIN_LOW_VAL then do {
       (gpio_read_err, old_gpio_val) \<leftarrow> gpio_read e RELAY1_GPIO False;
       whenM (gpio_read_err = 0) (do {
         ret \<leftarrow> gpio_write e RELAY1_GPIO PIN_LOW_VAL;
         whenM (ret = 0) (do { _ \<leftarrow> millisleep e 100; return () })
       });
       return (gpio_read_err, old_gpio_val)
     } else return (-1, None)
   }"

definition relay_restore :: "env \<Rightarrow> int \<Rightarrow> int \<times> int option \<Rightarrow> ('z polling_st_scheme, unit) state" where
  "relay_restore e val old = (case old of (gpio_read_err, old_gpio_val) \<Rightarrow>
     whenM (gpio_read_err = 0 \<and> val \<noteq> PIN_LOW_VAL) (do {
       _ \<leftarrow> gpio_write e RELAY1_GPIO (case old_gpio_val of None \<Rightarrow> junk e | Some v \<Rightarrow> v);
       return ()
     }))"

definition on_alarm_event_relay :: "env \<Rightarrow> int \<Rightarrow> int \<Rightarrow> ('z polling_st_scheme, unit) state" where
  "on_alarm_event_relay e pin val = do {
     old \<leftarrow> relay_switch_on e val;
     on_alarm_event e pin val;
     relay_restore e val old
   }"

section \<open>The polling thread\<close>

text \<open>The local variables of the thread: the last values of the contacts and the first error.\<close>

record poll_vars =
  last_pin_value :: "int list"
  read_err :: int

definition note_error :: "env \<Rightarrow> string \<Rightarrow> int \<Rightarrow> int \<Rightarrow> poll_vars \<Rightarrow> ('z log_st_scheme, poll_vars) state" where
  "note_error e fmt ret_err pin v =
     (if read_err v = 0 then do {
        log_printf e fmt [FInt ret_err, FInt pin, FErr ret_err];
        return (v\<lparr>read_err := ret_err\<rparr>)
      } else return v)"

text \<open>One contact of a round: pin number \<open>pin_ind\<close> of the list.\<close>

definition poll_pin :: "env \<Rightarrow> nat \<Rightarrow> poll_vars \<Rightarrow> ('z polling_st_scheme, poll_vars) state" where
  "poll_pin e pin_ind v = do {
     (ret_err, curr_pin_value) \<leftarrow> gpio_read e (Alarm_gpios ! pin_ind) False;
     if ret_err = 0 then do {
       require (curr_pin_value \<noteq> None);
       let val = (case curr_pin_value of None \<Rightarrow> junk e | Some x \<Rightarrow> x);
       if val \<noteq> last_pin_value v ! pin_ind then do {
         on_alarm_event e (Alarm_gpios ! pin_ind) val;
         return (v\<lparr>last_pin_value := (last_pin_value v)[pin_ind := val]\<rparr>)
       } else return v
     } else note_error e ''Error %i while reading GPIO (%i): %s\<newline>'' ret_err (Alarm_gpios ! pin_ind) v
   }"

fun poll_pins :: "env \<Rightarrow> nat list \<Rightarrow> poll_vars \<Rightarrow> ('z polling_st_scheme, poll_vars) state" where
  "poll_pins e [] v = return v"
| "poll_pins e (i # is) v = do { v \<leftarrow> poll_pin e i v; poll_pins e is v }"

text \<open>The body of the loop.\<close>

definition poll_round :: "env \<Rightarrow> poll_vars \<Rightarrow> ('z polling_st_scheme, poll_vars) state" where
  "poll_round e v = do {
     (ret_err, alarm_armed) \<leftarrow> gpio_read e ARMING_GPIO False;
     v \<leftarrow> (if ret_err = 0 then do {
         require (alarm_armed \<noteq> None);
         let armed = (case alarm_armed of None \<Rightarrow> junk e | Some x \<Rightarrow> x);
         if armed = PIN_LOW_VAL then poll_pins e [0..<length Alarm_gpios] v else return v
       } else note_error e ''Error %i while reading alarm arming GPIO (%i): %s\<newline>'' ret_err ARMING_GPIO v);
     _ \<leftarrow> millisleep e PIR_POLLING_PERIOD_SECS;
     return v
   }"

definition poll_start :: poll_vars where
  "poll_start = \<lparr>last_pin_value = replicate (length Alarm_gpios) 0, read_err = 0\<rparr>"

definition flag_clear :: "env \<Rightarrow> poll_vars \<Rightarrow> ('z polling_st_scheme, bool) state" where
  "flag_clear e v = do { flag \<leftarrow> sysv e (Os ReadFlag); return (flag = 0) }"

definition polling_thread :: "env \<Rightarrow> ('z polling_st_scheme, int) state" where
  "polling_thread e = do {
     event_printf e ''GPIO monitor initiated\<newline>'' [];
     v \<leftarrow> while_fuel (fuel e) (flag_clear e) (poll_round e) poll_start;
     event_printf e ''GPIO server terminated with error code: %i\<newline>'' [FInt (read_err v)];
     return (read_err v)
   }"

section \<open>Initialization\<close>

text \<open>The clients; a client that fails is only reported.\<close>

definition init_clients :: "env \<Rightarrow> ('z polling_st_scheme, unit) state" where
  "init_clients e = do {
     path \<leftarrow> gets full_capture_path;
     ret_err \<leftarrow> owncloud_init e OWNCLOUD_CONFIG_FILENAME path OWNCLOUD_REMOTE_DIRECTORY;
     whenM (ret_err \<noteq> 0)
       (log_printf e ''The captured image upload is disabled (error=%d)!\<newline>'' [FInt ret_err]);
     ret_err \<leftarrow> pushover_init e PUSHOVER_CONFIG_FILENAME;
     whenM (ret_err \<noteq> 0)
       (log_printf e ''The alarm-event notification through Pushover is disabled (error=%d)!\<newline>'' [FInt ret_err]);
     ret_err \<leftarrow> telegram_init e TELEGRAM_CONFIG_FILENAME;
     whenM (ret_err \<noteq> 0)
       (log_printf e ''The alarm-event notification through Telegram is disabled (erro=%d)!\<newline>'' [FInt ret_err]);
     ret_err \<leftarrow> capturer_init e (Some path);
     whenM (ret_err \<noteq> 0)
       (log_printf e ''The image downloader (capturer) in case of alarm-event is disabled (erro=%d)!\<newline>'' [FInt ret_err])
   }"

definition start_monitor :: "env \<Rightarrow> string \<Rightarrow> ('z polling_st_scheme, int) state" where
  "start_monitor e msg_info_fmt = do {
     init_clients e;
     modify (\<lambda>s. s\<lparr>msg_info_str := []\<rparr>);
     _ \<leftarrow> update_ip_msg e msg_info_fmt;
     ret_err \<leftarrow> sysv e (Os PthreadCreate);
     (if ret_err = 0 then log_printf e ''Polling thread initiated\<newline>'' []
      else log_printf e ''Error %i creating polling thread: %s\<newline>'' [FInt ret_err, FErr ret_err]);
     return ret_err
   }"

text \<open>The creation of the capture directory; \<open>Full_capture_path\<close> keeps its value when
  \<open>get_absolute_path\<close> stores nothing.\<close>

definition init_polling :: "env \<Rightarrow> string \<Rightarrow> string \<Rightarrow> ('z polling_st_scheme, int) state" where
  "init_polling e capture_path msg_info_fmt = do {
     (ret_err, path) \<leftarrow> get_absolute_path e (Some capture_path);
     modify (\<lambda>s. s\<lparr>full_capture_path := (case path of None \<Rightarrow> full_capture_path s | Some p \<Rightarrow> p)\<rparr>);
     if ret_err \<noteq> 0 then do {
       log_printf e ''Error obtaining the absolute capture path from %s (by using the current-process executable file path): errno=%d\<newline>''
         [FStr capture_path, FInt ret_err];
       return ret_err
     } else do {
       dir \<leftarrow> gets full_capture_path;
       mkdir_ret \<leftarrow> sysv e (File (Mkdir dir 511));
       er \<leftarrow> gets errno;
       if mkdir_ret = -1 \<and> er \<noteq> EEXIST then do {
         log_printf e ''The capture file directory (%s) cannot be created: errno=%d\<newline>'' [FStr dir, FInt er];
         return er
       } else do {
         ret_err \<leftarrow> open_gpios e;
         if ret_err = 0 then do {
           ret_err \<leftarrow> configure_gpios e;
           if ret_err = 0 then start_monitor e msg_info_fmt
           else do {
             log_printf e ''While configuring direcction of pins error %d: %s\<newline>'' [FInt ret_err, FErr ret_err];
             return ret_err
           }
         } else do {
           log_printf e ''While initializing GPIO pin control error %d: %s\<newline>'' [FInt ret_err, FErr ret_err];
           return ret_err
         }
       }
     }
   }"

definition wait_polling_end :: "env \<Rightarrow> ('z polling_st_scheme, int) state" where
  "wait_polling_end e = do {
     ret_err \<leftarrow> sysv e (Os (PthreadJoin 0));
     (if ret_err = 0 then log_printf e ''Polling thread terminated correctly\<newline>'' []
      else log_printf e ''Error waiting for the polling thread to finish\<newline>'' []);
     _ \<leftarrow> close_gpios e;
     return ret_err
   }"

definition deinit_polling :: "env \<Rightarrow> ('z polling_st_scheme, unit) state" where
  "deinit_polling e = do {
     owncloud_deinit e;
     pushover_deinit e;
     telegram_deinit e;
     capturer_deinit e
   }"

end
