(* ===== verification/ClientState.thy ===== *)
theory ClientState
  imports Polling
begin

text \<open>
  The static variables of the clients: which values the initializations leave, and how often
  libcurl has been initialized.
\<close>

section \<open>Initializations of libcurl\<close>

fun curl_refs :: "event list \<Rightarrow> int" where
  "curl_refs [] = 0"
| "curl_refs ((c, r) # tr) = curl_refs tr + (case c of
     Curl CurlGlobalInit \<Rightarrow> of_bool (rv r = 0) | Curl CurlGlobalCleanup \<Rightarrow> -1 | _ \<Rightarrow> 0)"

lemma curl_refs_adds: "adds is_File old new \<Longrightarrow> curl_refs new = curl_refs old"
proof -
  assume "adds is_File old new"
  then obtain evs where new: "new = evs @ old" and "\<forall>ev \<in> set evs. is_File (fst ev)"
    by (auto simp: adds_def)
  from this(2) show ?thesis
    unfolding new by (induction evs) (auto simp: is_File_def split: call.splits)
qed

section \<open>Usable values\<close>

text \<open>The values fit in the arrays, and a client that says it is initialized has all it needs.\<close>

definition capturer_ok :: "'z capturer_st_scheme \<Rightarrow> bool" where
  "capturer_ok s \<longleftrightarrow> length (g_capture_path s) \<le> 4096 \<and>
     (g_initialized s \<noteq> 0 \<longrightarrow> g_capture_path s \<noteq> [] \<and> g_snapshot_url s = CAPTURER_SNAPSHOT_URL \<and>
        g_curl_global_initialized s \<noteq> 0)"

definition owncloud_ok :: "'z owncloud_st_scheme \<Rightarrow> bool" where
  "owncloud_ok s \<longleftrightarrow> length (oc_capture_path s) \<le> 4096 \<and> length (oc_remote_dir s) \<le> 4096 \<and>
     length (oc_server_url s) \<le> MAX_URL_LEN + 1 \<and> word_ok MAX_CONF_STR_LEN (oc_user_id s) \<and>
     word_ok MAX_CONF_STR_LEN (oc_user_password s) \<and>
     (owncloud_initialized s \<noteq> 0 \<longrightarrow> oc_user_id s \<noteq> [] \<and> oc_user_password s \<noteq> [] \<and>
        (prefix URL_START_HTTP (oc_server_url s) \<or> prefix URL_START_HTTPS (oc_server_url s)) \<and>
        last (oc_server_url s) = CHR ''/'')"

definition pushover_ok :: "'z pushover_st_scheme \<Rightarrow> bool" where
  "pushover_ok s \<longleftrightarrow> word_ok MAX_CONF_STR_LEN (po_token_id s) \<and> word_ok MAX_CONF_STR_LEN (po_user_id s) \<and>
     length (po_server_url s) \<le> MAX_URL_LEN \<and>
     (pushover_initialized s \<noteq> 0 \<longrightarrow> po_token_id s \<noteq> [] \<and> po_user_id s \<noteq> [] \<and>
        prefix ''https://'' (po_server_url s))"

definition telegram_ok :: "'z telegram_st_scheme \<Rightarrow> bool" where
  "telegram_ok s \<longleftrightarrow> word_ok MAX_CONF_STR_LEN (tg_chat_id s) \<and> word_ok MAX_CONF_STR_LEN (tg_api_token s) \<and>
     (telegram_initialized s \<noteq> 0 \<longrightarrow> tg_chat_id s \<noteq> [] \<and> CHR '':'' \<in> set (tg_api_token s))"

definition clients_ok :: "'z telegram_st_scheme \<Rightarrow> bool" where
  "clients_ok s \<longleftrightarrow> capturer_ok s \<and> owncloud_ok s \<and> pushover_ok s \<and> telegram_ok s"

lemma bufs_values:
  "bufs_ok owncloud_vars bufs \<Longrightarrow> length (bufs ! 0) \<le> MAX_URL_LEN \<and>
     word_ok MAX_CONF_STR_LEN (bufs ! 1) \<and> word_ok MAX_CONF_STR_LEN (bufs ! 2)"
  "bufs_ok pushover_vars bufs \<Longrightarrow> length (bufs ! 0) \<le> MAX_URL_LEN \<and>
     word_ok MAX_CONF_STR_LEN (bufs ! 1) \<and> word_ok MAX_CONF_STR_LEN (bufs ! 2)"
  "bufs_ok telegram_vars bufs \<Longrightarrow> word_ok MAX_CONF_STR_LEN (bufs ! 0) \<and> word_ok MAX_CONF_STR_LEN (bufs ! 1)"
  by (auto simp: bufs_ok_def owncloud_vars_def pushover_vars_def telegram_vars_def list_all2_Cons1 word_ok_def)

lemma vars_positive:
  "\<forall>v \<in> set owncloud_vars. 0 < snd v" "\<forall>v \<in> set pushover_vars. 0 < snd v" "\<forall>v \<in> set telegram_vars. 0 < snd v"
  by (auto simp: owncloud_vars_def pushover_vars_def telegram_vars_def MAX_URL_LEN_def MAX_CONF_STR_LEN_def)

section \<open>The initializations\<close>

text \<open>An initialization keeps the other clients and the flag for undefined behaviour; a client that was
  not initialized has now initialized libcurl as often as its counter says.\<close>

definition telegram_rest where
  "telegram_rest s = (ub s, telegram_st.more s, capturer_ok s, owncloud_ok s, pushover_ok s,
     g_curl_global_initialized s, owncloud_initialized s, pushover_initialized s)"

lemmas client_ok_defs = capturer_ok_def owncloud_ok_def pushover_ok_def telegram_ok_def

lemma telegram_rest_simps [simp]:
  "telegram_rest (s\<lparr>trace := tr\<rparr>) = telegram_rest s" "telegram_rest (s\<lparr>ltrace := lt\<rparr>) = telegram_rest s"
  "telegram_rest (s\<lparr>errno := er\<rparr>) = telegram_rest s" "telegram_rest (s\<lparr>hang := h\<rparr>) = telegram_rest s"
  "telegram_rest (s\<lparr>lub := u\<rparr>) = telegram_rest s" "telegram_rest (s\<lparr>tg_chat_id := x\<rparr>) = telegram_rest s"
  "telegram_rest (s\<lparr>tg_api_token := x\<rparr>) = telegram_rest s"
  "telegram_rest (s\<lparr>telegram_initialized := i\<rparr>) = telegram_rest s"
  by (simp_all add: telegram_rest_def client_ok_defs)

definition telegram_init_post :: "'z telegram_st_scheme \<Rightarrow> 'z telegram_st_scheme \<Rightarrow> bool" where
  "telegram_init_post s t \<longleftrightarrow> telegram_ok t \<and> telegram_rest t = telegram_rest s \<and>
     (telegram_initialized s = 0 \<longrightarrow> (telegram_initialized t = 0 \<or> telegram_initialized t = 1) \<and>
        curl_refs (trace t) = curl_refs (trace s) + telegram_initialized t)"

lemma wp_check_telegram:
  assumes "word_ok MAX_CONF_STR_LEN (tg_chat_id s)" and "word_ok MAX_CONF_STR_LEN (tg_api_token s)"
    and "telegram_rest s = rest"
    and "\<And>ret t. telegram_ok t \<Longrightarrow> telegram_rest t = rest \<Longrightarrow> telegram_initialized t = 0 \<or> telegram_initialized t = 1 \<Longrightarrow>
      curl_refs (trace t) = curl_refs (trace s) + telegram_initialized t \<Longrightarrow> Q ret t"
  shows "wp (check_telegram_conf e) Q s"
  unfolding check_telegram_conf_def set_telegram_initialized_def
  using assms(1-3) by (auto intro!: wp_intro assms(4) simp: telegram_ok_def c_strchr_def)

lemma wp_telegram_init:
  assumes "telegram_ok s"
  shows "wp (telegram_init e name) (\<lambda>_. telegram_init_post s) s"
proof -
  have logs: "wp (return ()) R (t :: 'a telegram_st_scheme)" if "\<And>lt er u. R () (t\<lparr>ltrace := lt, errno := er, lub := u\<rparr>)" for R t
    using that [where lt = "ltrace t" and er = "errno t" and u = "lub t"] by simp
  have "wp (load_telegram_conf e name) (\<lambda>_. telegram_init_post s) t"
    if "telegram_rest t = telegram_rest s" "telegram_initialized t = telegram_initialized s"
      "curl_refs (trace t) = curl_refs (trace s)" "telegram_ok t" for t name
    unfolding load_telegram_conf_def set_telegram_initialized_def
    using that
    by (auto intro!: wp_intro wp_conf_loop [OF vars_positive(3) logs]
        wp_check_telegram [where rest = "telegram_rest s"]
      simp: telegram_init_post_def telegram_ok_def Let_def dest!: bufs_values(3))
  then show ?thesis
    unfolding telegram_init_def
    using assms by (auto intro!: wp_intro wp_conf_file_path simp: telegram_init_post_def telegram_ok_def)
qed

definition owncloud_rest where
  "owncloud_rest s = (ub s, telegram_st.more s, capturer_ok s, pushover_ok s, telegram_ok s, g_curl_global_initialized s,
     pushover_initialized s, telegram_initialized s)"

lemma owncloud_rest_simps [simp]:
  "owncloud_rest (s\<lparr>trace := tr\<rparr>) = owncloud_rest s" "owncloud_rest (s\<lparr>ltrace := lt\<rparr>) = owncloud_rest s"
  "owncloud_rest (s\<lparr>errno := er\<rparr>) = owncloud_rest s" "owncloud_rest (s\<lparr>hang := h\<rparr>) = owncloud_rest s"
  "owncloud_rest (s\<lparr>lub := u\<rparr>) = owncloud_rest s"
  "owncloud_rest (s\<lparr>oc_capture_path := x\<rparr>) = owncloud_rest s"
  "owncloud_rest (s\<lparr>oc_remote_dir := x\<rparr>) = owncloud_rest s"
  "owncloud_rest (s\<lparr>oc_server_url := x\<rparr>) = owncloud_rest s"
  "owncloud_rest (s\<lparr>oc_user_id := x\<rparr>) = owncloud_rest s"
  "owncloud_rest (s\<lparr>oc_user_password := x\<rparr>) = owncloud_rest s"
  "owncloud_rest (s\<lparr>owncloud_initialized := i\<rparr>) = owncloud_rest s"
  by (simp_all add: owncloud_rest_def client_ok_defs)

definition owncloud_init_post :: "'z telegram_st_scheme \<Rightarrow> 'z telegram_st_scheme \<Rightarrow> bool" where
  "owncloud_init_post s t \<longleftrightarrow> owncloud_ok t \<and> owncloud_rest t = owncloud_rest s \<and>
     (owncloud_initialized s = 0 \<longrightarrow> (owncloud_initialized t = 0 \<or> owncloud_initialized t = 1) \<and>
        curl_refs (trace t) = curl_refs (trace s) + owncloud_initialized t)"

lemma add_slash_facts: "length (add_slash p) \<le> Suc (length p)" "p \<noteq> [] \<Longrightarrow> last (add_slash p) = CHR ''/''"
    "add_slash p = [] \<longleftrightarrow> p = []"
  by (auto simp: add_slash_def)

lemma wp_check_owncloud:
  assumes "length (oc_capture_path s) \<le> 4096" "length (oc_remote_dir s) \<le> 4096"
    and "length (oc_server_url s) \<le> MAX_URL_LEN" and "word_ok MAX_CONF_STR_LEN (oc_user_id s)"
    and "word_ok MAX_CONF_STR_LEN (oc_user_password s)" and "owncloud_rest s = rest"
    and "\<And>ret t. owncloud_ok t \<Longrightarrow> owncloud_rest t = rest \<Longrightarrow> owncloud_initialized t = 0 \<or> owncloud_initialized t = 1 \<Longrightarrow>
      curl_refs (trace t) = curl_refs (trace s) + owncloud_initialized t \<Longrightarrow> Q ret t"
  shows "wp (check_owncloud_conf e) Q s"
proof -
  have slash: "length (add_slash (oc_server_url s)) \<le> Suc MAX_URL_LEN"
    using add_slash_facts(1) [of "oc_server_url s"] assms(3) by simp
  then have fits: "strlen (add_slash (oc_server_url s)) < int MAX_URL_LEN + 2" by simp
  show ?thesis
    unfolding check_owncloud_conf_def set_owncloud_initialized_def
    using assms(1-6) slash fits
    by (auto intro!: wp_intro assms(7) simp: owncloud_ok_def c_starts_with_def add_slash_facts(2,3))
qed

lemma wp_load_owncloud:
  assumes "owncloud_rest t = owncloud_rest s" "owncloud_initialized t = owncloud_initialized s"
    and "curl_refs (trace t) = curl_refs (trace s)" "owncloud_ok t"
  shows "wp (load_owncloud_conf e name) (\<lambda>_. owncloud_init_post s) t"
  unfolding load_owncloud_conf_def set_owncloud_initialized_def
  using assms
  by (auto intro!: wp_intro wp_conf_loop [OF vars_positive(1) wp_log_printf]
      wp_check_owncloud [where rest = "owncloud_rest s"]
    simp: owncloud_init_post_def owncloud_ok_def Let_def dest!: bufs_values(1))

lemma owncloud_paths:
  assumes "owncloud_ok s" and "strlen path + 1 \<le> 4096" and "strlen dir + 1 \<le> 4096"
  shows "owncloud_ok (s\<lparr>oc_capture_path := add_slash path, oc_remote_dir := add_slash dir\<rparr>) \<and>
    strlen (add_slash path) < 4097 \<and> strlen (add_slash dir) < 4097"
  using assms add_slash_facts(1) [of path] add_slash_facts(1) [of dir] by (auto simp: owncloud_ok_def)

lemma wp_owncloud_init:
  fixes s :: "'z telegram_st_scheme"
  assumes "owncloud_ok s"
  shows "wp (owncloud_init e name path dir) (\<lambda>_. owncloud_init_post s) s"
proof (cases "strlen name \<le> 4096 \<and> strlen path + 1 \<le> 4096 \<and> strlen dir + 1 \<le> 4096")
  case True
  with owncloud_paths [OF assms, of path dir] have "owncloud_init e name path dir = (do {
      modify (\<lambda>s. s\<lparr>oc_capture_path := add_slash path, oc_remote_dir := add_slash dir\<rparr>);
      full_conf_filename \<leftarrow> conf_file_path e
          ''Reading owncloud configuration file: Cannot obtain the directory of the current-process executable file: errno=%d\<newline>''
          name;
      load_owncloud_conf e full_conf_filename } :: ('z telegram_st_scheme, int) state)"
    by (simp add: owncloud_init_def c_store_def require_def)
  then show ?thesis
    by (simp only: wp_bind wp_modify, intro wp_conf_file_path wp_load_owncloud)
      (use owncloud_paths [OF assms, of path dir] True in \<open>auto simp: owncloud_ok_def\<close>)
next
  case False
  then have "owncloud_init e name path dir = (
      if strlen name > PATH_MAX then do {
        log_printf e ''Error: Filename of ownCloud configuration is larger than %d\<newline>'' [FInt PATH_MAX];
        return EINVAL
      } else if strlen path + 1 > PATH_MAX then do {
        log_printf e ''Error in owncloud_init: Image capture path is larger than %d\<newline>'' [FInt (PATH_MAX - 1)];
        return EINVAL
      } else do {
        log_printf e ''Error: ownCloud remote destination directory is larger than %d\<newline>'' [FInt (PATH_MAX - 1)];
        return EINVAL
      } :: ('z telegram_st_scheme, int) state)"
    unfolding owncloud_init_def by (auto simp: not_le not_less)
  then show ?thesis
    by (simp only:) (use assms in \<open>auto intro!: wp_intro simp: owncloud_init_post_def owncloud_ok_def\<close>)
qed

definition pushover_rest where
  "pushover_rest s = (ub s, telegram_st.more s, capturer_ok s, owncloud_ok s, telegram_ok s, g_curl_global_initialized s,
     owncloud_initialized s, telegram_initialized s)"

lemma pushover_rest_simps [simp]:
  "pushover_rest (s\<lparr>trace := tr\<rparr>) = pushover_rest s" "pushover_rest (s\<lparr>ltrace := lt\<rparr>) = pushover_rest s"
  "pushover_rest (s\<lparr>errno := er\<rparr>) = pushover_rest s" "pushover_rest (s\<lparr>hang := h\<rparr>) = pushover_rest s"
  "pushover_rest (s\<lparr>lub := u\<rparr>) = pushover_rest s"
  "pushover_rest (s\<lparr>po_token_id := x\<rparr>) = pushover_rest s"
  "pushover_rest (s\<lparr>po_user_id := x\<rparr>) = pushover_rest s"
  "pushover_rest (s\<lparr>po_server_url := x\<rparr>) = pushover_rest s"
  "pushover_rest (s\<lparr>pushover_initialized := i\<rparr>) = pushover_rest s"
  by (simp_all add: pushover_rest_def client_ok_defs)

text \<open>The counter of Pushover is not reset when the file has an unknown variable, so that the values of a
  client that was initialized before need not be usable any more.\<close>

definition pushover_init_post :: "'z telegram_st_scheme \<Rightarrow> 'z telegram_st_scheme \<Rightarrow> bool" where
  "pushover_init_post s t \<longleftrightarrow> pushover_ok t \<and> pushover_rest t = pushover_rest s \<and>
     (pushover_initialized t = 0 \<or> pushover_initialized t = 1) \<and>
     curl_refs (trace t) = curl_refs (trace s) + pushover_initialized t"

lemma wp_choose_server:
  assumes "length server_url \<le> MAX_URL_LEN"
    and "\<And>ret t. trace t = trace s \<Longrightarrow> pushover_rest t = pushover_rest s \<Longrightarrow> po_token_id t = po_token_id s \<Longrightarrow>
      po_user_id t = po_user_id s \<Longrightarrow> length (po_server_url t) \<le> MAX_URL_LEN \<or> po_server_url t = po_server_url s \<Longrightarrow>
      ret = 0 \<longrightarrow> prefix ''https://'' (po_server_url t) \<Longrightarrow>
      pushover_initialized t = 0 \<or> pushover_initialized t = pushover_initialized s \<Longrightarrow> Q ret t"
  shows "wp (choose_pushover_server e server_url) Q s"
  unfolding choose_pushover_server_def set_pushover_initialized_def
  using assms(1)
  by (auto intro!: wp_intro assms(2) simp: c_starts_with_def PUSHOVER_SEND_MSG_URL_def MAX_URL_LEN_def)

lemma wp_check_pushover:
  assumes "length server_url \<le> MAX_URL_LEN" and "word_ok MAX_CONF_STR_LEN (po_token_id s)"
    and "word_ok MAX_CONF_STR_LEN (po_user_id s)" and "length (po_server_url s) \<le> MAX_URL_LEN"
    and "pushover_initialized s = 0" and "pushover_rest s = rest"
    and "\<And>ret t. pushover_ok t \<Longrightarrow> pushover_rest t = rest \<Longrightarrow> pushover_initialized t = 0 \<or> pushover_initialized t = 1 \<Longrightarrow>
      curl_refs (trace t) = curl_refs (trace s) + pushover_initialized t \<Longrightarrow> Q ret t"
  shows "wp (check_pushover_conf e server_url) Q s"
  unfolding check_pushover_conf_def set_pushover_initialized_def
  using assms(1-6)
  by (auto intro!: wp_intro wp_choose_server assms(7) simp: pushover_ok_def)

lemma wp_pushover_init:
  assumes "pushover_ok s" and "pushover_initialized s = 0"
  shows "wp (pushover_init e name) (\<lambda>_. pushover_init_post s) s"
proof -
  have "wp (load_pushover_conf e name) (\<lambda>_. pushover_init_post s) t"
    if "pushover_rest t = pushover_rest s" "pushover_initialized t = 0"
      "curl_refs (trace t) = curl_refs (trace s)" "pushover_ok t" for t name
    unfolding load_pushover_conf_def set_pushover_initialized_def
    using that
    by (auto intro!: wp_intro wp_conf_loop [OF vars_positive(2) wp_log_printf]
        wp_check_pushover [where rest = "pushover_rest s"]
      simp: pushover_init_post_def pushover_ok_def Let_def dest!: bufs_values(2))
  then show ?thesis
    unfolding pushover_init_def
    using assms by (auto intro!: wp_intro wp_conf_file_path simp: pushover_init_post_def pushover_ok_def)
qed

definition capturer_rest where
  "capturer_rest s = (ub s, telegram_st.more s, owncloud_ok s, pushover_ok s, telegram_ok s, owncloud_initialized s,
     pushover_initialized s, telegram_initialized s)"

lemma capturer_rest_simps [simp]:
  "capturer_rest (s\<lparr>trace := tr\<rparr>) = capturer_rest s" "capturer_rest (s\<lparr>ltrace := lt\<rparr>) = capturer_rest s"
  "capturer_rest (s\<lparr>errno := er\<rparr>) = capturer_rest s" "capturer_rest (s\<lparr>hang := h\<rparr>) = capturer_rest s"
  "capturer_rest (s\<lparr>lub := u\<rparr>) = capturer_rest s"
  "capturer_rest (s\<lparr>g_capture_path := x\<rparr>) = capturer_rest s"
  "capturer_rest (s\<lparr>g_snapshot_url := x\<rparr>) = capturer_rest s"
  "capturer_rest (s\<lparr>g_initialized := i\<rparr>) = capturer_rest s"
  "capturer_rest (s\<lparr>g_curl_global_initialized := i\<rparr>) = capturer_rest s"
  by (simp_all add: capturer_rest_def client_ok_defs)

definition capturer_init_post :: "'z telegram_st_scheme \<Rightarrow> 'z telegram_st_scheme \<Rightarrow> bool" where
  "capturer_init_post s t \<longleftrightarrow> capturer_ok t \<and> capturer_rest t = capturer_rest s \<and>
     (g_curl_global_initialized s = 0 \<longrightarrow>
        (g_curl_global_initialized t = 0 \<or> g_curl_global_initialized t = 1) \<and>
        curl_refs (trace t) = curl_refs (trace s) + g_curl_global_initialized t)"

lemma wp_make_directory:
  assumes "\<And>ret tr er. curl_refs tr = curl_refs (trace s) \<Longrightarrow> Q ret (s\<lparr>trace := tr, errno := er\<rparr>)"
  shows "wp (make_directory e p) Q s"
  unfolding make_directory_def by (auto intro!: wp_intro assms)

lemma wp_make_parents:
  assumes "\<And>ret tr er. curl_refs tr = curl_refs (trace s) \<Longrightarrow> Q ret (s\<lparr>trace := tr, errno := er\<rparr>)"
  shows "wp (make_parents e p cs) Q s"
  using assms
proof (induction cs arbitrary: p s)
  case Nil
  from Nil [of "trace s" _ "errno s"] show ?case by simp
next
  case (Cons c cs)
  note same = Cons.prems [of "trace s" _ "errno s", simplified]
  show ?case
    by (auto intro!: wp_intro wp_make_directory Cons.IH Cons.prems)
qed

lemma wp_make_directory_recursive:
  assumes "\<And>ret tr er. curl_refs tr = curl_refs (trace s) \<Longrightarrow> Q ret (s\<lparr>trace := tr, errno := er\<rparr>)"
  shows "wp (make_directory_recursive e p) Q s"
proof -
  note same = assms [of "trace s" _ "errno s", simplified]
  show ?thesis
    unfolding make_directory_recursive_def
    by (auto intro!: wp_intro wp_make_directory wp_make_parents assms same)
qed

lemma wp_capturer_init:
  assumes "capturer_ok s"
  shows "wp (capturer_init e path) (\<lambda>_. capturer_init_post s) s"
  unfolding capturer_init_def
  using assms
  by (auto intro!: wp_intro wp_make_directory_recursive simp: capturer_init_post_def capturer_ok_def Let_def)

section \<open>All clients\<close>

text \<open>How many clients hold an initialization of libcurl.\<close>

definition curl_holders :: "'z telegram_st_scheme \<Rightarrow> int" where
  "curl_holders s = owncloud_initialized s + pushover_initialized s + telegram_initialized s +
     g_curl_global_initialized s"

definition clients_off :: "'z telegram_st_scheme \<Rightarrow> bool" where
  "clients_off s \<longleftrightarrow> owncloud_initialized s = 0 \<and> pushover_initialized s = 0 \<and> telegram_initialized s = 0 \<and>
     g_curl_global_initialized s = 0"

definition flag :: "int \<Rightarrow> bool" where
  "flag i \<longleftrightarrow> i = 0 \<or> i = 1"

definition flags_ok :: "'z telegram_st_scheme \<Rightarrow> bool" where
  "flags_ok s \<longleftrightarrow> flag (owncloud_initialized s) \<and> flag (pushover_initialized s) \<and> flag (telegram_initialized s) \<and>
     flag (g_curl_global_initialized s)"

lemmas init_post_defs = owncloud_init_post_def pushover_init_post_def telegram_init_post_def capturer_init_post_def
  owncloud_rest_def pushover_rest_def telegram_rest_def capturer_rest_def

lemma wp_owncloud_init_rule:
  assumes "owncloud_ok s" and "\<And>r t. owncloud_init_post s t \<Longrightarrow> Q r t"
  shows "wp (owncloud_init e name path dir) Q s"
  by (rule wp_mono [OF wp_owncloud_init [OF assms(1)] assms(2)])

lemma wp_pushover_init_rule:
  assumes "pushover_ok s" and "pushover_initialized s = 0" and "\<And>r t. pushover_init_post s t \<Longrightarrow> Q r t"
  shows "wp (pushover_init e name) Q s"
  by (rule wp_mono [OF wp_pushover_init [OF assms(1,2)] assms(3)])

lemma wp_telegram_init_rule:
  assumes "telegram_ok s" and "\<And>r t. telegram_init_post s t \<Longrightarrow> Q r t"
  shows "wp (telegram_init e name) Q s"
  by (rule wp_mono [OF wp_telegram_init [OF assms(1)] assms(2)])

lemma wp_capturer_init_rule:
  assumes "capturer_ok s" and "\<And>r t. capturer_init_post s t \<Longrightarrow> Q r t"
  shows "wp (capturer_init e path) Q s"
  by (rule wp_mono [OF wp_capturer_init [OF assms(1)] assms(2)])

lemmas init_rules = wp_owncloud_init_rule wp_pushover_init_rule wp_telegram_init_rule wp_capturer_init_rule

text \<open>A message about the outcome changes none of it.\<close>

definition clients_view where
  "clients_view s = (ub s, trace s, telegram_st.more s, capturer_ok s, owncloud_ok s, pushover_ok s, telegram_ok s,
     owncloud_initialized s, pushover_initialized s, telegram_initialized s, g_curl_global_initialized s)"

lemma wp_report:
  assumes "\<And>t. clients_view t = clients_view s \<Longrightarrow> Q () t"
  shows "wp (whenM b (log_printf e fmt args)) Q s"
  by (auto intro!: wp_intro assms simp: clients_view_def client_ok_defs)

lemma wp_init_clients:
  assumes "clients_ok s" and "clients_off s"
    and "\<And>t. clients_ok t \<Longrightarrow> flags_ok t \<Longrightarrow> ub t = ub s \<Longrightarrow> telegram_st.more t = telegram_st.more s \<Longrightarrow>
      curl_refs (trace t) = curl_refs (trace s) + curl_holders t \<Longrightarrow> Q () t"
  shows "wp (init_clients e) Q s"
  unfolding init_clients_def
  using assms(1,2)
  by (auto intro!: init_rules wp_report assms(3)
    simp: clients_ok_def clients_off_def flags_ok_def flag_def curl_holders_def init_post_defs clients_view_def)

lemma deinit_clients:
  "curl_refs (trace (snd (run_state (deinit_polling e) s))) = curl_refs (trace s) -
     of_bool (owncloud_initialized s \<noteq> 0) - of_bool (pushover_initialized s \<noteq> 0) -
     of_bool (telegram_initialized s \<noteq> 0) - of_bool (g_curl_global_initialized s \<noteq> 0)"
  by (simp add: deinit_polling_def owncloud_deinit_def pushover_deinit_def telegram_deinit_def capturer_deinit_def
    run_defs whenM_def)

end
