(* ===== verification/Frame.thy ===== *)
theory Frame
  imports Polling
begin

text \<open>
  What the monitor's requests leave alone.  A property of the state is calm when messages to the
  log file and neutral calls of the libraries keep it; then every request of a client and every
  time stamp keep it and, when it is neutral, the reading of a pin.  The two views whose values
  are kept here are the flag for a loop without end and the lines of the event file.
\<close>

section \<open>Keeping a property\<close>

named_theorems preserves_intro \<open>rules for functions that keep a property\<close>

definition preserves :: "('s \<Rightarrow> bool) \<Rightarrow> ('s, 'a) state \<Rightarrow> bool" where
  "preserves P m \<longleftrightarrow> (\<forall>s. P s \<longrightarrow> wp m (\<lambda>_. P) s)"

lemma preservesI: "(\<And>s. P s \<Longrightarrow> wp m (\<lambda>_. P) s) \<Longrightarrow> preserves P m"
  by (simp add: preserves_def)

lemma preservesD: "preserves P m \<Longrightarrow> P s \<Longrightarrow> wp m (\<lambda>_. P) s"
  by (simp add: preserves_def)

lemma wp_preserves: "preserves P m \<Longrightarrow> P s \<Longrightarrow> (\<And>a t. P t \<Longrightarrow> Q a t) \<Longrightarrow> wp m Q s"
  by (rule wp_mono [OF preservesD])

lemma preserves_return [preserves_intro]: "preserves P (return a)"
  by (simp add: preserves_def)

lemma preserves_gets [preserves_intro]: "preserves P (gets g)"
  by (simp add: preserves_def)

lemma preserves_modify [preserves_intro]: "(\<And>s. P s \<Longrightarrow> P (g s)) \<Longrightarrow> preserves P (modify g)"
  by (simp add: preserves_def)

lemma preserves_bind [preserves_intro]:
  "preserves P m \<Longrightarrow> (\<And>a. preserves P (g a)) \<Longrightarrow> preserves P (State_Monad.bind m g)"
  by (auto simp: preserves_def intro: wp_mono)

lemma preserves_if [preserves_intro]: "preserves P m \<Longrightarrow> preserves P n \<Longrightarrow> preserves P (if b then m else n)"
  by simp

lemma preserves_whenM [preserves_intro]: "preserves P m \<Longrightarrow> preserves P (whenM b m)"
  by (simp add: whenM_def preserves_return)

lemma preserves_case_prod [preserves_intro]:
  "(\<And>a b. preserves P (g a b)) \<Longrightarrow> preserves P (case p of (a, b) \<Rightarrow> g a b)"
  by (cases p) simp

lemma preserves_case_option [preserves_intro]:
  "preserves P m \<Longrightarrow> (\<And>y. preserves P (g y)) \<Longrightarrow> preserves P (case x of None \<Rightarrow> m | Some y \<Rightarrow> g y)"
  by (cases x) simp_all

lemma preserves_let [preserves_intro]: "preserves P (g x) \<Longrightarrow> preserves P (Let x g)"
  by simp

lemma preserves_forM [preserves_intro]: "(\<And>x. preserves P (g x)) \<Longrightarrow> preserves P (forM xs g)"
  by (induction xs) (auto intro: preserves_intro)

lemma preserves_while:
  assumes "\<And>y. preserves P (c y)" and "\<And>y. preserves P (b y)" and "\<And>s. P s \<Longrightarrow> P (s\<lparr>hang := True\<rparr>)"
  shows "preserves P (while_fuel n c b x)"
  by (rule preservesI, rule wp_while [where I = "\<lambda>_. P"])
    (auto intro!: assms(3) wp_mono [OF preservesD [OF assms(1)]] preservesD [OF assms(2)])

text \<open>A view is kept when all its values are.\<close>

lemma run_then: "run_state (State_Monad.bind m (\<lambda>_. n)) s = run_state n (snd (run_state m s))"
  by (simp split: prod.splits)

lemma wp_kept: "(\<And>v. preserves (\<lambda>t. f t = v) m) \<Longrightarrow> wp m (\<lambda>_ t. f t = f s) s"
  by (simp add: preserves_def)

lemma run_kept: "(\<And>v. preserves (\<lambda>t. f t = v) m) \<Longrightarrow> f (snd (run_state m s)) = f s"
  using wp_kept [of f m s] by (simp add: wp_def case_prod_beta)

section \<open>Calm properties\<close>

locale calm =
  fixes P :: "'z polling_st_scheme \<Rightarrow> bool" and neutral :: "call \<Rightarrow> bool"
  assumes calm_call: "neutral c \<Longrightarrow> P s \<Longrightarrow> P (s\<lparr>trace := (c, r) # trace s, errno := er\<rparr>)"
    and calm_ub: "P s \<Longrightarrow> P (s\<lparr>ub := True\<rparr>)"
    and calm_lub: "P s \<Longrightarrow> P (s\<lparr>lub := True\<rparr>)"
    and calm_log: "preserves P (log_printf e fmt args)"
    and calm_time: "preserves P (lsys e LTime)" "preserves P (lsys e (LLocaltime i))"
    and libc: "neutral (Mem m)" "neutral (File fc)" "neutral (Os oc)" "neutral (Net n)"
    and processes: "p \<noteq> Fork \<Longrightarrow> neutral (Proc p)"
    and requests: "cc \<noteq> CurlGlobalInit \<Longrightarrow> cc \<noteq> CurlGlobalCleanup \<Longrightarrow> neutral (Curl cc)"
begin

lemmas neutral_calls = libc processes requests

lemma sys: "neutral c \<Longrightarrow> preserves P (sys e c)"
  by (auto intro!: preservesI wp_sys calm_call)

lemma calls: "neutral c \<Longrightarrow> preserves P (sysu e c)" "neutral c \<Longrightarrow> preserves P (sysv e c)"
  unfolding sysu_def sysv_def by (auto intro!: preserves_intro sys)

lemma checks: "preserves P (require b)" "preserves P (lrequire b)"
  unfolding require_def lrequire_def by (auto intro!: preserves_intro calm_ub calm_lub)

lemmas basic = sys calls checks calm_log calm_time neutral_calls

lemma texts: "preserves P (c_store n x)" "preserves P (formatted x')"
  unfolding c_store_def formatted_def by (auto intro!: preserves_intro basic)

lemma options: "preserves P (setopts e h opts)"
  unfolding setopts_def by (auto intro!: preserves_intro basic)

lemma deliver:
  assumes "\<And>x u. preserves P (cb x u)"
  shows "preserves P (deliver cb pieces u)"
  by (induction pieces arbitrary: u) (auto intro!: preserves_intro assms)

lemma perform:
  assumes "\<And>x u. preserves P (cb x u)"
  shows "preserves P (curl_easy_perform e h cb u)"
  unfolding curl_easy_perform_def by (auto intro!: preserves_intro basic deliver assms)

lemma callbacks: "preserves P (curl_write_cb e x u)" "preserves P (curl_write_callback_fn e x u')"
  unfolding curl_write_cb_def curl_write_callback_fn_def c_realloc_def by (auto intro!: preserves_intro basic)

lemmas parts = preserves_intro basic texts options perform callbacks

text \<open>The requests, the readings and the name of a capture.\<close>

lemma telegram: "preserves P (send_telegram_message e msg)"
  unfolding send_telegram_message_def post_telegram_def check_telegram_response_def
  by (auto intro!: parts)

lemma pushover: "preserves P (send_pushover_notification e msg prio)"
  unfolding send_pushover_notification_def post_pushover_def check_pushover_response_def check_pushover_body_def
    free_if_def
  by (auto intro!: parts)

lemma notif: "preserves P (send_info_notif e msg prio)"
  unfolding send_info_notif_def by (auto intro!: parts telegram pushover)

lemma frame: "preserves P (capturer_get_frame e name)"
  unfolding capturer_get_frame_def download_frame_def finish_frame_def publish_frame_def discard_frame_def
  by (auto intro!: parts)

lemma upload: "preserves P (upload_capture e name)"
  unfolding upload_capture_def upload_request_def by (auto intro!: parts)

lemma filename: "preserves P (compose_capture_filename e)"
  unfolding compose_capture_filename_def get_localtime_filename_def get_localtime_str_def
  by (auto intro!: parts)

lemma pin: "(\<And>h n. neutral (Gpiod (RequestGetValue h n))) \<Longrightarrow> preserves P (gpio_read e p null)"
  unfolding gpio_read_def validate_library_opened_def validate_pin_def get_pin_ctx_def get_errno_or_io_def
  by (auto intro!: parts)

lemma error: "preserves P (note_error e fmt r p v)"
  unfolding note_error_def by (auto intro!: parts)

lemma pause: "(\<And>s. P s \<Longrightarrow> P (s\<lparr>hang := True\<rparr>)) \<Longrightarrow> preserves P (millisleep e n)"
  unfolding millisleep_def sleep_step_def by (auto intro!: parts preserves_while)

end

section \<open>The two views\<close>

interpretation hang_view: calm "\<lambda>s. hang s = b" "\<lambda>_. True" for b
  by unfold_locales (auto intro!: preservesI wp_log_printf wp_lsys)

text \<open>The lines written to a log stream, in the order of writing.\<close>

definition line_of :: "int \<Rightarrow> levent \<Rightarrow> string option" where
  "line_of h ev = (case fst ev of
     LVfprintf g fmt args \<Rightarrow> if g = h then c_format fmt args else None
   | _ \<Rightarrow> None)"

definition lines_of :: "int \<Rightarrow> levent list \<Rightarrow> string list" where
  "lines_of h lt = rev (List.map_filter (line_of h) lt)"

lemma lines_of_simps [simp]:
  "lines_of h [] = []"
  "lines_of h ((LVfprintf g fmt args, r) # lt) =
     lines_of h lt @ (if g = h then (case c_format fmt args of None \<Rightarrow> [] | Some x \<Rightarrow> [x]) else [])"
  "lines_of h ((LTime, r) # lt) = lines_of h lt"
  "lines_of h ((LLocaltime i, r) # lt) = lines_of h lt"
  "lines_of h ((LVprintf fmt args, r) # lt) = lines_of h lt"
  "lines_of h ((LFprintf g fmt args, r) # lt) = lines_of h lt"
  "lines_of h ((LFflush g, r) # lt) = lines_of h lt"
  by (auto simp: lines_of_def line_of_def List.map_filter_simps split: option.splits)

text \<open>The event file: its stream, and its lines when it is open and not the log file.\<close>

definition separate_files :: "'z log_st_scheme \<Rightarrow> bool" where
  "separate_files s \<longleftrightarrow> event_file_handle s \<noteq> 0 \<and> log_file_handle s \<noteq> event_file_handle s"

definition event_view :: "'z log_st_scheme \<Rightarrow> int \<times> int \<times> string list" where
  "event_view s = (log_file_handle s, event_file_handle s,
     if separate_files s then lines_of (event_file_handle s) (ltrace s) else [])"

text \<open>Seen from one stream: a message to another stream writes no line to it.\<close>

definition stream_view :: "int \<Rightarrow> 'z log_st_scheme \<Rightarrow> int \<times> int \<times> string list" where
  "stream_view g s = (log_file_handle s, event_file_handle s, lines_of g (ltrace s))"

lemma stream_view_lsys [preserves_intro]:
  "preserves (\<lambda>s. stream_view g s = v) (lsys e LTime)" "preserves (\<lambda>s. stream_view g s = v) (lsys e (LLocaltime i))"
  "preserves (\<lambda>s. stream_view g s = v) (lsys e (LVprintf fmt args))"
  "preserves (\<lambda>s. stream_view g s = v) (lsys e (LFprintf h fmt args))"
  "preserves (\<lambda>s. stream_view g s = v) (lsys e (LFflush h))"
  "h \<noteq> g \<Longrightarrow> preserves (\<lambda>s. stream_view g s = v) (lsys e (LVfprintf h fmt args))"
  "preserves (\<lambda>s. stream_view g s = v) (lrequire b)"
  by (auto intro!: preservesI wp_lsys wp_lrequire simp: stream_view_def)

lemma stream_view_time [preserves_intro]: "preserves (\<lambda>s. stream_view g s = v) (get_localtime_stamp e n)"
  unfolding get_localtime_stamp_def get_localtime_str_def by (auto intro!: preserves_intro)

lemma stream_view_msg: "h \<noteq> g \<Longrightarrow> preserves (\<lambda>s. stream_view g s = v) (msg_printf e h fmt args)"
  unfolding msg_printf_def by (auto intro!: preserves_intro)

lemma event_view_stream:
  assumes "stream_view (event_file_handle s) t = stream_view (event_file_handle s) s"
  shows "event_view t = event_view s"
  using assms by (auto simp: stream_view_def event_view_def separate_files_def)

lemma event_view_log: "preserves (\<lambda>s. event_view s = v) (log_printf e fmt args)"
proof (rule preservesI)
  fix s :: "'a log_st_scheme"
  assume v: "event_view s = v"
  show "wp (log_printf e fmt args) (\<lambda>_ t. event_view t = v) s"
  proof (cases "separate_files s")
    case True
    then have "wp (msg_printf e (log_file_handle s) fmt args)
        (\<lambda>_ t. stream_view (event_file_handle s) t = stream_view (event_file_handle s) s) s"
      by (intro wp_kept stream_view_msg) (simp add: separate_files_def)
    then have "wp (msg_printf e (log_file_handle s) fmt args) (\<lambda>_ t. event_view t = v) s"
      by (rule wp_mono) (use v event_view_stream in blast)
    then show ?thesis by (simp add: log_printf_def)
  next
    case False
    with v show ?thesis
      by (auto intro!: wp_log_printf simp: event_view_def separate_files_def)
  qed
qed

lemma event_view_frame [simp]:
  "event_view (s\<lparr>trace := tr\<rparr>) = event_view s" "event_view (s\<lparr>errno := er\<rparr>) = event_view s"
  "event_view (s\<lparr>ub := b\<rparr>) = event_view s" "event_view (s\<lparr>lub := b\<rparr>) = event_view s"
  "event_view (s\<lparr>hang := b\<rparr>) = event_view s" "event_view (s\<lparr>ltrace := (LTime, r) # ltrace s\<rparr>) = event_view s"
  "event_view (s\<lparr>ltrace := (LLocaltime i, r) # ltrace s\<rparr>) = event_view s"
  by (simp_all add: event_view_def separate_files_def)

interpretation event_view: calm "\<lambda>s. event_view s = v" "\<lambda>_. True" for v
  by unfold_locales (auto intro!: event_view_log preservesI [of "\<lambda>s. event_view s = v"] wp_lsys)

lemma event_view_sleep: "preserves (\<lambda>s. event_view (s :: 'z polling_st_scheme) = v) (millisleep e n)"
  by (rule event_view.pause) simp

text \<open>A message to the event file is one line.\<close>

lemma event_line:
  assumes "separate_files s" and "c_format fmt args = Some x"
  shows "event_view (snd (run_state (event_printf e fmt args) s)) =
    (log_file_handle s, event_file_handle s, lines_of (event_file_handle s) (ltrace s) @ [x])"
proof -
  let ?v = "\<lambda>t. (log_file_handle t, event_file_handle t, lines_of (event_file_handle t) (ltrace t))"
  have stamp: "wp (get_localtime_stamp e n) (\<lambda>_ u. ?v u = ?v t) t" for n and t :: "'a log_st_scheme"
    using wp_kept [OF stream_view_time [where g = "event_file_handle t" and e = e and n = n], of t]
    by (rule wp_mono) (auto simp: stream_view_def)
  have "wp (event_printf e fmt args) (\<lambda>_ t. event_view t =
    (log_file_handle s, event_file_handle s, lines_of (event_file_handle s) (ltrace s) @ [x])) s"
    unfolding event_printf_def msg_printf_def
    using assms
    by (auto intro!: wp_intro wp_mono [OF stamp] simp: separate_files_def event_view_def)
  then show ?thesis by (simp add: wp_def split: prod.splits)
qed

lemma event_printf_hang: "hang (snd (run_state (event_printf e fmt args) s)) = hang s"
proof -
  have "wp (event_printf e fmt args) (\<lambda>_ t. hang t = hang s) s"
    by (rule wp_event_printf) simp
  then show ?thesis by (simp add: wp_def split: prod.splits)
qed

section \<open>Calls are added only\<close>

lemma appends_texts [appends_intro]: "appends (c_store n x)" "appends (formatted x')"
  unfolding c_store_def formatted_def by (auto intro!: appends_intro)

lemma appends_setopts [appends_intro]: "appends (setopts e h opts)"
  unfolding setopts_def by (auto intro!: appends_intro)

lemma appends_deliver:
  assumes "\<And>x u. appends (cb x u)"
  shows "appends (deliver cb pieces u)"
  by (induction pieces arbitrary: u) (auto intro!: appends_intro assms)

lemma appends_perform:
  assumes "\<And>x u. appends (cb x u)"
  shows "appends (curl_easy_perform e h cb u)"
  unfolding curl_easy_perform_def by (auto intro!: appends_intro appends_deliver assms)

lemma appends_callbacks: "appends (curl_write_cb e x u)" "appends (curl_write_callback_fn e x u')"
  unfolding curl_write_cb_def curl_write_callback_fn_def by (auto intro!: appends_intro)

lemma appends_requests [appends_intro]:
  "appends (send_telegram_message e msg)" "appends (send_pushover_notification e msg prio)"
  "appends (capturer_get_frame e name)" "appends (upload_capture e file)"
  unfolding send_telegram_message_def post_telegram_def check_telegram_response_def
    send_pushover_notification_def post_pushover_def check_pushover_response_def check_pushover_body_def
    free_if_def capturer_get_frame_def download_frame_def finish_frame_def publish_frame_def discard_frame_def
    upload_capture_def upload_request_def
  by (auto intro!: appends_intro appends_perform appends_callbacks)

lemma appends_on_alarm_event [appends_intro]: "appends (on_alarm_event e pin val)"
  unfolding on_alarm_event_def send_info_notif_def compose_capture_filename_def get_localtime_filename_def
  by (auto intro!: appends_intro)

lemma appends_gpio_read [appends_intro]: "appends (gpio_read e p null)"
  unfolding gpio_read_def validate_library_opened_def validate_pin_def get_pin_ctx_def get_errno_or_io_def
  by (auto intro!: appends_intro)

lemma appends_millisleep [appends_intro]: "appends (millisleep e n)"
  unfolding millisleep_def sleep_step_def by (auto intro!: appends_intro)

lemma appends_poll_pins [appends_intro]: "appends (poll_pins e is v)"
proof (induction "is" arbitrary: v)
  case (Cons i "is")
  have "appends (poll_pin e i v)"
    unfolding poll_pin_def note_error_def by (auto intro!: appends_intro)
  with Cons show ?case by (auto intro!: appends_intro)
qed (simp add: appends_return)

lemma appends_poll_round: "appends (poll_round e v)"
  unfolding poll_round_def note_error_def by (auto intro!: appends_intro)

end
