(* ===== verification/Polling_Props.thy ===== *)
theory Polling_Props
  imports ClientState Frame
begin

text \<open>
  Properties of the monitor: what a round reports against a specification, that the thread ends,
  that a report is safe, and the state of the clients from their initialization to the end.
\<close>

section \<open>Specification of a round\<close>

text \<open>The result of a reading, as \<open>gpio_read\<close> gives it: the error code, and the value if there is none.\<close>

type_synonym reading = "int \<times> int option"

text \<open>What a round makes of the readings of the contacts: the values that are known now, the contacts
  to report, and the first error.\<close>

definition contact_values :: "int list \<Rightarrow> reading list \<Rightarrow> int list" where
  "contact_values known rs = map2 (\<lambda>old (ret, x). if ret = 0 then the x else old) known rs"

definition contact_reports :: "int list \<Rightarrow> reading list \<Rightarrow> (int \<times> int) list" where
  "contact_reports known rs = map (\<lambda>(pin, old, ret, x). (pin, the x))
     (filter (\<lambda>(pin, old, ret, x). ret = 0 \<and> the x \<noteq> old) (zip Alarm_gpios (zip known rs)))"

definition first_error :: "int \<Rightarrow> reading list \<Rightarrow> int" where
  "first_error err rs = (case filter ((\<noteq>) 0) (err # map fst rs) of [] \<Rightarrow> 0 | x # _ \<Rightarrow> x)"

definition round_spec :: "poll_vars \<Rightarrow> reading \<Rightarrow> reading list \<Rightarrow> poll_vars \<times> (int \<times> int) list" where
  "round_spec v armed rs =
     (if fst armed \<noteq> 0 then (v\<lparr>read_err := first_error (read_err v) [armed]\<rparr>, [])
      else if the (snd armed) \<noteq> PIN_LOW_VAL then (v, [])
      else (v\<lparr>last_pin_value := contact_values (last_pin_value v) rs,
              read_err := first_error (read_err v) rs\<rparr>, contact_reports (last_pin_value v) rs))"

text \<open>The line of a report.\<close>

definition alarm_text :: "int \<Rightarrow> int \<Rightarrow> string" where
  "alarm_text pin val = ''Sensor pin (GPIO '' @ dec_int pin @ '') changed its value to '' @ dec_int val @ ''\<newline>''"

text \<open>The readings that the contacts give during a round.\<close>

fun contacts_read :: "env \<Rightarrow> nat list \<Rightarrow> poll_vars \<Rightarrow> 'z polling_st_scheme \<Rightarrow> reading list" where
  "contacts_read e [] v s = []"
| "contacts_read e (i # is) v s = fst (run_state (gpio_read e (Alarm_gpios ! i) False) s) #
     (case run_state (poll_pin e i v) s of (v', t) \<Rightarrow> contacts_read e is v' t)"

lemma contacts_read_two: "contacts_read e [i, j] v s = [fst (run_state (gpio_read e (Alarm_gpios ! i) False) s),
    fst (run_state (gpio_read e (Alarm_gpios ! j) False) (snd (run_state (poll_pin e i v) s)))]"
  by (simp split: prod.splits)

section \<open>One contact\<close>

lemma gpio_read_value:
  assumes "fst (run_state (gpio_read e p False) s) = (ret, x)"
  shows "if ret = 0 then x = Some 0 \<or> x = Some 1 else x = None"
proof -
  have "wp (gpio_read e p False) (\<lambda>(ret, x) _. if ret = 0 then x = Some 0 \<or> x = Some 1 else x = None) s"
    unfolding gpio_read_def validate_library_opened_def validate_pin_def get_pin_ctx_def get_errno_or_io_def
    by (auto intro!: wp_intro)
  with assms show ?thesis by (simp add: wp_def split: prod.splits)
qed

lemma notif_text_alarm:
  assumes "pin \<in> set Alarm_gpios" and "val = 0 \<or> val = 1"
  shows "notif_text pin val = Some (alarm_text pin val) \<and> c_format (alarm_text pin val) [] = Some (alarm_text pin val)"
proof -
  have "\<forall>pin \<in> set Alarm_gpios. \<forall>val \<in> {0, 1}. notif_text pin val = Some (alarm_text pin val) \<and>
      c_format (alarm_text pin val) [] = Some (alarm_text pin val)" by code_simp
  with assms show ?thesis by auto
qed

lemma event_view_separate:
  "separate_files s \<Longrightarrow> event_view s = (log_file_handle s, event_file_handle s, lines_of (event_file_handle s) (ltrace s))"
  by (simp add: event_view_def)

text \<open>A report is one line of the event file; the requests that follow write none.\<close>

lemma alarm_event_line:
  assumes "separate_files s" and "pin \<in> set Alarm_gpios" and "val = 0 \<or> val = 1"
  shows "event_view (snd (run_state (on_alarm_event e pin val) s)) = (log_file_handle s, event_file_handle s,
    lines_of (event_file_handle s) (ltrace s) @ [alarm_text pin val])"
proof -
  let ?x = "alarm_text pin val"
  let ?rest = "do {
     _ \<leftarrow> send_info_notif e ?x ''2'';
     whenM (val \<noteq> PIN_LOW_VAL) (do {
       cap_filename \<leftarrow> compose_capture_filename e;
       _ \<leftarrow> capturer_get_frame e (Some cap_filename);
       _ \<leftarrow> upload_capture e cap_filename;
       return ()
     }) }"
  note x = notif_text_alarm [OF assms(2,3)]
  have rest: "preserves (\<lambda>t. event_view t = v) ?rest" for v
    by (auto intro!: preserves_intro event_view.notif event_view.filename event_view.frame event_view.upload)
  have "run_state (on_alarm_event e pin val) s = run_state (do { event_printf e ?x []; ?rest }) s"
    using x by (simp add: on_alarm_event_def formatted_def require_def)
  also have "\<dots> = run_state ?rest (snd (run_state (event_printf e ?x []) s))"
    by (rule run_then)
  finally have "event_view (snd (run_state (on_alarm_event e pin val) s)) =
      event_view (snd (run_state (event_printf e ?x []) s))"
    using run_kept [OF rest] by simp
  then show ?thesis
    using event_line [OF assms(1), of ?x "[]" ?x] x by simp
qed

text \<open>What one contact does: the variables, and the lines it adds.\<close>

definition contact_step :: "nat \<Rightarrow> reading \<Rightarrow> poll_vars \<Rightarrow> poll_vars \<times> string list" where
  "contact_step i r v =
     (if fst r \<noteq> 0 then (v\<lparr>read_err := first_error (read_err v) [r]\<rparr>, [])
      else if the (snd r) \<noteq> last_pin_value v ! i
      then (v\<lparr>last_pin_value := (last_pin_value v)[i := the (snd r)]\<rparr>,
            [alarm_text (Alarm_gpios ! i) (the (snd r))])
      else (v, []))"

lemma poll_pin_step:
  assumes sep: "separate_files s" and i: "i < 2" and r: "fst (run_state (gpio_read e (Alarm_gpios ! i) False) s) = r"
    and run: "run_state (poll_pin e i v) s = (v', t)"
  shows "v' = fst (contact_step i r v) \<and> event_view t = (log_file_handle s, event_file_handle s,
    lines_of (event_file_handle s) (ltrace s) @ snd (contact_step i r v))"
proof -
  obtain ret x u where g: "run_state (gpio_read e (Alarm_gpios ! i) False) s = ((ret, x), u)"
    by (metis surj_pair)
  with r have r': "r = (ret, x)" by simp
  have u: "event_view u = event_view s"
    using run_kept [OF event_view.pin, of e "Alarm_gpios ! i" False s] g by simp
  with sep have sep_u: "separate_files u" "log_file_handle u = log_file_handle s" "event_file_handle u = event_file_handle s"
      "lines_of (event_file_handle s) (ltrace u) = lines_of (event_file_handle s) (ltrace s)"
    by (auto simp: event_view_def separate_files_def split: if_splits)
  have pin: "Alarm_gpios ! i \<in> set Alarm_gpios" using i by (auto simp: Alarm_gpios_def less_2_cases_iff)
  note x = gpio_read_value [of e "Alarm_gpios ! i" s ret x] 
  show ?thesis
  proof (cases "ret = 0")
    case True
    then have x01: "x = Some 0 \<or> x = Some 1" using x g by simp
    show ?thesis
    proof (cases "the x = last_pin_value v ! i")
      case True
      with \<open>ret = 0\<close> x01 run g have "v' = v" "t = u"
        by (auto simp: poll_pin_def require_def)
      with True \<open>ret = 0\<close> u show ?thesis by (simp add: r' contact_step_def event_view_separate [OF sep])
    next
      case False
      with \<open>ret = 0\<close> x01 run g have "v' = v\<lparr>last_pin_value := (last_pin_value v)[i := the x]\<rparr>"
          "t = snd (run_state (on_alarm_event e (Alarm_gpios ! i) (the x)) u)"
        by (auto simp: poll_pin_def require_def split: prod.splits)
      with False \<open>ret = 0\<close> alarm_event_line [OF sep_u(1) pin, of "the x" e] x01 sep_u show ?thesis
        by (auto simp: r' contact_step_def)
    qed
  next
    case False
    with run g have n: "run_state (note_error e ''Error %i while reading GPIO (%i): %s\<newline>'' ret (Alarm_gpios ! i) v) u = (v', t)"
      by (simp add: poll_pin_def)
    then have "v' = v\<lparr>read_err := first_error (read_err v) [r]\<rparr>"
      using False by (auto simp: note_error_def first_error_def r' split: if_splits prod.splits)
    with False run_kept [OF event_view.error, of e _ ret "Alarm_gpios ! i" v u] n u show ?thesis
      by (simp add: r' contact_step_def event_view_separate [OF sep]) (metis snd_conv)
  qed
qed

text \<open>The two contacts after each other give the values, reports and error of the specification.\<close>

lemma contact_steps_spec:
  assumes "length (last_pin_value v) = 2"
  shows "fst (contact_step 1 r1 (fst (contact_step 0 r0 v))) = v\<lparr>last_pin_value := contact_values (last_pin_value v) [r0, r1],
      read_err := first_error (read_err v) [r0, r1]\<rparr>"
    and "snd (contact_step 0 r0 v) @ snd (contact_step 1 r1 (fst (contact_step 0 r0 v))) =
      map (\<lambda>(pin, val). alarm_text pin val) (contact_reports (last_pin_value v) [r0, r1])"
proof -
  obtain a b where "last_pin_value v = [a, b]"
    using assms by (auto simp: numeral_2_eq_2 length_Suc_conv)
  then obtain err where v: "v = \<lparr>last_pin_value = [a, b], read_err = err\<rparr>" by (cases v) auto
  show "fst (contact_step 1 r1 (fst (contact_step 0 r0 v))) = v\<lparr>last_pin_value := contact_values (last_pin_value v) [r0, r1],
      read_err := first_error (read_err v) [r0, r1]\<rparr>"
    unfolding v by (cases r0; cases r1) (simp add: contact_step_def contact_values_def first_error_def)
  show "snd (contact_step 0 r0 v) @ snd (contact_step 1 r1 (fst (contact_step 0 r0 v))) =
      map (\<lambda>(pin, val). alarm_text pin val) (contact_reports (last_pin_value v) [r0, r1])"
    unfolding v by (cases r0; cases r1) (simp add: contact_step_def contact_reports_def Alarm_gpios_def)
qed

lemma poll_pins_spec:
  assumes sep: "separate_files s" and len: "length (last_pin_value v) = 2"
    and run: "run_state (poll_pins e [0, 1] v) s = (v', t)"
  shows "v' = v\<lparr>last_pin_value := contact_values (last_pin_value v) (contacts_read e [0, 1] v s),
      read_err := first_error (read_err v) (contacts_read e [0, 1] v s)\<rparr> \<and>
    event_view t = (log_file_handle s, event_file_handle s, lines_of (event_file_handle s) (ltrace s) @
      map (\<lambda>(pin, val). alarm_text pin val) (contact_reports (last_pin_value v) (contacts_read e [0, 1] v s)))"
proof -
  obtain v1 s1 where run0: "run_state (poll_pin e 0 v) s = (v1, s1)" by fastforce
  with run have run1: "run_state (poll_pin e 1 v1) s1 = (v', t)" by simp
  let ?r0 = "fst (run_state (gpio_read e (Alarm_gpios ! 0) False) s)"
  let ?r1 = "fst (run_state (gpio_read e (Alarm_gpios ! 1) False) s1)"
  note step0 = poll_pin_step [OF sep _ refl run0, simplified]
  then have sep1: "separate_files s1" "log_file_handle s1 = log_file_handle s" "event_file_handle s1 = event_file_handle s"
      "lines_of (event_file_handle s) (ltrace s1) =
        lines_of (event_file_handle s) (ltrace s) @ snd (contact_step 0 ?r0 v)"
    using sep by (auto simp: event_view_def separate_files_def split: if_splits)
  note step1 = poll_pin_step [OF sep1(1) _ refl run1, simplified]
  have rs: "contacts_read e [0, 1] v s = [?r0, ?r1]" unfolding contacts_read_two by (simp add: run0)
  show ?thesis
    unfolding rs using step0 step1 sep1 contact_steps_spec [OF len, where ?r0.0 = ?r0 and ?r1.0 = ?r1]
    by simp
qed

section \<open>The end of the thread\<close>

text \<open>How often the flag was read and a pause was interrupted; the flag is set after at most \<open>k\<close> readings,
  and at most \<open>j\<close> signals interrupt a pause.\<close>

definition flag_reads :: "event list \<Rightarrow> nat" where
  "flag_reads tr = length (filter (\<lambda>ev. fst ev = Os ReadFlag) tr)"

definition flag_set_after :: "nat \<Rightarrow> env \<Rightarrow> bool" where
  "flag_set_after k e \<longleftrightarrow> (\<forall>tr. k \<le> flag_reads tr \<longrightarrow> rv (answer e tr (Os ReadFlag)) \<noteq> 0)"

definition interrupted :: "event \<Rightarrow> bool" where
  "interrupted ev = (case ev of (Os (Nanosleep _ _), r) \<Rightarrow> rv r = -1 \<and> rerr r = EINTR | _ \<Rightarrow> False)"

definition interruptions :: "event list \<Rightarrow> nat" where
  "interruptions tr = length (filter interrupted tr)"

definition signals_end_after :: "nat \<Rightarrow> env \<Rightarrow> bool" where
  "signals_end_after j e \<longleftrightarrow> (\<forall>tr a b. j \<le> interruptions tr \<longrightarrow>
     \<not> interrupted (Os (Nanosleep a b), answer e tr (Os (Nanosleep a b))))"

lemma flag_reads_suffix: "suffix a b \<Longrightarrow> flag_reads a \<le> flag_reads b"
  by (auto simp: suffix_def flag_reads_def)

text \<open>One sleep goes on only after an interruption that uses up a signal.\<close>

lemma wp_sleep_step:
  assumes "signals_end_after j e"
    and "\<And>y t. hang t = hang s \<Longrightarrow> snd (snd y) \<longrightarrow> interruptions (trace t) = Suc (interruptions (trace s)) \<and>
      interruptions (trace s) < j \<Longrightarrow> Q y t"
  shows "wp (sleep_step e x) Q s"
proof -
  have less: "interruptions (trace s) < j" if "interrupted (Os (Nanosleep a b), answer e (trace s) (Os (Nanosleep a b)))" for a b
    using assms(1) that unfolding signals_end_after_def by (meson not_le)
  show ?thesis
    unfolding sleep_step_def
    using less
    by (auto intro!: wp_intro wp_sys_eq assms(2) simp: Let_def interrupted_def interruptions_def)
qed

lemma wp_millisleep_ends:
  assumes "signals_end_after j e" and "j < fuel e"
  shows "wp (millisleep e n) (\<lambda>_ t. hang t = hang s) s"
proof -
  let ?m = "\<lambda>x t. if snd (snd x) then Suc j - interruptions (trace t) else 0"
  let ?I = "\<lambda>x t. hang t = hang s \<and> (snd (snd x) \<longrightarrow> interruptions (trace t) \<le> j)"
  have loop: "wp (while_fuel (fuel e) (\<lambda>(_, _, again). return again) (sleep_step e) x) (\<lambda>_ t. hang t = hang s) t"
    if "?I x t" "?m x t < fuel e" for x and t :: "'a world_scheme"
  proof (rule wp_while_total [where I = ?I and m = ?m])
    fix y :: "timespec \<times> int \<times> bool" and u :: "'a world_scheme"
    assume u: "?I y u"
    have "wp (sleep_step e y) (\<lambda>z v. ?I z v \<and> ?m z v < ?m y u) u" if "snd (snd y)"
      by (rule wp_sleep_step [OF assms(1)]) (use u that in auto)
    then show "wp (case y of (_, _, again) \<Rightarrow> return again)
        (\<lambda>g u'. if g then wp (sleep_step e y) (\<lambda>z v. ?I z v \<and> ?m z v < ?m y u) u' else hang u' = hang s) u"
      using u by (cases y) simp
  qed (use that in auto)
  show ?thesis
    unfolding millisleep_def
    by (auto intro!: wp_intro wp_sleep_step [OF assms(1)] wp_mono [OF loop])
      (use assms(2) in auto)
qed

lemma hang_poll_pins: "preserves (\<lambda>s. hang s = b) (poll_pins e is v)"
proof (induction "is" arbitrary: v)
  case (Cons i "is")
  have event: "preserves (\<lambda>s. hang s = b) (event_printf e fmt args)" for e fmt args
    by (rule preservesI, rule wp_event_printf) simp
  have "preserves (\<lambda>s. hang s = b) (poll_pin e i v)"
    unfolding poll_pin_def on_alarm_event_def
    by (auto intro!: event hang_view.parts hang_view.error hang_view.pin hang_view.notif
      hang_view.filename hang_view.frame hang_view.upload)
  with Cons show ?case by (auto intro!: preserves_intro)
qed (simp add: preserves_return)

lemma wp_poll_round_ends:
  assumes "signals_end_after j e" and "j < fuel e"
  shows "wp (poll_round e v) (\<lambda>_ t. hang t = hang s \<and> flag_reads (trace s) \<le> flag_reads (trace t)) s"
proof -
  note step = wp_mono [OF wp_kept]
  have "wp (poll_round e v) (\<lambda>_ t. hang t = hang s) s"
    unfolding poll_round_def
    by (auto intro!: wp_intro step [OF hang_view.pin] step [OF hang_view.error] step [OF hang_poll_pins]
        wp_mono [OF wp_millisleep_ends [OF assms]])
  moreover have "wp (poll_round e v) (\<lambda>_ t. flag_reads (trace s) \<le> flag_reads (trace t)) s"
    by (rule wp_mono [OF wp_appends [OF appends_poll_round]]) (rule flag_reads_suffix)
  ultimately show ?thesis by (rule wp_conj)
qed

section \<open>A report\<close>

text \<open>What \<open>localtime\<close> documents: a broken-down time of the calendar.\<close>

definition local_time_ok :: "env \<Rightarrow> bool" where
  "local_time_ok e \<longleftrightarrow> (\<forall>lt i. rv (lanswer e lt (LLocaltime i)) \<noteq> 0 \<and> valid_tm (tm_of (lanswer e lt (LLocaltime i))))"

lemma localtime_filename_length:
  assumes "local_time_ok e"
    and post: "\<And>x lt er u. length x \<le> 20 \<Longrightarrow> Q x (s\<lparr>ltrace := lt, errno := er, lub := u\<rparr>)"
  shows "wp (get_localtime_filename e n) Q s"
proof -
  have len: "length (strftime_text ''%Y-%m-%d_%Hh%Mm%Ss'' t) = 20" if "valid_tm t" for t
    using that by (simp add: strftime_conv_def valid_tm_def length_year length_two_digits)
  have "wp (get_localtime_filename e n) (\<lambda>x _. length x \<le> 20) s"
    unfolding get_localtime_filename_def get_localtime_str_def wp_bind
    using assms(1) len
    by (auto simp: wp_def run_lsys lrequire_def c_strftime_def local_time_ok_def Let_def split: option.splits)
  moreover have "wp (get_localtime_filename e n) (\<lambda>_ t. \<exists>lt er u. t = s\<lparr>ltrace := lt, errno := er, lub := u\<rparr>) s"
    unfolding get_localtime_filename_def by (rule wp_localtime_str) blast
  ultimately have "wp (get_localtime_filename e n) (\<lambda>x t. length x \<le> 20 \<and>
      (\<exists>lt er u. t = s\<lparr>ltrace := lt, errno := er, lub := u\<rparr>)) s" by (rule wp_conj)
  then show ?thesis by (rule wp_mono) (auto intro: post)
qed

lemma notif_text_format:
  obtains x where "notif_text pin val = Some x" and "c_format x [] = Some x" and "strlen x < MAX_NOTIF_MSG_SIZE"
proof -
  have f: "notif_text pin val = Some (buffer_take (MAX_NOTIF_MSG_SIZE - 1) (alarm_text pin val))"
    by (simp add: notif_text_def c_snprintf_def alarm_text_def)
  have plain: "CHR ''%'' \<notin> set (dec_int i)" for i
    using set_dec_int [of "CHR ''%''" i] by (auto simp: is_digit_def)
  then have "CHR ''%'' \<notin> set (alarm_text pin val)" by (simp add: alarm_text_def)
  then have "CHR ''%'' \<notin> set (buffer_take (MAX_NOTIF_MSG_SIZE - 1) (alarm_text pin val))"
    by (auto simp: buffer_take_def dest: in_set_takeD)
  moreover have "strlen (buffer_take (MAX_NOTIF_MSG_SIZE - 1) (alarm_text pin val)) < MAX_NOTIF_MSG_SIZE"
    using strlen_buffer_take [of "MAX_NOTIF_MSG_SIZE - 1" "alarm_text pin val"]
    by (simp add: MAX_NOTIF_MSG_SIZE_def MAX_PUSHOVER_MSG_SIZE_def MAX_TELEGRAM_MSG_SIZE_def)
  ultimately show thesis using f c_format_plain that by blast
qed

text \<open>The text of a notification always fits in the messages of both services.\<close>

lemma wp_send_info_notif:
  assumes ok: "res_ok (trace s)"
    and post: "\<And>ret tr lt er u. clean (trace s) tr \<Longrightarrow> Q ret (s\<lparr>trace := tr, ltrace := lt, errno := er, lub := u\<rparr>)"
  shows "wp (send_info_notif e msg prio) Q s"
proof -
  obtain x where x: "c_snprintf MAX_NOTIF_MSG_SIZE ''%s. %s'' [FStr (msg_info_str s), FStr msg] = Some x"
    by (simp add: c_snprintf_def)
  show ?thesis
    unfolding send_info_notif_def formatted_def
    by (auto intro!: telegram.request_clean wp_send_pushover post ok intro: cleanD clean_trans
      simp: x require_def)
qed

lemma wp_on_alarm_event:
  assumes law: "response_code_ok e" "local_time_ok e" and ok: "res_ok (trace s)"
    and post: "\<And>tr lt er u. clean (trace s) tr \<Longrightarrow> Q () (s\<lparr>trace := tr, ltrace := lt, errno := er, lub := u\<rparr>)"
  shows "wp (on_alarm_event e pin val) Q s"
proof -
  obtain x where x: "notif_text pin val = Some x" "c_format x [] = Some x"
    using notif_text_format by blast
  show ?thesis
    unfolding on_alarm_event_def formatted_def compose_capture_filename_def
    by (auto intro!: wp_event_printf wp_send_info_notif wp_whenM localtime_filename_length [OF law(2)] wp_c_store
        capturer.request_clean owncloud.request_clean law post ok
      simp: x require_def IMAGE_FILENAME_SIZE_def IMAGE_FILENAME_END_def MAX_TIME_FILENAME_LEN_def)
      (blast intro: cleanD clean_trans)+
qed

text \<open>What is done in a round once the arming pin has been read.\<close>

lemma round_body_spec:
  fixes u :: "'z polling_st_scheme"
  assumes "run_state (if ret = 0 then do {
         require (x \<noteq> None);
         let armed = (case x of None \<Rightarrow> junk e | Some x \<Rightarrow> x);
         if armed = PIN_LOW_VAL then poll_pins e [0, 1] v else return v
       } else note_error e ''Error %i while reading alarm arming GPIO (%i): %s\<newline>'' ret ARMING_GPIO v) u = (v', s2)"
    and "separate_files u" and "length (last_pin_value v) = 2" and "ret = 0 \<longrightarrow> x = Some 0 \<or> x = Some 1"
    and "round_spec v (ret, x) (contacts_read e [0, 1] v u) = (w, reports)"
  shows "v' = w \<and> event_view s2 = (log_file_handle u, event_file_handle u,
    lines_of (event_file_handle u) (ltrace u) @ map (\<lambda>(pin, val). alarm_text pin val) reports)"
proof (cases "ret = 0")
  case True
  show ?thesis
  proof (cases "x = Some 0")
    case low: True
    with True assms(1) have "run_state (poll_pins e [0, 1] v) u = (v', s2)" by (simp add: require_def)
    from poll_pins_spec [OF assms(2,3) this] assms(5) True low show ?thesis by (auto simp: round_spec_def)
  next
    case high: False
    with True assms(1,4) have "v' = v" "s2 = u" by (auto simp: require_def)
    with True high assms(2,4,5) show ?thesis by (auto simp: round_spec_def event_view_separate)
  qed
next
  case False
  with assms(1) have n: "run_state (note_error e ''Error %i while reading alarm arming GPIO (%i): %s\<newline>'' ret ARMING_GPIO v) u =
      (v', s2)" by simp
  then have "v' = v\<lparr>read_err := first_error (read_err v) [(ret, x)]\<rparr>"
    using False by (auto simp: note_error_def first_error_def split: if_splits prod.splits)
  with False run_kept [OF event_view.error, of e _ ret ARMING_GPIO v u] n assms(2,5) show ?thesis
    by (auto simp: round_spec_def event_view_separate) (metis snd_conv)+
qed

section \<open>A monitor for the witnesses\<close>

lemma unit_run: "run_state m s = ((), snd (run_state m s))"
  by (simp add: prod_eq_iff)

text \<open>The arming pin reads low and the second contact high; the flag is set after two rounds; no client is initialized.\<close>

definition monitor_env :: env where
  "monitor_env = env_of (\<lambda>tr c. case c of
       Gpiod (RequestGetValue _ i) \<Rightarrow> ok_reply (if i = 6 then 1 else 0)
     | Os ReadFlag \<Rightarrow> ok_reply (if flag_reads tr < 2 then 0 else 1)
     | _ \<Rightarrow> ok_reply 0)"

definition monitor_start :: polling_st where
  "monitor_start = log_st.extend (log_start\<lparr>console_messages := 0, event_file_handle := 9\<rparr>)
    \<lparr>g_gpio_chip = 1, g_pin_ctxs = 1,
     pin_ctx_mem = replicate 20 \<lparr>request = 3, direction = PIN_IN_DIR\<rparr>, g_num_lines = 20,
     g_library_opened = 1, g_capture_path = [], g_snapshot_url = [], g_initialized = 0,
     g_curl_global_initialized = 0, oc_capture_path = [], oc_remote_dir = [], oc_server_url = [],
     oc_user_id = [], oc_user_password = [], owncloud_initialized = 0, po_token_id = [], po_user_id = [],
     po_server_url = [], pushover_initialized = 0, tg_chat_id = [], tg_api_token = [],
     telegram_initialized = 0, lan_address = [], msg_info_str = [], full_capture_path = ''/c/''\<rparr>"

lemmas run_monitor_defs = run_defs monitor_env_def monitor_start_def log_st.defs log_start_def gpio_read_def
  validate_library_opened_def validate_pin_def get_pin_ctx_def line_value_of_def ARMING_GPIO_def CONTACT1_GPIO_def
  CONTACT2_GPIO_def Alarm_gpios_def

lemma monitor_start_fields [simp]: "separate_files monitor_start" "event_file_handle monitor_start = 9"
    "ltrace monitor_start = []" "trace monitor_start = []" "hang monitor_start = False" "ub monitor_start = False"
  by (simp_all add: separate_files_def monitor_start_def log_st.defs log_start_def)

section \<open>Properties\<close>

text \<open>
  C1: a round of the polling thread does what the specification says of the readings it gets: while
  the arming pin reads low, the known values become the ones read, every contact whose value has
  changed is reported with one line of the event file, in order, and the first error is kept; while
  it reads high or cannot be read, nothing is reported.
\<close>
theorem poll_round_refines_spec:
  fixes s :: "'z polling_st_scheme"
  assumes "run_state (poll_round e v) s = (v', t)"
    and "separate_files s" and "length (last_pin_value v) = 2"
    and "run_state (gpio_read e ARMING_GPIO False) s = (armed, u)"
    and "round_spec v armed (contacts_read e [0, 1] v u) = (w, reports)"
  shows "v' = w \<and> lines_of (event_file_handle s) (ltrace t) =
    lines_of (event_file_handle s) (ltrace s) @ map (\<lambda>(pin, val). alarm_text pin val) reports"
proof -
  have u: "event_view u = event_view s"
    using run_kept [OF event_view.pin, of e ARMING_GPIO False s] assms(4) by simp
  have sep: "separate_files u" "event_file_handle u = event_file_handle s"
      "lines_of (event_file_handle s) (ltrace u) = lines_of (event_file_handle s) (ltrace s)"
    using u assms(2) by (auto simp: event_view_def separate_files_def split: if_splits)
  obtain ret x where armed: "armed = (ret, x)" by fastforce
  have two: "[0..<length Alarm_gpios] = [0, 1]" by (simp add: Alarm_gpios_def upt_rec)
  define body :: "('z polling_st_scheme, poll_vars) state" where "body = (if ret = 0 then do {
         require (x \<noteq> None);
         let armed = (case x of None \<Rightarrow> junk e | Some x \<Rightarrow> x);
         if armed = PIN_LOW_VAL then poll_pins e [0, 1] v else return v
       } else note_error e ''Error %i while reading alarm arming GPIO (%i): %s\<newline>'' ret ARMING_GPIO v)"
  have "run_state (poll_round e v) s = run_state (do { v \<leftarrow> body; _ \<leftarrow> millisleep e PIR_POLLING_PERIOD_SECS; return v }) u"
    unfolding poll_round_def body_def two using assms(4) by (simp add: armed)
  then obtain s2 where body: "run_state body u = (v', s2)" and t: "event_view t = event_view s2"
    using assms(1) run_kept [OF event_view_sleep [where 'z = 'z], of e PIR_POLLING_PERIOD_SECS]
    by (auto split: prod.splits) (metis snd_conv)
  have "ret = 0 \<longrightarrow> x = Some 0 \<or> x = Some 1" using gpio_read_value [of e ARMING_GPIO s ret x] assms(4) armed by auto
  from round_body_spec [OF body [unfolded body_def] sep(1) assms(3) this] assms(5)
  have "v' = w \<and> event_view s2 = (log_file_handle u, event_file_handle s,
      lines_of (event_file_handle s) (ltrace s) @ map (\<lambda>(pin, val). alarm_text pin val) reports)"
    by (simp add: armed sep)
  then show ?thesis using t assms(2) sep by (auto simp: event_view_def separate_files_def split: if_splits)
qed

lemma poll_round_refines_spec_witness:
  "lines_of 9 (ltrace (snd (run_state (poll_round monitor_env poll_start) monitor_start))) = [alarm_text 6 1]"
proof -
  let ?u = "snd (run_state (gpio_read monitor_env ARMING_GPIO False) monitor_start)"
  have armed: "run_state (gpio_read monitor_env ARMING_GPIO False) monitor_start = ((0, Some 0), ?u)"
    by (simp add: run_monitor_defs)
  have read: "contacts_read monitor_env [0, 1] poll_start ?u = [(0, Some 0), (0, Some 1)]"
    unfolding contacts_read_two by (simp add: run_monitor_defs poll_pin_def poll_start_def)
  have spec: "round_spec poll_start (0, Some 0) (contacts_read monitor_env [0, 1] poll_start ?u) =
      (poll_start\<lparr>last_pin_value := [0, 1]\<rparr>, [(6, 1)])"
    unfolding read by code_simp
  from poll_round_refines_spec [OF prod.collapse [symmetric] _ _ armed spec] show ?thesis
    by (simp add: poll_start_def Alarm_gpios_def)
qed

text \<open>
  C11: when the flag is set after at most \<open>k\<close> readings and at most \<open>j\<close> signals interrupt the pauses, for any
  \<open>k\<close> and \<open>j\<close> that the fuel exceeds, the polling thread returns: neither its loop nor that of a pause
  goes on for ever.
\<close>
theorem polling_thread_ends:
  assumes "run_state (polling_thread e) s = (ret, t)"
    and "flag_set_after k e" and "signals_end_after j e" and "k < fuel e" and "j < fuel e"
  shows "hang t = hang s"
proof -
  have loop: "wp (while_fuel (fuel e) (flag_clear e) (poll_round e) v) (\<lambda>_ t. hang t = hang s) u"
    if "hang u = hang s" for v and u :: "'a polling_st_scheme"
  proof (rule wp_while_total [where I = "\<lambda>_ t. hang t = hang s" and m = "\<lambda>_ t. k - flag_reads (trace t)"])
    fix y and w :: "'a polling_st_scheme"
    assume w: "hang w = hang s"
    have go: "flag_reads (trace w) < k" if "rv (answer e (trace w) (Os ReadFlag)) = 0"
      using assms(2) that unfolding flag_set_after_def by (meson not_le)
    show "wp (flag_clear e y) (\<lambda>g u. if g then wp (poll_round e y)
        (\<lambda>_ v. hang v = hang s \<and> k - flag_reads (trace v) < k - flag_reads (trace w)) u else hang u = hang s) w"
      unfolding flag_clear_def
      by (auto intro!: wp_sysv_eq wp_mono [OF wp_poll_round_ends [OF assms(3,5)]] dest: go simp: w flag_reads_def)
  qed (use that assms(4) in auto)
  have "wp (polling_thread e) (\<lambda>_ t. hang t = hang s) s"
    unfolding polling_thread_def
    by (auto intro!: wp_intro wp_mono [OF loop])
  from wp_runD [OF this assms(1)] show ?thesis .
qed

lemma polling_thread_ends_witness: "\<not> hang (snd (run_state (polling_thread monitor_env) monitor_start))"
proof -
  have "flag_set_after 2 monitor_env" "signals_end_after 0 monitor_env" "2 < fuel monitor_env" "0 < fuel monitor_env"
    by (auto simp: flag_set_after_def signals_end_after_def interrupted_def monitor_env_def env_of_def ok_reply_def)
  from polling_thread_ends [OF prod.collapse [symmetric] this, of monitor_start] show ?thesis by simp
qed

text \<open>
  C17: reporting a contact is safe for every pin and value: the text is a valid format without
  arguments, the name of the photo fits in its array for every date of the years 1000 to 9999, the
  message is never too long for a service, and everything the clients acquire is given back.
\<close>
theorem alarm_event_safe:
  assumes "run_state (on_alarm_event e pin val) s = ((), t)"
    and "response_code_ok e" and "local_time_ok e" and "res_ok (trace s)"
  shows "clean (trace s) (trace t) \<and> ub t = ub s \<and> hang t = hang s \<and> log_st.more t = log_st.more s \<and>
    (\<exists>x. notif_text pin val = Some x \<and> strlen x < MAX_NOTIF_MSG_SIZE)"
proof -
  have "wp (on_alarm_event e pin val) (\<lambda>_ t. clean (trace s) (trace t) \<and> ub t = ub s \<and> hang t = hang s \<and>
      log_st.more t = log_st.more s) s"
    by (rule wp_on_alarm_event [OF assms(2-4)]) simp
  from wp_runD [OF this assms(1)] notif_text_format [of pin val] show ?thesis by metis
qed

lemma alarm_event_safe_witness:
  "clean [] (trace (snd (run_state (on_alarm_event (monitor_env\<lparr>lanswer := \<lambda>_ _. \<lparr>rv = 1, rerr = 0,
     rints = [2024, 2, 29, 23, 59, 60], rstr = [], rstrs = []\<rparr>\<rparr>) 6 1) monitor_start)))"
proof -
  let ?e = "monitor_env\<lparr>lanswer := \<lambda>_ _. \<lparr>rv = 1, rerr = 0, rints = [2024, 2, 29, 23, 59, 60], rstr = [], rstrs = []\<rparr>\<rparr>"
  have "response_code_ok ?e" "local_time_ok ?e" "res_ok (trace monitor_start)"
    by (simp_all add: response_code_ok_def local_time_ok_def valid_tm_def tm_of_def res_ok_def monitor_env_def
      env_of_def ok_reply_def)
  from alarm_event_safe [OF unit_run this, of 6 1] show ?thesis by simp
qed

text \<open>
  C9: the initializations of the four clients, at the start of the program, leave only values that fit
  in their arrays, and whatever client then counts as initialized has all the values it needs; there is
  no undefined behaviour, whatever the configuration files hold.
\<close>
theorem init_clients_well_formed:
  assumes "run_state (init_clients e) s = ((), t)" and "clients_ok s" and "clients_off s"
  shows "clients_ok t \<and> ub t = ub s"
proof -
  have "wp (init_clients e) (\<lambda>_ t. clients_ok t \<and> ub t = ub s) s"
    by (rule wp_init_clients [OF assms(2,3)]) simp
  from wp_runD [OF this assms(1)] show ?thesis .
qed

lemma init_clients_well_formed_witness:
  "clients_ok (snd (run_state (init_clients monitor_env) monitor_start))"
proof -
  have "clients_ok monitor_start" "clients_off monitor_start"
    by (simp_all add: clients_ok_def client_ok_defs clients_off_def monitor_start_def log_st.defs)
  from init_clients_well_formed [OF unit_run this] show ?thesis by simp
qed

text \<open>
  Every initialization of libcurl is undone exactly once: after \<open>deinit_polling\<close> the count is what it was
  before the clients were initialized, if what happened in between changed neither the counters nor the
  count.  ownCloud alone keeps saying that it is initialized.
\<close>
theorem curl_global_balanced:
  assumes "run_state (init_clients e) s = ((), s1)" and "clients_ok s" and "clients_off s"
    and "curl_refs (trace s2) = curl_refs (trace s1)"
    and "owncloud_initialized s2 = owncloud_initialized s1" and "pushover_initialized s2 = pushover_initialized s1"
    and "telegram_initialized s2 = telegram_initialized s1"
    and "g_curl_global_initialized s2 = g_curl_global_initialized s1"
    and "run_state (deinit_polling e) s2 = ((), t)"
  shows "curl_refs (trace t) = curl_refs (trace s) \<and> pushover_initialized t = 0 \<and> telegram_initialized t = 0 \<and>
    g_curl_global_initialized t = 0 \<and> owncloud_initialized t = owncloud_initialized s1"
proof -
  have "wp (init_clients e) (\<lambda>_ t. flags_ok t \<and> curl_refs (trace t) = curl_refs (trace s) + curl_holders t) s"
    by (rule wp_init_clients [OF assms(2,3)]) simp
  from wp_runD [OF this assms(1)]
  have flags: "flags_ok s1" and refs: "curl_refs (trace s1) = curl_refs (trace s) + curl_holders s1" by simp_all
  have t: "t = snd (run_state (deinit_polling e) s2)" using assms(9) by simp
  have "curl_refs (trace t) = curl_refs (trace s)"
    unfolding t deinit_clients using refs flags assms(4-8)
    by (auto simp: flags_ok_def flag_def curl_holders_def)
  moreover have "pushover_initialized t = 0 \<and> telegram_initialized t = 0 \<and>
    g_curl_global_initialized t = 0 \<and> owncloud_initialized t = owncloud_initialized s1"
    unfolding t using flags assms(4-8)
    by (auto simp: flags_ok_def flag_def deinit_polling_def owncloud_deinit_def pushover_deinit_def telegram_deinit_def
      capturer_deinit_def run_defs whenM_def)
  ultimately show ?thesis by simp
qed

lemma curl_global_balanced_witness:
  "curl_refs (trace (snd (run_state (deinit_polling monitor_env) (snd (run_state (init_clients monitor_env) monitor_start))))) = 0"
proof -
  have "clients_ok monitor_start" "clients_off monitor_start"
    by (simp_all add: clients_ok_def client_ok_defs clients_off_def monitor_start_def log_st.defs)
  from curl_global_balanced [OF unit_run this refl refl refl refl refl unit_run] show ?thesis by simp
qed

end
