(* ===== verification/Net_Props.thy ===== *)
theory Net_Props
  imports Polling_Props
begin

text \<open>
  Properties of the public address and of the port mapping: the text of the address, what becomes of
  it in the information message, and the operations of a router that was not found.
\<close>

section \<open>Addresses as text\<close>

lemma octet_eq: "octet i a = int (unat a div 256 ^ i mod 256)"
proof -
  have "drop_bit (8 * i) a AND 255 = take_bit 8 (drop_bit (8 * i) a)"
    by (simp add: take_bit_eq_mask mask_eq_exp_minus_1)
  then have "octet i a = int (unat (take_bit 8 (drop_bit (8 * i) a)))"
    by (simp add: octet_def)
  also have "unat (take_bit 8 (drop_bit (8 * i) a)) = take_bit 8 (drop_bit (8 * i) (unat a))"
    by (simp only: unsigned_take_bit_eq unat_drop_bit_eq)
  also have "\<dots> = unat a div 2 ^ (8 * i) mod 2 ^ 8"
    by (simp only: take_bit_eq_mod drop_bit_eq_div)
  finally show ?thesis by (simp add: power_mult)
qed

lemma four_octets:
  assumes "n < 256 ^ 4"
  shows "n = n mod 256 + 256 * (n div 256 mod 256) + 256 ^ 2 * (n div 256 ^ 2 mod 256) +
    256 ^ 3 * (n div 256 ^ 3 mod (256 :: nat))"
proof -
  have n: "n div 256 ^ 2 = n div 256 div 256" "n div 256 ^ 3 = n div 256 div 256 div 256"
    by (simp_all add: div_mult2_eq [symmetric])
  have "n div 256 div 256 div 256 < 256"
    using assms by (simp add: div_mult2_eq [symmetric] less_mult_imp_div_less)
  then have top: "n div 256 div 256 div 256 mod 256 = n div 256 div 256 div 256" by (rule mod_less)
  have p: "256 ^ 2 = (65536 :: nat)" "256 ^ 3 = (16777216 :: nat)" by simp_all
  show ?thesis
    unfolding n top unfolding p
    using div_mult_mod_eq [of n 256] div_mult_mod_eq [of "n div 256" 256] div_mult_mod_eq [of "n div 256 div 256" 256]
    by linarith
qed

text \<open>The address of a text: its four decimal numbers.\<close>

fun read_octets :: "nat \<Rightarrow> string \<Rightarrow> nat list" where
  "read_octets 0 s = []"
| "read_octets (Suc n) s = read_digits 0 s # read_octets n (drop 1 (dropWhile is_digit s))"

definition inet_aton :: "string \<Rightarrow> in_addr" where
  "inet_aton s = (case read_octets 4 s of
     [a, b, c, d] \<Rightarrow> word_of_nat (a + 256 * b + 256 ^ 2 * c + 256 ^ 3 * d) | _ \<Rightarrow> 0)"

lemma dot_not_digit: "\<not> is_digit (CHR ''.'')"
  by (simp add: is_digit_def)

lemma read_octet_dot:
  "read_octets (Suc n) (dec_int (int k) @ ''.'' @ rest) = k # read_octets n rest"
proof -
  have "read_digits 0 (dec_nat k @ ''.'' @ rest) = k"
    using dot_not_digit by (simp add: read_digits_append digits_dec_nat read_digits_dec_nat)
  moreover have "dropWhile is_digit (dec_nat k @ ''.'' @ rest) = ''.'' @ rest"
    using digits_dec_nat dot_not_digit by (subst dropWhile_append2) auto
  ultimately show ?thesis by (simp add: dec_int_def)
qed

lemma read_four_octets:
  "read_octets 4 (dec_int (int a) @ ''.'' @ dec_int (int b) @ ''.'' @ dec_int (int c) @ ''.'' @ dec_int (int d)) =
     [a, b, c, d]"
proof -
  have "read_octets (Suc 0) (dec_int (int d)) = [d]"
    using read_digits_dec_nat [of d] by (simp add: dec_int_def)
  then have "read_octets (Suc (Suc (Suc (Suc 0))))
      (dec_int (int a) @ ''.'' @ dec_int (int b) @ ''.'' @ dec_int (int c) @ ''.'' @ dec_int (int d)) = [a, b, c, d]"
    by (simp only: read_octet_dot)
  moreover have "(4 :: nat) = Suc (Suc (Suc (Suc 0)))" by simp
  ultimately show ?thesis by (simp only:)
qed

lemma inet_aton_ntoa: "inet_aton (inet_ntoa a) = a"
proof -
  have "unat a < 256 ^ 4" using unsigned_less [of a, where ?'a = nat] by simp
  have "unat a div 256 ^ 0 mod 256 + 256 * (unat a div 256 ^ 1 mod 256) + 256 ^ 2 * (unat a div 256 ^ 2 mod 256) +
      256 ^ 3 * (unat a div 256 ^ 3 mod 256) = unat a"
    using four_octets [OF \<open>unat a < 256 ^ 4\<close>, symmetric] by (simp only: power_0 div_by_1 power_one_right)
  then show ?thesis
    unfolding inet_aton_def inet_ntoa_def octet_eq read_four_octets list.case by (simp only:) simp
qed

lemma octet_digits: "length (dec_int (octet i a)) \<le> 3" "CHR ''%'' \<notin> set (dec_int (octet i a))"
proof -
  let ?n = "unat a div 256 ^ i mod 256"
  have small: "?n < 256" by simp
  have "length (dec_nat n) \<le> 3" if "n < 1000" for n
  proof (cases "n < 100")
    case True
    then show ?thesis using length_dec_nat_1 [of n] length_dec_nat_2 [of n] by (cases "n < 10") auto
  next
    case False
    with that have "length (dec_nat (n div 10)) = 2" by (intro length_dec_nat_2) auto
    with False show ?thesis by (subst dec_nat.simps) simp
  qed
  moreover have "?n < 1000" using small by linarith
  ultimately have "length (dec_nat ?n) \<le> 3" by blast
  then show "length (dec_int (octet i a)) \<le> 3" unfolding octet_eq by (simp add: dec_int_def)
  show "CHR ''%'' \<notin> set (dec_int (octet i a))"
    using set_dec_int [of "CHR ''%''" "octet i a"] by (auto simp: is_digit_def)
qed

lemma inet_ntoa_text: "length (inet_ntoa a) \<le> 15" "CHR ''%'' \<notin> set (inet_ntoa a)"
  using octet_digits(1) [of 0 a] octet_digits(1) [of 1 a] octet_digits(1) [of 2 a] octet_digits(1) [of 3 a] octet_digits(2)
  by (simp_all add: inet_ntoa_def)

section \<open>Asking for the public address\<close>

text \<open>The loop over the results of the resolver does not report success without an address.\<close>

lemma pick_address_answered: "pick_address as x \<noteq> (0, None)"
  by (induction "as" arbitrary: x) auto

lemma wp_get_public_ip:
  assumes ok: "res_ok (trace s)"
    and post: "\<And>ret addr tr lt er u. clean (trace s) tr \<Longrightarrow>
      ret = 0 \<and> (\<exists>a. addr = Some (inet_ntoa a)) \<or> ret \<noteq> 0 \<and> addr = None \<Longrightarrow>
      Q (ret, addr) (s\<lparr>trace := tr, ltrace := lt, errno := er, lub := u\<rparr>)"
  shows "wp (get_public_ip e) Q s"
proof -
  note quiet = post [where lt = "ltrace s" and u = "lub s", simplified]
  have start: "clean (trace s) (trace s)" by (rule clean_refl [OF ok])
  show ?thesis
    unfolding get_public_ip_def hostname_to_ip_at_dns_def hostname_to_ip_def query_server_def read_response_def
      read_record_def
    by (auto intro!: wp_intro post quiet clean_neutral start simp: require_def Let_def pick_address_answered)
      (rule exI, rule refl)+
qed

text \<open>A resolver that answers with one address, and no router.\<close>

definition resolver :: env where
  "resolver = env_of (\<lambda>_ c. case c of
       Net (Getaddrinfo _) \<Rightarrow> (ok_reply 0)\<lparr>rints := [16909060]\<rparr>
     | Net NsMsgCount \<Rightarrow> ok_reply 1 | Net NsRrType \<Rightarrow> ok_reply 1
     | Net NsRrRdata \<Rightarrow> (ok_reply 0)\<lparr>rints := [67305985]\<rparr> | _ \<Rightarrow> ok_reply 0)"

section \<open>Properties\<close>

text \<open>
  C27: \<open>get_public_ip\<close> stores a text exactly when it reports success; the text is the dotted form of an
  address, from which the address can be read back, and it has at most 15 characters, so that it fits
  in the caller's array of \<open>INET6_ADDRSTRLEN\<close> bytes.
\<close>
theorem public_ip_text:
  assumes "run_state (get_public_ip e) s = ((ret, addr), t)" and "res_ok (trace s)"
  shows "ub t = ub s \<and> hang t = hang s \<and> clean (trace s) (trace t) \<and> (case addr of
      None \<Rightarrow> ret \<noteq> 0
    | Some x \<Rightarrow> ret = 0 \<and> x = inet_ntoa (inet_aton x) \<and> strlen x < INET6_ADDRSTRLEN)"
proof -
  have fits: "length (inet_ntoa a) < 46" for a using inet_ntoa_text(1) [of a] by linarith
  have "wp (get_public_ip e) (\<lambda>(ret, addr) t. ub t = ub s \<and> hang t = hang s \<and> clean (trace s) (trace t) \<and> (case addr of
      None \<Rightarrow> ret \<noteq> 0
    | Some x \<Rightarrow> ret = 0 \<and> x = inet_ntoa (inet_aton x) \<and> strlen x < INET6_ADDRSTRLEN)) s"
    by (rule wp_get_public_ip [OF assms(2)])
      (auto simp: inet_aton_ntoa INET6_ADDRSTRLEN_def fits)
  from wp_runD [OF this assms(1)] show ?thesis by simp
qed

lemma public_ip_text_witness:
  "fst (run_state (get_public_ip resolver) log_start) =
     (0, Some ''1.2.3.4'') \<and> inet_ntoa (inet_aton ''1.2.3.4'') = ''1.2.3.4''"
proof -
  let ?m = "get_public_ip resolver"
  have r: "fst (run_state ?m log_start) = (0, Some ''1.2.3.4'')" by code_simp
  then have "run_state ?m log_start = ((0, Some ''1.2.3.4''), snd (run_state ?m log_start))"
    by (simp add: prod_eq_iff)
  from public_ip_text [OF this] r show ?thesis by (simp add: res_ok_def)
qed

text \<open>
  C26: the information message is made with a format that the output of the tunnelling program is a part
  of.  When the address is known, the behaviour is undefined exactly if that format, whatever the
  program has printed, does not fit the one address: it asks for another argument, or contains a conversion
  other than those of \<open>c_format\<close>.
\<close>
theorem update_ip_msg_format:
  assumes "run_state (get_public_ip e) s = ((0, Some a), u)" and "run_state (update_ip_msg e fmt) s = (ret, t)"
    and "res_ok (trace s)"
  shows "ret = 0 \<and> ub t = (ub s \<or> c_format fmt [FStr a] = None) \<and> clean (trace s) (trace t)"
proof -
  have "wp (get_public_ip e) (\<lambda>_ t. ub t = ub s \<and> clean (trace s) (trace t)) s"
    by (rule wp_get_public_ip [OF assms(3)]) simp
  from wp_runD [OF this assms(1)] have u: "ub u = ub s" "clean (trace s) (trace u)" by simp_all
  have none: "c_snprintf MSG_INFO_SIZE fmt [FStr a] = None \<longleftrightarrow> c_format fmt [FStr a] = None"
    by (simp add: c_snprintf_def)
  have rest: "wp (whenM True (do {
      curr_msg_info_str \<leftarrow> formatted (c_snprintf MSG_INFO_SIZE fmt [FStr a]);
      info \<leftarrow> gets msg_info_str;
      whenM (curr_msg_info_str \<noteq> info) (do {
        modify (\<lambda>s. s\<lparr>msg_info_str := curr_msg_info_str\<rparr>);
        log_printf e ''Public IP address: %s\<newline>'' [FStr a];
        _ \<leftarrow> send_info_notif e ''Alarm4pi running. Public IP obtained'' ''-2'';
        return ()
      }) })) (\<lambda>_ t. ub t = (ub s \<or> c_format fmt [FStr a] = None) \<and> clean (trace s) (trace t)) u"
    unfolding formatted_def
    using u none
    by (auto intro!: wp_intro wp_send_info_notif) (blast intro: cleanD clean_trans)+
  have "run_state (update_ip_msg e fmt) s = run_state (do {
      whenM True (do {
      curr_msg_info_str \<leftarrow> formatted (c_snprintf MSG_INFO_SIZE fmt [FStr a]);
      info \<leftarrow> gets msg_info_str;
      whenM (curr_msg_info_str \<noteq> info) (do {
        modify (\<lambda>s. s\<lparr>msg_info_str := curr_msg_info_str\<rparr>);
        log_printf e ''Public IP address: %s\<newline>'' [FStr a];
        _ \<leftarrow> send_info_notif e ''Alarm4pi running. Public IP obtained'' ''-2'';
        return ()
      }) }); return 0 }) u"
    unfolding update_ip_msg_def using assms(1) by simp
  with rest assms(2) show ?thesis by (simp add: wp_def split: prod.splits)
qed

lemma update_ip_msg_format_witness:
  "ub (snd (run_state (update_ip_msg resolver ''http://%s:8008 Tunneling: 100%d'') monitor_start))"
proof -
  let ?u = "snd (run_state (get_public_ip resolver) monitor_start)"
  have "fst (run_state (get_public_ip resolver) monitor_start) = (0, Some ''1.2.3.4'')" by code_simp
  then have r: "run_state (get_public_ip resolver) monitor_start = ((0, Some ''1.2.3.4''), ?u)"
    by (simp add: prod_eq_iff)
  have "res_ok (trace monitor_start)" by (simp add: res_ok_def)
  from update_ip_msg_format [OF r prod.collapse [symmetric] this, of "''http://%s:8008 Tunneling: 100%d''"]
  show ?thesis by simp
qed

text \<open>
  C40: when no router is found and the search reports no error, \<open>init_UPNP\<close> reports success all the same;
  the other operations then see that there is no LAN address and return -1 without calling the library.
\<close>
theorem upnp_without_router:
  assumes "run_state (init_UPNP e wan) s = ((ret, addr), t)" and "lan_address s = []"
    and "rv (answer e (trace s) (Net UpnpDiscover)) = 0" and "rout (answer e (trace s) (Net UpnpDiscover)) = 0"
  shows "ret = 0 \<and> addr = None \<and> lan_address t = [] \<and> run_state (add_UPNP_mapping e) t = (-1, t) \<and>
    run_state (print_UPNP_mapping e) t = (-1, t) \<and> run_state (delete_UPNP_mapping e) t = (-1, t) \<and>
    run_state (terminate_UPNP e) t = (-1, t)"
proof -
  have "wp (init_UPNP e wan) (\<lambda>(ret, addr) t. ret = 0 \<and> addr = None \<and> lan_address t = []) s"
    unfolding init_UPNP_def wp_bind
    by (rule wp_sys_eq) (use assms(2-4) in \<open>auto intro!: wp_intro\<close>)
  from wp_runD [OF this assms(1)] show ?thesis
    by (simp add: add_UPNP_mapping_def print_UPNP_mapping_def delete_UPNP_mapping_def terminate_UPNP_def)
qed

lemma upnp_without_router_witness:
  "fst (run_state (add_UPNP_mapping resolver) (snd (run_state (init_UPNP resolver False) monitor_start))) = -1"
proof -
  have "fst (run_state (init_UPNP resolver False) monitor_start) = (0, None)" by code_simp
  then have r: "run_state (init_UPNP resolver False) monitor_start =
      ((0, None), snd (run_state (init_UPNP resolver False) monitor_start))" by (simp add: prod_eq_iff)
  have "lan_address monitor_start = []" by (simp add: monitor_start_def log_st.defs)
  moreover have "rv (answer resolver tr (Net UpnpDiscover)) = 0 \<and> rout (answer resolver tr (Net UpnpDiscover)) = 0" for tr
    by (simp add: resolver_def env_of_def ok_reply_def rout_def)
  ultimately show ?thesis using upnp_without_router [OF r] by simp
qed

text \<open>
  Deleting the port mappings undoes adding them: with a LAN address, the first asks the router to map
  port 8008 to this address and the second to remove the mapping of the same port and protocol; the
  result is that of the router.
\<close>
theorem port_mapping_roundtrip:
  assumes "lan_address s \<noteq> []" and "run_state (add_UPNP_mapping e) s = (r1, t)"
    and "run_state (delete_UPNP_mapping e) t = (r2, u)"
  shows "\<exists>a d. trace u = (Net (UpnpDeletePortMapping WEB_SERVER_PORT ''TCP''), d) #
      (Net (UpnpAddPortMapping WEB_SERVER_PORT WEB_SERVER_PORT (lan_address s) ''webcam RPi'' ''TCP''), a) # trace s \<and>
    r1 = rv a \<and> r2 = rv d \<and> lan_address u = lan_address s"
proof -
  have "wp (add_UPNP_mapping e) (\<lambda>r1 t. \<exists>a. trace t = (Net (UpnpAddPortMapping WEB_SERVER_PORT WEB_SERVER_PORT
      (lan_address s) ''webcam RPi'' ''TCP''), a) # trace s \<and> r1 = rv a \<and> lan_address t = lan_address s) s"
    unfolding add_UPNP_mapping_def Port_mappings_def using assms(1) by (auto intro!: wp_intro)
  from wp_runD [OF this assms(2)] obtain a where a: "trace t = (Net (UpnpAddPortMapping WEB_SERVER_PORT WEB_SERVER_PORT
      (lan_address s) ''webcam RPi'' ''TCP''), a) # trace s" "r1 = rv a" "lan_address t = lan_address s" by blast
  have "wp (delete_UPNP_mapping e) (\<lambda>r2 u. \<exists>d. trace u = (Net (UpnpDeletePortMapping WEB_SERVER_PORT ''TCP''), d) #
      trace t \<and> r2 = rv d \<and> lan_address u = lan_address t) t"
    unfolding delete_UPNP_mapping_def Port_mappings_def using assms(1) a(3) by (auto intro!: wp_intro)
  from wp_runD [OF this assms(3)] a show ?thesis by auto
qed

lemma port_mapping_roundtrip_witness:
  "\<exists>a d. trace (snd (run_state (delete_UPNP_mapping resolver)
      (snd (run_state (add_UPNP_mapping resolver) (monitor_start\<lparr>lan_address := ''192.168.1.9''\<rparr>))))) =
    [(Net (UpnpDeletePortMapping WEB_SERVER_PORT ''TCP''), d),
     (Net (UpnpAddPortMapping WEB_SERVER_PORT WEB_SERVER_PORT ''192.168.1.9'' ''webcam RPi'' ''TCP''), a)]"
proof -
  have "lan_address (monitor_start\<lparr>lan_address := ''192.168.1.9''\<rparr>) \<noteq> []" by simp
  from port_mapping_roundtrip [OF this prod.collapse [symmetric] prod.collapse [symmetric], of resolver]
  show ?thesis by auto
qed

end
