(* ===== verification/Alarm.thy ===== *)
theory Alarm
  imports Polling ProcWait
begin

text \<open>
  alarm4pi.c: the daemon.  The polling thread runs between its creation and the join at which
  the main thread waits for it; meanwhile the main thread writes one log message, so the model
  runs the thread right before the join.  A function result \<open>None\<close> is a forked child that has
  become another program or has exited.  The signal handler is a function of its own; that it
  has set \<open>Exit_daemon_loop\<close> is seen by the calls that read the flag.
\<close>

section \<open>State and constants\<close>

record alarm_st = polling_st +
  child_process_ids :: "int list"

definition WSERVER_ENV_VAR_NAME :: string where "WSERVER_ENV_VAR_NAME = ''LD_LIBRARY_PATH''"

definition WSERVER_ENV_VAR_VAL :: string where "WSERVER_ENV_VAR_VAL = ''/usr/local/lib''"

definition WEB_SERVER_BIN_PATH :: string where
  "WEB_SERVER_BIN_PATH = ''./mjpg-streamer-master/mjpg-streamer-experimental/''"

definition LOG_FILE_PATH :: string where "LOG_FILE_PATH = ''./log/''"

definition CAPTURE_IMAGE_PATH :: string where "CAPTURE_IMAGE_PATH = ''captures/''"

definition MAX_NUM_CHILD_PROCESSES :: nat where "MAX_NUM_CHILD_PROCESSES = 2"

definition CHILD_PROC_EXEC_RETRY_PER :: int where "CHILD_PROC_EXEC_RETRY_PER = 5"

definition MAX_CHILD_PROC_EXEC_RETRIES :: int where "MAX_CHILD_PROC_EXEC_RETRIES = 3"

definition INFO_MSG_SIZE :: int where "INFO_MSG_SIZE = 512"

definition web_server_exec_args :: "string list" where
  "web_server_exec_args =
     [WEB_SERVER_BIN_PATH @ ''mjpg_streamer'', ''-i'', WEB_SERVER_BIN_PATH @ ''input_libcamera.so'',
      ''-o'', WEB_SERVER_BIN_PATH @ ''output_http.so -w ./www -p '' @ WEB_SERVER_PORT]"

definition tunneling_exec_args :: "string list" where
  "tunneling_exec_args = [''tailscale'', ''status'']"

definition processes_exec_args :: "string list list" where
  "processes_exec_args = [web_server_exec_args, tunneling_exec_args]"

section \<open>Signals\<close>

text \<open>The handler's other effect is the value 1 of the flag, which is the outside's to report.\<close>

definition exit_deamon_handler :: "env \<Rightarrow> int \<Rightarrow> ('z alarm_st_scheme, unit) state" where
  "exit_deamon_handler e sig = do {
     log_printf e ''Signal %i received: Sending TERM signal to children.\<newline>'' [FInt sig];
     pids \<leftarrow> gets child_process_ids;
     kill_processes e pids
   }"

definition set_signal_handler :: "env \<Rightarrow> ('z alarm_st_scheme, int) state" where
  "set_signal_handler e = do {
     sysu e (Os (Sigaction ''SIGINT''));
     r \<leftarrow> sysv e (Os (Sigaction ''SIGTERM''));
     er \<leftarrow> gets errno;
     if r = 0 then return 0
     else do {
       log_printf e ''Error setting termination signal handler. errno=%d\<newline>'' [FInt er];
       return er
     }
   }"

section \<open>Child processes\<close>

definition set_child_id :: "nat \<Rightarrow> int \<Rightarrow> ('z alarm_st_scheme, unit) state" where
  "set_child_id i pid = do {
     pids \<leftarrow> gets child_process_ids;
     require (i < length pids);
     modify (\<lambda>s. s\<lparr>child_process_ids := pids[i := pid]\<rparr>)
   }"

text \<open>The output of the tunneling program is added to the message; the new message.\<close>

definition start_tunneling :: "env \<Rightarrow> string \<Rightarrow> ('z alarm_st_scheme, string option) state" where
  "start_tunneling e info_msg_fmt = do {
     let info_msg_fmt = info_msg_fmt @ buffer_take (INFO_MSG_SIZE - strlen info_msg_fmt - 1) '' Tunneling: '';
     exec_abs_args \<leftarrow> replace_relative_path_array e tunneling_exec_args;
     case exec_abs_args of
       None \<Rightarrow> do { require False; return (Some info_msg_fmt) }
     | Some arr \<Rightarrow> do {
         require (arr_strings arr \<noteq> []);
         res \<leftarrow> run_background_command_out_array e (INFO_MSG_SIZE - strlen info_msg_fmt)
           (hd (arr_strings arr)) (arr_strings arr);
         case res of
           None \<Rightarrow> return None
         | Some (run_prog_ret, child_proc_id, output) \<Rightarrow> do {
             free_substring_array e arr;
             let text = (case output of None \<Rightarrow> [] | Some x \<Rightarrow> x);
             whenM (run_prog_ret = 0) (do {
               require (child_proc_id \<noteq> None);
               log_printf e ''Created child process %s for reverse-tunneling with PID=%i.\<newline>''
                 [FStr (hd tunneling_exec_args), FInt (case child_proc_id of None \<Rightarrow> junk e | Some p \<Rightarrow> p)];
               log_printf e ''Tunneling process output: %s\<newline>'' [FStr text]
             });
             return (Some (info_msg_fmt @ text))
           }
       }
   }"

text \<open>The web server and, when it has started, the tunneling program: the number of child
  processes and the message.\<close>

definition start_children :: "env \<Rightarrow> string \<Rightarrow> ('z alarm_st_scheme, (nat \<times> string) option) state" where
  "start_children e info_msg_fmt = do {
     exec_abs_args \<leftarrow> replace_relative_path_array e web_server_exec_args;
     case exec_abs_args of
       None \<Rightarrow> do { require False; return (Some (0, info_msg_fmt)) }
     | Some arr \<Rightarrow> do {
         require (arr_strings arr \<noteq> []);
         res \<leftarrow> run_background_command_out_log e (hd (arr_strings arr)) (arr_strings arr);
         case res of
           None \<Rightarrow> return None
         | Some (run_prog_ret, child_proc_id) \<Rightarrow> do {
             free_substring_array e arr;
             if run_prog_ret = 0 then do {
               set_child_id 0 child_proc_id;
               log_printf e ''Created child process %s for web server with PID %i.\<newline>''
                 [FStr (hd web_server_exec_args), FInt child_proc_id];
               fmt \<leftarrow> start_tunneling e info_msg_fmt;
               return (map_option (Pair 1) fmt)
             } else return (Some (0, info_msg_fmt))
           }
       }
   }"

section \<open>The daemon\<close>

text \<open>The monitor and its end.\<close>

definition run_monitor :: "env \<Rightarrow> string \<Rightarrow> ('z alarm_st_scheme, int) state" where
  "run_monitor e info_msg_fmt = do {
     main_err \<leftarrow> init_polling e CAPTURE_IMAGE_PATH info_msg_fmt;
     (if main_err = 0 then do {
        _ \<leftarrow> polling_thread e;
        _ \<leftarrow> wait_polling_end e;
        return ()
      } else log_printf e ''Error: The polling thread has not been created.\<newline>'' []);
     return main_err
   }"

definition wait_children :: "env \<Rightarrow> nat \<Rightarrow> ('z alarm_st_scheme, unit option) state" where
  "wait_children e num_child_processes = do {
     sysu e (Os (Sleep 1));
     log_printf e ''Waiting for child processes to finish\<newline>'' [];
     pids \<leftarrow> gets child_process_ids;
     require (num_child_processes \<le> length pids);
     res \<leftarrow> wait_child_processes e (take num_child_processes pids) (take num_child_processes processes_exec_args)
       CHILD_PROC_EXEC_RETRY_PER MAX_CHILD_PROC_EXEC_RETRIES;
     case res of
       None \<Rightarrow> return None
     | Some (_, new_pids) \<Rightarrow> do {
         modify (\<lambda>s. s\<lparr>child_process_ids := new_pids @ drop num_child_processes pids\<rparr>);
         return (Some ())
       }
   }"

definition shut_down :: "env \<Rightarrow> ('z alarm_st_scheme, unit) state" where
  "shut_down e = do {
     deinit_polling e;
     _ \<leftarrow> delete_UPNP_mapping e;
     _ \<leftarrow> terminate_UPNP e;
     close_log_files e;
     sysu e (Os (Syslog ''alarm4pi daemon ended.'' []))
   }"

text \<open>The part of \<open>main\<close> before the child processes are started.\<close>

definition start_up :: "env \<Rightarrow> ('z alarm_st_scheme, unit) state" where
  "start_up e = do {
     sysu e (Os SetbufStdout);
     sysu e (Os (Syslog ''alarm4pi daemon started.'' []));
     _ \<leftarrow> open_log_files e (Some LOG_FILE_PATH);
     _ \<leftarrow> set_signal_handler e;
     (upnp, _) \<leftarrow> init_UPNP e False;
     whenM (upnp = 0) (do {
       _ \<leftarrow> add_UPNP_mapping e;
       _ \<leftarrow> print_UPNP_mapping e;
       return ()
     });
     setenv_ret \<leftarrow> sysv e (Os (Setenv WSERVER_ENV_VAR_NAME WSERVER_ENV_VAR_VAL));
     er \<leftarrow> gets errno;
     whenM (setenv_ret \<noteq> 0)
       (log_printf e ''Error setting envoronment variable for child process. Errno=%i\<newline>'' [FInt er])
   }"

definition alarm_main :: "env \<Rightarrow> ('z alarm_st_scheme, int option) state" where
  "alarm_main e = do {
     main_err \<leftarrow> sysv e (Os Daemon);
     if main_err = 0 then do {
       info_msg_fmt \<leftarrow> formatted (c_snprintf INFO_MSG_SIZE (''Server: http://%%s:'' @ WEB_SERVER_PORT) []);
       start_up e;
       started \<leftarrow> start_children e info_msg_fmt;
       case started of
         None \<Rightarrow> return None
       | Some (num_child_processes, info_msg_fmt) \<Rightarrow> do {
           main_err \<leftarrow> run_monitor e info_msg_fmt;
           waited \<leftarrow> wait_children e num_child_processes;
           case waited of
             None \<Rightarrow> return None
           | Some () \<Rightarrow> do { shut_down e; return (Some main_err) }
         }
     } else return (Some main_err)
   }"

end
