(* ===== verification/Alarm_Props.thy ===== *)
theory Alarm_Props
  imports Alarm
begin

text \<open>
  Properties of the daemon: the information message is extended by the output of a program and stays
  within its array.
\<close>

section \<open>The output of a program\<close>

text \<open>However the output is split into reads, the text stays shorter than the array.\<close>

lemma read_step_length:
  assumes "strlen (fst (snd x)) \<le> len - 1"
  shows "wp (read_step e fd len since x) (\<lambda>y _. strlen (fst (snd y)) \<le> len - 1) s"
proof -
  obtain a acc n where x: "x = (a, acc, n)" by (cases x)
  have space: "strlen acc + strlen (buffer_take (len - strlen acc - 1) y) \<le> len - 1" for y
    using assms strlen_buffer_take [of "len - strlen acc - 1" y] by (simp add: x)
  show ?thesis
    unfolding read_step_def get_elapsed_time_def
    using assms space by (auto intro!: wp_intro simp: x Let_def split: if_splits)
qed

lemma out_array_length:
  assumes "0 < len"
  shows "wp (run_background_command_out_array e len f args)
    (\<lambda>res _. case res of Some (_, _, Some x) \<Rightarrow> strlen x < len | _ \<Rightarrow> True) s"
proof -
  have loop: "wp (while_fuel n (\<lambda>(again, _). return again) (read_step e fd len since) x)
      (\<lambda>y _. strlen (fst (snd y)) \<le> len - 1) t" if "strlen (fst (snd x)) \<le> len - 1"
    for n fd since x and t :: "'a log_st_scheme"
  proof (rule wp_while [where I = "\<lambda>y _. strlen (fst (snd y)) \<le> len - 1"])
    fix y :: "bool \<times> string \<times> int" and u :: "'a log_st_scheme"
    assume "strlen (fst (snd y)) \<le> len - 1"
    then show "wp (case y of (again, _) \<Rightarrow> return again) (\<lambda>g v. if g
        then wp (read_step e fd len since y) (\<lambda>z _. strlen (fst (snd z)) \<le> len - 1) v
        else strlen (fst (snd y)) \<le> len - 1) u"
      using read_step_length by (cases y) auto
  qed (use that in auto)
  have start: "strlen (fst (snd (True, [] :: string, 0 :: int))) \<le> len - 1" using assms by simp
  show ?thesis
    unfolding run_background_command_out_array_def wp_bind
    by (rule wp_ignore)
      (auto intro!: wp_case_option wp_case_prod wp_if wp_ignore [where m = "get_elapsed_time e None"]
        wp_mono [OF read_step_length [OF start]] wp_mono [OF loop] wp_intro
        split: option.splits)
qed

lemma wp_out_array:
  assumes "0 < len" and "\<And>t. Q None t" and "\<And>ret pid t. Q (Some (ret, pid, None)) t"
    and "\<And>ret pid x t. strlen x < len \<Longrightarrow> Q (Some (ret, pid, Some x)) t"
  shows "wp (run_background_command_out_array e len f args) Q s"
  by (rule wp_mono [OF out_array_length [OF assms(1)]])
    (auto simp: assms(2) split: option.splits, metis assms(3,4) not_None_eq)

section \<open>The information message\<close>

lemma separator_fits:
  assumes "strlen msg < INFO_MSG_SIZE"
  shows "strlen (msg @ buffer_take (INFO_MSG_SIZE - strlen msg - 1) x) < INFO_MSG_SIZE"
  using assms strlen_buffer_take [of "INFO_MSG_SIZE - strlen msg - 1" x] by simp

lemma wp_start_tunneling:
  assumes "strlen msg < INFO_MSG_SIZE"
    and "\<And>t. Q None t" and "\<And>msg' t. prefix msg msg' \<Longrightarrow> strlen msg' < INFO_MSG_SIZE \<Longrightarrow> Q (Some msg') t"
  shows "wp (start_tunneling e msg) Q s"
proof -
  let ?m = "msg @ buffer_take (INFO_MSG_SIZE - strlen msg - 1) '' Tunneling: ''"
  have len: "0 < INFO_MSG_SIZE - strlen ?m" using separator_fits [OF assms(1)] by simp
  have out: "Q (Some (?m @ x)) t" if "strlen x < INFO_MSG_SIZE - strlen ?m" for x t
    by (rule assms(3)) (use that in auto)
  have none: "Q (Some ?m) t" for t using out [of "[]"] len by simp
  show ?thesis
    unfolding start_tunneling_def Let_def wp_bind
    by (rule wp_ignore)
      (use len out none in \<open>auto intro!: wp_case_option wp_case_prod wp_whenM wp_require wp_log_printf wp_out_array
          wp_ignore [where m = "free_substring_array e a" for a] assms(2)\<close>)
qed

text \<open>At most one child is counted, and its number has been stored.\<close>

lemma wp_start_children:
  assumes "strlen msg < INFO_MSG_SIZE"
    and "\<And>t. Q None t" and "\<And>n msg' t. n \<le> 1 \<Longrightarrow> prefix msg msg' \<Longrightarrow> strlen msg' < INFO_MSG_SIZE \<Longrightarrow> Q (Some (n, msg')) t"
  shows "wp (start_children e msg) Q s"
  unfolding start_children_def wp_bind
  by (rule wp_ignore)
    (auto intro!: wp_case_option wp_case_prod wp_if wp_require wp_log_printf wp_start_tunneling [OF assms(1)] assms(2,3) assms(1)
      wp_ignore [where m = "free_substring_array e a" for a] wp_ignore [where m = "set_child_id 0 p" for p]
      wp_ignore [where m = "run_background_command_out_log e f a" for f a])

section \<open>A daemon for the witness\<close>

text \<open>Memory is never short, and the programs print an address.\<close>

definition alarm_env :: env where
  "alarm_env = env_of (\<lambda>tr c. case c of Mem _ \<Rightarrow> ok_reply 7 | _ \<Rightarrow> child_answer tr c)"

definition alarm_start :: alarm_st where
  "alarm_start = log_st.extend (log_start\<lparr>console_messages := 0\<rparr>)
    \<lparr>g_gpio_chip = 0, g_pin_ctxs = 0,
     pin_ctx_mem = [], g_num_lines = 0,
     g_library_opened = 0, g_capture_path = [], g_snapshot_url = [], g_initialized = 0,
     g_curl_global_initialized = 0, oc_capture_path = [], oc_remote_dir = [], oc_server_url = [],
     oc_user_id = [], oc_user_password = [], owncloud_initialized = 0, po_token_id = [], po_user_id = [],
     po_server_url = [], pushover_initialized = 0, tg_chat_id = [], tg_api_token = [],
     telegram_initialized = 0, lan_address = [], msg_info_str = [], full_capture_path = [], child_process_ids = [-1, -1]\<rparr>"

section \<open>Properties\<close>

text \<open>
  C28: the information message always fits in its array of 512 bytes, however much the tunnelling program
  prints: starting the children only adds to the end of the message.  Not more than one child is
  counted, so that only elements of the arrays of two children are waited for.
\<close>
theorem info_message_fits:
  assumes "run_state (start_children e msg) s = (Some (n, msg'), t)" and "strlen msg < INFO_MSG_SIZE"
  shows "prefix msg msg' \<and> strlen msg' < INFO_MSG_SIZE \<and> n < MAX_NUM_CHILD_PROCESSES"
proof -
  have "wp (start_children e msg) (\<lambda>res _. case res of None \<Rightarrow> True | Some (n, msg') \<Rightarrow>
      prefix msg msg' \<and> strlen msg' < INFO_MSG_SIZE \<and> n < MAX_NUM_CHILD_PROCESSES) s"
    by (rule wp_start_children [OF assms(2)]) (simp_all add: MAX_NUM_CHILD_PROCESSES_def)
  from wp_runD [OF this assms(1)] show ?thesis by simp
qed

lemma info_message_fits_witness:
  "fst (run_state (start_children alarm_env ''Server'') alarm_start) = Some (1, ''Server Tunneling: 203.0.113.7'') \<and>
   strlen ''Server Tunneling: 203.0.113.7'' < INFO_MSG_SIZE"
proof -
  have r: "fst (run_state (start_children alarm_env ''Server'') alarm_start) =
      Some (1, ''Server Tunneling: 203.0.113.7'')" by code_simp
  then have "run_state (start_children alarm_env ''Server'') alarm_start =
      (Some (1, ''Server Tunneling: 203.0.113.7''), snd (run_state (start_children alarm_env ''Server'') alarm_start))"
    by (simp add: prod_eq_iff)
  from info_message_fits [OF this] r show ?thesis by (simp add: INFO_MSG_SIZE_def)
qed

end
