(* ===== verification/Outside.thy ===== *)
theory Outside
  imports Alarm ClientState Frame
begin

text \<open>
  What the parts of the daemon leave alone.  A \<open>quiet\<close> property is calm and does not depend on what
  only the daemon, the log files and the port mapping store; all that the daemon does outside the
  pins and the clients keeps it.  The clients keep what is \<open>outside_clients\<close>, the pins keep what is
  \<open>outside_pins\<close>.
\<close>

section \<open>Everything but pins and clients\<close>

locale quiet = calm P neutral
  for P :: "'z alarm_st_scheme \<Rightarrow> bool" and neutral :: "call \<Rightarrow> bool" +
  assumes quiet_ltrace: "P s \<Longrightarrow> P (s\<lparr>ltrace := lt, errno := er\<rparr>)"
    and quiet_hang: "P s \<Longrightarrow> P (s\<lparr>hang := True\<rparr>)"
    and quiet_handles: "P s \<Longrightarrow> P (s\<lparr>log_file_handle := h\<rparr>)" "P s \<Longrightarrow> P (s\<lparr>event_file_handle := h\<rparr>)"
    and quiet_lan: "P s \<Longrightarrow> P (s\<lparr>lan_address := x\<rparr>)"
    and quiet_texts: "P s \<Longrightarrow> P (s\<lparr>msg_info_str := x\<rparr>)" "P s \<Longrightarrow> P (s\<lparr>full_capture_path := x\<rparr>)"
begin

lemmas stores = quiet_hang quiet_handles quiet_lan quiet_texts

lemma lsys: "preserves P (lsys e c)"
  by (auto intro!: preservesI wp_lsys quiet_ltrace)

lemma loop: "(\<And>y. preserves P (c y)) \<Longrightarrow> (\<And>y. preserves P (b y)) \<Longrightarrow> preserves P (while_fuel n c b x)"
  by (rule preserves_while) (auto intro: quiet_hang)

lemma stamps: "preserves P (get_localtime_str e n fmt)" "preserves P (get_localtime_stamp e n)"
  unfolding get_localtime_stamp_def get_localtime_str_def by (auto intro!: parts stores lsys)

lemma event: "preserves P (event_printf e fmt args)"
  unfolding event_printf_def msg_printf_def by (auto intro!: parts stores lsys stamps)

lemma paths: "preserves P (get_current_exec_path e n)" "preserves P (get_absolute_path e p)"
  unfolding get_absolute_path_def get_current_exec_path_def by (auto intro!: parts stores)

lemma open_logs: "preserves P (open_log_files e p)"
  unfolding open_log_files_def open_files_in_def open_daemon_log_def open_event_log_def open_msg_file_def
    truncate_msg_file_def
  by (auto intro!: parts stores lsys stamps paths )

lemma close_logs: "preserves P (close_log_files e)"
  unfolding close_log_files_def close_log_file_def by (auto intro!: parts stores lsys stamps)

lemma signals: "preserves P (set_signal_handler e)" "preserves P (exit_deamon_handler e sig)"
  unfolding set_signal_handler_def exit_deamon_handler_def kill_processes_def by (auto intro!: parts stores)

lemma mappings: "preserves P (add_mappings e lan ms i r)" "preserves P (delete_mappings e ms i r)"
  by (induction ms arbitrary: i r) (auto intro!: parts stores)

lemma upnp: "preserves P (init_UPNP e w)" "preserves P (terminate_UPNP e)" "preserves P (add_UPNP_mapping e)"
    "preserves P (print_UPNP_mapping e)" "preserves P (delete_UPNP_mapping e)"
  unfolding init_UPNP_def external_address_def terminate_UPNP_def add_UPNP_mapping_def print_UPNP_mapping_def
    print_step_def delete_UPNP_mapping_def
  by (auto intro!: parts stores mappings loop )

lemma address: "preserves P (get_public_ip e)"
  unfolding get_public_ip_def hostname_to_ip_at_dns_def hostname_to_ip_def query_server_def read_response_def
    read_record_def
  by (auto intro!: parts stores)

lemma update_ip: "preserves P (update_ip_msg e fmt)"
  unfolding update_ip_msg_def by (auto intro!: parts stores address notif )

lemma endless: "preserves P loops_for_ever"
  unfolding loops_for_ever_def by (auto intro!: parts stores quiet_hang)

lemma arrays: "preserves P (replace_relative_path_array e args)" "preserves P (free_substring_array e arr)"
proof -
  have copies: "preserves P (replace_elements e srcs old new)" for srcs old new
    by (induction srcs) (auto intro!: parts stores endless simp: alloc_replace_initial_substrings_def)
  show "preserves P (replace_relative_path_array e args)" "preserves P (free_substring_array e arr)"
    unfolding replace_relative_path_array_def replace_initial_substring_array_def free_substring_array_def
    by (auto intro!: parts stores paths copies)
qed

lemma time: "preserves P (get_elapsed_time e since)"
  unfolding get_elapsed_time_def by (auto intro!: parts stores)

lemma reading: "preserves P (read_step e fd n since x)"
  unfolding read_step_def by (auto intro!: parts stores time)

lemma children: "preserves P (child_out_log e file args)" "preserves P (child_out_fd e r w file args)"
  unfolding child_out_log_def child_out_fd_def log_as_output_def close_event_file_def null_stdin_def dup2_logged_def
    exec_or_exit_def
  by (auto intro!: parts stores)

lemma reaping: "preserves P (update_child_processes_state e pids)"
  unfolding update_child_processes_state_def note_exit_def by (auto intro!: parts stores loop)

text \<open>Running programs, when the forks do not matter either.\<close>

lemma programs:
  assumes "neutral (Proc Fork)"
  shows "preserves P (run_background_command_out_log e file args)"
    and "preserves P (run_background_command_out_array e n file args)"
  unfolding run_background_command_out_log_def run_background_command_out_array_def
    run_background_command_out_fd_def flush_logs_def
  using assms by (auto intro!: parts stores children time reading loop)

lemma running_again:
  assumes "neutral (Proc Fork)"
  shows "preserves P (exec_exited_child_processes e pids args)"
proof -
  have "preserves P (exec_exited_loop e n ps)" for n ps
    by (induction ps arbitrary: n) (auto intro!: parts stores arrays programs [OF assms])
  then show ?thesis by (simp add: exec_exited_child_processes_def)
qed

lemma waiting:
  assumes "neutral (Proc Fork)"
  shows "preserves P (wait_step e args per w)" and "preserves P (wait_run_again e args w)"
    and "preserves P (wait_child_processes e pids args per n)"
  unfolding wait_child_processes_def wait_blocked_def wait_again_def wait_step_def wait_timeout_def wait_run_again_def
  by (auto intro!: parts stores loop reaping running_again [OF assms])

lemma tunneling:
  assumes "neutral (Proc Fork)"
  shows "preserves P (start_tunneling e msg)"
  unfolding start_tunneling_def by (auto intro!: parts stores arrays programs [OF assms])

text \<open>What starts the children, or waits for them, stores their list too.\<close>

lemma starting:
  assumes "neutral (Proc Fork)" and "\<And>s pids. P s \<Longrightarrow> P (s\<lparr>child_process_ids := pids\<rparr>)"
  shows "preserves P (start_children e msg)" and "preserves P (wait_children e n)"
  unfolding start_children_def set_child_id_def wait_children_def
  by (auto intro!: parts stores assms(2) arrays programs [OF assms(1)] waiting [OF assms(1)] tunneling [OF assms(1)])

lemma start_up: "preserves P (start_up e)"
  unfolding start_up_def by (auto intro!: parts stores open_logs signals upnp)

lemma report: "preserves P (send_info_notif e msg prio)" "preserves P (on_alarm_event e pin val)"
  unfolding on_alarm_event_def by (auto intro!: parts stores notif event filename frame upload)

end

section \<open>Views that the clients do not change\<close>

locale outside_clients = quiet P neutral
  for P :: "'z alarm_st_scheme \<Rightarrow> bool" and neutral :: "call \<Rightarrow> bool" +
  assumes libcurl: "neutral (Curl cc)"
    and keep_capturer: "P s \<Longrightarrow> P (s\<lparr>g_capture_path := x\<rparr>)" "P s \<Longrightarrow> P (s\<lparr>g_snapshot_url := x\<rparr>)"
      "P s \<Longrightarrow> P (s\<lparr>g_initialized := i\<rparr>)" "P s \<Longrightarrow> P (s\<lparr>g_curl_global_initialized := i\<rparr>)"
    and keep_owncloud: "P s \<Longrightarrow> P (s\<lparr>oc_capture_path := x\<rparr>)" "P s \<Longrightarrow> P (s\<lparr>oc_remote_dir := x\<rparr>)"
      "P s \<Longrightarrow> P (s\<lparr>oc_server_url := x\<rparr>)" "P s \<Longrightarrow> P (s\<lparr>oc_user_id := x\<rparr>)"
      "P s \<Longrightarrow> P (s\<lparr>oc_user_password := x\<rparr>)" "P s \<Longrightarrow> P (s\<lparr>owncloud_initialized := i\<rparr>)"
    and keep_pushover: "P s \<Longrightarrow> P (s\<lparr>po_token_id := x\<rparr>)" "P s \<Longrightarrow> P (s\<lparr>po_user_id := x\<rparr>)"
      "P s \<Longrightarrow> P (s\<lparr>po_server_url := x\<rparr>)" "P s \<Longrightarrow> P (s\<lparr>pushover_initialized := i\<rparr>)"
    and keep_telegram: "P s \<Longrightarrow> P (s\<lparr>tg_chat_id := x\<rparr>)" "P s \<Longrightarrow> P (s\<lparr>tg_api_token := x\<rparr>)"
      "P s \<Longrightarrow> P (s\<lparr>telegram_initialized := i\<rparr>)"
begin

lemmas client_fields = keep_capturer keep_owncloud keep_pushover keep_telegram

lemma configuration: "preserves P (conf_file_path e fmt name)"
    "(\<And>s. preserves P m) \<Longrightarrow> preserves P (conf_loop e vars m st)"
  unfolding conf_file_path_def conf_loop_def conf_cond_def conf_step_def
  by (auto intro!: parts stores client_fields paths loop)

lemma directories: "preserves P (make_directory_recursive e p)"
proof -
  have "preserves P (make_parents e done todo)" for "done" todo
    by (induction todo arbitrary: "done") (auto intro!: parts stores client_fields simp: make_directory_def)
  then show ?thesis
    unfolding make_directory_recursive_def make_directory_def by (auto intro!: parts stores client_fields)
qed

lemma clients: "preserves P (owncloud_init e name path dir)" "preserves P (pushover_init e name)"
    "preserves P (telegram_init e name)" "preserves P (capturer_init e p)"
  unfolding owncloud_init_def load_owncloud_conf_def check_owncloud_conf_def set_owncloud_initialized_def
    pushover_init_def load_pushover_conf_def check_pushover_conf_def choose_pushover_server_def
    set_pushover_initialized_def telegram_init_def load_telegram_conf_def check_telegram_conf_def
    set_telegram_initialized_def capturer_init_def
  by (auto intro!: parts stores client_fields libcurl configuration directories)

lemma client_states: "preserves P (init_clients e)" "preserves P (deinit_polling e)"
  unfolding init_clients_def deinit_polling_def owncloud_deinit_def pushover_deinit_def telegram_deinit_def
    capturer_deinit_def
  by (auto intro!: parts stores client_fields libcurl clients)

lemma shutting: "preserves P (shut_down e)"
  unfolding shut_down_def by (auto intro!: parts stores client_fields client_states upnp close_logs)

lemma monitor_start: "preserves P (start_monitor e fmt)"
  unfolding start_monitor_def by (auto intro!: parts stores client_fields client_states update_ip )

end

section \<open>Views that the pins do not change\<close>

locale outside_pins = quiet P neutral
  for P :: "'z alarm_st_scheme \<Rightarrow> bool" and neutral :: "call \<Rightarrow> bool" +
  assumes libgpiod: "neutral (Gpiod gc)"
    and keep_chip: "P s \<Longrightarrow> P (s\<lparr>g_gpio_chip := h\<rparr>)" "P s \<Longrightarrow> P (s\<lparr>g_pin_ctxs := h\<rparr>)"
      "P s \<Longrightarrow> P (s\<lparr>g_library_opened := h\<rparr>)" "P s \<Longrightarrow> P (s\<lparr>g_num_lines := n\<rparr>)" "P s \<Longrightarrow> P (s\<lparr>pin_ctx_mem := cs\<rparr>)"
begin

lemma pins: "preserves P (open_gpios e)" "preserves P (gpio_read e p null)" "preserves P (gpio_write e p v)"
    "preserves P (close_gpios e)" "preserves P (gpio_direction e p d)"
  unfolding open_gpios_def gpio_read_def gpio_write_def gpio_direction_def close_gpios_def
    release_all_pin_requests_def release_pin_request_def build_line_request_def configure_line_settings_def close_chip_def gpio_direction_request_def
    build_line_request_body_def
    set_or_fail_def get_pin_ctx_def set_pin_ctx_def validate_library_opened_def validate_pin_def get_errno_or_io_def
  by (auto intro!: parts stores keep_chip libgpiod )

lemma table: "preserves P (configure_gpios e)"
proof -
  have "preserves P (configure_pins e ps)" for ps
    by (induction ps) (auto intro!: preserves_intro pins)
  then show ?thesis by (simp add: configure_gpios_def)
qed

lemma thread: "preserves P (polling_thread e)"
proof -
  have pins: "preserves P (poll_pins e is v)" for "is" v
    by (induction "is" arbitrary: v) (auto intro!: parts stores keep_chip pins report error simp: poll_pin_def)
  show ?thesis
    unfolding polling_thread_def poll_round_def flag_clear_def
    by (auto intro!: parts stores keep_chip libgpiod pin pins error event loop pause)
qed

lemma thread_end: "preserves P (wait_polling_end e)"
  unfolding wait_polling_end_def by (auto intro!: parts stores keep_chip pins)

end

section \<open>Views that neither changes\<close>

locale outside_both = outside_clients P neutral + outside_pins P neutral
  for P :: "'z alarm_st_scheme \<Rightarrow> bool" and neutral :: "call \<Rightarrow> bool"
begin

lemma monitor: "preserves P (init_polling e path fmt)" "preserves P (run_monitor e fmt)"
  unfolding run_monitor_def init_polling_def
  by (auto intro!: parts stores paths pins table monitor_start thread thread_end )

end

end
