(* ===== verification/Daemon_Inv.thy ===== *)
theory Daemon_Inv
  imports Outside Gpio_Props
begin

text \<open>
  The daemon as a whole: what \<open>main\<close> has acquired through all its components it gives back before it
  returns, and the programs it has started are not started again once the monitor has ended.
\<close>

section \<open>The pins\<close>

text \<open>The discipline of the pins, and how the library is left.\<close>

definition pins_kept :: "bool \<Rightarrow> 'z alarm_st_scheme \<Rightarrow> bool" where
  "pins_kept closed s \<longleftrightarrow> gpio_inv s \<and> (closed \<longrightarrow> g_library_opened s = 0)"

definition pins_view where
  "pins_view s = (g_gpio_chip s, g_pin_ctxs s, pin_ctx_mem s, g_num_lines s, g_library_opened s, trace s)"

lemma pins_kept_view: "pins_kept b s \<Longrightarrow> pins_view t = pins_view s \<Longrightarrow> pins_kept b t"
  by (auto simp: pins_kept_def pins_view_def gpio_inv_def held_def)

interpretation pins: outside_clients "pins_kept b" other_call for b
proof
  fix s :: "'a alarm_st_scheme" and c r er
  show "pins_kept b (s\<lparr>trace := (c, r) # trace s, errno := er\<rparr>)" if "other_call c" "pins_kept b s"
    using that other_call_inv [of s c er r] by (simp add: pins_kept_def)
qed (auto intro!: preservesI wp_log_printf wp_lsys elim!: pins_kept_view simp: pins_view_def other_call_def)

text \<open>The thread keeps the discipline, and after the join the library is closed.\<close>

lemma pins_open: "preserves (pins_kept False) (open_gpios e)" "preserves (pins_kept False) (configure_gpios e)"
    "preserves (pins_kept False) (gpio_read e p null)"
  by (auto intro!: preservesI wp_open_gpios wp_configure_gpios wp_gpio_read simp: pins_kept_def)

lemma pins_thread: "preserves (pins_kept False) (polling_thread e)"
proof -
  have "preserves (pins_kept False) (poll_pins e is v)" for "is" v
    by (induction "is" arbitrary: v) (auto intro!: pins.parts pins_open pins.report pins.error simp: poll_pin_def)
  then show ?thesis
    unfolding polling_thread_def poll_round_def flag_clear_def
    by (auto intro!: pins.parts pins_open pins.error pins.event pins.loop pins.pause pins.stores)
qed

lemma wp_run_monitor_pins:
  assumes "pins_kept False s"
  shows "wp (run_monitor e fmt) (\<lambda>ret. pins_kept (ret = 0)) s"
proof -
  have inits: "preserves (pins_kept False) (init_polling e path fmt)" for path
    unfolding init_polling_def by (auto intro!: pins.parts pins.stores pins.paths pins.monitor_start pins_open)
  have close: "wp (wait_polling_end e) (\<lambda>_. pins_kept True) t" if "pins_kept False t" for t :: "'a alarm_st_scheme"
    unfolding wait_polling_end_def using that
    by (auto intro!: wp_preserves [OF pins.calls(2)] wp_preserves [OF pins.calm_log] wp_close_gpios pins.neutral_calls
      simp: pins_kept_def)
  show ?thesis
    unfolding run_monitor_def
    by (auto intro!: wp_preserves [OF inits assms] wp_preserves [OF pins_thread] wp_mono [OF close]
      wp_preserves [OF pins.calm_log])
qed

lemma wp_alarm_main_pins:
  fixes s :: "'z alarm_st_scheme"
  assumes "pins_kept False s"
  shows "wp (alarm_main e) (\<lambda>res. pins_kept (res = Some 0)) s"
proof -
  have fork: "other_call (Proc Fork)" by (simp add: other_call_def)
  have children: "pins_kept b t \<Longrightarrow> pins_kept b (t\<lparr>child_process_ids := ids\<rparr>)" for b ids and t :: "'z alarm_st_scheme"
    by (elim pins_kept_view) (simp add: pins_view_def)
  have weak: "pins_kept False t" if "pins_kept b t" for b and t :: "'z alarm_st_scheme"
    using that by (simp add: pins_kept_def)
  let ?Q = "\<lambda>res :: int option. pins_kept (res = Some 0)"
  let ?stop = "\<lambda>r w. wp (case w of None \<Rightarrow> return None | Some () \<Rightarrow> do { shut_down e; return (Some r) }) ?Q"
  have close: "wp (wait_children e n) (?stop r) t" if "pins_kept (r = 0) t" for n r and t :: "'z alarm_st_scheme"
    by (auto intro!: wp_preserves [OF pins.starting(2) [OF fork children] that] wp_case_option wp_preserves [OF pins.shutting]
      elim: weak split: unit.splits)
  have monitor: "wp (run_monitor e fmt) (\<lambda>r. wp (wait_children e n) (?stop r)) t"
    if "pins_kept False t" for n fmt and t :: "'z alarm_st_scheme"
    by (rule wp_mono [OF wp_run_monitor_pins [OF that]]) (rule close)
  show ?thesis
    unfolding alarm_main_def
    by (auto intro!: wp_preserves [OF pins.calls(2)] wp_preserves [OF pins.texts(2)] wp_preserves [OF pins.start_up]
      wp_preserves [OF pins.starting(1) [OF fork children]] wp_case_option wp_case_prod monitor pins.neutral_calls assms)
qed

section \<open>The initializations of libcurl\<close>

text \<open>No client is set up; then, each client that says so holds one initialization.\<close>

definition curl_unused :: "int \<Rightarrow> 'z alarm_st_scheme \<Rightarrow> bool" where
  "curl_unused n s \<longleftrightarrow> clients_ok s \<and> clients_off s \<and> curl_refs (trace s) = n"

definition curl_counted :: "int \<Rightarrow> 'z alarm_st_scheme \<Rightarrow> bool" where
  "curl_counted n s \<longleftrightarrow> flags_ok s \<and> curl_refs (trace s) = n + curl_holders s"

definition curl_neutral :: "call \<Rightarrow> bool" where
  "curl_neutral c \<longleftrightarrow> c \<noteq> Curl CurlGlobalInit \<and> c \<noteq> Curl CurlGlobalCleanup"

definition curl_view where
  "curl_view s = (curl_refs (trace s),
     (g_capture_path s, g_snapshot_url s, g_initialized s, g_curl_global_initialized s),
     (oc_capture_path s, oc_remote_dir s, oc_server_url s, oc_user_id s, oc_user_password s, owncloud_initialized s),
     (po_token_id s, po_user_id s, po_server_url s, pushover_initialized s),
     (tg_chat_id s, tg_api_token s, telegram_initialized s))"

lemma curl_refs_neutral: "curl_neutral c \<Longrightarrow> curl_refs ((c, r) # tr) = curl_refs tr"
  by (auto simp: curl_neutral_def split: call.splits curl_call.splits)

lemma curl_kept_view:
  assumes "curl_view t = curl_view s"
  shows "curl_unused n s \<Longrightarrow> curl_unused n t" and "curl_counted n s \<Longrightarrow> curl_counted n t"
proof -
  have "clients_ok t = clients_ok s" "clients_off t = clients_off s" "flags_ok t = flags_ok s"
    "curl_holders t = curl_holders s" "curl_refs (trace t) = curl_refs (trace s)"
    using assms by (simp_all add: curl_view_def clients_ok_def client_ok_defs clients_off_def flags_ok_def curl_holders_def)
  then show "curl_unused n s \<Longrightarrow> curl_unused n t" "curl_counted n s \<Longrightarrow> curl_counted n t"
    by (simp_all add: curl_unused_def curl_counted_def)
qed

lemma curl_view_call: "curl_neutral c \<Longrightarrow> curl_view (s\<lparr>trace := (c, r) # trace s, errno := er\<rparr>) = curl_view s"
  by (simp add: curl_view_def curl_refs_neutral del: curl_refs.simps)

interpretation unused: outside_pins "curl_unused n" curl_neutral for n
  by unfold_locales
    (auto intro!: preservesI wp_log_printf wp_lsys elim!: curl_kept_view(1) [rotated] simp: curl_view_call,
      simp_all add: curl_view_def curl_neutral_def)

interpretation counted: outside_pins "curl_counted n" curl_neutral for n
  by unfold_locales
    (auto intro!: preservesI wp_log_printf wp_lsys elim!: curl_kept_view(2) [rotated] simp: curl_view_call,
      simp_all add: curl_view_def curl_neutral_def)

interpretation refs: outside_pins "\<lambda>s. curl_refs (trace s) = n" curl_neutral for n
  by unfold_locales
    (auto intro!: preservesI wp_log_printf wp_lsys simp: curl_refs_neutral curl_neutral_def simp del: curl_refs.simps)

lemma curl_unused_counted: "curl_unused n s \<Longrightarrow> curl_counted n s"
  by (simp add: curl_unused_def curl_counted_def clients_off_def flags_ok_def flag_def curl_holders_def)

lemma wp_init_clients_counted:
  assumes "curl_unused n s" and "\<And>t. curl_counted n t \<Longrightarrow> Q () t"
  shows "wp (init_clients e) Q s"
  by (rule wp_init_clients) (use assms in \<open>auto simp: curl_unused_def curl_counted_def\<close>)

lemma wp_init_polling_counted:
  assumes "curl_unused n s"
  shows "wp (init_polling e path fmt) (\<lambda>_. curl_counted n) s"
proof -
  note unused = wp_preserves [OF unused.paths(2)] wp_preserves [OF unused.calls(2)] wp_preserves [OF unused.calm_log]
    wp_preserves [OF unused.pins(1)] wp_preserves [OF unused.table]
  note counted = wp_preserves [OF counted.update_ip] wp_preserves [OF counted.calls(2)] wp_preserves [OF counted.calm_log]
  have start: "wp (start_monitor e fmt) (\<lambda>_. curl_counted n) t" if "curl_unused n t" for t :: "'a alarm_st_scheme"
    unfolding start_monitor_def using that
    by (auto intro!: wp_if wp_init_clients_counted counted counted.quiet_texts counted.neutral_calls)
  show ?thesis
    unfolding init_polling_def
    by (auto intro!: wp_if wp_case_prod unused start assms unused.quiet_texts unused.neutral_calls curl_unused_counted)
qed

lemma wp_shut_down_counted:
  fixes s :: "'z alarm_st_scheme"
  assumes "curl_counted n s"
  shows "wp (shut_down e) (\<lambda>_ t. curl_refs (trace t) = n) s"
proof -
  have "curl_refs (trace (snd (run_state (deinit_polling e) s))) = n"
    unfolding deinit_clients using assms by (auto simp: curl_counted_def flags_ok_def flag_def curl_holders_def)
  then have deinit: "wp (deinit_polling e) (\<lambda>_ t. curl_refs (trace t) = n) s"
    by (simp add: wp_def case_prod_beta)
  have rest: "preserves (\<lambda>t. curl_refs (trace t) = n) (do { _ \<leftarrow> delete_UPNP_mapping e; _ \<leftarrow> terminate_UPNP e; close_log_files e;
      sysu e (Os (Syslog ''alarm4pi daemon ended.'' [])) } :: ('z alarm_st_scheme, unit) state)"
    by (intro preserves_bind refs.upnp refs.close_logs refs.calls refs.libc)
  show ?thesis
    unfolding shut_down_def by (subst wp_bind, rule wp_mono [OF deinit], rule preservesD [OF rest])
qed

lemma wp_alarm_main_counted:
  fixes s :: "'z alarm_st_scheme"
  assumes "curl_unused n s"
  shows "wp (alarm_main e) (\<lambda>res t. (\<exists>r. res = Some r) \<longrightarrow> curl_refs (trace t) = n) s"
proof -
  have fork: "curl_neutral (Proc Fork)" by (simp add: curl_neutral_def)
  have children: "curl_unused n t \<Longrightarrow> curl_unused n (t\<lparr>child_process_ids := ids\<rparr>)"
      "curl_counted n t \<Longrightarrow> curl_counted n (t\<lparr>child_process_ids := ids\<rparr>)" for ids and t :: "'z alarm_st_scheme"
    by (erule curl_kept_view [rotated], simp add: curl_view_def)+
  let ?Q = "\<lambda>(res :: int option) t. (\<exists>r. res = Some r) \<longrightarrow> curl_refs (trace t) = n"
  have close: "wp (wait_children e k) (\<lambda>w. wp (case w of None \<Rightarrow> return None
      | Some () \<Rightarrow> do { shut_down e; return (Some r) }) ?Q) t" if "curl_counted n t" for k r and t :: "'z alarm_st_scheme"
    by (auto intro!: wp_preserves [OF counted.starting(2) [OF fork children(2)] that] wp_case_option
      wp_mono [OF wp_shut_down_counted] split: unit.splits)
  have monitor: "wp (run_monitor e fmt) (\<lambda>_. curl_counted n) t" if "curl_unused n t" for fmt and t :: "'z alarm_st_scheme"
    unfolding run_monitor_def
    by (auto intro!: wp_mono [OF wp_init_polling_counted [OF that]] wp_if wp_preserves [OF counted.thread]
      wp_preserves [OF counted.thread_end] wp_preserves [OF counted.calm_log])
  show ?thesis
    unfolding alarm_main_def
    by (auto intro!: wp_preserves [OF unused.calls(2)] wp_preserves [OF unused.texts(2)] wp_preserves [OF unused.start_up]
      wp_preserves [OF unused.starting(1) [OF fork children(1)]] wp_if wp_case_option wp_case_prod wp_mono [OF monitor] close
      unused.neutral_calls assms) (simp add: curl_unused_def)
qed

section \<open>The programs that are started\<close>

definition forks :: "event list \<Rightarrow> nat" where
  "forks tr = length (filter (\<lambda>ev. fst ev = Proc Fork) tr)"

definition exit_seen :: "event list \<Rightarrow> bool" where
  "exit_seen tr \<longleftrightarrow> (\<exists>ev \<in> set tr. fst ev = Os ReadFlag \<and> rv (snd ev) \<noteq> 0)"

text \<open>No code sets the flag back to 0.\<close>

definition flag_stays :: "env \<Rightarrow> bool" where
  "flag_stays e \<longleftrightarrow> (\<forall>tr. exit_seen tr \<longrightarrow> rv (answer e tr (Os ReadFlag)) \<noteq> 0)"

definition forked :: "nat \<Rightarrow> 'z alarm_st_scheme \<Rightarrow> bool" where
  "forked n s \<longleftrightarrow> forks (trace s) \<le> n"

definition settled :: "nat \<Rightarrow> 'z alarm_st_scheme \<Rightarrow> bool" where
  "settled n s \<longleftrightarrow> hang s \<or> exit_seen (trace s) \<and> forks (trace s) \<le> n"

interpretation forked: outside_both "forked n" "\<lambda>c. c \<noteq> Proc Fork" for n
  by unfold_locales (auto intro!: preservesI wp_log_printf wp_lsys simp: forked_def forks_def)

interpretation settled: outside_both "settled n" "\<lambda>c. c \<noteq> Proc Fork" for n
  by unfold_locales (auto intro!: preservesI wp_log_printf wp_lsys simp: settled_def forks_def exit_seen_def)

interpretation stuck: outside_both "hang" "\<lambda>_. True"
  by unfold_locales (auto intro!: preservesI wp_log_printf wp_lsys)

text \<open>Functions that start at most so many processes.\<close>

named_theorems forks_intro \<open>rules for counting the processes that are started\<close>

definition adds_forks :: "nat \<Rightarrow> ('z alarm_st_scheme, 'a) state \<Rightarrow> bool" where
  "adds_forks k m \<longleftrightarrow> (\<forall>n s. forked n s \<longrightarrow> wp m (\<lambda>_. forked (n + k)) s)"

lemma wp_adds_forks: "adds_forks k m \<Longrightarrow> forked n s \<Longrightarrow> wp m (\<lambda>_. forked (n + k)) s"
  by (simp add: adds_forks_def)

lemma adds_forks_0 [forks_intro]: "(\<And>n. preserves (forked n) m) \<Longrightarrow> adds_forks 0 m"
  by (simp add: adds_forks_def preserves_def)

lemma adds_forks_return [forks_intro]: "adds_forks k (return a)"
  by (simp add: adds_forks_def forked_def)

lemma adds_forks_if [forks_intro]: "adds_forks k m \<Longrightarrow> adds_forks k n \<Longrightarrow> adds_forks k (if b then m else n)"
  by simp

lemma adds_forks_case_prod [forks_intro]: "(\<And>a b. adds_forks k (g a b)) \<Longrightarrow> adds_forks k (case p of (a, b) \<Rightarrow> g a b)"
  by (cases p) simp

lemma adds_forks_case_option [forks_intro]:
  "adds_forks k m \<Longrightarrow> (\<And>y. adds_forks k (g y)) \<Longrightarrow> adds_forks k (case x of None \<Rightarrow> m | Some y \<Rightarrow> g y)"
  by (cases x) simp_all

lemma adds_forks_later: "(\<And>n. preserves (forked n) m) \<Longrightarrow> (\<And>a. adds_forks k (g a)) \<Longrightarrow> adds_forks k (State_Monad.bind m g)"
  unfolding adds_forks_def by (auto intro!: wp_preserves [of "forked n" m for n])

lemma adds_forks_first: "adds_forks 1 m \<Longrightarrow> (\<And>a. adds_forks k (g a)) \<Longrightarrow> adds_forks (Suc k) (State_Monad.bind m g)"
  unfolding adds_forks_def wp_bind
proof (intro allI impI)
  fix n and s :: "'a alarm_st_scheme"
  assume "\<forall>n s. forked n s \<longrightarrow> wp m (\<lambda>_. forked (n + 1)) s" "\<And>a. \<forall>n s. forked n s \<longrightarrow> wp (g a) (\<lambda>_. forked (n + k)) s"
    "forked n s"
  then have first: "wp m (\<lambda>_. forked (n + 1)) s"
    and rest: "\<And>a t. forked (n + 1) t \<Longrightarrow> wp (g a) (\<lambda>_. forked (n + 1 + k)) t" by blast+
  have k: "n + Suc k = n + 1 + k" by simp
  show "wp m (\<lambda>a. wp (g a) (\<lambda>_. forked (n + Suc k))) s"
    unfolding k by (rule wp_mono [OF first rest])
qed

lemma adds_forks_fork: "adds_forks 1 (sysv e (Proc Fork))"
  by (auto intro!: wp_sysv simp: adds_forks_def forked_def forks_def)

lemma flush_forks: "preserves (forked n) (flush_logs e)"
  unfolding flush_logs_def by (auto intro!: forked.parts)

lemmas forks_later = adds_forks_later [OF forked.checks(1)] adds_forks_later [OF forked.calm_log]
  adds_forks_later [OF forked.arrays(1)] adds_forks_later [OF forked.arrays(2)] adds_forks_later [OF flush_forks]

lemma program_forks: "adds_forks (Suc 0) (run_background_command_out_log e file args)"
    "adds_forks (Suc 0) (run_background_command_out_array e len file args)"
proof -
  show "adds_forks (Suc 0) (run_background_command_out_log e file args)"
    unfolding run_background_command_out_log_def
    by (auto intro!: forks_later adds_forks_first [OF adds_forks_fork] adds_forks_0 forked.parts forked.children)
  have "adds_forks 1 (run_background_command_out_fd e True file args)"
    unfolding run_background_command_out_fd_def Let_def One_nat_def
    by (rule adds_forks_later, simp add: forked.sys, rule adds_forks_if)
      (auto intro!: forks_later adds_forks_later [OF preserves_gets] adds_forks_return
        adds_forks_first [OF adds_forks_fork] adds_forks_0 forked.parts forked.children)
  then show "adds_forks (Suc 0) (run_background_command_out_array e len file args)"
    unfolding run_background_command_out_array_def
    by (rule adds_forks_first) (auto intro!: adds_forks_0 forked.parts forked.time forked.reading forked.loop)
qed

lemma child_forks: "preserves (forked n) (set_child_id i p)"
  unfolding set_child_id_def by (auto intro!: forked.parts simp: forked_def)

lemma start_children_forks: "adds_forks 2 (start_children e msg)"
proof -
  note first = program_forks [unfolded One_nat_def [symmetric], THEN adds_forks_first]
  have tunneling: "adds_forks 1 (start_tunneling e msg)"
    unfolding start_tunneling_def Let_def One_nat_def
    by (auto intro!: forks_intro forks_later first forked.parts forked.arrays)
  show ?thesis
    unfolding start_children_def numeral_2_eq_2
    by (auto intro!: forks_intro forks_later first adds_forks_first [OF tunneling] adds_forks_later [OF child_forks]
      forked.parts)
qed

text \<open>The monitor's loop is left only when the flag has been read as set.\<close>

lemma wp_thread_exit:
  "wp (polling_thread e) (\<lambda>_ t. hang t \<or> exit_seen (trace t)) s"
proof -
  have loop: "wp (while_fuel n (flag_clear e) (poll_round e) v) (\<lambda>_ t. hang t \<or> exit_seen (trace t)) u"
    for n v and u :: "'a polling_st_scheme"
  proof (rule wp_while [where I = "\<lambda>_ _. True"])
    fix y and t :: "'a polling_st_scheme"
    show "wp (flag_clear e y) (\<lambda>g u. if g then wp (poll_round e y) (\<lambda>_ _. True) u
        else hang u \<or> exit_seen (trace u)) t"
      unfolding flag_clear_def by (auto intro!: wp_sysv simp: exit_seen_def)
  qed auto
  have start: "wp (event_printf e fmt args) (\<lambda>_. P) t" if "\<And>t. P t" for P fmt args and t :: "'a polling_st_scheme"
    using that by (simp add: wp_runI)
  show ?thesis
    unfolding polling_thread_def
    by (auto intro!: start wp_mono [OF loop] wp_event_printf)
qed

lemma wp_run_monitor_settled:
  assumes "forked n s"
  shows "wp (run_monitor e fmt) (\<lambda>r t. r = 0 \<longrightarrow> settled n t) s"
proof -
  have thread: "wp (polling_thread e) (\<lambda>_. settled n) t" if "forked n t" for t :: "'a alarm_st_scheme"
    by (rule wp_mono [OF wp_conj [OF wp_thread_exit preservesD [OF forked.thread that]]])
      (auto simp: settled_def forked_def)
  show ?thesis
    unfolding run_monitor_def
    by (auto intro!: wp_preserves [OF forked.monitor(1) assms] wp_if wp_mono [OF thread]
      wp_preserves [OF settled.thread_end] wp_log_printf)
qed

text \<open>While the flag is set no exited process is started again.\<close>

lemma settled_timeout:
  assumes "flag_stays e"
  shows "preserves (settled n) (wait_timeout e args w)"
proof (rule preservesI)
  fix s :: "'a alarm_st_scheme"
  assume s: "settled n s"
  show "wp (wait_timeout e args w) (\<lambda>_. settled n) s"
  proof (cases "hang s")
    case True
    have stuck: "preserves hang (wait_timeout e args w :: ('a alarm_st_scheme, _) state)"
      unfolding wait_timeout_def wait_run_again_def by (auto intro!: stuck.parts stuck.running_again)
    show ?thesis by (rule wp_preserves [OF stuck True]) (simp add: settled_def)
  next
    case False
    with s assms have "rv (answer e (trace s) (Os ReadFlag)) \<noteq> 0" by (simp add: settled_def flag_stays_def)
    then show ?thesis
      unfolding wait_timeout_def wait_run_again_def using s
      by (auto intro!: wp_sysv_eq settled.calm_call)
  qed
qed

lemma settled_waiting:
  assumes "flag_stays e"
  shows "preserves (settled n) (wait_children e k)"
  unfolding wait_children_def wait_child_processes_def wait_blocked_def wait_again_def wait_step_def
  by (auto intro!: settled.parts settled.loop settled.reaping settled_timeout [OF assms] simp: settled_def)

lemma wp_alarm_main_forks:
  fixes s :: "'z alarm_st_scheme"
  assumes "flag_stays e"
  shows "wp (alarm_main e) (\<lambda>res t. res = Some 0 \<longrightarrow> settled (Suc (Suc (forks (trace s)))) t) s"
proof -
  let ?n = "forks (trace s)"
  have s: "forked ?n s" by (simp add: forked_def)
  let ?Q = "\<lambda>(res :: int option) t. res = Some 0 \<longrightarrow> settled (Suc (Suc ?n)) t"
  have close: "wp (wait_children e k) (\<lambda>w. wp (case w of None \<Rightarrow> return None
      | Some () \<Rightarrow> do { shut_down e; return (Some r) }) ?Q) t" if "r = 0 \<longrightarrow> settled (Suc (Suc ?n)) t" for k r and t :: "'z alarm_st_scheme"
  proof (cases "r = 0")
    case True
    with that have "settled (Suc (Suc ?n)) t" by simp
    then show ?thesis
      by (auto intro!: wp_preserves [OF settled_waiting [OF assms]] wp_case_option wp_preserves [OF settled.shutting] split: unit.splits)
  qed (auto intro!: wp_runI split: option.splits unit.splits prod.splits)
  have monitor: "wp (run_monitor e fmt) (\<lambda>r. wp (wait_children e k) (\<lambda>w. wp (case w of None \<Rightarrow> return None
      | Some () \<Rightarrow> do { shut_down e; return (Some r) }) ?Q)) t" if "forked (Suc (Suc ?n)) t" for fmt k and t :: "'z alarm_st_scheme"
    by (rule wp_mono [OF wp_run_monitor_settled [OF that]]) (rule close)
  show ?thesis
    unfolding alarm_main_def
    by (auto intro!: wp_preserves [OF forked.calls(2) s] wp_preserves [OF forked.texts(2)] wp_preserves [OF forked.start_up]
      wp_mono [OF wp_adds_forks [OF start_children_forks]] wp_if wp_case_option wp_case_prod monitor)
qed

end
