(* ===== verification/Daemon_Run.thy ===== *)
theory Daemon_Run
  imports Daemon_Inv Alarm_Props ProcWait_Props
begin

section \<open>A daemon that runs\<close>

text \<open>
  For the witnesses: the chip works, no router is found, one child is started and ends, there are no
  configuration files, and the flag is set from the beginning.
\<close>

definition daemon_answer :: "event list \<Rightarrow> call \<Rightarrow> reply" where
  "daemon_answer tr c = (case c of
     Gpiod (ChipInfoGetNumLines _) \<Rightarrow> ok_reply 19
   | Gpiod (SettingsSetDirection _ _) \<Rightarrow> ok_reply 0
   | Gpiod (SettingsSetBias _ _) \<Rightarrow> ok_reply 0
   | Gpiod (SettingsSetOutputValue _ _) \<Rightarrow> ok_reply 0
   | Gpiod (LineConfigAddLineSettings _ _ _) \<Rightarrow> ok_reply 0
   | Gpiod (RequestSetValue _ _ _) \<Rightarrow> ok_reply 0
   | Gpiod (RequestGetValue _ _) \<Rightarrow> ok_reply 0
   | Gpiod _ \<Rightarrow> ok_reply 3
   | Mem _ \<Rightarrow> ok_reply 7
   | File (Readlink _ _) \<Rightarrow> str_reply 8 ''/a/alarm''
   | File (Stat _) \<Rightarrow> err_reply (-1) 2
   | File (Fopen _ _) \<Rightarrow> err_reply 0 2
   | Os ReadFlag \<Rightarrow> ok_reply 1
   | Net UpnpDiscover \<Rightarrow> ok_reply 0
   | Net _ \<Rightarrow> ok_reply (-1)
   | Proc Fork \<Rightarrow> ok_reply 42
   | Proc (SelectRead _) \<Rightarrow> ok_reply 1
   | Proc (Waitpid _) \<Rightarrow> if tr \<noteq> [] \<and> fst (hd tr) = Proc (Waitpid (-1)) then err_reply (-1) ECHILD else ok_reply 42
   | _ \<Rightarrow> ok_reply 0)"

definition daemon_env :: env where
  "daemon_env = env_of daemon_answer"

text \<open>The state without its records of calls and without the pins.\<close>

definition erase :: "alarm_st \<Rightarrow> alarm_st" where
  "erase s = s\<lparr>trace := [], ltrace := [], errno := 0, ub := False, lub := False,
     g_gpio_chip := 0, g_pin_ctxs := 0, pin_ctx_mem := [], g_num_lines := 0, g_library_opened := 0\<rparr>"

definition phase :: "(alarm_st, 'a) state \<Rightarrow> alarm_st \<Rightarrow> 'a \<Rightarrow> alarm_st \<Rightarrow> bool" where
  "phase m s v t \<longleftrightarrow> (\<forall>tr lt er u lu a b c d i. case run_state m (s\<lparr>trace := tr, ltrace := lt, errno := er, ub := u, lub := lu,
     g_gpio_chip := a, g_pin_ctxs := b, pin_ctx_mem := c, g_num_lines := d, g_library_opened := i\<rparr>) of (r, t') \<Rightarrow> r = v \<and> erase t' = t)"

lemma phaseI:
  "(\<And>tr lt er u lu a b c d i. case run_state m (s\<lparr>trace := tr, ltrace := lt, errno := er, ub := u, lub := lu,
     g_gpio_chip := a, g_pin_ctxs := b, pin_ctx_mem := c, g_num_lines := d, g_library_opened := i\<rparr>) of (r, t') \<Rightarrow> r = v \<and> erase t' = t) \<Longrightarrow> phase m s v t"
  unfolding phase_def by blast

lemma wp_phase:
  assumes "phase m u v s'" and "erase s = u" and "\<And>t. erase t = s' \<Longrightarrow> Q v t"
  shows "wp m Q s"
proof -
  have s: "s = u\<lparr>trace := trace s, ltrace := ltrace s, errno := errno s, ub := ub s, lub := lub s,
     g_gpio_chip := g_gpio_chip s, g_pin_ctxs := g_pin_ctxs s, pin_ctx_mem := pin_ctx_mem s,
     g_num_lines := g_num_lines s, g_library_opened := g_library_opened s\<rparr>" by (simp add: erase_def flip: assms(2))
  have "wp m (\<lambda>r t. r = v \<and> erase t = s') s"
    unfolding wp_def by (subst s) (use assms(1) in \<open>simp only: phase_def\<close>)
  then show ?thesis by (rule wp_mono) (use assms(3) in auto)
qed


definition ready :: "alarm_st \<Rightarrow> bool" where
  "ready s \<longleftrightarrow> g_gpio_chip s = 3 \<and> g_pin_ctxs s = 7 \<and> g_library_opened s = 1 \<and> g_num_lines s = 19 \<and>
     length (pin_ctx_mem s) = 19"

lemma wp_calls_run:
  "wp (sys e c) Q s = Q (answer e (trace s) c) (s\<lparr>trace := (c, answer e (trace s) c) # trace s, errno := rerr (answer e (trace s) c)\<rparr>)"
  "wp (sysv e c) R s = R (rv (answer e (trace s) c)) (s\<lparr>trace := (c, answer e (trace s) c) # trace s, errno := rerr (answer e (trace s) c)\<rparr>)"
  "wp (sysu e c) S s = S () (s\<lparr>trace := (c, answer e (trace s) c) # trace s, errno := rerr (answer e (trace s) c)\<rparr>)"
  by (simp_all add: wp_def run_sys run_sysv run_sysu Let_def)

lemma wp_require_run: "wp (require b) Q s = Q () (if b then s else s\<lparr>ub := True\<rparr>)"
  by (simp add: wp_def run_require)

lemma erase_frame [simp]:
  "erase (s\<lparr>trace := tr\<rparr>) = erase s" "erase (s\<lparr>errno := er\<rparr>) = erase s" "erase (s\<lparr>ub := b\<rparr>) = erase s"
  "erase (s\<lparr>g_gpio_chip := h\<rparr>) = erase s" "erase (s\<lparr>g_pin_ctxs := h\<rparr>) = erase s"
  "erase (s\<lparr>g_num_lines := n\<rparr>) = erase s" "erase (s\<lparr>g_library_opened := h\<rparr>) = erase s"
  "erase (s\<lparr>pin_ctx_mem := m\<rparr>) = erase s"
  by (simp_all add: erase_def)

lemma ready_frame [simp]:
  "ready (s\<lparr>trace := tr\<rparr>) = ready s" "ready (s\<lparr>errno := er\<rparr>) = ready s"
  "ready (s\<lparr>ub := b\<rparr>) = ready s" "length m = 19 \<Longrightarrow> ready s \<Longrightarrow> ready (s\<lparr>pin_ctx_mem := m\<rparr>)"
  by (simp_all add: ready_def)

lemma daemon_env_answer: "answer daemon_env tr c = daemon_answer tr c"
  by (simp add: daemon_env_def env_of_def)

lemma readyD: "ready s \<Longrightarrow> g_gpio_chip s = 3 \<and> g_pin_ctxs s = 7 \<and> g_library_opened s = 1 \<and> g_num_lines s = 19 \<and>
    length (pin_ctx_mem s) = 19"
  by (simp add: ready_def)

lemmas gpio_run_defs = wp_calls_run wp_require_run daemon_env_answer daemon_answer_def ok_reply_def err_reply_def
  get_errno_or_io_def set_or_fail_def whenM_def

lemma wp_build_runs:
  assumes "d = 0 \<or> d = 2 \<or> d = 3" and "\<And>tr er. Q (0, 3) (s\<lparr>trace := tr, errno := er\<rparr>)"
  shows "wp (build_line_request daemon_env i d v) Q s"
  using assms(1)
  by (elim disjE; simp add: build_line_request_def build_line_request_body_def configure_line_settings_def gpio_run_defs assms(2))

lemma wp_direction_runs:
  assumes "ready s" and "0 \<le> p" and "p < 19" and "d = 0 \<or> d = 2 \<or> d = 3"
  shows "wp (gpio_direction daemon_env p d) (\<lambda>r t. r = 0 \<and> ready t \<and> erase t = erase s) s"
proof -
  have request: "wp (gpio_direction_request daemon_env (nat p) d od ov) (\<lambda>r t. r = 0 \<and> ready t \<and> erase t = erase s) t"
    if "ready t" "erase t = erase s" for od ov t
    unfolding gpio_direction_request_def release_pin_request_def get_pin_ctx_def set_pin_ctx_def
    using that assms(2,3) readyD [OF that(1)]
    by (auto intro!: wp_intro wp_build_runs [OF assms(4)])
  show ?thesis
    unfolding gpio_direction_def validate_library_opened_def validate_pin_def get_pin_ctx_def Let_def
    using assms(1-3) readyD [OF assms(1)]
    by (auto intro!: wp_if request simp: gpio_run_defs line_value_of_def)
qed

lemma wp_write_runs:
  assumes "ready s"
  shows "wp (gpio_write daemon_env p d) (\<lambda>r t. ready t \<and> erase t = erase s) s"
  unfolding gpio_write_def validate_library_opened_def validate_pin_def get_pin_ctx_def
  using assms
  by (auto intro!: wp_intro simp: get_errno_or_io_def)

lemma wp_open_runs:
  assumes "g_library_opened s = 0"
  shows "wp (open_gpios daemon_env) (\<lambda>r t. r = 0 \<and> ready t \<and> erase t = erase s) s"
  unfolding open_gpios_def 
  using assms
  by (simp add: gpio_run_defs ready_def)

lemma wp_configure_runs:
  assumes "ready s"
  shows "wp (configure_gpios daemon_env) (\<lambda>r t. r = 0 \<and> erase t = erase s) s"
proof -
  have "wp (configure_pins daemon_env ps) (\<lambda>r t. r = 0 \<and> erase t = erase s) t"
    if "\<forall>(p, d) \<in> set ps. 0 \<le> p \<and> p < 19 \<and> (d = 0 \<or> d = 2 \<or> d = 3)" "ready t" "erase t = erase s" for ps t
    using that
  proof (induction ps arbitrary: t)
    case (Cons x ps)
    then show ?case
      by (cases x) (auto intro!: wp_mono [OF wp_direction_runs] wp_whenM wp_mono [OF wp_write_runs])
  qed simp
  moreover have "\<forall>(p, d) \<in> set gpio_table. 0 \<le> p \<and> p < 19 \<and> (d = 0 \<or> d = 2 \<or> d = 3)"
    by (simp add: gpio_table_def PIR_GPIO_def RELAY1_GPIO_def RELAY2_GPIO_def
      RELAY3_GPIO_def RELAY4_GPIO_def CONTACT1_GPIO_def CONTACT2_GPIO_def ARMING_GPIO_def)
  ultimately show ?thesis using assms by (simp add: configure_gpios_def)
qed

definition run_path :: alarm_st where
  "run_path = alarm_start\<lparr>full_capture_path := ''/a/captures/'', child_process_ids := [42, -1]\<rparr>"

text \<open>After the initializations: the paths of ownCloud and the capturer, which alone is set up.\<close>

definition run_set_up :: alarm_st where
  "run_set_up = run_path\<lparr>g_capture_path := ''/a/captures/'', g_snapshot_url := CAPTURER_SNAPSHOT_URL, g_initialized := 1,
     g_curl_global_initialized := 1, oc_capture_path := ''/a/captures/'', oc_remote_dir := ''captures/''\<rparr>"

definition run_waited :: alarm_st where
  "run_waited = run_set_up\<lparr>child_process_ids := [-1, -1]\<rparr>"

lemmas run_state_defs = run_path_def run_set_up_def run_waited_def

text \<open>The phases, evaluated one by one.\<close>

lemma phase_daemon: "phase (sysv daemon_env (Os Daemon)) alarm_start 0 alarm_start"
  by (rule phaseI) code_simp

lemma phase_start_up: "phase (start_up daemon_env) alarm_start () alarm_start"
  by (rule phaseI) code_simp

lemma phase_children: "phase (start_children daemon_env ''Server: http://%s:8008'') alarm_start
    (Some (1, ''Server: http://%s:8008 Tunneling: '')) (alarm_start\<lparr>child_process_ids := [42, -1]\<rparr>)"
  by (rule phaseI) code_simp

lemma phase_path: "phase (get_absolute_path daemon_env (Some CAPTURE_IMAGE_PATH)) (alarm_start\<lparr>child_process_ids := [42, -1]\<rparr>)
    (0, Some ''/a/captures/'') (alarm_start\<lparr>child_process_ids := [42, -1]\<rparr>)"
  by (rule phaseI) code_simp

lemma phase_mkdir: "phase (sysv daemon_env (File (Mkdir p m))) run_path 0 run_path"
  unfolding run_state_defs by (rule phaseI) code_simp

lemma phase_monitor: "phase (start_monitor daemon_env fmt) run_path 0 run_set_up"
  unfolding run_state_defs by (rule phaseI) code_simp

lemma phase_thread: "phase (polling_thread daemon_env) run_set_up 0 run_set_up"
  unfolding run_state_defs by (rule phaseI) code_simp

lemma phase_wait: "phase (wait_children daemon_env 1) run_set_up (Some ()) run_waited"
  unfolding run_state_defs by (rule phaseI) code_simp

lemma phase_end: "phase (shut_down daemon_env) run_waited () (alarm_start\<lparr>full_capture_path := ''/a/captures/'',
    child_process_ids := [-1, -1], oc_capture_path := ''/a/captures/'', oc_remote_dir := ''captures/''\<rparr>)"
  unfolding run_state_defs by (rule phaseI) code_simp

lemma phase_message: "phase (formatted (c_snprintf INFO_MSG_SIZE (''Server: http://%%s:'' @ WEB_SERVER_PORT) [])) alarm_start
    ''Server: http://%s:8008'' alarm_start"
  by (rule phaseI) code_simp

lemma phase_join: "phase (sysv daemon_env (Os (PthreadJoin 0))) run_set_up 0 run_set_up"
  unfolding run_state_defs by (rule phaseI) code_simp

lemma phase_joined: "phase (log_printf daemon_env ''Polling thread terminated correctly\<newline>'' []) run_set_up () run_set_up"
  unfolding run_state_defs by (rule phaseI) code_simp

lemma erase_alarm_start: "erase alarm_start = alarm_start"
  by code_simp

end
