(* ===== verification/Daemon_Props.thy ===== *)
theory Daemon_Props
  imports Daemon_Run
begin

text \<open>
  What the daemon does from its start to its end, over all its components: the pins and libcurl are given back, and no
  program is started again once the monitor has ended.
\<close>

section \<open>The run of the witnesses\<close>

lemma erase_calls: "preserves (\<lambda>s. erase s = v) (sysu e c)" "preserves (\<lambda>s. erase s = v) (require b)"
  by (auto intro!: preservesI wp_sysu wp_require)

lemma keeps_erase: "preserves (\<lambda>s. erase s = v) (close_gpios daemon_env)"
  unfolding close_gpios_def release_all_pin_requests_def close_chip_def release_pin_request_def get_pin_ctx_def set_pin_ctx_def
  by (auto intro!: preserves_intro erase_calls)

lemma erase_path: "erase (s\<lparr>full_capture_path := p\<rparr>) = (erase s)\<lparr>full_capture_path := p\<rparr>"
  by (simp add: erase_def)

lemma erase_children: "erase (s\<lparr>child_process_ids := p\<rparr>) = (erase s)\<lparr>child_process_ids := p\<rparr>"
  by (simp add: erase_def)

lemma wp_end_runs:
  assumes "erase s = run_set_up"
  shows "wp (wait_polling_end daemon_env) (\<lambda>_ t. erase t = run_set_up) s"
  unfolding wait_polling_end_def using assms
  by (auto intro!: wp_phase [OF phase_join] wp_phase [OF phase_joined] preservesD [OF keeps_erase])

text \<open>Before the monitor is started the pin library is closed.\<close>

interpretation unopened: outside_clients "\<lambda>s. g_library_opened s = 0" "\<lambda>_. True"
  by unfold_locales (auto intro!: preservesI wp_log_printf wp_lsys)

lemma wp_phase_unopened:
  assumes "phase m u v s'" and "erase s = u" and "preserves (\<lambda>s. g_library_opened s = 0) m" and "g_library_opened s = 0"
    and "\<And>t. erase t = s' \<Longrightarrow> g_library_opened t = 0 \<Longrightarrow> Q v t"
  shows "wp m Q s"
proof -
  have "wp m (\<lambda>r t. r = v \<and> erase t = s') s" by (rule wp_phase [OF assms(1,2)]) simp
  from wp_conj [OF this preservesD [OF assms(3,4)]] show ?thesis by (rule wp_mono) (use assms(5) in auto)
qed

lemma wp_init_runs:
  assumes "erase s = alarm_start\<lparr>child_process_ids := [42, -1]\<rparr>" and "g_library_opened s = 0"
  shows "wp (init_polling daemon_env CAPTURE_IMAGE_PATH fmt) (\<lambda>r t. r = 0 \<and> erase t = run_set_up) s"
proof -
  have pins: "wp (open_gpios daemon_env) (\<lambda>r t. r = 0 \<and> ready t \<and> erase t = run_path) t"
    if "erase t = run_path" "g_library_opened t = 0" for t
    by (rule wp_mono [OF wp_open_runs [OF that(2)]]) (simp add: that(1))
  have table: "wp (configure_gpios daemon_env) (\<lambda>r t. r = 0 \<and> erase t = run_path) t"
    if "erase t = run_path" "ready t" for t
    by (rule wp_mono [OF wp_configure_runs [OF that(2)]]) (simp add: that(1))
  have monitor: "wp (start_monitor daemon_env fmt) (\<lambda>r t. r = 0 \<and> erase t = run_set_up) t" if "erase t = run_path" for t
    by (rule wp_phase [OF phase_monitor that]) simp
  show ?thesis
    unfolding init_polling_def
    by (auto intro!: wp_phase_unopened [OF phase_path assms(1) unopened.paths(2) assms(2)]
      wp_phase_unopened [OF phase_mkdir _ unopened.calls(2)] wp_mono [OF pins] wp_mono [OF table] monitor
      simp: erase_path run_path_def)
qed

lemma wp_run_monitor_runs:
  assumes "erase s = alarm_start\<lparr>child_process_ids := [42, -1]\<rparr>" and "g_library_opened s = 0"
  shows "wp (run_monitor daemon_env fmt) (\<lambda>r t. r = 0 \<and> erase t = run_set_up) s"
proof -
  have thread: "wp (polling_thread daemon_env) (\<lambda>r t. erase t = run_set_up) t" if "erase t = run_set_up" for t
    by (rule wp_phase [OF phase_thread that]) simp
  show ?thesis
    unfolding run_monitor_def
    by (auto intro!: wp_mono [OF wp_init_runs [OF assms]] wp_mono [OF thread] wp_mono [OF wp_end_runs])
qed

lemma wp_daemon_runs:
  "wp (alarm_main daemon_env) (\<lambda>r t. r = Some 0 \<and> \<not> hang t) alarm_start"
proof -
  have close: "wp (shut_down daemon_env) (\<lambda>_ t. \<not> hang t) t" if "erase t = run_waited" for t
  proof (rule wp_phase [OF phase_end that])
    fix t
    assume t: "erase t = alarm_start\<lparr>full_capture_path := ''/a/captures/'', child_process_ids := [-1, -1],
      oc_capture_path := ''/a/captures/'', oc_remote_dir := ''captures/''\<rparr>"
    have "hang (erase t) = hang t" by (simp add: erase_def)
    then show "\<not> hang t" by (simp add: t alarm_start_def log_st.defs log_start_def)
  qed
  have wait: "wp (wait_children daemon_env (Suc 0)) (\<lambda>w t. w = Some () \<and> erase t = run_waited) t" if "erase t = run_set_up" for t
    by (rule wp_phase [OF phase_wait [unfolded One_nat_def] that]) simp
  have unopened_start: "g_library_opened alarm_start = 0" by (simp add: alarm_start_def log_st.defs)
  have monitor: "wp (run_monitor daemon_env fmt) (\<lambda>r t. r = 0 \<and> erase t = run_set_up) t"
    if "erase t = alarm_start\<lparr>child_process_ids := [42, -1]\<rparr>" "g_library_opened t = 0" for fmt t
    by (rule wp_run_monitor_runs [OF that])
  let ?stop = "\<lambda>w. case w of None \<Rightarrow> return None | Some () \<Rightarrow> do { shut_down daemon_env; return (Some (0 :: int)) }"
  have ending: "wp (wait_children daemon_env (Suc 0)) (\<lambda>w. wp (?stop w) (\<lambda>r t. r = Some 0 \<and> \<not> hang t)) t"
    if "erase t = run_set_up" for t
  proof (rule wp_mono [OF wait [OF that]])
    fix w u
    assume "w = Some () \<and> erase u = run_waited"
    then show "wp (?stop w) (\<lambda>r t. r = Some 0 \<and> \<not> hang t) u" by (auto split: unit.split intro!: wp_mono [OF close])
  qed
  show ?thesis
    unfolding alarm_main_def
    by (auto intro!: wp_phase_unopened [OF phase_daemon erase_alarm_start unopened.calls(2) unopened_start]
      wp_phase_unopened [OF phase_message [simplified append_Cons append_Nil] _ unopened.texts(2)]
      wp_phase_unopened [OF phase_start_up _ unopened.start_up]
      wp_phase_unopened [OF phase_children _ unopened.starting(1)] wp_mono [OF monitor] ending)
qed

lemma daemon_run:
  obtains t where "run_state (alarm_main daemon_env) alarm_start = (Some 0, t)" and "\<not> hang t"
  by (cases "run_state (alarm_main daemon_env) alarm_start")
    (use wp_daemon_runs in \<open>auto simp: wp_def\<close>)

section \<open>Properties\<close>

text \<open>
  C3: whatever the pin library answers, and however the daemon ends, it has used the objects of libgpiod legally and has
  freed every temporary one; when \<open>main\<close> returns 0 no line request is held and the chip is closed.
\<close>
theorem daemon_releases_pins:
  assumes "run_state (alarm_main e) s = (res, t)" and "gpio_inv s"
  shows "gpiod_legal (trace t) \<and> (\<forall>h. tmp_bal (trace t) h = (0, 0, 0, 0)) \<and>
    (res = Some 0 \<longrightarrow> (\<forall>h. req_bal (trace t) h = 0 \<and> chip_bal (trace t) h = 0))"
proof -
  have "pins_kept (res = Some 0) t"
    by (rule wp_runD [OF wp_alarm_main_pins assms(1)]) (simp add: pins_kept_def assms(2))
  then show ?thesis by (auto simp: pins_kept_def gpio_inv_def held_def)
qed

lemma daemon_releases_pins_witness:
  "\<exists>t. run_state (alarm_main daemon_env) alarm_start = (Some 0, t) \<and>
    (\<forall>h. req_bal (trace t) h = 0 \<and> chip_bal (trace t) h = 0)"
proof -
  have "gpio_inv alarm_start"
    by (simp add: gpio_inv_def gpiod_legal_def tmp_bal_def held_def alarm_start_def log_start_def log_st.defs fun_eq_iff)
  then show ?thesis using daemon_releases_pins by (rule_tac daemon_run) blast
qed

text \<open>
  C5: when \<open>main\<close> returns, with whatever result, libcurl has been cleaned up as often as it was initialized: by
  the clients that were set up, each once, also when the set-up of the monitor failed.
\<close>
theorem daemon_curl_balanced:
  assumes "run_state (alarm_main e) s = (Some r, t)" and "clients_ok s" and "clients_off s"
  shows "curl_refs (trace t) = curl_refs (trace s)"
proof -
  have "(\<exists>r'. Some r = Some r') \<longrightarrow> curl_refs (trace t) = curl_refs (trace s)"
    by (rule wp_runD [OF wp_alarm_main_counted assms(1)]) (simp add: curl_unused_def assms(2,3))
  then show ?thesis by simp
qed

lemma daemon_curl_balanced_witness:
  "\<exists>t. run_state (alarm_main daemon_env) alarm_start = (Some 0, t) \<and> curl_refs (trace t) = 0"
proof -
  have "clients_ok alarm_start" "clients_off alarm_start" and refs: "curl_refs (trace alarm_start) = 0"
    by (simp_all add: clients_ok_def client_ok_defs clients_off_def alarm_start_def log_start_def log_st.defs)
  from daemon_curl_balanced [OF _ this(1,2)] show ?thesis unfolding refs by (rule_tac daemon_run) blast
qed

text \<open>
  C4: if nothing resets the flag, a daemon that ends well has started at most the web server and the tunnelling
  program, each once: the loop that runs exited programs again is entered only after the flag has been set, and
  then does not run them.
\<close>
theorem no_restart_after_monitor:
  assumes "run_state (alarm_main e) s = (Some 0, t)" and "\<not> hang t" and "flag_stays e"
  shows "forks (trace t) \<le> forks (trace s) + 2"
proof -
  have "Some (0 :: int) = Some 0 \<longrightarrow> settled (Suc (Suc (forks (trace s)))) t"
    by (rule wp_runD [OF wp_alarm_main_forks [OF assms(3)] assms(1)])
  then show ?thesis using assms(2) by (simp add: settled_def)
qed

lemma no_restart_after_monitor_witness:
  "\<exists>t. run_state (alarm_main daemon_env) alarm_start = (Some 0, t) \<and> forks (trace t) \<le> 2"
proof -
  have stays: "flag_stays daemon_env" by (simp add: flag_stays_def daemon_env_answer daemon_answer_def ok_reply_def)
  have none: "forks (trace alarm_start) = 0" by (simp add: forks_def alarm_start_def log_start_def log_st.defs)
  obtain t where t: "run_state (alarm_main daemon_env) alarm_start = (Some 0, t)" "\<not> hang t" by (rule daemon_run)
  from no_restart_after_monitor [OF t stays] t(1) show ?thesis by (auto simp: none)
qed

end
