(* ===== verification/Signals.thy ===== *)
theory Signals
  imports Daemon_Inv ProcWait_Props Alarm_Props
begin

text \<open>
  The signal handler between the steps of \<open>main\<close>.  The handler reads the list of children and sets the
  flag; \<open>main\<close> changes the list when it starts the children and in the loop that waits for them.
\<close>

section \<open>The steps\<close>

text \<open>
  Where \<open>main\<close> is: before the children are started, before or in the monitor, in the waiting loop (the number of
  children, the error and the retries), or in that loop after the flag has been read as clear.
\<close>

datatype main_at = Starting | Monitoring nat | Waiting nat int int | RunAgain nat int int

type_synonym daemon_at = "main_at \<times> bool \<times> alarm_st"

definition waiting_vars :: "nat \<Rightarrow> int \<Rightarrow> int \<Rightarrow> alarm_st \<Rightarrow> wait_vars" where
  "waiting_vars n er k s = \<lparr>w_error = er, w_pids = take n (child_process_ids s), w_retries = k, w_child = False\<rparr>"

definition store_children :: "nat \<Rightarrow> wait_vars \<Rightarrow> alarm_st \<Rightarrow> alarm_st" where
  "store_children n w s = s\<lparr>child_process_ids := w_pids w @ drop n (child_process_ids s)\<rparr>"

definition flag_is :: "bool \<Rightarrow> env \<Rightarrow> bool" where
  "flag_is f e \<longleftrightarrow> (\<forall>tr. rv (answer e tr (Os ReadFlag)) \<noteq> 0 \<longleftrightarrow> f)"

text \<open>The wait that times out, and the reading of the flag.\<close>

definition expire :: "env \<Rightarrow> (alarm_st, int \<times> int \<times> int) state" where
  "expire e = do {
     wait_ret \<leftarrow> sysv e (Os (Sigtimedwait CHILD_PROC_EXEC_RETRY_PER));
     er \<leftarrow> gets errno;
     flag \<leftarrow> sysv e (Os ReadFlag);
     return (wait_ret, er, flag)
   }"

text \<open>
  A round of the waiting loop is one step, except that the handler may run between the reading of the flag and
  the running of the exited programs.
\<close>

inductive daemon_step :: "daemon_at \<Rightarrow> daemon_at \<Rightarrow> bool" where
  signal: "run_state (exit_deamon_handler e sig) s = ((), t) \<Longrightarrow> daemon_step (m, f, s) (m, True, t)"
| start: "run_state (start_children e msg) s = (Some (n, msg'), t) \<Longrightarrow>
    daemon_step (Starting, f, s) (Monitoring n, f, t)"
| monitor: "run_state (run_monitor e msg) s = (r, t) \<Longrightarrow>
    daemon_step (Monitoring n, f, s) (Waiting n 0 MAX_CHILD_PROC_EXEC_RETRIES, f, t)"
| reap: "run_state (update_child_processes_state e (take n (child_process_ids s))) s = ((ret, pids), t) \<Longrightarrow>
    daemon_step (Waiting n er k, f, s) (Waiting n er k, f, t\<lparr>child_process_ids := pids @ drop n (child_process_ids t)\<rparr>)"
| round: "flag_is f e \<Longrightarrow> run_state (wait_step e processes_exec_args CHILD_PROC_EXEC_RETRY_PER (waiting_vars n er k s)) s = (w, t) \<Longrightarrow>
    \<not> w_child w \<Longrightarrow> daemon_step (Waiting n er k, f, s) (Waiting n (w_error w) (w_retries w), f, store_children n w t)"
| timeout: "retries_left k \<Longrightarrow>
    run_state (expire e) s = ((-1, EAGAIN, 0), t) \<Longrightarrow>
    daemon_step (Waiting n er k, False, s) (RunAgain n er k, False, t)"
| again: "run_state (wait_run_again e processes_exec_args (waiting_vars n er k s)) s = (w, t) \<Longrightarrow> \<not> w_child w \<Longrightarrow>
    daemon_step (RunAgain n er k, f, s) (Waiting n (w_error w) (w_retries w), f, store_children n w t)"

inductive_cases daemon_stepE: "daemon_step (m, f, s) q"

section \<open>Children that have been told to end\<close>

definition signalled :: "int \<Rightarrow> event list \<Rightarrow> bool" where
  "signalled p tr \<longleftrightarrow> (\<exists>r. (Proc (Kill p ''SIGTERM''), r) \<in> set tr)"

text \<open>Every running process of the list has been sent the signal, and at most so many processes were started.\<close>

definition told :: "nat \<Rightarrow> int list \<Rightarrow> 'z world_scheme \<Rightarrow> bool" where
  "told n pids s \<longleftrightarrow> (\<forall>p \<in> set pids. p \<noteq> -1 \<longrightarrow> signalled p (trace s)) \<and> forks (trace s) \<le> n"

lemma signalled_Cons [simp]: "signalled p (ev # tr) \<longleftrightarrow> fst ev = Proc (Kill p ''SIGTERM'') \<or> signalled p tr"
  by (cases ev) (auto simp: signalled_def)

lemma forks_Cons [simp]: "forks (ev # tr) = (if fst ev = Proc Fork then Suc (forks tr) else forks tr)"
  by (simp add: forks_def)

interpretation told: outside_both "told n pids" "\<lambda>c. c \<noteq> Proc Fork" for n pids
  by unfold_locales (auto intro!: preservesI wp_log_printf wp_lsys simp: told_def)

interpretation same_children: outside_both "\<lambda>s. child_process_ids s = pids" "\<lambda>_. True" for pids
  by unfold_locales (auto intro!: preservesI wp_log_printf wp_lsys)

lemma told_mono: "told n pids s \<Longrightarrow> set pids' \<subseteq> insert (-1) (set pids) \<Longrightarrow> told n pids' s"
  by (auto simp: told_def)

text \<open>Reaping only replaces processes by -1.\<close>

lemma wp_reap_told:
  assumes "told n pids s"
  shows "wp (update_child_processes_state e pids) (\<lambda>(_, pids') t. told n pids' t) s"
proof -
  have noted: "wp (note_exit e ids r) (\<lambda>ids' t. told n ids' t) t" if "told n ids t" for ids r and t :: "'a log_st_scheme"
    unfolding note_exit_def
    using that told_mono [OF that set_update_subset_insert]
    by (auto intro!: wp_intro simp: told_def)
  show ?thesis
    unfolding update_child_processes_state_def
    using assms
    by (auto intro!: wp_sys wp_while [where I = "\<lambda>x t. told n (fst x) t"] wp_mono [OF noted] simp: told_def)
qed

text \<open>While the flag is set, a round starts nothing.\<close>

lemma wp_round_told:
  assumes "told n (w_pids w) s" and "flag_is True e"
  shows "wp (wait_step e args per w) (\<lambda>w' t. told n (w_pids w') t) s"
  using assms
  unfolding wait_step_def wait_timeout_def
  by (auto intro!: wp_intro wp_mono [OF wp_reap_told] wp_sysv_eq simp: told_def flag_is_def)

lemma wp_round_kept:
  fixes s :: "'z alarm_st_scheme"
  assumes "told n pids s" and "flag_is True e"
  shows "wp (wait_step e args per w) (\<lambda>_ t. told n pids t) s"
proof -
  have reap: "wp (update_child_processes_state e (w_pids w)) (\<lambda>_. told n pids) u" if "told n pids u" for u :: "'z alarm_st_scheme"
    using that by (rule preservesD [OF told.reaping])
  show ?thesis
    using assms
    unfolding wait_step_def wait_timeout_def
    by (auto intro!: wp_intro wp_mono [OF reap] wp_sysv_eq simp: told_def flag_is_def)
qed

lemma wp_handler_told: "wp (exit_deamon_handler e sig) (\<lambda>_ t. told (forks (trace s)) (child_process_ids s) t \<and>
    child_process_ids t = child_process_ids s) s"
proof -
  have kills: "told (forks (trace s)) pids (s\<lparr>trace := evs @ trace s, ltrace := lt, errno := er, lub := u\<rparr>)"
    if evs: "map fst (rev evs) = map (\<lambda>p. Proc (Kill p ''SIGTERM'')) (filter (\<lambda>p. p \<noteq> -1) pids)" for evs lt er u pids
  proof -
    have "fst ` set evs = set (map fst (rev evs))" by simp
    then have calls: "fst ` set evs = (\<lambda>p. Proc (Kill p ''SIGTERM'')) ` {p \<in> set pids. p \<noteq> -1}"
      unfolding evs by auto
    then have "Proc Fork \<notin> fst ` set evs" by auto
    then have "filter (\<lambda>ev. fst ev = Proc Fork) evs = []" by (force simp: filter_empty_conv)
    moreover have "signalled p (evs @ trace s)" if "p \<in> set pids" "p \<noteq> -1" for p
    proof -
      have "Proc (Kill p ''SIGTERM'') \<in> fst ` set evs" unfolding calls using that by blast
      then show ?thesis by (auto simp: signalled_def)
    qed
    ultimately show ?thesis by (simp add: told_def forks_def)
  qed
  show ?thesis
    unfolding exit_deamon_handler_def
    by (auto intro!: wp_log_printf wp_kill_processes kills)
qed

lemma told_more: "told k pids s \<Longrightarrow> k \<le> n \<Longrightarrow> told n pids s"
  by (auto simp: told_def)

text \<open>After a signal outside the start-up and the window in the loop.\<close>

definition after_signal :: "nat \<Rightarrow> daemon_at \<Rightarrow> bool" where
  "after_signal n q \<longleftrightarrow> (case q of (m, f, s) \<Rightarrow> f \<and> told n (child_process_ids s) s \<and>
     m \<noteq> Starting \<and> (\<forall>l er k. m \<noteq> RunAgain l er k))"

lemma handler_step:
  assumes "run_state (exit_deamon_handler e sig) s = ((), t)"
  shows "told (forks (trace s)) (child_process_ids t) t"
  using wp_runD [OF wp_handler_told assms] by simp

text \<open>The first children of the list are replaced by what has become of them.\<close>

lemma told_store:
  assumes "told n pids' t" and "told n pids t"
  shows "told n (pids' @ drop l pids) (t\<lparr>child_process_ids := ids\<rparr>)"
  using assms by (auto simp: told_def dest: in_set_dropD)

lemma after_signal_step:
  assumes "daemon_step q q'" and "after_signal n q"
  shows "after_signal n q'"
  using assms
proof (induction rule: daemon_step.induct)
  case (signal e sig s t m f)
  then show ?case
    using told_more [OF handler_step [OF signal.hyps], of n] by (auto simp: after_signal_def told_def)
next
  case (monitor e msg s r t l f)
  let ?ids = "child_process_ids s"
  have "told n ?ids t" "child_process_ids t = ?ids"
    using wp_runD [OF preservesD [OF told.monitor(2)] monitor.hyps, of n ?ids]
      wp_runD [OF preservesD [OF same_children.monitor(2)] monitor.hyps, of ?ids] monitor.prems
    by (simp_all add: after_signal_def)
  then show ?case using monitor.prems by (simp add: after_signal_def)
next
  case (reap e l s ret pids t er k f)
  let ?ids = "child_process_ids s"
  have start: "told n (take l ?ids) s" "told n ?ids s"
    using reap.prems by (auto simp: after_signal_def told_def dest: in_set_takeD)
  have "told n pids t" using wp_runD [OF wp_reap_told [OF start(1)] reap.hyps] by simp
  moreover have "told n ?ids t" "child_process_ids t = ?ids"
    using wp_runD [OF preservesD [OF told.reaping start(2)] reap.hyps]
      wp_runD [OF preservesD [OF same_children.reaping] reap.hyps, of ?ids] by simp_all
  ultimately show ?case using reap.prems by (auto simp: after_signal_def intro!: told_store)
next
  case (round f e l er k s w t)
  then have e: "flag_is True e" and start: "told n (take l (child_process_ids s)) s" "told n (child_process_ids s) s"
    by (auto simp: after_signal_def told_def dest: in_set_takeD)
  have "told n (w_pids w) t"
    using wp_runD [OF wp_round_told [OF _ e] round.hyps(2)] start(1) by (simp add: waiting_vars_def)
  moreover have "told n (child_process_ids s) t"
    by (rule wp_runD [OF wp_round_kept [OF start(2) e] round.hyps(2)])
  moreover have "child_process_ids t = child_process_ids s"
    using wp_runD [OF preservesD [OF same_children.waiting(1)] round.hyps(2), of "child_process_ids s"] by simp
  ultimately show ?case using round.prems by (auto simp: after_signal_def store_children_def intro!: told_store)
qed (simp_all add: after_signal_def)

end
