(* ===== verification/Signals_Props.thy ===== *)
theory Signals_Props
  imports Signals
begin

text \<open>
  What becomes of a termination signal: the children that are in the list are told to end and no other one is started;
  a signal that comes before the children are started is lost.
\<close>

section \<open>Loops that never end\<close>

lemma wp_while_endless:
  assumes start: "I x s"
    and step: "\<And>y t. I y t \<Longrightarrow> wp (c y) (\<lambda>g u. g \<and> wp (b y) I u) t"
  shows "wp (while_fuel n c b x) (\<lambda>_. hang) s"
  using start
proof (induction n arbitrary: x s)
  case (Suc n)
  have "wp (c x) (\<lambda>g. wp (if g then do { y \<leftarrow> b x; while_fuel n c b y } else return x) (\<lambda>_. hang)) s"
    by (rule wp_mono [OF step [OF Suc.prems]]) (auto intro: wp_mono [OF _ Suc.IH])
  then show ?case by simp
qed simp

text \<open>The children run on: no call reports that one has ended, and the waiting times out.\<close>

definition children_run_on :: "env \<Rightarrow> bool" where
  "children_run_on e \<longleftrightarrow> (\<forall>tr. rv (answer e tr (Proc (Waitpid (-1)))) = 0) \<and>
     (\<forall>tr x. rv (answer e tr (Os (Sigset x))) = 0) \<and> (\<forall>tr x. rv (answer e tr (Os (Sigprocmask x))) = 0) \<and>
     (\<forall>tr k. rv (answer e tr (Os (Sigtimedwait k))) = -1 \<and> rerr (answer e tr (Os (Sigtimedwait k))) = EAGAIN)"

lemma wp_reap_none:
  assumes "children_run_on e" and "\<And>tr er. Q (0, pids) (s\<lparr>trace := tr, errno := er\<rparr>)" and "\<And>t. hang t \<Longrightarrow> Q (0, pids) t"
  shows "wp (update_child_processes_state e pids) Q s"
  unfolding update_child_processes_state_def
  using assms by (cases "fuel e") (auto intro!: wp_sys_eq simp: children_run_on_def)

lemma wp_wait_endless:
  fixes s :: "'z alarm_st_scheme"
  assumes e: "children_run_on e" "flag_is True e" and p: "\<exists>p \<in> set pids. p \<noteq> -1"
  shows "wp (wait_child_processes e pids args per k) (\<lambda>_. hang) s"
proof -
  have running: "0 < count_running_child_processes pids"
    using p by (auto simp: count_running_child_processes_def filter_empty_conv)
  define same where "same (w :: wait_vars) (t :: 'z alarm_st_scheme) \<longleftrightarrow> w_error w = 0 \<and> \<not> w_child w \<and> w_pids w = pids" for w t
  have loop: "wp (while_fuel n (wait_again e) (wait_step e args per) w) (\<lambda>_. hang) t" if "same w t" for n w and t :: "'z alarm_st_scheme"
    using that
  proof (rule wp_while_endless)
    fix y and u :: "'z alarm_st_scheme"
    assume "same y u"
    then show "wp (wait_again e y) (\<lambda>g u. g \<and> wp (wait_step e args per y) same u) u"
      using e running
      by (auto intro!: wp_sysv_eq simp: same_def wait_again_def wait_step_def wait_timeout_def children_run_on_def flag_is_def)
  qed
  have reaped: "wp (update_child_processes_state e pids) (\<lambda>r _. r = (0, pids)) t" for t :: "'z alarm_st_scheme"
    by (rule wp_reap_none [OF e(1)]) simp_all
  have calls: "wp (sysv e (Os (Sigset x))) (\<lambda>r _. r = 0) t" "wp (sysv e (Os (Sigprocmask x))) (\<lambda>r _. r = 0) t"
    for x and t :: "'z alarm_st_scheme"
    using e(1) by (auto intro!: wp_sysv_eq simp: children_run_on_def)
  show ?thesis
    unfolding wait_child_processes_def wait_blocked_def
    by (auto intro!: wp_mono [OF calls(1)] wp_mono [OF calls(2) [of "''SIG_BLOCK''"]] wp_mono [OF reaped] wp_mono [OF loop] wp_if wp_whenM
        wp_preserves [OF stuck.calls(2)] wp_preserves [OF stuck.calm_log] simp: same_def)
qed

lemma wp_round_idle:
  assumes "children_run_on e" and "flag_is True e"
  shows "wp (wait_step e args per w) (\<lambda>w' _. w' = w) s"
  using assms
  by (auto intro!: wp_sysv_eq simp: wait_step_def wait_timeout_def children_run_on_def flag_is_def)

text \<open>The web server is the first of the list.\<close>

lemma wp_start_first:
  fixes s :: "'z alarm_st_scheme"
  assumes law: "failures_set_errno e" and ids: "child_process_ids s = q # ps"
  shows "wp (start_children e msg) (\<lambda>res t. \<forall>k m. res = Some (k, m) \<and> k \<noteq> 0 \<longrightarrow>
    k = 1 \<and> (\<exists>p. 0 < p \<and> child_process_ids t = p # ps)) s"
proof -
  note same = wp_mono [OF wp_kept [OF same_children.arrays(1)]] wp_mono [OF wp_kept [OF same_children.arrays(2)]]
    wp_mono [OF wp_kept [OF same_children.calm_log]] wp_mono [OF wp_kept [OF same_children.tunneling]]
  show ?thesis
    unfolding start_children_def set_child_id_def
    by (auto intro!: same wp_intro wp_run_out_log [OF law] simp: ids)
qed

section \<open>A daemon whose web server runs on\<close>

definition running_answer :: "event list \<Rightarrow> call \<Rightarrow> reply" where
  "running_answer tr c = (case c of
     Mem _ \<Rightarrow> ok_reply 7
   | File (Readlink _ _) \<Rightarrow> str_reply 8 ''/a/alarm''
   | Os ReadFlag \<Rightarrow> ok_reply 1
   | Os (Sigtimedwait _) \<Rightarrow> err_reply (-1) EAGAIN
   | Proc Fork \<Rightarrow> ok_reply 42
   | Proc (SelectRead _) \<Rightarrow> ok_reply 1
   | _ \<Rightarrow> ok_reply 0)"

definition running_env :: env where
  "running_env = env_of running_answer"

lemma running_laws: "children_run_on running_env" "flag_is True running_env" "failures_set_errno running_env"
  by (simp_all add: children_run_on_def flag_is_def failures_set_errno_def running_env_def env_of_def running_answer_def
    ok_reply_def err_reply_def)

section \<open>Properties\<close>

text \<open>
  C6: a signal that arrives while the monitor runs or between the rounds of the waiting loop reaches every child: whatever
  steps follow, each process that is still in the list has been sent the termination signal, the flag stays set
  and no process is started.  (Between the reading of the flag and the running of the exited programs, and before the
  children are started, this is not so.)
\<close>
theorem signal_reaches_children:
  assumes "run_state (exit_deamon_handler e sig) s = ((), s1)" and "m \<noteq> Starting" and "\<forall>n er k. m \<noteq> RunAgain n er k"
    and "daemon_step\<^sup>*\<^sup>* (m, True, s1) (m', f, t)"
  shows "f \<and> (\<forall>p \<in> set (child_process_ids t). p \<noteq> -1 \<longrightarrow> signalled p (trace t)) \<and>
    forks (trace t) \<le> forks (trace s)"
proof -
  have "after_signal (forks (trace s)) (m, True, s1)"
    using handler_step [OF assms(1)] assms(2,3) by (simp add: after_signal_def)
  with assms(4) have "after_signal (forks (trace s)) (m', f, t)"
    by (induction rule: rtranclp_induct) (auto intro: after_signal_step)
  then show ?thesis by (simp add: after_signal_def told_def)
qed

lemma signal_reaches_children_witness:
  "\<exists>s1 t. run_state (exit_deamon_handler running_env 15) (alarm_start\<lparr>child_process_ids := [42, -1]\<rparr>) = ((), s1) \<and>
    daemon_step (Waiting 1 0 3, True, s1) (Waiting 1 0 3, True, t) \<and> 42 \<in> set (child_process_ids t) \<and> signalled 42 (trace t)"
proof -
  define s1 where "s1 = snd (run_state (exit_deamon_handler running_env 15) (alarm_start\<lparr>child_process_ids := [42, -1]\<rparr>))"
  have s1: "run_state (exit_deamon_handler running_env 15) (alarm_start\<lparr>child_process_ids := [42, -1]\<rparr>) = ((), s1)"
    by (simp add: s1_def prod_eq_iff)
  let ?m = "wait_step running_env processes_exec_args CHILD_PROC_EXEC_RETRY_PER (waiting_vars 1 0 3 s1)"
  obtain w t where run: "run_state ?m s1 = (w, t)" by fastforce
  have w: "w = waiting_vars 1 0 3 s1" by (rule wp_runD [OF wp_round_idle [OF running_laws(1,2)] run])
  have "child_process_ids s1 = [42, -1]" using wp_runD [OF wp_handler_told s1] by simp
  moreover from this have "child_process_ids t = [42, -1]"
    using wp_runD [OF preservesD [OF same_children.waiting(1)] run, of "[42, -1]"] by simp
  ultimately have ids: "child_process_ids s1 = [42, -1]" "child_process_ids t = [42, -1]" by simp_all
  have step: "daemon_step (Waiting 1 0 3, True, s1) (Waiting 1 0 3, True, store_children 1 w t)"
    using daemon_step.round [OF running_laws(2) run] by (simp add: waiting_vars_def w)
  then have steps: "daemon_step\<^sup>*\<^sup>* (Waiting 1 0 3, True, s1) (Waiting 1 0 3, True, store_children 1 w t)"
    by (rule r_into_rtranclp [of daemon_step])
  have running: "42 \<in> set (child_process_ids (store_children 1 w t))"
    by (simp add: store_children_def waiting_vars_def w ids)
  moreover from running have "signalled 42 (trace (store_children 1 w t))"
    using signal_reaches_children [OF s1 _ _ steps] by auto
  ultimately show ?thesis using s1 step by blast
qed

text \<open>
  C7: a termination signal that arrives before the web server is started is lost: the handler sends nothing, the server is
  started all the same, and whatever the monitor does, \<open>main\<close> then waits for ever for a server that runs on.  (The mark for
  an endless loop is cleared before, so that it is the waiting loop that sets it.)
\<close>
theorem early_signal_never_ends:
  assumes "run_state (exit_deamon_handler e sig) s0 = ((), s)" and "child_process_ids s0 = [-1, -1]"
    and "run_state (start_children e msg) s = (Some (n, msg'), s1)" and "n \<noteq> 0"
    and "run_state (run_monitor e msg') s1 = (r, s2)" and "run_state (wait_children e n) (s2\<lparr>hang := False\<rparr>) = (res, t)"
    and "flag_is True e" and "children_run_on e" and "failures_set_errno e"
  shows "trace s = trace s0 \<and> hang t"
proof -
  have s: "trace s = trace s0 \<and> child_process_ids s = [-1, -1]"
    by (rule wp_runD [OF _ assms(1)])
      (auto simp: exit_deamon_handler_def assms(2) kill_processes_def whenM_def intro!: wp_log_printf)
  then obtain p where n: "n = 1" and p: "0 < p" "child_process_ids s1 = [p, -1]"
    using wp_runD [OF wp_start_first [OF assms(9)] assms(3)] assms(4) by blast
  have s2: "child_process_ids (s2\<lparr>hang := False\<rparr>) = [p, -1]"
    using wp_runD [OF preservesD [OF same_children.monitor(2)] assms(5)] p(2) by simp
  have "wp (wait_children e n) (\<lambda>_. hang) (s2\<lparr>hang := False\<rparr>)"
    unfolding wait_children_def
    by (auto intro!: wp_preserves [OF same_children.calls(1) s2] wp_preserves [OF same_children.calm_log]
      wp_preserves [OF same_children.checks(1)] wp_mono [OF wp_wait_endless [OF assms(8,7)]] wp_case_option wp_case_prod
      simp: n) (use p(1) in simp)
  from wp_runD [OF this assms(6)] s show ?thesis by simp
qed

lemma early_signal_never_ends_witness:
  "\<exists>s n msg s1 r s2 res t. run_state (exit_deamon_handler running_env 15) alarm_start = ((), s) \<and>
    run_state (start_children running_env ''Server'') s = (Some (n, msg), s1) \<and> n \<noteq> 0 \<and>
    run_state (run_monitor running_env msg) s1 = (r, s2) \<and>
    run_state (wait_children running_env n) (s2\<lparr>hang := False\<rparr>) = (res, t) \<and> hang t"
proof -
  define s where "s = snd (run_state (exit_deamon_handler running_env 15) alarm_start)"
  have s: "run_state (exit_deamon_handler running_env 15) alarm_start = ((), s)"
    by (simp add: s_def prod_eq_iff)
  have ids: "child_process_ids alarm_start = [-1, -1]" by (simp add: alarm_start_def log_st.defs)
  have "fst (run_state (start_children running_env ''Server'') s) = Some (1, ''Server Tunneling: '')"
    unfolding s_def by code_simp
  then obtain s1 where s1: "run_state (start_children running_env ''Server'') s = (Some (1, ''Server Tunneling: ''), s1)"
    by (metis prod.collapse)
  obtain r s2 where s2: "run_state (run_monitor running_env ''Server Tunneling: '') s1 = (r, s2)" by fastforce
  obtain res t where t: "run_state (wait_children running_env 1) (s2\<lparr>hang := False\<rparr>) = (res, t)" by fastforce
  from early_signal_never_ends [OF s ids s1 _ s2 t running_laws(2,1,3)] have "hang t" by simp
  with s s1 s2 t show ?thesis by force
qed

text \<open>In the window after the reading of the flag a signal is lost too: an exited program is run again and not told.\<close>

definition window_env :: env where
  "window_env = env_of (\<lambda>tr c. if c = Os ReadFlag then ok_reply 0 else running_answer tr c)"

lemma window_signal_lost:
  "\<exists>t. daemon_step\<^sup>*\<^sup>* (Waiting 1 0 3, False, alarm_start) (Waiting 1 0 2, True, t) \<and>
    child_process_ids t = [42, -1] \<and> \<not> signalled 42 (trace t)"
proof -
  define s1 where "s1 = snd (run_state (expire window_env) alarm_start)"
  define s2 where "s2 = snd (run_state (exit_deamon_handler window_env 15) s1)"
  let ?again = "run_state (wait_run_again window_env processes_exec_args (waiting_vars 1 0 3 s2)) s2"
  have r1: "run_state (expire window_env) alarm_start = ((-1, EAGAIN, 0), s1)"
    by (simp add: s1_def prod_eq_iff) code_simp
  have r2: "run_state (exit_deamon_handler window_env 15) s1 = ((), s2)" by (simp add: s2_def prod_eq_iff)
  have w: "fst ?again = \<lparr>w_error = 0, w_pids = [42], w_retries = 2, w_child = False\<rparr>"
    and t: "child_process_ids (snd ?again) = [-1, -1]" and tr: "\<not> list_ex (\<lambda>ev. fst ev = Proc (Kill 42 ''SIGTERM'')) (trace (snd ?again))"
    unfolding s2_def s1_def by code_simp+
  obtain u where u: "?again = (\<lparr>w_error = 0, w_pids = [42], w_retries = 2, w_child = False\<rparr>, u)"
    using w by (metis prod.collapse)
  let ?t = "store_children 1 \<lparr>w_error = 0, w_pids = [42], w_retries = 2, w_child = False\<rparr> u"
  have "daemon_step (Waiting 1 0 3, False, alarm_start) (RunAgain 1 0 3, False, s1)"
    by (rule daemon_step.timeout [OF _ r1]) (simp add: retries_left_def)
  moreover have "daemon_step (RunAgain 1 0 3, False, s1) (RunAgain 1 0 3, True, s2)"
    by (rule daemon_step.signal [OF r2])
  moreover have "daemon_step (RunAgain 1 0 3, True, s2) (Waiting 1 0 2, True, ?t)"
    using daemon_step.again [OF u] by simp
  ultimately have "daemon_step\<^sup>*\<^sup>* (Waiting 1 0 3, False, alarm_start) (Waiting 1 0 2, True, ?t)"
    by (meson converse_rtranclp_into_rtranclp rtranclp.rtrancl_refl)
  moreover have "child_process_ids ?t = [42, -1]" "\<not> signalled 42 (trace ?t)"
    using t tr u by (auto simp: store_children_def signalled_def list_ex_iff)
  ultimately show ?thesis by blast
qed

end
