(* ===== verification/Relay_Props.thy ===== *)
theory Relay_Props
  imports Daemon_Run
begin

text \<open>
  The lamp: what the code that is compiled with \<open>RELAY1_ON_ALARM_EVENT\<close> sends to the first relay.
\<close>

section \<open>What is sent to the relay\<close>

text \<open>The values sent to the relay's line, latest first.\<close>

fun relay_writes :: "event list \<Rightarrow> line_value list" where
  "relay_writes [] = []"
| "relay_writes ((c, r) # tr) = (case c of
     Gpiod (RequestSetValue h n v) \<Rightarrow> if int n = RELAY1_GPIO then v # relay_writes tr else relay_writes tr
   | _ \<Rightarrow> relay_writes tr)"

definition level :: "int \<Rightarrow> line_value" where
  "level v = (if v = PIN_HIGH_VAL then LINE_VALUE_ACTIVE else LINE_VALUE_INACTIVE)"

text \<open>The pins and what the relay was sent.\<close>

definition relay_view where
  "relay_view s = (g_gpio_chip s, g_pin_ctxs s, pin_ctx_mem s, g_num_lines s, g_library_opened s, relay_writes (trace s))"

lemma relay_writes_other: "\<forall>g. c \<noteq> Gpiod g \<Longrightarrow> relay_writes ((c, r) # tr) = relay_writes tr"
  by (cases c) simp_all

interpretation relay: quiet "\<lambda>s. relay_view s = v" "\<lambda>c. \<forall>g. c \<noteq> Gpiod g" for v
  by unfold_locales
    (auto intro!: preservesI wp_log_printf wp_lsys simp: relay_view_def relay_writes_other simp del: relay_writes.simps)

text \<open>The relay is an output that the library holds.\<close>

definition relay_ready :: "'z gpio_st_scheme \<Rightarrow> bool" where
  "relay_ready s \<longleftrightarrow> g_library_opened s \<noteq> 0 \<and> g_gpio_chip s \<noteq> 0 \<and> g_pin_ctxs s \<noteq> 0 \<and> length (pin_ctx_mem s) = g_num_lines s \<and>
     pin_ready s RELAY1_GPIO PIN_OUT_DIR"

definition sent :: "line_value list \<Rightarrow> 'z gpio_st_scheme \<Rightarrow> 'y gpio_st_scheme \<Rightarrow> bool" where
  "sent vs s t \<longleftrightarrow> (g_gpio_chip t, g_pin_ctxs t, pin_ctx_mem t, g_num_lines t, g_library_opened t) =
     (g_gpio_chip s, g_pin_ctxs s, pin_ctx_mem s, g_num_lines s, g_library_opened s) \<and> relay_writes (trace t) = vs @ relay_writes (trace s)"

lemma sent_ready: "sent vs s t \<Longrightarrow> relay_ready s \<Longrightarrow> relay_ready t"
  by (simp add: sent_def relay_ready_def pin_ready_def)

lemma sent_trans: "sent vs s t \<Longrightarrow> sent ws t u \<Longrightarrow> sent (ws @ vs) s u"
  by (simp add: sent_def)

lemma wp_relay_read:
  assumes "relay_ready s"
  shows "wp (gpio_read e RELAY1_GPIO False) (\<lambda>(ret, v) t. sent [] s t \<and> (ret = 0 \<longrightarrow> v = Some 0 \<or> v = Some 1)) s"
  using assms
  by (auto intro!: wp_intro simp: gpio_read_def validate_library_opened_def validate_pin_def get_pin_ctx_def
    relay_ready_def pin_ready_def sent_def get_errno_or_io_def nat_less_iff)

lemma wp_relay_write:
  assumes "relay_ready s" and "v = 0 \<or> v = 1"
  shows "wp (gpio_write e RELAY1_GPIO v) (\<lambda>_. sent [level v] s) s"
  using assms
  by (auto intro!: wp_intro simp: gpio_write_def validate_library_opened_def validate_pin_def get_pin_ctx_def
    relay_ready_def pin_ready_def sent_def get_errno_or_io_def nat_less_iff level_def)

lemma view_sent: "relay_view t = relay_view s \<Longrightarrow> sent [] s t"
  by (simp add: relay_view_def sent_def)

lemma wp_relay_keeps:
  fixes s :: "'z alarm_st_scheme"
  shows "wp (get_current_time e) (\<lambda>_. sent [] s) s" and "wp (on_alarm_event e pin val) (\<lambda>_. sent [] s) s"
    and "wp (millisleep e n) (\<lambda>_. sent [] s) s"
proof -
  have time: "preserves (\<lambda>t. relay_view t = v) (get_current_time e :: ('z alarm_st_scheme, _) state)" for v
    unfolding get_current_time_def by (auto intro!: relay.parts relay.lsys)
  have pause: "preserves (\<lambda>t. relay_view t = v) (millisleep e n :: ('z alarm_st_scheme, _) state)" for v
    by (rule relay.pause) (simp add: relay_view_def)
  show "wp (get_current_time e) (\<lambda>_. sent [] s) s" "wp (on_alarm_event e pin val) (\<lambda>_. sent [] s) s"
    "wp (millisleep e n) (\<lambda>_. sent [] s) s"
    by (rule wp_mono [OF wp_kept [OF time]] wp_mono [OF wp_kept [OF relay.report(2)]] wp_mono [OF wp_kept [OF pause]];
      simp add: view_sent)+
qed

text \<open>What has been read and sent before the report.\<close>

definition switched_on :: "bool \<Rightarrow> int \<times> int option \<Rightarrow> int \<times> int option \<Rightarrow> 'z gpio_st_scheme \<Rightarrow> 'z gpio_st_scheme \<Rightarrow> bool" where
  "switched_on lit reading r s t \<longleftrightarrow> relay_ready t \<and>
     (if lit then r = reading \<and> (fst r = 0 \<longrightarrow> snd r = Some 0 \<or> snd r = Some 1) \<and>
        sent (if fst r = 0 then [LINE_VALUE_INACTIVE] else []) s t
      else r = (-1, None) \<and> sent [] s t)"

lemma wp_relay_switch_on:
  fixes s :: "'z alarm_st_scheme"
  assumes "relay_ready s" and "run_state (get_current_time e) s = (now, s1)"
    and "run_state (gpio_read e RELAY1_GPIO False) s1 = (reading, s2)"
  shows "wp (relay_switch_on e val) (\<lambda>r. switched_on (at_night now \<and> val \<noteq> PIN_LOW_VAL) reading r s) s"
proof -
  have s1: "sent [] s s1" using wp_runD [OF wp_relay_keeps(1) assms(2)] .
  then have ready1: "relay_ready s1" by (rule sent_ready) (rule assms(1))
  with wp_runD [OF wp_relay_read assms(3)] have read: "sent [] s1 s2"
    "fst reading = 0 \<longrightarrow> snd reading = Some 0 \<or> snd reading = Some 1" by auto
  have s2: "sent [] s s2" "relay_ready s2"
    using sent_trans [OF s1 read(1)] sent_ready [OF read(1) ready1] by simp_all
  have low: "wp (gpio_write e RELAY1_GPIO PIN_LOW_VAL) (\<lambda>_ t. sent [LINE_VALUE_INACTIVE] s t \<and> relay_ready t) s2"
    by (rule wp_mono [OF wp_relay_write [OF s2(2)]])
      (use sent_trans [OF s2(1)] sent_ready [OF _ s2(2)] in \<open>auto simp: level_def\<close>)
  have pause: "wp (millisleep e 100) (\<lambda>_ u. sent [LINE_VALUE_INACTIVE] s u \<and> relay_ready u) t"
    if "sent [LINE_VALUE_INACTIVE] s t" "relay_ready t" for t :: "'z alarm_st_scheme"
    by (rule wp_mono [OF wp_relay_keeps(3)]) (use sent_trans [OF that(1), of "[]"] sent_ready [OF _ that(2)] in auto)
  have run: "wp (get_current_time e) Q s = Q now s1" "wp (gpio_read e RELAY1_GPIO False) R s1 = R reading s2" for Q R
    by (simp_all add: wp_def assms(2,3))
  show ?thesis
    unfolding relay_switch_on_def wp_bind run
    using s1 ready1 s2 read(2)
    by (auto intro!: wp_intro wp_mono [OF low [simplified]] wp_mono [OF pause] simp: run switched_on_def)
qed

section \<open>Property\<close>

text \<open>
  C20: with the relay set up as an output, an event switches the lamp on exactly when it is night, the sensor reads high and
  the state of the relay can be read; then the relay is sent the low level once, and at the end the state that was
  read.  In every other case nothing is sent to it: in particular not when a sensor goes low, which is when the
  comment on the macro says that the lamp is switched on.
\<close>
theorem relay_gets_its_state_back:
  fixes s :: "'z alarm_st_scheme"
  assumes "run_state (on_alarm_event_relay e pin val) s = ((), t)"
    and "gpio_inv s" and "g_library_opened s \<noteq> 0" and "pin_ready s RELAY1_GPIO PIN_OUT_DIR"
    and "run_state (get_current_time e) s = (now, s1)"
    and "run_state (gpio_read e RELAY1_GPIO False) s1 = ((err, old), s2)"
  shows "relay_writes (trace t) =
    (if at_night now \<and> val \<noteq> PIN_LOW_VAL \<and> err = 0 then [level (the old), LINE_VALUE_INACTIVE] else []) @
    relay_writes (trace s)"
proof -
  have ready: "relay_ready s" using assms(2-4) by (simp add: relay_ready_def gpio_inv_def)
  let ?S = "sent (if at_night now \<and> val \<noteq> PIN_LOW_VAL \<and> err = 0
    then [level (the old), LINE_VALUE_INACTIVE] else []) s"
  have report: "wp (on_alarm_event e pin val) (\<lambda>_ v. switched_on lit reading r s v) u"
    if "switched_on lit reading r s u" for u :: "'z alarm_st_scheme" and lit reading r
    by (rule wp_mono [OF wp_relay_keeps(2)])
      (use that in \<open>auto simp: switched_on_def dest: sent_trans sent_ready split: if_splits\<close>)
  have restore: "wp (relay_restore e val r) (\<lambda>_. ?S) u"
    if "switched_on (at_night now \<and> val \<noteq> PIN_LOW_VAL) (err, old) r s u" for u :: "'z alarm_st_scheme" and r
  proof (cases "at_night now \<and> val \<noteq> PIN_LOW_VAL \<and> err = 0")
    case True
    with that have r: "r = (0, old)" "old = Some 0 \<or> old = Some 1" "sent [LINE_VALUE_INACTIVE] s u" "relay_ready u"
      by (auto simp: switched_on_def)
    from r(2) obtain v where v: "old = Some v" "v = 0 \<or> v = 1" by auto
    have "wp (gpio_write e RELAY1_GPIO v) (\<lambda>_. sent [level v, LINE_VALUE_INACTIVE] s) u"
      by (rule wp_mono [OF wp_relay_write [OF r(4) v(2)]]) (use sent_trans [OF r(3), of "[level v]"] in auto)
    then show ?thesis using True by (simp add: relay_restore_def r(1) v(1) whenM_def)
  next
    case False
    with that show ?thesis
      by (auto simp: relay_restore_def whenM_def switched_on_def split: if_splits)
  qed
  have "wp (on_alarm_event_relay e pin val) (\<lambda>_. ?S) s"
    unfolding on_alarm_event_relay_def wp_bind
    by (rule wp_mono [OF wp_relay_switch_on [OF ready assms(5,6)]], rule wp_mono [OF report], assumption, rule restore)
  from wp_runD [OF this assms(1)] show ?thesis by (simp add: sent_def)
qed

text \<open>The witness: the pins are set up, the time cannot be read, and the relay reads low.\<close>

lemma wp_relay_runs:
  assumes "relay_ready s"
  shows "wp (get_current_time daemon_env) (\<lambda>r _. at_night r) s"
    and "wp (gpio_read daemon_env RELAY1_GPIO False) (\<lambda>r _. r = (0, Some 0)) s"
  using assms
  by (auto intro!: wp_if simp: wp_def [of "lsys e c" for e c] run_lsys env_of_def [of daemon_answer, folded daemon_env_def]
    line_value_of_def get_current_time_def at_night_def gpio_read_def validate_library_opened_def
    validate_pin_def get_pin_ctx_def relay_ready_def pin_ready_def nat_less_iff gpio_run_defs)

lemma relay_set_up:
  obtains s :: alarm_st where "gpio_inv s" and "g_library_opened s \<noteq> 0" and "pin_ready s RELAY1_GPIO PIN_OUT_DIR"
proof -
  let ?P = "\<lambda>s. gpio_inv s \<and> g_library_opened s \<noteq> 0 \<and> pin_ready s RELAY1_GPIO PIN_OUT_DIR"
  have start: "gpio_inv alarm_start" "g_library_opened alarm_start = 0"
    by (simp_all add: gpio_inv_def gpiod_legal_def tmp_bal_def held_def alarm_start_def log_start_def log_st.defs fun_eq_iff)
  have opened: "wp (open_gpios daemon_env) (\<lambda>_ s. gpio_inv s \<and> ready s) alarm_start"
    by (rule wp_mono [OF wp_conj [OF wp_open_gpios [OF start(1), of "\<lambda>_. gpio_inv"] wp_open_runs [OF start(2)]]]) auto
  have table: "wp (configure_gpios daemon_env) (\<lambda>_. ?P) s" if "gpio_inv s \<and> ready s" for s
  proof (rule wp_mono)
    show "wp (configure_gpios daemon_env) (\<lambda>r t. (gpio_inv t \<and> others_kept s gpio_table t \<and>
        (r = 0 \<longrightarrow> pins_set_up t gpio_table)) \<and> (r = 0 \<and> erase t = erase s)) s"
      by (rule wp_conj [OF wp_configure_gpios wp_configure_runs]) (use that in auto)
  qed (use that in \<open>auto simp: others_kept_def pins_set_up_def ready_def gpio_table_def\<close>)
  have "wp (do { _ \<leftarrow> open_gpios daemon_env; configure_gpios daemon_env }) (\<lambda>_. ?P) alarm_start"
    unfolding wp_bind by (rule wp_mono [OF opened]) (rule table)
  then show ?thesis using that by (auto simp: wp_def split: prod.splits)
qed

lemma relay_gets_its_state_back_witness:
  "\<exists>(s :: alarm_st) t. run_state (on_alarm_event_relay daemon_env PIR_GPIO PIN_HIGH_VAL) s = ((), t) \<and>
    relay_writes (trace t) = [LINE_VALUE_INACTIVE, LINE_VALUE_INACTIVE] @ relay_writes (trace s)"
proof (rule relay_set_up)
  fix s :: alarm_st
  assume s: "gpio_inv s" "g_library_opened s \<noteq> 0" "pin_ready s RELAY1_GPIO PIN_OUT_DIR"
  then have rdy: "relay_ready s" by (simp add: relay_ready_def gpio_inv_def)
  obtain now s1 where now: "run_state (get_current_time daemon_env) s = (now, s1)" by (cases "run_state (get_current_time daemon_env) s")
  obtain err old s2 where old: "run_state (gpio_read daemon_env RELAY1_GPIO False) s1 = ((err, old), s2)"
    by (cases "run_state (gpio_read daemon_env RELAY1_GPIO False) s1") auto
  obtain t where t: "run_state (on_alarm_event_relay daemon_env PIR_GPIO PIN_HIGH_VAL) s = ((), t)"
    by (cases "run_state (on_alarm_event_relay daemon_env PIR_GPIO PIN_HIGH_VAL) s") auto
  have "relay_ready s1" by (rule sent_ready [OF wp_runD [OF wp_relay_keeps(1) now] rdy])
  from wp_runD [OF wp_relay_runs(1) [OF rdy] now] wp_runD [OF wp_relay_runs(2) [OF this] old]
  have "at_night now" "err = 0" "old = Some 0" by simp_all
  with relay_gets_its_state_back [OF t s now old] t show ?thesis by (auto simp: level_def)
qed

end
